(* ===== verification/Prelude.thy ===== *)
theory Prelude
  imports Main
    "HOL-Library.Char_ord"
    "HOL-Library.Code_Target_Nat"
    "HOL-Library.List_Lexorder"
    "HOL-Library.Multiset"
    "HOL-Library.Option_ord"
    "HOL-Library.Product_Lexorder"
    "HOL-Library.Word"
begin

text \<open>
  Shared vocabulary of the Cluster Fabric development: machine-integer type names, the theorem
  collections the component proofs draw on, and the parts of the C++ standard library's
  \<^verbatim>\<open><algorithm>\<close> header that several components call.

  \<^item> \<open>sort_unique\<close> is the idiom \<^verbatim>\<open>std::sort\<close> + \<^verbatim>\<open>std::unique\<close> + \<^verbatim>\<open>erase\<close> on a totally ordered
    element type, \<open>unique_by\<close> is \<^verbatim>\<open>std::unique\<close> with a predicate;
  \<^item> \<open>sorted_unique\<close> is \<^verbatim>\<open>std::is_sorted\<close> together with \<^verbatim>\<open>std::adjacent_find\<close>;
  \<^item> \<open>binary_search\<close> is \<^verbatim>\<open>std::binary_search\<close>, with its halving loop \<open>lower_bound\<close>.
  \<^verbatim>\<open>std::sort\<close> with a comparator on a key is \<open>sort_key\<close>: the stable outcome among those the
  standard permits when two elements have equal keys.
\<close>

type_synonym u32 = "32 word"
type_synonym u64 = "64 word"

named_theorems frame_simps \<open>what a state update leaves unchanged\<close>
named_theorems undo_simps \<open>how the undo journal cancels a recorded update\<close>
named_theorems step_defs \<open>definitions of the mutation handlers\<close>

subsection \<open>Sorting and removing duplicates\<close>

definition sort_unique :: "'a::linorder list \<Rightarrow> 'a list" where
  "sort_unique xs = remdups_adj (sort xs)"

fun unique_by :: "('a \<Rightarrow> 'a \<Rightarrow> bool) \<Rightarrow> 'a list \<Rightarrow> 'a list" where
  "unique_by p [] = []"
| "unique_by p [x] = [x]"
| "unique_by p (x # y # xs) =
     (if p x y then unique_by p (x # xs) else x # unique_by p (y # xs))"

fun adjacent_distinct :: "'a list \<Rightarrow> bool" where
  "adjacent_distinct (x # y # xs) \<longleftrightarrow> x \<noteq> y \<and> adjacent_distinct (y # xs)"
| "adjacent_distinct xs \<longleftrightarrow> True"

definition sorted_unique :: "'a::linorder list \<Rightarrow> bool" where
  "sorted_unique xs \<longleftrightarrow> sorted xs \<and> adjacent_distinct xs"

lemma set_sort_unique [simp]: "set (sort_unique xs) = set xs"
  by (simp add: sort_unique_def)

lemma sorted_wrt_less_remdups_adj: "sorted xs \<Longrightarrow> sorted_wrt (<) (remdups_adj xs)"
proof (induction xs rule: remdups_adj.induct)
  case (3 x y xs)
  then show ?case by (cases "x = y") (auto simp: order_le_less)
qed auto

lemma sorted_unique_iff: "sorted_unique xs \<longleftrightarrow> sorted_wrt (<) xs"
proof (induction xs rule: adjacent_distinct.induct)
  case (1 x y xs)
  then show ?case by (auto simp: sorted_unique_def)
qed (auto simp: sorted_unique_def)

lemma sort_unique_sorted [simp]: "sorted_wrt (<) (sort_unique xs)"
  by (simp add: sort_unique_def sorted_wrt_less_remdups_adj)

lemma sorted_unique_sort_unique [simp]: "sorted_unique (sort_unique xs)"
  by (simp add: sorted_unique_iff)

lemma remdups_adj_strict:
  "sorted_wrt (<) (xs :: 'a::linorder list) \<Longrightarrow> remdups_adj xs = xs"
  by (induction xs rule: remdups_adj.induct) auto

lemma sorted_wrt_less_sorted: "sorted_wrt (<) (xs :: 'a::linorder list) \<Longrightarrow> sorted xs"
  by (simp add: strict_sorted_imp_sorted)

lemma sort_unique_id: "sorted_wrt (<) xs \<Longrightarrow> sort_unique xs = xs"
  by (simp add: sort_unique_def remdups_adj_strict sorted_sort_id sorted_wrt_less_sorted)

lemma sort_unique_idem [simp]: "sort_unique (sort_unique xs) = sort_unique xs"
  by (rule sort_unique_id) simp

lemma length_sort_unique: "length (sort_unique xs) \<le> length xs"
  using remdups_adj_length [of "sort xs"] by (simp add: sort_unique_def)

lemma sorted_wrt_less_remove:
  "sorted_wrt (<) xs \<Longrightarrow> sorted_wrt (<) (filter P xs)"
  by (rule sorted_wrt_filter)

lemma sort_snoc_strict:
  assumes "sorted_wrt (<) xs" and "x \<notin> set xs"
  shows "sorted_wrt (<) (sort (xs @ [x :: 'a::linorder]))"
proof -
  have "distinct xs" using assms(1) by (simp add: strict_sorted_iff)
  then show ?thesis using assms(2) by (simp add: strict_sorted_iff)
qed

lemma sort_key_snoc_strict:
  assumes "sorted_wrt (\<lambda>a b. f a < f b) xs" and "\<forall>y \<in> set xs. f y \<noteq> f x"
  shows "sorted_wrt (\<lambda>a b. f a < (f b :: 'k::linorder)) (sort_key f (xs @ [x]))"
proof -
  have "sorted_wrt (<) (map f xs)" using assms(1) by (simp add: sorted_wrt_map)
  then have d: "distinct (map f xs)" by (simp add: strict_sorted_iff)
  let ?ys = "sort_key f (xs @ [x])"
  have "mset (map f ?ys) = mset (map f (xs @ [x]))" by simp
  moreover have "distinct (map f (xs @ [x]))" using d assms(2) by (auto simp: image_iff)
  ultimately have "distinct (map f ?ys)" by (metis mset_eq_imp_distinct_iff)
  moreover have "sorted (map f ?ys)" by simp
  ultimately have "sorted_wrt (<) (map f ?ys)" by (simp add: strict_sorted_iff)
  then show ?thesis by (simp add: sorted_wrt_map)
qed

text \<open>
  Sorting on a key and keeping the first of every run of equal keys: the canonical form the code
  gives a list of keyed records.
\<close>

definition canon_by :: "('a \<Rightarrow> 'k::linorder) \<Rightarrow> 'a list \<Rightarrow> 'a list" where
  "canon_by f xs = unique_by (\<lambda>a b. f a = f b) (sort_key f xs)"

lemma set_unique_by: "set (unique_by p xs) \<subseteq> set xs"
  by (induction p xs rule: unique_by.induct) auto

lemma length_unique_by: "length (unique_by p xs) \<le> length xs"
  by (induction p xs rule: unique_by.induct) auto

lemma keys_unique_by: "f ` set (unique_by (\<lambda>a b. f a = f b) xs) = f ` set xs"
  by (induction "\<lambda>a b. f a = f b" xs rule: unique_by.induct) auto

lemma sorted_unique_by:
  "sorted (map f xs) \<Longrightarrow> sorted_wrt (\<lambda>a b. f a < (f b :: 'k::linorder)) (unique_by (\<lambda>a b. f a = f b) xs)"
proof (induction "\<lambda>a b. f a = f b" xs rule: unique_by.induct)
  case (3 x y xs)
  show ?case
  proof (cases "f x = f y")
    case True
    with 3 show ?thesis by simp
  next
    case False
    with "3.prems" have lt: "f x < f y" by (simp add: order.strict_iff_order)
    have "f x < f z" if "z \<in> set (unique_by (\<lambda>a b. f a = f b) (y # xs))" for z
    proof -
      have "z \<in> set (y # xs)" using that set_unique_by by fast
      then have "f y \<le> f z" using "3.prems" by auto
      with lt show ?thesis by simp
    qed
    with False 3 show ?thesis by simp
  qed
qed auto

lemma unique_by_strict:
  "sorted_wrt (\<lambda>a b. f a < (f b :: 'k::linorder)) xs \<Longrightarrow> unique_by (\<lambda>a b. f a = f b) xs = xs"
  by (induction "\<lambda>a b. f a = f b" xs rule: unique_by.induct) auto

lemma canon_by_sorted: "sorted_wrt (\<lambda>a b. f a < f b) (canon_by f xs)"
  unfolding canon_by_def by (rule sorted_unique_by) simp

lemma canon_by_id:
  assumes "sorted_wrt (\<lambda>a b. f a < f b) xs"
  shows "canon_by f xs = xs"
proof -
  have "sorted (map f xs)"
    using assms unfolding sorted_wrt_map by (rule sorted_wrt_mono_rel [rotated]) simp
  then show ?thesis
    using assms by (simp add: canon_by_def sort_key_id_if_sorted unique_by_strict)
qed

lemma canon_by_idem [simp]: "canon_by f (canon_by f xs) = canon_by f xs"
  by (rule canon_by_id) (rule canon_by_sorted)

lemma set_canon_by: "set (canon_by f xs) \<subseteq> set xs"
  unfolding canon_by_def using set_unique_by [of _ "sort_key f xs"] by simp

lemma keys_canon_by: "f ` set (canon_by f xs) = f ` set xs"
  by (simp add: canon_by_def keys_unique_by)

lemma length_canon_by: "length (canon_by f xs) \<le> length xs"
  unfolding canon_by_def using length_unique_by [of _ "sort_key f xs"] by simp

subsection \<open>Binary search\<close>

function lower_bound :: "'a::linorder list \<Rightarrow> 'a \<Rightarrow> nat \<Rightarrow> nat \<Rightarrow> nat" where
  "lower_bound xs v first len =
     (if len = 0 then first
      else let half = len div 2 in
        if xs ! (first + half) < v
        then lower_bound xs v (first + half + 1) (len - half - 1)
        else lower_bound xs v first half)"
  by pat_completeness auto
termination
  by (relation "measure (\<lambda>(xs, v, first, len). len)") auto

declare lower_bound.simps [simp del]

definition binary_search :: "'a::linorder list \<Rightarrow> 'a \<Rightarrow> bool" where
  "binary_search xs v =
     (let i = lower_bound xs v 0 (length xs) in i < length xs \<and> \<not> v < xs ! i)"

lemma lower_bound_spec:
  assumes "sorted xs" and "first + len \<le> length xs"
    and "\<forall>j < first. xs ! j < v"
    and "\<forall>j. first + len \<le> j \<and> j < length xs \<longrightarrow> v \<le> xs ! j"
  shows "lower_bound xs v first len \<le> length xs
    \<and> (\<forall>j < lower_bound xs v first len. xs ! j < v)
    \<and> (\<forall>j. lower_bound xs v first len \<le> j \<and> j < length xs \<longrightarrow> v \<le> xs ! j)"
  using assms
proof (induction xs v first len rule: lower_bound.induct)
  case (1 xs v first len)
  show ?case
  proof (cases "len = 0")
    case True
    then show ?thesis using "1.prems" by (simp add: lower_bound.simps [of xs v first 0])
  next
    case False
    define half where "half = len div 2"
    have half: "half < len" using False by (simp add: half_def)
    show ?thesis
    proof (cases "xs ! (first + half) < v")
      case True
      have below: "\<forall>j < first + half + 1. xs ! j < v"
      proof (intro allI impI)
        fix j assume j: "j < first + half + 1"
        then have "xs ! j \<le> xs ! (first + half)"
          using "1.prems" half by (intro sorted_nth_mono) auto
        then show "xs ! j < v" using True by simp
      qed
      have eq: "lower_bound xs v first len
          = lower_bound xs v (first + half + 1) (len - half - 1)"
        using False True by (simp add: lower_bound.simps [of xs v first len] half_def Let_def)
      show ?thesis
        unfolding eq
        by (rule "1.IH"(1) [OF False half_def]) (use True below "1.prems" half in auto)
    next
      case nless: False
      have above: "\<forall>j. first + half \<le> j \<and> j < length xs \<longrightarrow> v \<le> xs ! j"
      proof (intro allI impI)
        fix j assume j: "first + half \<le> j \<and> j < length xs"
        then have "xs ! (first + half) \<le> xs ! j"
          using "1.prems" by (intro sorted_nth_mono) auto
        then show "v \<le> xs ! j" using nless by simp
      qed
      have eq: "lower_bound xs v first len = lower_bound xs v first half"
        using False nless by (simp add: lower_bound.simps [of xs v first len] half_def Let_def)
      show ?thesis
        unfolding eq
        by (rule "1.IH"(2) [OF False half_def]) (use nless above "1.prems" half in auto)
    qed
  qed
qed

lemma binary_search_iff:
  assumes "sorted xs"
  shows "binary_search xs v \<longleftrightarrow> v \<in> set xs"
proof -
  define i where "i = lower_bound xs v 0 (length xs)"
  have i: "i \<le> length xs" "\<forall>j < i. xs ! j < v" "\<forall>j. i \<le> j \<and> j < length xs \<longrightarrow> v \<le> xs ! j"
    using lower_bound_spec [OF assms, of 0 "length xs" v] unfolding i_def by force+
  show ?thesis
  proof
    assume "binary_search xs v"
    then have "i < length xs" "\<not> v < xs ! i" by (auto simp: binary_search_def i_def Let_def)
    moreover from this i have "v \<le> xs ! i" by blast
    ultimately have "v = xs ! i" by simp
    then show "v \<in> set xs" using \<open>i < length xs\<close> by simp
  next
    assume "v \<in> set xs"
    then obtain k where k: "k < length xs" "xs ! k = v" by (auto simp: in_set_conv_nth)
    then have "i \<le> k" using i(2) by (metis not_le less_irrefl)
    then have "xs ! i \<le> v" using k assms sorted_nth_mono by blast
    then show "binary_search xs v" using k \<open>i \<le> k\<close> by (simp add: binary_search_def i_def Let_def)
  qed
qed

lemma binary_search_strict [simp]: "sorted_wrt (<) xs \<Longrightarrow> binary_search xs v \<longleftrightarrow> v \<in> set xs"
  by (simp add: binary_search_iff sorted_wrt_less_sorted)

subsection \<open>Decimal and hexadecimal text of a 64-bit value\<close>

text \<open>
  The digit loops of the source produce the least significant digit first into a buffer and then
  copy the buffer backwards: \<open>decimal_loop\<close> and \<open>hex_loop\<close> are the buffers.
\<close>

definition digit_char :: "nat \<Rightarrow> char" where
  "digit_char d = char_of (48 + d)"

function decimal_loop :: "u64 \<Rightarrow> string" where
  "decimal_loop v =
     (let c = digit_char (unat (v mod 10)) in
      if v div 10 = 0 then [c] else c # decimal_loop (v div 10))"
  by pat_completeness auto
termination
proof (relation "measure unat", goal_cases)
  case (2 v c)
  then have "v \<noteq> 0" by auto
  then have "0 < unat v" by (simp add: unat_gt_0)
  then show ?case by (simp add: unat_div)
qed simp

declare decimal_loop.simps [simp del]

text \<open>The number a decimal string denotes.\<close>

definition decimal_value :: "nat \<Rightarrow> string \<Rightarrow> nat" where
  "decimal_value acc cs = foldl (\<lambda>a c. a * 10 + (of_char c - 48)) acc cs"

definition is_digit :: "char \<Rightarrow> bool" where
  "is_digit c \<longleftrightarrow> CHR ''0'' \<le> c \<and> c \<le> CHR ''9''"

lemma is_digit_iff: "is_digit c \<longleftrightarrow> 48 \<le> (of_char c :: nat) \<and> (of_char c :: nat) \<le> 57"
  by (simp add: is_digit_def less_eq_char_def)

lemma of_digit_char: "d < 10 \<Longrightarrow> (of_char (digit_char d) :: nat) = 48 + d"
  by (simp add: digit_char_def of_char_of)

lemma is_digit_digit_char: "d < 10 \<Longrightarrow> is_digit (digit_char d)"
  by (simp add: is_digit_iff of_digit_char)

lemma unat_mod_10: "unat (v mod 10 :: u64) = unat v mod 10"
  by (simp add: unat_mod)

lemma unat_div_10: "unat (v div 10 :: u64) = unat v div 10"
  by (simp add: unat_div)

lemma word_div_10_eq_0: "(v div 10 :: u64) = 0 \<longleftrightarrow> unat v < 10"
  by (metis unat_div_10 div_eq_0_iff unat_eq_zero zero_neq_numeral)

lemma decimal_loop_digits: "\<forall>c \<in> set (decimal_loop v). is_digit c"
proof (induction v rule: decimal_loop.induct)
  case (1 v)
  have "is_digit (digit_char (unat (v mod 10)))"
    by (rule is_digit_digit_char) (simp add: unat_mod_10)
  with 1 show ?case by (subst decimal_loop.simps) (auto simp: Let_def)
qed

lemma decimal_loop_value: "decimal_value 0 (rev (decimal_loop v)) = unat v"
proof (induction v rule: decimal_loop.induct)
  case (1 v)
  have d: "(of_char (digit_char (unat (v mod 10))) :: nat) = 48 + unat v mod 10"
    by (simp add: unat_mod_10 of_digit_char)
  show ?case
  proof (cases "v div 10 = 0")
    case True
    then show ?thesis
      by (subst decimal_loop.simps) (simp add: d decimal_value_def word_div_10_eq_0 Let_def)
  next
    case False
    with 1 have "decimal_value 0 (rev (decimal_loop (v div 10))) = unat v div 10"
      by (simp add: unat_div_10)
    with False show ?thesis
      by (subst decimal_loop.simps) (simp add: d decimal_value_def Let_def)
  qed
qed

lemma decimal_loop_bound: "length (decimal_loop v) = Suc n \<Longrightarrow> 0 < n \<Longrightarrow> 10 ^ n \<le> unat v"
proof (induction v arbitrary: n rule: decimal_loop.induct)
  case (1 v)
  have nz: "v div 10 \<noteq> 0"
    using "1.prems" by (subst (asm) decimal_loop.simps) (auto simp: Let_def)
  then have len: "length (decimal_loop (v div 10)) = n"
    using "1.prems" by (subst (asm) decimal_loop.simps) (simp add: Let_def)
  have v10: "10 \<le> unat v" using nz by (simp add: word_div_10_eq_0)
  show ?case
  proof (cases n)
    case 0
    then show ?thesis using "1.prems" by simp
  next
    case (Suc k)
    show ?thesis
    proof (cases "k = 0")
      case True
      then show ?thesis using v10 Suc by simp
    next
      case False
      then have "10 ^ k \<le> unat v div 10"
        using "1.IH" [OF refl nz] len Suc by (simp add: unat_div_10)
      then show ?thesis using Suc by (simp add: less_eq_div_iff_mult_less_eq mult.commute)
    qed
  qed
qed

lemma decimal_loop_length: "length (decimal_loop v) \<le> 20"
proof (rule ccontr)
  assume "\<not> length (decimal_loop v) \<le> 20"
  then obtain n where n: "length (decimal_loop v) = Suc n" "20 \<le> n"
    by (metis Suc_le_D not_less_eq_eq)
  then have "10 ^ n \<le> unat v" by (intro decimal_loop_bound) auto
  moreover have "(10::nat) ^ 20 \<le> 10 ^ n" using n(2) by (rule power_increasing) simp
  moreover have "unat v < 2 ^ 64" using unsigned_less [of v] by simp
  ultimately show False by simp
qed

lemma decimal_loop_inject: "decimal_loop v = decimal_loop w \<Longrightarrow> v = w"
  by (metis decimal_loop_value word_unat_eq_iff)

end
