(* ===== verification/Ordered_Map.thy ===== *)
theory Ordered_Map
  imports Prelude
begin

text \<open>
  The ordered dictionary \<^verbatim>\<open>std::map\<close> in which \<^verbatim>\<open>ClusterState\<close> keeps every canonical record
  (src/include/cluster_fabric/cluster_state.hpp). A value of \<open>('k, 'v) omap\<close> is a list of
  entries strictly sorted by key, which is the iteration order the C++ code relies on for
  deterministic output. The interface the other components use is the locale \<open>sorted_map\<close>;
  the undo journal rests on its cancellation laws.
\<close>

typedef (overloaded) ('k::linorder, 'v) omap =
  "{xs :: ('k \<times> 'v) list. sorted_wrt (<) (map fst xs)}"
  morphisms om_entries Abs_omap
  by (rule exI [of _ "[]"]) simp

setup_lifting type_definition_omap

fun upd_entry :: "'k::linorder \<Rightarrow> 'v \<Rightarrow> ('k \<times> 'v) list \<Rightarrow> ('k \<times> 'v) list" where
  "upd_entry k v [] = [(k, v)]"
| "upd_entry k v ((k', v') # xs) =
     (if k < k' then (k, v) # (k', v') # xs
      else if k = k' then (k, v) # xs
      else (k', v') # upd_entry k v xs)"

lemma keys_upd_entry: "fst ` set (upd_entry k v xs) = insert k (fst ` set xs)"
  by (induction k v xs rule: upd_entry.induct) auto

lemma sorted_upd_entry:
  "sorted_wrt (<) (map fst xs) \<Longrightarrow> sorted_wrt (<) (map fst (upd_entry k v xs))"
  by (induction k v xs rule: upd_entry.induct) (auto simp: keys_upd_entry)

lemma map_of_upd_entry: "map_of (upd_entry k v xs) j = (if j = k then Some v else map_of xs j)"
  by (induction k v xs rule: upd_entry.induct) auto

lift_definition om_empty :: "('k::linorder, 'v) omap" is "[]"
  by simp

lift_definition om_insert :: "'k::linorder \<Rightarrow> 'v \<Rightarrow> ('k, 'v) omap \<Rightarrow> ('k, 'v) omap" is upd_entry
  by (rule sorted_upd_entry)

lift_definition om_erase :: "'k::linorder \<Rightarrow> ('k, 'v) omap \<Rightarrow> ('k, 'v) omap"
  is "\<lambda>k. filter (\<lambda>e. fst e \<noteq> k)"
  by (simp add: sorted_wrt_map sorted_wrt_filter)

lift_definition om_map :: "('k \<Rightarrow> 'v \<Rightarrow> 'w) \<Rightarrow> ('k::linorder, 'v) omap \<Rightarrow> ('k, 'w) omap"
  is "\<lambda>f. map (\<lambda>(k, v). (k, f k v))"
  by (simp add: comp_def case_prod_unfold)

definition om_find :: "('k::linorder, 'v) omap \<Rightarrow> 'k \<Rightarrow> 'v option" where
  "om_find m k = map_of (om_entries m) k"

definition om_size :: "('k::linorder, 'v) omap \<Rightarrow> nat" where
  "om_size m = length (om_entries m)"

definition om_keys :: "('k::linorder, 'v) omap \<Rightarrow> 'k list" where
  "om_keys m = map fst (om_entries m)"

definition om_values :: "('k::linorder, 'v) omap \<Rightarrow> 'v list" where
  "om_values m = map snd (om_entries m)"

text \<open>Successive \<^verbatim>\<open>insert_or_assign\<close> calls over a vector of values keyed by one of their fields.\<close>

definition om_of_values :: "('v \<Rightarrow> 'k::linorder) \<Rightarrow> 'v list \<Rightarrow> ('k, 'v) omap" where
  "om_of_values key vs = fold (\<lambda>v. om_insert (key v) v) vs om_empty"

subsection \<open>Entries\<close>

lemma om_entries_sorted [simp]: "sorted_wrt (<) (map fst (om_entries m))"
  using om_entries [of m] by simp

lemma om_entries_distinct [simp]: "distinct (map fst (om_entries m))"
  using om_entries_sorted [of m] by (simp add: strict_sorted_iff)

lemma om_entries_empty [simp]: "om_entries om_empty = []"
  by (rule om_empty.rep_eq)

lemma om_entries_map [simp]: "om_entries (om_map f m) = map (\<lambda>(k, v). (k, f k v)) (om_entries m)"
  by (rule om_map.rep_eq)

lemma om_entries_iff: "(k, v) \<in> set (om_entries m) \<longleftrightarrow> om_find m k = Some v"
  by (simp add: om_find_def)

lemma om_keys_sorted [simp]: "sorted_wrt (<) (om_keys m)"
  by (simp add: om_keys_def)

lemma set_om_keys: "set (om_keys m) = {k. om_find m k \<noteq> None}"
  by (auto simp: om_keys_def om_find_def map_of_eq_None_iff)

lemma set_om_values: "set (om_values m) = {v. \<exists>k. om_find m k = Some v}"
  by (auto simp: om_values_def image_iff) (metis om_entries_iff prod.collapse, metis om_entries_iff snd_conv)

lemma om_entries_Nil_iff: "om_entries m = [] \<longleftrightarrow> (\<forall>k. om_find m k = None)"
proof
  assume "\<forall>k. om_find m k = None"
  then have "\<forall>k v. (k, v) \<notin> set (om_entries m)" by (simp add: om_entries_iff)
  then show "om_entries m = []" by (cases "om_entries m") auto
qed (simp add: om_find_def)

subsection \<open>Lookup\<close>

lemma om_find_empty [simp]: "om_find om_empty k = None"
  by (simp add: om_find_def)

lemma om_find_insert [simp]:
  "om_find (om_insert k v m) j = (if j = k then Some v else om_find m j)"
  by (simp add: om_find_def om_insert.rep_eq map_of_upd_entry)

lemma om_find_erase [simp]: "om_find (om_erase k m) j = (if j = k then None else om_find m j)"
proof -
  have eq: "map_of (filter (\<lambda>e. fst e \<noteq> k) xs) j = (if j = k then None else map_of xs j)" for xs
    by (induction xs) auto
  show ?thesis by (simp only: om_find_def om_erase.rep_eq eq)
qed

lemma om_find_map [simp]: "om_find (om_map f m) k = map_option (f k) (om_find m k)"
proof -
  have eq: "map_of (map (\<lambda>(k, v). (k, f k v)) xs) k = map_option (f k) (map_of xs k)" for xs
    by (induction xs) auto
  show ?thesis by (simp only: om_find_def om_entries_map eq)
qed

lemma om_size_insert:
  "om_size (om_insert k v m) = (if om_find m k = None then Suc (om_size m) else om_size m)"
proof -
  have "length (upd_entry k v xs) = (if map_of xs k = None then Suc (length xs) else length xs)"
    if "sorted_wrt (<) (map fst xs)" for xs
    using that
  proof (induction k v xs rule: upd_entry.induct)
    case (2 k v k' v' xs)
    have "map_of xs k = None" if "k < k'"
      using "2.prems" that by (force simp: map_of_eq_None_iff)
    with 2 show ?case by auto
  qed simp
  from this [OF om_entries_sorted] show ?thesis
    by (simp only: om_size_def om_find_def om_insert.rep_eq)
qed

lemma om_size_map [simp]: "om_size (om_map f m) = om_size m"
  by (simp add: om_size_def)

lemma om_entries_from_keys: "om_entries m = map (\<lambda>k. (k, the (om_find m k))) (om_keys m)"
proof -
  have "e = (fst e, the (om_find m (fst e)))" if "e \<in> set (om_entries m)" for e
    using that by (metis om_entries_iff option.sel prod.collapse)
  then show ?thesis by (simp add: om_keys_def map_idI)
qed

lemma om_ext:
  assumes "\<And>k. om_find m k = om_find m' k"
  shows "m = m'"
proof -
  have "om_keys m = om_keys m'"
    using assms by (intro strict_sorted_equal) (simp_all add: set_om_keys)
  then have "om_entries m = om_entries m'"
    using assms by (simp add: om_entries_from_keys)
  then show ?thesis by (simp add: om_entries_inject)
qed

declare om_entries_iff [simp]

subsection \<open>The interface\<close>

text \<open>
  What a client of an ordered map relies on: lookup after each update, iteration in key order
  over exactly the stored entries, and that a map is determined by its lookups. The
  cancellation laws that the undo journal needs follow from these.
\<close>

locale sorted_map =
  fixes emp :: "'m"
    and ins :: "'k::linorder \<Rightarrow> 'v \<Rightarrow> 'm \<Rightarrow> 'm"
    and del :: "'k \<Rightarrow> 'm \<Rightarrow> 'm"
    and look :: "'m \<Rightarrow> 'k \<Rightarrow> 'v option"
    and ents :: "'m \<Rightarrow> ('k \<times> 'v) list"
  assumes look_emp: "look emp k = None"
    and look_ins: "look (ins k v m) j = (if j = k then Some v else look m j)"
    and look_del: "look (del k m) j = (if j = k then None else look m j)"
    and ents_sorted: "sorted_wrt (<) (map fst (ents m))"
    and ents_look: "(k, v) \<in> set (ents m) \<longleftrightarrow> look m k = Some v"
    and look_ext: "(\<And>k. look m k = look m' k) \<Longrightarrow> m = m'"
begin

lemma ins_undo_fresh: "look m k = None \<Longrightarrow> del k (ins k v m) = m"
  by (rule look_ext) (simp add: look_ins look_del)

lemma ins_undo_assign: "look m k = Some v \<Longrightarrow> ins k v (ins k w m) = m"
  by (rule look_ext) (simp add: look_ins)

lemma del_undo: "look m k = Some v \<Longrightarrow> ins k v (del k m) = m"
  by (rule look_ext) (simp add: look_ins look_del)

lemma ins_overwrite: "ins k v (ins k w m) = ins k v m"
  by (rule look_ext) (simp add: look_ins)

lemma ins_commute: "j \<noteq> k \<Longrightarrow> ins j v (ins k w m) = ins k w (ins j v m)"
  by (rule look_ext) (simp add: look_ins)

lemma del_del: "del k (del k m) = del k m"
  by (rule look_ext) (simp add: look_del)

lemma ins_same: "look m k = Some v \<Longrightarrow> ins k v m = m"
  by (rule look_ext) (simp add: look_ins)

lemma del_absent: "look m k = None \<Longrightarrow> del k m = m"
  by (rule look_ext) (simp add: look_del)

lemma ents_all: "(\<forall>e \<in> set (ents m). P (fst e) (snd e)) \<longleftrightarrow> (\<forall>k v. look m k = Some v \<longrightarrow> P k v)"
  by (force simp: ents_look [symmetric])

lemma ents_ex: "(\<exists>e \<in> set (ents m). P (fst e) (snd e)) \<longleftrightarrow> (\<exists>k v. look m k = Some v \<and> P k v)"
  by (force simp: ents_look [symmetric])

end

interpretation om: sorted_map om_empty om_insert om_erase om_find om_entries
  by unfold_locales (simp_all, rule om_ext)

lemmas om_undo [undo_simps] = om.ins_undo_fresh om.ins_undo_assign om.del_undo
  om.ins_overwrite om.del_del

text \<open>Loops over a map, as statements about lookup.\<close>

lemma om_entries_all: "(\<forall>e \<in> set (om_entries m). P e) \<longleftrightarrow> (\<forall>k v. om_find m k = Some v \<longrightarrow> P (k, v))"
  by auto

lemma om_filter_Nil: "filter P (om_entries m) = [] \<longleftrightarrow> (\<forall>k v. om_find m k = Some v \<longrightarrow> \<not> P (k, v))"
  by (auto simp: filter_empty_conv)

lemma om_concat_Nil:
  "concat (map f (om_entries m)) = [] \<longleftrightarrow> (\<forall>k v. om_find m k = Some v \<longrightarrow> f (k, v) = [])"
  by auto

lemma om_values_ex: "list_ex P (om_values m) \<longleftrightarrow> (\<exists>k v. om_find m k = Some v \<and> P v)"
  by (auto simp: list_ex_iff set_om_values)

lemma find_snoc:
  "find P (xs @ [y])
     = (case find P xs of None \<Rightarrow> if P y then Some y else None | Some z \<Rightarrow> Some z)"
  by (induction xs) auto

lemma om_find_of_values:
  "om_find (om_of_values key vs) k = find (\<lambda>v. key v = k) (rev vs)"
proof -
  have "om_find (fold (\<lambda>v. om_insert (key v) v) vs m) k
      = (case find (\<lambda>v. key v = k) (rev vs) of None \<Rightarrow> om_find m k | Some v \<Rightarrow> Some v)" for m
    by (induction vs arbitrary: m) (auto simp: find_snoc split: option.splits)
  from this [of om_empty] show ?thesis by (simp add: om_of_values_def split: option.splits)
qed

end
