(* ===== verification/Generation.thy ===== *)
theory Generation
  imports Prelude
begin

text \<open>
  Strongly typed counters (src/include/cluster_fabric/generation.hpp and src/src/generation.cpp).
  \<^verbatim>\<open>StrongCounter<Tag>\<close> is \<open>'tag strong_counter\<close>, a 64-bit unsigned value whose successor is
  checked. The theory also holds the parser of counter text and its inverse, the renderer with its
  ring of four per-thread buffers.
\<close>

datatype 'tag strong_counter = StrongCounter (cvalue: u64)

instantiation strong_counter :: (type) linorder
begin

definition less_eq_strong_counter :: "'a strong_counter \<Rightarrow> 'a strong_counter \<Rightarrow> bool" where
  "a \<le> b \<longleftrightarrow> cvalue a \<le> cvalue b"

definition less_strong_counter :: "'a strong_counter \<Rightarrow> 'a strong_counter \<Rightarrow> bool" where
  "a < b \<longleftrightarrow> cvalue a < cvalue b"

instance
  by standard (auto simp: less_eq_strong_counter_def less_strong_counter_def strong_counter.expand)

end

datatype ClusterEpochTag = ClusterEpochTag
datatype CoordinatorEpochTag = CoordinatorEpochTag
datatype ClusterGenerationTag = ClusterGenerationTag
datatype MembershipGenerationTag = MembershipGenerationTag
datatype TopologyEpochTag = TopologyEpochTag
datatype TopologyGenerationTag = TopologyGenerationTag
datatype ConnectivityGenerationTag = ConnectivityGenerationTag
datatype HealthGenerationTag = HealthGenerationTag
datatype ConstraintGenerationTag = ConstraintGenerationTag
datatype SnapshotGenerationTag = SnapshotGenerationTag
datatype PublicationGenerationTag = PublicationGenerationTag
datatype RackGenerationTag = RackGenerationTag
datatype DomainGenerationTag = DomainGenerationTag

type_synonym cluster_epoch = "ClusterEpochTag strong_counter"
type_synonym coordinator_epoch = "CoordinatorEpochTag strong_counter"
type_synonym cluster_generation = "ClusterGenerationTag strong_counter"
type_synonym membership_generation = "MembershipGenerationTag strong_counter"
type_synonym topology_epoch = "TopologyEpochTag strong_counter"
type_synonym topology_generation = "TopologyGenerationTag strong_counter"
type_synonym connectivity_generation = "ConnectivityGenerationTag strong_counter"
type_synonym health_generation = "HealthGenerationTag strong_counter"
type_synonym constraint_generation = "ConstraintGenerationTag strong_counter"
type_synonym snapshot_generation = "SnapshotGenerationTag strong_counter"
type_synonym publication_generation = "PublicationGenerationTag strong_counter"
type_synonym rack_generation = "RackGenerationTag strong_counter"
type_synonym domain_generation = "DomainGenerationTag strong_counter"

definition counter_zero :: "'tag strong_counter" where
  "counter_zero = StrongCounter 0"

definition counter_known :: "'tag strong_counter \<Rightarrow> bool" where
  "counter_known c \<longleftrightarrow> cvalue c \<noteq> 0"

definition is_zero :: "'tag strong_counter \<Rightarrow> bool" where
  "is_zero c \<longleftrightarrow> cvalue c = 0"

definition counter_max :: u64 where
  "counter_max = 0xFFFFFFFFFFFFFFFF"

definition counter_next :: "'tag strong_counter \<Rightarrow> 'tag strong_counter option" where
  "counter_next c = (if cvalue c = counter_max then None else Some (StrongCounter (cvalue c + 1)))"

definition precedes :: "'tag strong_counter \<Rightarrow> 'tag strong_counter \<Rightarrow> bool" where
  "precedes c candidate \<longleftrightarrow> cvalue candidate > cvalue c"

lemma counter_max_eq: "counter_max = - 1"
  by (simp add: counter_max_def)

lemma unat_le_max: "unat (v :: u64) \<le> 2 ^ 64 - 1"
proof -
  have "unat v < 2 ^ 64" using unsigned_less [of v] by simp
  then show ?thesis by simp
qed

lemma unat_counter_max: "unat counter_max = 2 ^ 64 - 1"
  by (simp add: counter_max_def)

lemma precedes_iff: "precedes c d \<longleftrightarrow> c < d"
  by (simp add: precedes_def less_strong_counter_def)

lemma counter_next_unat:
  "counter_next c = Some d \<longleftrightarrow> unat (cvalue d) = Suc (unat (cvalue c))"
proof -
  have m: "cvalue c = counter_max \<longleftrightarrow> unat (cvalue c) = 2 ^ 64 - 1"
    by (simp add: word_unat_eq_iff unat_counter_max)
  have s: "unat (cvalue c + 1) = Suc (unat (cvalue c))" if "cvalue c \<noteq> counter_max"
    using that m unat_le_max [of "cvalue c"] by (simp add: unat_word_ariths)
  have "d = StrongCounter (cvalue c + 1) \<longleftrightarrow> unat (cvalue d) = Suc (unat (cvalue c))"
    if "cvalue c \<noteq> counter_max"
    using s [OF that] by (cases d) (auto simp: word_unat_eq_iff)
  moreover have "unat (cvalue d) \<noteq> Suc (unat (cvalue c))" if "cvalue c = counter_max"
    using that m unat_le_max [of "cvalue d"] by simp
  ultimately show ?thesis by (auto simp: counter_next_def)
qed

lemma counter_next_less [dest]: "counter_next c = Some d \<Longrightarrow> c < d"
  by (simp add: counter_next_unat less_strong_counter_def word_less_nat_alt)

lemma counter_next_known: "counter_next c = Some d \<Longrightarrow> counter_known d"
  by (auto simp: counter_next_unat counter_known_def)

lemma counter_next_None_iff: "counter_next c = None \<longleftrightarrow> (\<forall>d. d \<le> c)"
proof -
  have "d \<le> c" if "counter_next c = None" for d
    using that unat_le_max [of "cvalue d"]
    by (auto simp: counter_next_def less_eq_strong_counter_def word_le_nat_alt unat_counter_max
        split: if_splits)
  moreover have "counter_next c = None" if "\<forall>d. d \<le> c"
    using that counter_next_less [of c] by (cases "counter_next c") (auto simp: not_less [symmetric])
  ultimately show ?thesis by blast
qed

lemma counter_zero_least [simp]: "counter_zero \<le> c"
  by (simp add: counter_zero_def less_eq_strong_counter_def)

subsection \<open>Counter text\<close>

definition kMaxCounterDigits :: nat where
  "kMaxCounterDigits = 20"

definition kCounterTextBufferCount :: nat where
  "kCounterTextBufferCount = 4"

text \<open>The body of the digit loop of \<^verbatim>\<open>parse_counter_text\<close>, on the value accumulated so far.\<close>

fun parse_counter_loop :: "u64 \<Rightarrow> string \<Rightarrow> u64 option" where
  "parse_counter_loop v [] = Some v"
| "parse_counter_loop v (c # cs) =
     (if c < CHR ''0'' \<or> c > CHR ''9'' then None
      else let digit = (of_nat (of_char c - of_char CHR ''0'') :: u64) in
        if v > (counter_max - digit) div 10 then None
        else parse_counter_loop (v * 10 + digit) cs)"

definition parse_counter_text :: "string \<Rightarrow> bool \<Rightarrow> u64 option" where
  "parse_counter_text text allow_zero =
     (if text = [] then None
      else if length text > kMaxCounterDigits then None
      else case parse_counter_loop 0 text of
        None \<Rightarrow> None
      | Some v \<Rightarrow> if v = 0 \<and> \<not> allow_zero then None else Some v)"

text \<open>The per-thread ring: a rendering is the index of the buffer its view points into.\<close>

record counter_text_ring =
  ring_buffers :: "string list"
  ring_next :: nat

definition ring_empty :: counter_text_ring where
  "ring_empty = \<lparr>ring_buffers = replicate kCounterTextBufferCount [], ring_next = 0\<rparr>"

definition render_counter :: "counter_text_ring \<Rightarrow> u64 \<Rightarrow> nat \<times> counter_text_ring" where
  "render_counter ring v =
     (ring_next ring,
      \<lparr>ring_buffers = (ring_buffers ring)[ring_next ring := rev (decimal_loop v)],
       ring_next = (ring_next ring + 1) mod kCounterTextBufferCount\<rparr>)"

definition ring_ok :: "counter_text_ring \<Rightarrow> bool" where
  "ring_ok ring \<longleftrightarrow> length (ring_buffers ring) = kCounterTextBufferCount
     \<and> ring_next ring < kCounterTextBufferCount"

lemma of_char_digit:
  assumes "is_digit c"
  shows "unat (of_nat (of_char c - of_char CHR ''0'') :: u64) = of_char c - 48"
proof -
  have "(of_char c :: nat) - 48 < 2 ^ 64" using assms unfolding is_digit_iff by auto
  moreover have "(of_char CHR ''0'' :: nat) = 48" by simp
  ultimately show ?thesis by (simp only: unat_of_nat) simp
qed

lemma decimal_value_Cons: "decimal_value a (c # cs) = decimal_value (a * 10 + (of_char c - 48)) cs"
  by (simp add: decimal_value_def)

lemma decimal_value_ge: "a \<le> decimal_value a cs"
proof (induction cs arbitrary: a)
  case (Cons c cs)
  have "a \<le> a * 10 + (of_char c - 48)" by simp
  also have "\<dots> \<le> decimal_value a (c # cs)" unfolding decimal_value_Cons by (rule Cons.IH)
  finally show ?case .
qed (simp add: decimal_value_def)

text \<open>The overflow guard of the loop is exact: it refuses precisely the values beyond 64 bits.\<close>

lemma counter_digit_guard:
  assumes "unat (digit :: u64) \<le> 9"
  shows "v > (counter_max - digit) div 10 \<longleftrightarrow> 2 ^ 64 \<le> unat v * 10 + unat digit"
proof -
  have "digit \<le> counter_max" by (simp add: counter_max_eq)
  then have "unat (counter_max - digit) = 2 ^ 64 - 1 - unat digit"
    by (simp only: unat_sub unat_counter_max)
  then have "unat ((counter_max - digit) div 10) = (2 ^ 64 - 1 - unat digit) div 10"
    by (simp only: unat_div_10)
  then have "v > (counter_max - digit) div 10 \<longleftrightarrow> (2 ^ 64 - 1 - unat digit) div 10 < unat v"
    by (simp only: word_less_nat_alt)
  also have "\<dots> \<longleftrightarrow> 2 ^ 64 \<le> unat v * 10 + unat digit"
    using assms by (simp add: div_less_iff_less_mult) linarith
  finally show ?thesis .
qed

lemma unat_shift_digit:
  "unat v * 10 + unat digit < 2 ^ 64 \<Longrightarrow> unat (v * 10 + digit :: u64) = unat v * 10 + unat digit"
  by (simp add: unat_word_ariths mod_add_left_eq)

lemma parse_counter_loop_iff:
  "parse_counter_loop v cs = Some w \<longleftrightarrow>
     list_all is_digit cs \<and> decimal_value (unat v) cs = unat w"
proof (induction cs arbitrary: v)
  case Nil
  show ?case by (auto simp: decimal_value_def word_unat_eq_iff)
next
  case (Cons c cs)
  show ?case
  proof (cases "is_digit c")
    case False
    then have "c < CHR ''0'' \<or> c > CHR ''9''" by (auto simp: is_digit_def)
    with False show ?thesis by auto
  next
    case True
    let ?d = "of_nat (of_char c - of_char CHR ''0'') :: u64"
    have d: "unat ?d = of_char c - 48" using True by (rule of_char_digit)
    then have d9: "unat ?d \<le> 9" using True unfolding is_digit_iff by linarith
    have nd: "\<not> (c < CHR ''0'' \<or> c > CHR ''9'')" using True by (auto simp: is_digit_def)
    show ?thesis
    proof (cases "2 ^ 64 \<le> unat v * 10 + unat ?d")
      case big: True
      then have "parse_counter_loop v (c # cs) = None"
        using nd counter_digit_guard [OF d9, of v] by (simp only: parse_counter_loop.simps Let_def) simp
      moreover have "decimal_value (unat v) (c # cs) \<noteq> unat w"
        using big [unfolded d] decimal_value_ge [of "unat v * 10 + (of_char c - 48)" cs] unat_le_max [of w]
        unfolding decimal_value_Cons by (simp; linarith)
      ultimately show ?thesis by simp
    next
      case small: False
      have "unat (v * 10 + ?d) = unat v * 10 + unat ?d"
        using small by (intro unat_shift_digit) simp
      moreover have "parse_counter_loop v (c # cs) = parse_counter_loop (v * 10 + ?d) cs"
        using nd small counter_digit_guard [OF d9, of v]
        by (simp only: parse_counter_loop.simps Let_def) simp
      ultimately show ?thesis
        using Cons.IH True by (simp only: d decimal_value_Cons list.pred_inject simp_thms)
    qed
  qed
qed

lemma parse_counter_text_iff:
  "parse_counter_text text allow_zero = Some v \<longleftrightarrow>
     text \<noteq> [] \<and> length text \<le> kMaxCounterDigits \<and> list_all is_digit text
     \<and> decimal_value 0 text = unat v \<and> (v \<noteq> 0 \<or> allow_zero)"
proof -
  have "parse_counter_text text allow_zero = Some v \<longleftrightarrow>
      text \<noteq> [] \<and> length text \<le> kMaxCounterDigits \<and> parse_counter_loop 0 text = Some v
      \<and> (v \<noteq> 0 \<or> allow_zero)"
    by (auto simp: parse_counter_text_def split: option.splits)
  then show ?thesis by (simp add: parse_counter_loop_iff)
qed

lemma parse_render: "parse_counter_text (rev (decimal_loop v)) (v = 0) = Some v"
proof -
  have "decimal_loop v \<noteq> []" by (subst decimal_loop.simps) (simp add: Let_def)
  then show ?thesis
    using decimal_loop_digits [of v] decimal_loop_length [of v]
    by (simp add: parse_counter_text_iff decimal_loop_value list_all_iff kMaxCounterDigits_def)
qed

lemma render_counter_ok: "ring_ok ring \<Longrightarrow> ring_ok (snd (render_counter ring v))"
  by (simp add: ring_ok_def render_counter_def kCounterTextBufferCount_def)

subsection \<open>Properties\<close>

text \<open>
  C38. Advancing a counter adds exactly one and never wraps around: the largest 64-bit value has no
  successor.
\<close>

theorem counter_next_exact:
  "case counter_next c of
     Some d \<Rightarrow> unat (cvalue d) = unat (cvalue c) + 1
   | None \<Rightarrow> unat (cvalue c) = 2 ^ 64 - 1"
proof (cases "counter_next c")
  case None
  then have "cvalue c = counter_max" by (simp add: counter_next_def split: if_splits)
  with None show ?thesis by (simp add: unat_counter_max)
next
  case (Some d)
  then show ?thesis using counter_next_unat [of c d] by simp
qed

text \<open>A rendering stays readable until its buffer is reused, three renderings later.\<close>

definition render_more :: "u64 list \<Rightarrow> counter_text_ring \<Rightarrow> counter_text_ring" where
  "render_more vs ring = foldl (\<lambda>r v. snd (render_counter r v)) ring vs"

lemma render_more_snoc: "render_more (vs @ [v]) ring = snd (render_counter (render_more vs ring) v)"
  by (simp add: render_more_def)

lemma render_more_next: "ring_next (render_more vs ring) mod 4 = (ring_next ring + length vs) mod 4"
proof (induction vs rule: rev_induct)
  case (snoc v vs)
  then have "(ring_next (render_more vs ring) + 1) mod 4 = (ring_next ring + length vs + 1) mod 4"
    by (rule mod_add_cong) simp
  then show ?case by (simp add: render_more_snoc) (simp add: render_counter_def kCounterTextBufferCount_def)
qed (simp add: render_more_def)

lemma render_more_keeps:
  assumes "ring_ok ring" and "length vs < 4" and "ring_next ring = (i + 1) mod 4" and "i < 4"
  shows "ring_buffers (render_more vs ring) ! i = ring_buffers ring ! i \<and> ring_ok (render_more vs ring)"
  using assms(2)
proof (induction vs rule: rev_induct)
  case Nil
  show ?case using assms(1) by (simp add: render_more_def)
next
  case (snoc v vs)
  let ?r = "render_more vs ring"
  have ok: "ring_buffers ?r ! i = ring_buffers ring ! i" "ring_ok ?r" using snoc by simp_all
  have "ring_next ?r = (ring_next ring + length vs) mod 4"
    using render_more_next [of vs ring] ok(2) by (simp add: ring_ok_def kCounterTextBufferCount_def)
  then have n: "ring_next ?r = (i + 1 + length vs) mod 4" using assms(3) by (simp add: mod_simps)
  have "length vs = 0 \<or> length vs = 1 \<or> length vs = 2" "i = 0 \<or> i = 1 \<or> i = 2 \<or> i = 3"
    using snoc.prems assms(4) by (simp_all only: length_append_singleton) arith+
  then have "ring_next ?r \<noteq> i" using n by (elim disjE; simp)
  then show ?case
    using ok render_counter_ok [OF ok(2)] by (simp add: render_more_snoc) (simp add: render_counter_def)
qed

text \<open>
  C39. A counter rendered into the ring of buffers reads back as the same counter, also after up to three
  further renderings of the same thread.
\<close>

theorem counter_text_roundtrip:
  assumes "ring_ok ring" and "render_counter ring v = (i, ring')" and "length vs < kCounterTextBufferCount"
  shows "parse_counter_text (ring_buffers (render_more vs ring') ! i) (v = 0) = Some v
     \<and> ring_ok (render_more vs ring')"
proof -
  have ok: "ring_ok ring'" using render_counter_ok [OF assms(1), of v] assms(2) by simp
  have "ring_buffers ring' ! i = rev (decimal_loop v)" "i < 4" "ring_next ring' = (i + 1) mod 4"
    using assms(1,2) by (auto simp: render_counter_def ring_ok_def kCounterTextBufferCount_def)
  then show ?thesis
    using render_more_keeps [OF ok, of vs i] assms(3) parse_render [of v]
    by (simp add: kCounterTextBufferCount_def)
qed

theorem counter_text_roundtrip_witness:
  "parse_counter_text (ring_buffers (render_more [1, 2, 3] (snd (render_counter ring_empty 18446744073709551615))) ! 0)
     False = Some 18446744073709551615"
  using counter_text_roundtrip [of ring_empty 18446744073709551615 0
      "snd (render_counter ring_empty 18446744073709551615)" "[1, 2, 3]"]
  by (simp add: ring_ok_def ring_empty_def render_counter_def kCounterTextBufferCount_def)

end
