(* ===== verification/Enum_Names.thy ===== *)
theory Enum_Names
  imports Prelude
begin

text \<open>
  The text form of enumerations (the anonymous-namespace helpers \<^verbatim>\<open>EnumName\<close>, \<^verbatim>\<open>render\<close> and
  \<^verbatim>\<open>parse\<close> of src/src/taxonomy.cpp, src/src/lifecycle.cpp and src/src/evidence.cpp). A table lists
  for each enumerator its canonical text and its C++ spelling. \<open>parse_names\<close> is the parsing loop:
  the argument \<open>loose\<close> says for which values the C++ spelling is accepted beside the canonical one
  (all of them in lifecycle.cpp and evidence.cpp, all but \<^verbatim>\<open>Unknown\<close> in taxonomy.cpp).

  The locale \<open>enum_names\<close> is the contract of such a table: every value is rendered as its canonical
  text and no two entries share a spelling. Parsing then inverts rendering and accepts nothing else.
\<close>

record 'a enum_name =
  en_value :: 'a
  en_canonical :: string
  en_enumerator :: string

definition enum_name :: "'a \<Rightarrow> string \<Rightarrow> string \<Rightarrow> 'a enum_name" where
  "enum_name v c e = \<lparr>en_value = v, en_canonical = c, en_enumerator = e\<rparr>"

fun render_names :: "'a enum_name list \<Rightarrow> 'a \<Rightarrow> string" where
  "render_names [] v = ''UNKNOWN''"
| "render_names (n # ns) v = (if en_value n = v then en_canonical n else render_names ns v)"

fun parse_names :: "('a \<Rightarrow> bool) \<Rightarrow> 'a enum_name list \<Rightarrow> string \<Rightarrow> 'a option" where
  "parse_names loose [] text = None"
| "parse_names loose (n # ns) text =
     (if text = en_canonical n then Some (en_value n)
      else if loose (en_value n) \<and> text = en_enumerator n then Some (en_value n)
      else parse_names loose ns text)"

definition spelled :: "('a \<Rightarrow> bool) \<Rightarrow> 'a enum_name \<Rightarrow> string \<Rightarrow> bool" where
  "spelled loose n text \<longleftrightarrow> text = en_canonical n \<or> loose (en_value n) \<and> text = en_enumerator n"

text \<open>No text is a spelling of two entries of the table.\<close>

fun spellings_distinct :: "'a enum_name list \<Rightarrow> bool" where
  "spellings_distinct [] \<longleftrightarrow> True"
| "spellings_distinct (n # ns) \<longleftrightarrow>
     list_all (\<lambda>m. en_canonical n \<noteq> en_canonical m \<and> en_canonical n \<noteq> en_enumerator m
        \<and> en_enumerator n \<noteq> en_canonical m \<and> en_enumerator n \<noteq> en_enumerator m) ns
     \<and> spellings_distinct ns"

lemma enum_name_sel [simp]:
  "en_value (enum_name v c e) = v"
  "en_canonical (enum_name v c e) = c"
  "en_enumerator (enum_name v c e) = e"
  by (simp_all add: enum_name_def)

lemma parse_names_spelled:
  "parse_names loose ns s = Some v \<Longrightarrow> \<exists>n \<in> set ns. en_value n = v \<and> spelled loose n s"
  by (induction loose ns s rule: parse_names.induct) (auto simp: spelled_def split: if_splits)

lemma parse_names_complete:
  "spellings_distinct ns \<Longrightarrow> n \<in> set ns \<Longrightarrow> spelled loose n s
     \<Longrightarrow> parse_names loose ns s = Some (en_value n)"
proof (induction loose ns s rule: parse_names.induct)
  case (2 loose m ns s)
  show ?case
  proof (cases "n = m")
    case True
    with "2.prems" show ?thesis by (auto simp: spelled_def)
  next
    case False
    with "2.prems" have n: "n \<in> set ns" by simp
    with "2.prems" have "\<not> spelled loose m s" by (auto simp: spelled_def list_all_iff)
    with 2 n show ?thesis by (auto simp: spelled_def)
  qed
qed simp

locale enum_names =
  fixes names :: "'a enum_name list" and loose :: "'a \<Rightarrow> bool" and show_name :: "'a \<Rightarrow> string"
  assumes listed: "\<exists>n \<in> set names. en_value n = v \<and> en_canonical n = show_name v"
    and unshared: "spellings_distinct names"
begin

lemma parse_show: "parse_names loose names (show_name v) = Some v"
proof -
  obtain n where n: "n \<in> set names" "en_value n = v" "en_canonical n = show_name v"
    using listed by blast
  then have "spelled loose n (show_name v)" by (simp add: spelled_def)
  then show ?thesis using parse_names_complete [OF unshared] n by metis
qed

lemma show_inject: "show_name v = show_name w \<Longrightarrow> v = w"
  by (metis parse_show option.inject)

lemma parse_iff:
  "parse_names loose names s = Some v \<longleftrightarrow> (\<exists>n \<in> set names. en_value n = v \<and> spelled loose n s)"
  using parse_names_spelled parse_names_complete [OF unshared] by metis

end

end
