(* ===== verification/Evidence.thy ===== *)
theory Evidence
  imports Enum_Names
begin

text \<open>
  Evidence stamps (src/include/cluster_fabric/evidence.hpp and src/src/evidence.cpp): how a fact was
  obtained, when, and whether it is still a statement about the present. A \<^verbatim>\<open>Timestamp\<close> is its signed
  64-bit millisecond count, an \<open>int\<close>; \<open>i64_wrap\<close> is the wrap-around of 64-bit signed arithmetic, written
  at the one subtraction the component performs. The wall clock is an argument of the definitions
  that read it.
\<close>

type_synonym timestamp = int

definition i64_min :: int where
  "i64_min = - (2 ^ 63)"

definition i64_max :: int where
  "i64_max = 2 ^ 63 - 1"

definition i64_range :: "int \<Rightarrow> bool" where
  "i64_range x \<longleftrightarrow> i64_min \<le> x \<and> x \<le> i64_max"

definition i64_wrap :: "int \<Rightarrow> int" where
  "i64_wrap x = (x + 2 ^ 63) mod 2 ^ 64 - 2 ^ 63"

lemma i64_wrap_id: "i64_range x \<Longrightarrow> i64_wrap x = x"
  by (simp add: i64_range_def i64_min_def i64_max_def i64_wrap_def)

datatype evidence_provenance =
  EP_Unknown | EP_Measured | EP_Reported | EP_Derived | EP_Estimated | EP_Synthetic
  | EP_Reconstructed

definition kProvenanceNames :: "evidence_provenance enum_name list" where
  "kProvenanceNames =
    [enum_name EP_Unknown ''UNKNOWN'' ''Unknown'',
     enum_name EP_Measured ''MEASURED'' ''Measured'',
     enum_name EP_Reported ''REPORTED'' ''Reported'',
     enum_name EP_Derived ''DERIVED'' ''Derived'',
     enum_name EP_Estimated ''ESTIMATED'' ''Estimated'',
     enum_name EP_Synthetic ''SYNTHETIC'' ''Synthetic'',
     enum_name EP_Reconstructed ''RECONSTRUCTED'' ''Reconstructed'']"

fun evidence_provenance_to_string :: "evidence_provenance \<Rightarrow> string" where
  "evidence_provenance_to_string EP_Unknown = ''UNKNOWN''"
| "evidence_provenance_to_string EP_Measured = ''MEASURED''"
| "evidence_provenance_to_string EP_Reported = ''REPORTED''"
| "evidence_provenance_to_string EP_Derived = ''DERIVED''"
| "evidence_provenance_to_string EP_Estimated = ''ESTIMATED''"
| "evidence_provenance_to_string EP_Synthetic = ''SYNTHETIC''"
| "evidence_provenance_to_string EP_Reconstructed = ''RECONSTRUCTED''"

definition evidence_provenance_from_string :: "string \<Rightarrow> evidence_provenance option" where
  "evidence_provenance_from_string s = parse_names (\<lambda>v. True) kProvenanceNames s"

interpretation evidence_provenance_text: enum_names kProvenanceNames "\<lambda>v. True" evidence_provenance_to_string
proof
  show "\<exists>n \<in> set kProvenanceNames. en_value n = v \<and> en_canonical n = evidence_provenance_to_string v" for v
    by (cases v) (simp_all add: kProvenanceNames_def)
  show "spellings_distinct kProvenanceNames" by code_simp
qed

datatype freshness =
  FR_Unknown | FR_Fresh | FR_Stale | FR_RevalidationRequired

definition kFreshnessNames :: "freshness enum_name list" where
  "kFreshnessNames =
    [enum_name FR_Unknown ''UNKNOWN'' ''Unknown'',
     enum_name FR_Fresh ''FRESH'' ''Fresh'',
     enum_name FR_Stale ''STALE'' ''Stale'',
     enum_name FR_RevalidationRequired ''REVALIDATION_REQUIRED'' ''RevalidationRequired'']"

fun freshness_to_string :: "freshness \<Rightarrow> string" where
  "freshness_to_string FR_Unknown = ''UNKNOWN''"
| "freshness_to_string FR_Fresh = ''FRESH''"
| "freshness_to_string FR_Stale = ''STALE''"
| "freshness_to_string FR_RevalidationRequired = ''REVALIDATION_REQUIRED''"

definition freshness_from_string :: "string \<Rightarrow> freshness option" where
  "freshness_from_string s = parse_names (\<lambda>v. True) kFreshnessNames s"

interpretation freshness_text: enum_names kFreshnessNames "\<lambda>v. True" freshness_to_string
proof
  show "\<exists>n \<in> set kFreshnessNames. en_value n = v \<and> en_canonical n = freshness_to_string v" for v
    by (cases v) (simp_all add: kFreshnessNames_def)
  show "spellings_distinct kFreshnessNames" by code_simp
qed

datatype durability = DU_Durable | DU_Ephemeral

fun durability_to_string :: "durability \<Rightarrow> string" where
  "durability_to_string DU_Durable = ''DURABLE''"
| "durability_to_string DU_Ephemeral = ''EPHEMERAL''"

definition durability_from_string :: "string \<Rightarrow> durability option" where
  "durability_from_string s =
     (if s = ''DURABLE'' \<or> s = ''Durable'' then Some DU_Durable
      else if s = ''EPHEMERAL'' \<or> s = ''Ephemeral'' then Some DU_Ephemeral
      else None)"

definition is_physical_provenance :: "evidence_provenance \<Rightarrow> bool" where
  "is_physical_provenance v \<longleftrightarrow> v = EP_Measured \<or> v = EP_Reported \<or> v = EP_Derived"

definition is_current_evidence_provenance :: "evidence_provenance \<Rightarrow> bool" where
  "is_current_evidence_provenance v \<longleftrightarrow> v = EP_Measured \<or> v = EP_Reported"

definition ts_unknown :: timestamp where
  "ts_unknown = 0"

definition ts_known :: "timestamp \<Rightarrow> bool" where
  "ts_known t \<longleftrightarrow> t > 0"

definition classify_freshness :: "timestamp \<Rightarrow> timestamp \<Rightarrow> int \<Rightarrow> freshness" where
  "classify_freshness observed_at now ttl_millis =
     (if \<not> ts_known observed_at then FR_Unknown
      else if ttl_millis \<le> 0 then FR_Fresh
      else if now < observed_at then FR_Fresh
      else let elapsed = i64_wrap (now - observed_at) in
        if elapsed \<le> ttl_millis then FR_Fresh else FR_Stale)"

record evidence_stamp =
  es_provenance :: evidence_provenance
  es_observed_at :: timestamp
  es_freshness :: freshness
  es_ttl_millis :: int

definition stamp_unknown :: evidence_stamp where
  "stamp_unknown =
     \<lparr>es_provenance = EP_Unknown, es_observed_at = ts_unknown, es_freshness = FR_Unknown,
      es_ttl_millis = 0\<rparr>"

definition stamp_make :: "evidence_provenance \<Rightarrow> timestamp \<Rightarrow> int \<Rightarrow> evidence_stamp" where
  "stamp_make provenance observed_at ttl_millis =
     \<lparr>es_provenance = provenance, es_observed_at = observed_at,
      es_freshness = classify_freshness observed_at observed_at ttl_millis,
      es_ttl_millis = ttl_millis\<rparr>"

definition is_unknown :: "evidence_stamp \<Rightarrow> bool" where
  "is_unknown s \<longleftrightarrow> es_provenance s = EP_Unknown"

definition is_current :: "evidence_stamp \<Rightarrow> bool" where
  "is_current s \<longleftrightarrow> is_current_evidence_provenance (es_provenance s) \<and> ts_known (es_observed_at s)
     \<and> es_freshness s = FR_Fresh"

definition requires_revalidation :: "evidence_stamp \<Rightarrow> bool" where
  "requires_revalidation s \<longleftrightarrow>
     es_freshness s = FR_RevalidationRequired \<or> es_provenance s = EP_Reconstructed"

definition refresh :: "timestamp \<Rightarrow> evidence_stamp \<Rightarrow> evidence_stamp" where
  "refresh now s =
     (if es_freshness s = FR_RevalidationRequired then s
      else s\<lparr>es_freshness := classify_freshness (es_observed_at s) now (es_ttl_millis s)\<rparr>)"

definition mark_revalidation_required :: "evidence_stamp \<Rightarrow> evidence_stamp" where
  "mark_revalidation_required s = s\<lparr>es_freshness := FR_RevalidationRequired\<rparr>"

lemma not_current_marked [simp]: "\<not> is_current (mark_revalidation_required s)"
  by (simp add: is_current_def mark_revalidation_required_def)

lemma refresh_marked [simp]: "refresh now (mark_revalidation_required s) = mark_revalidation_required s"
  by (simp add: refresh_def mark_revalidation_required_def)

lemma is_current_provenance: "is_current s \<Longrightarrow> es_provenance s \<in> {EP_Measured, EP_Reported}"
  by (auto simp: is_current_def is_current_evidence_provenance_def)

subsection \<open>Properties\<close>

text \<open>
  C40. Freshness on 64-bit instants is freshness on the integers: where the code subtracts, both instants
  are positive and ordered, so the difference never wraps, and evidence is fresh exactly when its age
  does not exceed a positive time to live.
\<close>

theorem classify_freshness_exact:
  assumes "i64_range now" and "i64_range observed_at"
  shows "classify_freshness observed_at now ttl =
     (if observed_at \<le> 0 then FR_Unknown
      else if ttl \<le> 0 \<or> now - observed_at \<le> ttl then FR_Fresh else FR_Stale)"
proof -
  have "i64_wrap (now - observed_at) = now - observed_at" if "0 < observed_at" "observed_at \<le> now"
    using assms that by (intro i64_wrap_id) (auto simp: i64_range_def i64_min_def i64_max_def)
  then show ?thesis by (auto simp: classify_freshness_def ts_known_def Let_def)
qed

theorem classify_freshness_exact_witness:
  "classify_freshness 1 9223372036854775807 9223372036854775806 = FR_Fresh"
  using classify_freshness_exact [of 9223372036854775807 1 9223372036854775806]
  by (simp add: i64_range_def i64_min_def i64_max_def)

end
