(* ===== verification/Identity.thy ===== *)
theory Identity
  imports Prelude
begin

unbundle bit_operations_syntax

text \<open>
  Strongly typed identities (src/include/cluster_fabric/identity.hpp and src/src/identity.cpp).
  The class template \<^verbatim>\<open>StrongId<Tag>\<close> is \<open>'tag strong_id\<close>: the tag types keep a rack identity
  from being used as a cluster identity, as the template parameter does. Identities compare as
  \<^verbatim>\<open>std::string\<close> does, byte by byte as unsigned values. The theory holds the validation of
  untrusted identity text and the generator of process-incarnation (boot) identities, with the
  process id, the boot sequence counter and the steady clock as arguments.
\<close>

datatype 'tag strong_id = StrongId (id_value: string)

instantiation strong_id :: (type) linorder
begin

definition less_eq_strong_id :: "'a strong_id \<Rightarrow> 'a strong_id \<Rightarrow> bool" where
  "a \<le> b \<longleftrightarrow> id_value a \<le> id_value b"

definition less_strong_id :: "'a strong_id \<Rightarrow> 'a strong_id \<Rightarrow> bool" where
  "a < b \<longleftrightarrow> id_value a < id_value b"

instance
  by standard (auto simp: less_eq_strong_id_def less_strong_id_def strong_id.expand)

end

datatype ClusterIdTag = ClusterIdTag
datatype RackIdTag = RackIdTag
datatype RackAgentBootIdTag = RackAgentBootIdTag
datatype RackPublisherIdTag = RackPublisherIdTag
datatype RackEndpointIdTag = RackEndpointIdTag
datatype PlacementDomainIdTag = PlacementDomainIdTag
datatype CapacityDomainIdTag = CapacityDomainIdTag
datatype FailureDomainIdTag = FailureDomainIdTag
datatype NetworkDomainIdTag = NetworkDomainIdTag
datatype StorageDomainIdTag = StorageDomainIdTag
datatype PowerDomainIdTag = PowerDomainIdTag
datatype CoolingDomainIdTag = CoolingDomainIdTag
datatype LinkDomainIdTag = LinkDomainIdTag
datatype InterRackLinkIdTag = InterRackLinkIdTag
datatype ConstraintIdTag = ConstraintIdTag

type_synonym cluster_id = "ClusterIdTag strong_id"
type_synonym rack_id = "RackIdTag strong_id"
type_synonym boot_id = "RackAgentBootIdTag strong_id"
type_synonym publisher_id = "RackPublisherIdTag strong_id"
type_synonym endpoint_id = "RackEndpointIdTag strong_id"
type_synonym placement_domain_id = "PlacementDomainIdTag strong_id"
type_synonym capacity_domain_id = "CapacityDomainIdTag strong_id"
type_synonym failure_domain_id = "FailureDomainIdTag strong_id"
type_synonym network_domain_id = "NetworkDomainIdTag strong_id"
type_synonym storage_domain_id = "StorageDomainIdTag strong_id"
type_synonym power_domain_id = "PowerDomainIdTag strong_id"
type_synonym cooling_domain_id = "CoolingDomainIdTag strong_id"
type_synonym link_domain_id = "LinkDomainIdTag strong_id"
type_synonym link_id = "InterRackLinkIdTag strong_id"
type_synonym constraint_id = "ConstraintIdTag strong_id"

subsection \<open>Validation\<close>

definition kMaxIdentityLength :: nat where
  "kMaxIdentityLength = 128"

datatype identity_status =
  IS_Ok | IS_Empty | IS_TooLong | IS_InvalidCharacter | IS_Reserved

record identity_validation =
  iv_status :: identity_status
  iv_position :: nat

definition iv_ok :: "identity_validation \<Rightarrow> bool" where
  "iv_ok v \<longleftrightarrow> iv_status v = IS_Ok"

definition is_identity_char :: "char \<Rightarrow> bool" where
  "is_identity_char c \<longleftrightarrow>
     (if CHR ''0'' \<le> c \<and> c \<le> CHR ''9'' then True
      else if CHR ''a'' \<le> c \<and> c \<le> CHR ''z'' then True
      else if CHR ''A'' \<le> c \<and> c \<le> CHR ''Z'' then True
      else c = CHR ''-'' \<or> c = CHR ''_'' \<or> c = CHR ''.'' \<or> c = CHR '':'' \<or> c = CHR ''@'')"

definition is_label_char :: "char \<Rightarrow> bool" where
  "is_label_char c \<longleftrightarrow> \<not> (of_char c < (0x20 :: nat) \<or> of_char c > (0x7E :: nat))"

text \<open>The position the validation loop stops at: the first character the predicate refuses.\<close>

fun first_refused :: "(char \<Rightarrow> bool) \<Rightarrow> nat \<Rightarrow> string \<Rightarrow> nat option" where
  "first_refused p i [] = None"
| "first_refused p i (c # cs) = (if \<not> p c then Some i else first_refused p (Suc i) cs)"

text \<open>\<^verbatim>\<open>value.find("..")\<close>: the index of the first occurrence.\<close>

fun find_double_dot :: "nat \<Rightarrow> string \<Rightarrow> nat option" where
  "find_double_dot i (a # b # cs) =
     (if a = CHR ''.'' \<and> b = CHR ''.'' then Some i else find_double_dot (Suc i) (b # cs))"
| "find_double_dot i cs = None"

definition validate_identity :: "string \<Rightarrow> identity_validation" where
  "validate_identity value =
     (if value = [] then \<lparr>iv_status = IS_Empty, iv_position = 0\<rparr>
      else if length value > kMaxIdentityLength
        then \<lparr>iv_status = IS_TooLong, iv_position = kMaxIdentityLength\<rparr>
      else case first_refused is_identity_char 0 value of
        Some i \<Rightarrow> \<lparr>iv_status = IS_InvalidCharacter, iv_position = i\<rparr>
      | None \<Rightarrow>
          if value = ''.'' \<or> value = ''..'' then \<lparr>iv_status = IS_Reserved, iv_position = 0\<rparr>
          else case find_double_dot 0 value of
            Some i \<Rightarrow> \<lparr>iv_status = IS_Reserved, iv_position = i\<rparr>
          | None \<Rightarrow> \<lparr>iv_status = IS_Ok, iv_position = 0\<rparr>)"

definition validate_label :: "string \<Rightarrow> identity_validation" where
  "validate_label value =
     (if value = [] then \<lparr>iv_status = IS_Empty, iv_position = 0\<rparr>
      else if length value > kMaxIdentityLength
        then \<lparr>iv_status = IS_TooLong, iv_position = kMaxIdentityLength\<rparr>
      else case first_refused is_label_char 0 value of
        Some i \<Rightarrow> \<lparr>iv_status = IS_InvalidCharacter, iv_position = i\<rparr>
      | None \<Rightarrow> \<lparr>iv_status = IS_Ok, iv_position = 0\<rparr>)"

definition id_parse :: "string \<Rightarrow> 'tag strong_id option" where
  "id_parse value = (if \<not> iv_ok (validate_identity value) then None else Some (StrongId value))"

text \<open>The default-constructed identity is the explicit UNKNOWN one: the empty text.\<close>

definition id_unknown :: "'tag strong_id" where
  "id_unknown = StrongId []"

definition id_known :: "'tag strong_id \<Rightarrow> bool" where
  "id_known i \<longleftrightarrow> id_value i \<noteq> []"

lemma validate_identity_ok_iff:
  "iv_ok (validate_identity value) \<longleftrightarrow>
     value \<noteq> [] \<and> length value \<le> kMaxIdentityLength \<and> first_refused is_identity_char 0 value = None
     \<and> value \<noteq> ''.'' \<and> find_double_dot 0 value = None"
proof -
  have "find_double_dot 0 ''..'' \<noteq> None" by simp
  then show ?thesis by (auto simp: validate_identity_def iv_ok_def split: option.splits)
qed

lemma first_refused_None_iff: "first_refused p i cs = None \<longleftrightarrow> (\<forall>c \<in> set cs. p c)"
  by (induction cs arbitrary: i) auto

lemma first_refused_Some_iff:
  "first_refused p i cs = Some j \<longleftrightarrow>
     (\<exists>k < length cs. j = i + k \<and> \<not> p (cs ! k) \<and> (\<forall>l < k. p (cs ! l)))"
proof (induction cs arbitrary: i)
  case (Cons c cs)
  show ?case
  proof (cases "p c")
    case True
    then have "first_refused p i (c # cs) = Some j \<longleftrightarrow>
        (\<exists>k < length cs. j = Suc i + k \<and> \<not> p (cs ! k) \<and> (\<forall>l < k. p (cs ! l)))"
      using Cons.IH by simp
    also have "\<dots> \<longleftrightarrow> (\<exists>k < length (c # cs). j = i + k \<and> \<not> p ((c # cs) ! k)
        \<and> (\<forall>l < k. p ((c # cs) ! l)))"
      using True by (auto simp: Ex_less_Suc2 All_less_Suc2)
    finally show ?thesis .
  next
    case False
    then have "(\<exists>k < length (c # cs). j = i + k \<and> \<not> p ((c # cs) ! k) \<and> (\<forall>l < k. p ((c # cs) ! l)))
        \<longleftrightarrow> j = i"
      by (simp add: Ex_less_Suc2 All_less_Suc2)
    with False show ?thesis by auto
  qed
qed simp

lemma find_double_dot_None_iff:
  "find_double_dot i cs = None \<longleftrightarrow> (\<forall>xs ys. cs \<noteq> xs @ ''..'' @ ys)"
proof (induction i cs rule: find_double_dot.induct)
  case (1 i a b cs)
  have "(\<forall>xs ys. a # b # cs \<noteq> xs @ ''..'' @ ys) \<longleftrightarrow>
      \<not> (a = CHR ''.'' \<and> b = CHR ''.'') \<and> (\<forall>xs ys. b # cs \<noteq> xs @ ''..'' @ ys)"
    by (auto simp: Cons_eq_append_conv)
  with 1 show ?case by simp
qed (auto simp: append_eq_Cons_conv Cons_eq_append_conv)

lemma id_parse_value: "id_parse value = Some i \<Longrightarrow> id_value i = value"
  by (auto simp: id_parse_def split: if_splits)

subsection \<open>Boot identities\<close>

definition kFallbackPrefix :: string where
  "kFallbackPrefix = ''boot''"

definition kLastResortBootText :: string where
  "kLastResortBootText = ''boot-0-0-0''"

definition clock_mix :: "u64 \<Rightarrow> u64" where
  "clock_mix ticks =
     (let m0 = ticks + 0x9E3779B97F4A7C15;
          m1 = m0 XOR drop_bit 30 m0;
          m2 = m1 * 0xBF58476D1CE4E5B9;
          m3 = m2 XOR drop_bit 27 m2;
          m4 = m3 * 0x94D049BB133111EB
      in m4 XOR drop_bit 31 m4)"

function decimal_digits :: "u64 \<Rightarrow> nat" where
  "decimal_digits v = (if v \<ge> 10 then Suc (decimal_digits (v div 10)) else 1)"
  by pat_completeness auto
termination
proof (relation "measure unat", goal_cases)
  case (2 v)
  then have "10 \<le> unat v" by (simp add: word_le_nat_alt)
  then show ?case by (simp add: unat_div_10)
qed simp

function hex_digits :: "u64 \<Rightarrow> nat" where
  "hex_digits v = (if v \<ge> 16 then Suc (hex_digits (drop_bit 4 v)) else 1)"
  by pat_completeness auto
termination
proof (relation "measure unat", goal_cases)
  case (2 v)
  then have "16 \<le> unat v" by (simp add: word_le_nat_alt)
  then show ?case by (simp add: drop_bit_eq_div unat_div)
qed simp

declare decimal_digits.simps [simp del] hex_digits.simps [simp del]

definition append_decimal :: "string \<Rightarrow> u64 \<Rightarrow> string" where
  "append_decimal out v = out @ rev (decimal_loop v)"

definition kHexDigits :: string where
  "kHexDigits = ''0123456789abcdef''"

function hex_loop :: "u64 \<Rightarrow> string" where
  "hex_loop v =
     (let c = kHexDigits ! unat (v AND 0xF) in
      if drop_bit 4 v = 0 then [c] else c # hex_loop (drop_bit 4 v))"
  by pat_completeness auto
termination
proof (relation "measure unat", goal_cases)
  case (2 v c)
  then have "v \<noteq> 0" by auto
  then have "0 < unat v" by (simp add: unat_gt_0)
  then show ?case by (simp add: drop_bit_eq_div unat_div)
qed simp

declare hex_loop.simps [simp del]

definition append_hex :: "string \<Rightarrow> u64 \<Rightarrow> string" where
  "append_hex out v = out @ rev (hex_loop v)"

definition suffix_length :: "u64 \<Rightarrow> u64 \<Rightarrow> u64 \<Rightarrow> nat" where
  "suffix_length pid sequence mix = 3 + decimal_digits pid + decimal_digits sequence + hex_digits mix"

definition compose :: "string \<Rightarrow> u64 \<Rightarrow> u64 \<Rightarrow> u64 \<Rightarrow> string" where
  "compose prefix pid sequence mix =
     (let suffix = suffix_length pid sequence mix;
          keep = (if length prefix + suffix > kMaxIdentityLength
                  then (if suffix < kMaxIdentityLength then kMaxIdentityLength - suffix else 0)
                  else length prefix);
          out0 = take keep prefix @ ''-'';
          out1 = append_decimal out0 pid @ ''-'';
          out2 = append_decimal out1 sequence @ ''-''
      in append_hex out2 mix)"

text \<open>
  The boot sequence counter is process-global state: the call increments it and uses the new
  value, so it is passed in and returned.
\<close>

definition make_boot_id_text :: "u64 \<Rightarrow> u64 \<Rightarrow> string \<Rightarrow> u64 \<Rightarrow> string \<times> u64" where
  "make_boot_id_text pid ticks prefix boot_sequence =
     (let safe_prefix = (if iv_ok (validate_identity prefix) then prefix else kFallbackPrefix);
          sequence = boot_sequence + 1;
          mix = clock_mix ticks;
          text = compose safe_prefix pid sequence mix
      in (if \<not> iv_ok (validate_identity text) then compose [] pid sequence mix else text, sequence))"

definition make_rack_agent_boot_id ::
  "u64 \<Rightarrow> u64 \<Rightarrow> u64 \<Rightarrow> string \<Rightarrow> u64 \<Rightarrow> boot_id option \<times> u64" where
  "make_rack_agent_boot_id pid ticks0 ticks1 prefix seq0 =
     (let (text0, seq1) = make_boot_id_text pid ticks0 prefix seq0 in
      case id_parse text0 of
        Some b \<Rightarrow> (Some b, seq1)
      | None \<Rightarrow>
          let (text1, seq2) = make_boot_id_text pid ticks1 kFallbackPrefix seq1 in
          (case id_parse text1 of
             Some b \<Rightarrow> (Some b, seq2)
           | None \<Rightarrow> (id_parse kLastResortBootText, seq2)))"

lemma word_div_16_eq_0: "(v div 16 :: u64) = 0 \<longleftrightarrow> unat v < 16"
proof -
  have "unat (v div 16) = unat v div 16" by (simp add: unat_div)
  then show ?thesis by (metis div_eq_0_iff unat_eq_zero zero_neq_numeral)
qed

lemma word_and_15: "unat (v AND 0xF :: u64) = unat v mod 16"
proof -
  have "(v AND 0xF) = take_bit 4 v" by (simp add: take_bit_eq_mask mask_eq_exp_minus_1)
  then show ?thesis by (simp add: take_bit_eq_mod unat_mod)
qed

lemma decimal_digits_eq: "decimal_digits v = length (decimal_loop v)"
proof (induction v rule: decimal_digits.induct)
  case (1 v)
  have "v \<ge> 10 \<longleftrightarrow> v div 10 \<noteq> 0" by (auto simp: word_div_10_eq_0 word_le_nat_alt)
  with 1 show ?case
    by (simp add: decimal_digits.simps [of v] decimal_loop.simps [of v] Let_def)
qed

lemma hex_digits_eq: "hex_digits v = length (hex_loop v)"
proof (induction v rule: hex_digits.induct)
  case (1 v)
  have "v \<ge> 16 \<longleftrightarrow> drop_bit 4 v \<noteq> 0"
    by (auto simp: drop_bit_eq_div word_div_16_eq_0 word_le_nat_alt)
  with 1 show ?case
    by (simp add: hex_digits.simps [of v] hex_loop.simps [of v] Let_def)
qed

lemma hex_loop_chars: "set (hex_loop v) \<subseteq> set kHexDigits"
proof (induction v rule: hex_loop.induct)
  case (1 v)
  have "unat (v AND 0xF) < length kHexDigits" by (simp add: word_and_15 kHexDigits_def)
  then have "kHexDigits ! unat (v AND 0xF) \<in> set kHexDigits" by (rule nth_mem)
  with 1 show ?case by (simp add: hex_loop.simps [of v] Let_def)
qed

lemma hex_loop_bound: "length (hex_loop v) = Suc n \<Longrightarrow> 0 < n \<Longrightarrow> 16 ^ n \<le> unat v"
proof (induction v arbitrary: n rule: hex_loop.induct)
  case (1 v)
  have nz: "drop_bit 4 v \<noteq> 0"
    using "1.prems" by (subst (asm) hex_loop.simps) (auto simp: Let_def)
  then have len: "length (hex_loop (drop_bit 4 v)) = n"
    using "1.prems" by (subst (asm) hex_loop.simps) (simp add: Let_def)
  have v16: "16 \<le> unat v" using nz by (simp add: drop_bit_eq_div word_div_16_eq_0)
  obtain k where k: "n = Suc k" using "1.prems" by (cases n) auto
  show ?case
  proof (cases "k = 0")
    case True
    then show ?thesis using v16 k by simp
  next
    case False
    then have "16 ^ k \<le> unat (drop_bit 4 v)" using "1.IH" [OF refl nz] len k by simp
    then show ?thesis
      using k by (simp add: drop_bit_eq_div unat_div less_eq_div_iff_mult_less_eq mult.commute)
  qed
qed

lemma hex_loop_length: "length (hex_loop v) \<le> 16"
proof (rule ccontr)
  assume "\<not> length (hex_loop v) \<le> 16"
  then obtain n where n: "length (hex_loop v) = Suc n" "16 \<le> n"
    by (metis Suc_le_D not_less_eq_eq)
  then have "16 ^ n \<le> unat v" by (intro hex_loop_bound) auto
  moreover have "(16::nat) ^ 16 \<le> 16 ^ n" using n(2) by (rule power_increasing) simp
  moreover have "unat v < 2 ^ 64" using unsigned_less [of v] by simp
  ultimately show False by simp
qed

lemma hex_loop_nonempty: "hex_loop v \<noteq> []"
  by (simp add: hex_loop.simps [of v] Let_def)

lemma hex_loop_inject: "hex_loop v = hex_loop w \<Longrightarrow> v = w"
proof (induction v arbitrary: w rule: hex_loop.induct)
  case (1 v)
  have lt: "unat (x AND 0xF :: u64) < 16" for x by (simp add: word_and_15)
  have "kHexDigits ! unat (v AND 0xF) = kHexDigits ! unat (w AND 0xF)"
    using "1.prems" by (simp add: hex_loop.simps [of v] hex_loop.simps [of w] Let_def split: if_splits)
  moreover have "distinct kHexDigits" by (simp add: kHexDigits_def)
  ultimately have low: "v AND 0xF = w AND 0xF"
    using lt [of v] lt [of w] by (simp add: nth_eq_iff_index_eq kHexDigits_def word_unat_eq_iff)
  have high: "drop_bit 4 v = drop_bit 4 w"
  proof (cases "drop_bit 4 v = 0")
    case True
    then show ?thesis
      using "1.prems" hex_loop_nonempty [of "drop_bit 4 w"]
      by (auto simp: hex_loop.simps [of v] hex_loop.simps [of w] Let_def split: if_splits)
  next
    case False
    then have "hex_loop (drop_bit 4 v) = hex_loop (drop_bit 4 w)"
      using "1.prems" hex_loop_nonempty [of "drop_bit 4 v"] by (auto simp: hex_loop.simps [of v] hex_loop.simps [of w] Let_def split: if_splits)
    then show ?thesis by (rule "1.IH" [OF refl False])
  qed
  have "unat x = unat (drop_bit 4 x) * 16 + unat (x AND 0xF)" for x :: u64
    by (simp add: word_and_15 drop_bit_eq_div unat_div)
  then show ?case using low high by (metis word_unat_eq_iff)
qed

lemma hex_digit_identity_char:
  assumes "c \<in> set kHexDigits"
  shows "is_identity_char c \<and> c \<noteq> CHR ''-'' \<and> c \<noteq> CHR ''.''"
proof -
  have "list_all (\<lambda>c. is_identity_char c \<and> c \<noteq> CHR ''-'' \<and> c \<noteq> CHR ''.'') kHexDigits" by code_simp
  with assms show ?thesis by (simp add: list_all_iff)
qed

lemma digit_identity_char:
  assumes "is_digit c"
  shows "is_identity_char c \<and> c \<noteq> CHR ''-'' \<and> c \<noteq> CHR ''.''"
proof -
  have "\<not> is_digit CHR ''-''" "\<not> is_digit CHR ''.''" by code_simp+
  with assms show ?thesis by (auto simp: is_identity_char_def is_digit_def)
qed

definition boot_suffix :: "u64 \<Rightarrow> u64 \<Rightarrow> u64 \<Rightarrow> string" where
  "boot_suffix pid sequence mix =
     ''-'' @ rev (decimal_loop pid) @ ''-'' @ rev (decimal_loop sequence) @ ''-'' @ rev (hex_loop mix)"

lemma length_boot_suffix: "length (boot_suffix pid sequence mix) = suffix_length pid sequence mix"
  by (simp add: boot_suffix_def suffix_length_def decimal_digits_eq hex_digits_eq)

lemma suffix_length_bound: "suffix_length pid sequence mix \<le> 59"
  using decimal_loop_length [of pid] decimal_loop_length [of sequence] hex_loop_length [of mix]
  by (simp add: suffix_length_def decimal_digits_eq hex_digits_eq)

lemma compose_eq:
  "compose prefix pid sequence mix
     = take (kMaxIdentityLength - suffix_length pid sequence mix) prefix @ boot_suffix pid sequence mix"
  using suffix_length_bound [of pid sequence mix]
  by (auto simp: compose_def boot_suffix_def append_decimal_def append_hex_def Let_def
      kMaxIdentityLength_def)

lemma boot_suffix_chars:
  assumes "c \<in> set (boot_suffix pid sequence mix)"
  shows "is_identity_char c \<and> c \<noteq> CHR ''.''"
proof -
  have dash: "is_identity_char CHR ''-'' \<and> CHR ''-'' \<noteq> CHR ''.''" by code_simp
  have "c = CHR ''-'' \<or> is_digit c \<or> c \<in> set kHexDigits"
    using assms decimal_loop_digits [of pid] decimal_loop_digits [of sequence] hex_loop_chars [of mix]
    unfolding boot_suffix_def by (simp only: set_append set_rev) auto
  then show ?thesis
    using dash digit_identity_char [of c] hex_digit_identity_char [of c] by blast
qed

lemma no_double_dot_append:
  assumes "find_double_dot 0 xs = None" and "CHR ''.'' \<notin> set ys"
  shows "find_double_dot 0 (xs @ ys) = None"
proof -
  have "False" if e: "xs @ ys = us @ ''..'' @ vs" for us vs
  proof -
    from e consider (left) zs where "xs = us @ zs" "zs @ ys = ''..'' @ vs"
      | (right) zs where "xs @ zs = us" "ys = zs @ ''..'' @ vs"
      by (auto simp: append_eq_append_conv2)
    then show False
    proof cases
      case left
      then have "zs = [] \<or> zs = ''.'' \<or> (\<exists>ws. zs = ''..'' @ ws)"
        by (cases zs; cases "tl zs") auto
      with left assms show False unfolding find_double_dot_None_iff by auto
    next
      case right
      with assms(2) show False by simp
    qed
  qed
  then show ?thesis unfolding find_double_dot_None_iff by blast
qed

lemma no_double_dot_take:
  assumes "find_double_dot 0 xs = None"
  shows "find_double_dot 0 (take n xs) = None"
proof -
  have False if "take n xs = us @ ''..'' @ vs" for us vs
  proof -
    from that have "xs = us @ ''..'' @ (vs @ drop n xs)"
      using append_take_drop_id [of n xs] by simp
    with assms show False unfolding find_double_dot_None_iff by blast
  qed
  then show ?thesis unfolding find_double_dot_None_iff by blast
qed

lemma compose_valid:
  assumes "prefix = [] \<or> iv_ok (validate_identity prefix)"
  shows "iv_ok (validate_identity (compose prefix pid sequence mix))"
proof -
  let ?keep = "kMaxIdentityLength - suffix_length pid sequence mix"
  have p: "\<forall>c \<in> set prefix. is_identity_char c" "find_double_dot 0 prefix = None"
    using assms by (auto simp: validate_identity_ok_iff first_refused_None_iff)
  have "length (compose prefix pid sequence mix) \<le> kMaxIdentityLength"
    using suffix_length_bound [of pid sequence mix]
    by (auto simp: compose_eq length_boot_suffix kMaxIdentityLength_def)
  moreover have "compose prefix pid sequence mix \<noteq> []" and dash: "CHR ''-'' \<in> set (compose prefix pid sequence mix)"
    by (simp_all add: compose_eq boot_suffix_def)
  moreover have "compose prefix pid sequence mix \<noteq> ''.''" using dash by auto
  moreover have "\<forall>c \<in> set (compose prefix pid sequence mix). is_identity_char c"
    using p(1) boot_suffix_chars unfolding compose_eq set_append by (blast dest: in_set_takeD)
  moreover have "find_double_dot 0 (compose prefix pid sequence mix) = None"
    unfolding compose_eq using p(2) boot_suffix_chars
    by (intro no_double_dot_append no_double_dot_take) blast+
  ultimately show ?thesis by (simp add: validate_identity_ok_iff first_refused_None_iff)
qed

lemma split_last_dash:
  assumes "xs @ d # ys = xs' @ d # ys'" and "d \<notin> set ys" and "d \<notin> set ys'"
  shows "xs = xs' \<and> ys = ys'"
proof -
  have "rev ys @ d # rev xs = rev ys' @ d # rev xs'"
    using arg_cong [OF assms(1), of rev] by simp
  moreover have "takeWhile (\<lambda>c. c \<noteq> d) (rev zs @ d # ws) = rev zs" if "d \<notin> set zs" for zs ws
    using that by (subst takeWhile_append2) auto
  ultimately have "rev ys = rev ys'" using assms(2,3) by metis
  moreover note \<open>rev ys @ d # rev xs = rev ys' @ d # rev xs'\<close>
  ultimately show ?thesis by simp
qed

lemma dash_not_decimal: "CHR ''-'' \<notin> set (rev (decimal_loop v))"
  using decimal_loop_digits [of v] digit_identity_char by auto

lemma dash_not_hex: "CHR ''-'' \<notin> set (rev (hex_loop v))"
  using hex_loop_chars [of v] hex_digit_identity_char by auto

lemma compose_inject:
  assumes "compose prefix pid sequence mix = compose prefix' pid' sequence' mix'"
  shows "pid = pid' \<and> sequence = sequence' \<and> mix = mix'"
proof -
  define p where "p = take (kMaxIdentityLength - suffix_length pid sequence mix) prefix"
  define p' where "p' = take (kMaxIdentityLength - suffix_length pid' sequence' mix') prefix'"
  let ?d = "\<lambda>v. rev (decimal_loop v)" and ?h = "\<lambda>v. rev (hex_loop v)" and ?m = "CHR ''-''"
  have e: "((p @ ?m # ?d pid) @ ?m # ?d sequence) @ ?m # ?h mix
      = ((p' @ ?m # ?d pid') @ ?m # ?d sequence') @ ?m # ?h mix'"
    using assms by (simp add: compose_eq boot_suffix_def p_def p'_def)
  from split_last_dash [OF e dash_not_hex dash_not_hex]
  have 1: "(p @ ?m # ?d pid) @ ?m # ?d sequence = (p' @ ?m # ?d pid') @ ?m # ?d sequence'"
    and h: "?h mix = ?h mix'" by simp_all
  from split_last_dash [OF 1 dash_not_decimal dash_not_decimal]
  have 2: "p @ ?m # ?d pid = p' @ ?m # ?d pid'" and s: "?d sequence = ?d sequence'" by simp_all
  from split_last_dash [OF 2 dash_not_decimal dash_not_decimal] have "?d pid = ?d pid'" by simp
  with h s show ?thesis by (simp add: decimal_loop_inject hex_loop_inject)
qed

lemma kFallbackPrefix_valid: "iv_ok (validate_identity kFallbackPrefix)"
  by code_simp

lemma make_boot_id_text_eq:
  "make_boot_id_text pid ticks prefix seq =
     (compose (if iv_ok (validate_identity prefix) then prefix else kFallbackPrefix) pid (seq + 1)
        (clock_mix ticks), seq + 1)"
  by (simp add: make_boot_id_text_def Let_def compose_valid kFallbackPrefix_valid)

lemma make_rack_agent_boot_id_eq:
  "make_rack_agent_boot_id pid ticks0 ticks1 prefix seq =
     (Some (StrongId (fst (make_boot_id_text pid ticks0 prefix seq))), seq + 1)"
  by (simp add: make_rack_agent_boot_id_def make_boot_id_text_eq id_parse_def compose_valid
      kFallbackPrefix_valid)

subsection \<open>Properties\<close>

text \<open>
  C36. Identity validation accepts exactly the nonempty texts of at most 128 allowed characters that are
  not a single dot and contain no double dot anywhere.
\<close>

theorem validate_identity_exact:
  "iv_ok (validate_identity v) \<longleftrightarrow>
     v \<noteq> [] \<and> length v \<le> 128 \<and> list_all is_identity_char v \<and> v \<noteq> ''.''
     \<and> (\<nexists>xs ys. v = xs @ ''..'' @ ys)"
  by (auto simp: validate_identity_ok_iff first_refused_None_iff find_double_dot_None_iff
      kMaxIdentityLength_def list_all_iff)

text \<open>
  C37. Every incarnation gets an identity that validates, whatever prefix it asks for and whatever the
  clock reads, and two incarnations with the same identity have the same process id and the same
  position in the sequence of that process. The last-resort text of the code is never used.
\<close>

theorem boot_identities_distinct:
  assumes "make_rack_agent_boot_id pid ticks0 ticks1 prefix seq = (b, next_seq)"
    and "make_rack_agent_boot_id pid' ticks0' ticks1' prefix' seq' = (b, next_seq')"
  shows "b \<noteq> None \<and> iv_ok (validate_identity (id_value (the b))) \<and> pid' = pid \<and> seq' = seq
     \<and> next_seq = seq + 1"
proof -
  let ?text = "\<lambda>pid t p seq. fst (make_boot_id_text pid t p seq)"
  have b: "b = Some (StrongId (?text pid ticks0 prefix seq))" "next_seq = seq + 1"
    "b = Some (StrongId (?text pid' ticks0' prefix' seq'))"
    using assms unfolding make_rack_agent_boot_id_eq by auto
  then have "?text pid ticks0 prefix seq = ?text pid' ticks0' prefix' seq'" by simp
  then have "pid = pid' \<and> seq + 1 = seq' + 1" unfolding make_boot_id_text_eq fst_conv
    by (blast dest: compose_inject)
  moreover have "iv_ok (validate_identity (?text pid ticks0 prefix seq))"
    by (simp add: make_boot_id_text_eq compose_valid kFallbackPrefix_valid)
  ultimately show ?thesis using b by simp
qed

theorem boot_identities_distinct_witness:
  "fst (make_rack_agent_boot_id 7 1 1 ''agent'' 0) \<noteq> fst (make_rack_agent_boot_id 8 1 1 ''agent'' 0)"
proof
  assume "fst (make_rack_agent_boot_id 7 1 1 ''agent'' 0) = fst (make_rack_agent_boot_id 8 1 1 ''agent'' 0)"
  then have "make_rack_agent_boot_id 8 1 1 ''agent'' 0 =
      (fst (make_rack_agent_boot_id 7 1 1 ''agent'' 0), snd (make_rack_agent_boot_id 8 1 1 ''agent'' 0))"
    by simp
  from boot_identities_distinct [OF prod.collapse [symmetric] this] show False by simp
qed

end
