(* ===== verification/Taxonomy.thy ===== *)
theory Taxonomy
  imports Enum_Names
begin

text \<open>
  The classification enumerations (src/include/cluster_fabric/taxonomy.hpp) and their text forms
  (src/src/taxonomy.cpp). Each enumeration is a datatype with the source's enumerators; each name
  table is transcribed row by row and interpreted as an \<open>enum_names\<close>, which gives the round trip of
  rendering and parsing for every class. In this file the enumerator spelling \<^verbatim>\<open>Unknown\<close> is refused:
  absence of classification is written \<^verbatim>\<open>UNKNOWN\<close> only.
\<close>

datatype failure_domain_class =
  FDC_Unknown | FDC_Rack | FDC_Row | FDC_SwitchPlane | FDC_PowerFeed | FDC_NetworkPlane
  | FDC_AvailabilityZone | FDC_StorageDomain | FDC_CoolingLoop | FDC_ControlPlane

definition kFailureDomainClassNames :: "failure_domain_class enum_name list" where
  "kFailureDomainClassNames =
    [enum_name FDC_Unknown ''UNKNOWN'' ''Unknown'',
     enum_name FDC_Rack ''RACK'' ''Rack'',
     enum_name FDC_Row ''ROW'' ''Row'',
     enum_name FDC_SwitchPlane ''SWITCH_PLANE'' ''SwitchPlane'',
     enum_name FDC_PowerFeed ''POWER_FEED'' ''PowerFeed'',
     enum_name FDC_NetworkPlane ''NETWORK_PLANE'' ''NetworkPlane'',
     enum_name FDC_AvailabilityZone ''AVAILABILITY_ZONE'' ''AvailabilityZone'',
     enum_name FDC_StorageDomain ''STORAGE_DOMAIN'' ''StorageDomain'',
     enum_name FDC_CoolingLoop ''COOLING_LOOP'' ''CoolingLoop'',
     enum_name FDC_ControlPlane ''CONTROL_PLANE'' ''ControlPlane'']"

definition failure_domain_class_to_string :: "failure_domain_class \<Rightarrow> string" where
  "failure_domain_class_to_string v = render_names kFailureDomainClassNames v"

definition failure_domain_class_from_string :: "string \<Rightarrow> failure_domain_class option" where
  "failure_domain_class_from_string s = parse_names (\<lambda>v. v \<noteq> FDC_Unknown) kFailureDomainClassNames s"

interpretation failure_domain_class_text: enum_names kFailureDomainClassNames "\<lambda>v. v \<noteq> FDC_Unknown" failure_domain_class_to_string
proof
  show "\<exists>n \<in> set kFailureDomainClassNames. en_value n = v \<and> en_canonical n = failure_domain_class_to_string v" for v
    by (cases v) (simp_all add: failure_domain_class_to_string_def kFailureDomainClassNames_def)
  show "spellings_distinct kFailureDomainClassNames" by code_simp
qed

datatype placement_domain_class =
  PDC_Unknown | PDC_LowLatencyFabric | PDC_AvailabilityDomain | PDC_NetworkTier
  | PDC_PowerBoundary | PDC_StorageLocality | PDC_FailureDomain | PDC_PolicyClass

definition kPlacementDomainClassNames :: "placement_domain_class enum_name list" where
  "kPlacementDomainClassNames =
    [enum_name PDC_Unknown ''UNKNOWN'' ''Unknown'',
     enum_name PDC_LowLatencyFabric ''LOW_LATENCY_FABRIC'' ''LowLatencyFabric'',
     enum_name PDC_AvailabilityDomain ''AVAILABILITY_DOMAIN'' ''AvailabilityDomain'',
     enum_name PDC_NetworkTier ''NETWORK_TIER'' ''NetworkTier'',
     enum_name PDC_PowerBoundary ''POWER_BOUNDARY'' ''PowerBoundary'',
     enum_name PDC_StorageLocality ''STORAGE_LOCALITY'' ''StorageLocality'',
     enum_name PDC_FailureDomain ''FAILURE_DOMAIN'' ''FailureDomain'',
     enum_name PDC_PolicyClass ''POLICY_CLASS'' ''PolicyClass'']"

definition placement_domain_class_to_string :: "placement_domain_class \<Rightarrow> string" where
  "placement_domain_class_to_string v = render_names kPlacementDomainClassNames v"

definition placement_domain_class_from_string :: "string \<Rightarrow> placement_domain_class option" where
  "placement_domain_class_from_string s = parse_names (\<lambda>v. v \<noteq> PDC_Unknown) kPlacementDomainClassNames s"

interpretation placement_domain_class_text: enum_names kPlacementDomainClassNames "\<lambda>v. v \<noteq> PDC_Unknown" placement_domain_class_to_string
proof
  show "\<exists>n \<in> set kPlacementDomainClassNames. en_value n = v \<and> en_canonical n = placement_domain_class_to_string v" for v
    by (cases v) (simp_all add: placement_domain_class_to_string_def kPlacementDomainClassNames_def)
  show "spellings_distinct kPlacementDomainClassNames" by code_simp
qed

datatype capacity_domain_class =
  CDC_Unknown | CDC_RackGroup | CDC_AcceleratorPool | CDC_CpuPool | CDC_NetworkDomain
  | CDC_StorageDomain

definition kCapacityDomainClassNames :: "capacity_domain_class enum_name list" where
  "kCapacityDomainClassNames =
    [enum_name CDC_Unknown ''UNKNOWN'' ''Unknown'',
     enum_name CDC_RackGroup ''RACK_GROUP'' ''RackGroup'',
     enum_name CDC_AcceleratorPool ''ACCELERATOR_POOL'' ''AcceleratorPool'',
     enum_name CDC_CpuPool ''CPU_POOL'' ''CpuPool'',
     enum_name CDC_NetworkDomain ''NETWORK_DOMAIN'' ''NetworkDomain'',
     enum_name CDC_StorageDomain ''STORAGE_DOMAIN'' ''StorageDomain'']"

definition capacity_domain_class_to_string :: "capacity_domain_class \<Rightarrow> string" where
  "capacity_domain_class_to_string v = render_names kCapacityDomainClassNames v"

definition capacity_domain_class_from_string :: "string \<Rightarrow> capacity_domain_class option" where
  "capacity_domain_class_from_string s = parse_names (\<lambda>v. v \<noteq> CDC_Unknown) kCapacityDomainClassNames s"

interpretation capacity_domain_class_text: enum_names kCapacityDomainClassNames "\<lambda>v. v \<noteq> CDC_Unknown" capacity_domain_class_to_string
proof
  show "\<exists>n \<in> set kCapacityDomainClassNames. en_value n = v \<and> en_canonical n = capacity_domain_class_to_string v" for v
    by (cases v) (simp_all add: capacity_domain_class_to_string_def kCapacityDomainClassNames_def)
  show "spellings_distinct kCapacityDomainClassNames" by code_simp
qed

datatype connectivity_class =
  CC_Unknown | CC_DirectFabric | CC_SwitchedFabric | CC_RoutedPath | CC_Overlay
  | CC_ManagementOnly

definition kConnectivityClassNames :: "connectivity_class enum_name list" where
  "kConnectivityClassNames =
    [enum_name CC_Unknown ''UNKNOWN'' ''Unknown'',
     enum_name CC_DirectFabric ''DIRECT_FABRIC'' ''DirectFabric'',
     enum_name CC_SwitchedFabric ''SWITCHED_FABRIC'' ''SwitchedFabric'',
     enum_name CC_RoutedPath ''ROUTED_PATH'' ''RoutedPath'',
     enum_name CC_Overlay ''OVERLAY'' ''Overlay'',
     enum_name CC_ManagementOnly ''MANAGEMENT_ONLY'' ''ManagementOnly'']"

definition connectivity_class_to_string :: "connectivity_class \<Rightarrow> string" where
  "connectivity_class_to_string v = render_names kConnectivityClassNames v"

definition connectivity_class_from_string :: "string \<Rightarrow> connectivity_class option" where
  "connectivity_class_from_string s = parse_names (\<lambda>v. v \<noteq> CC_Unknown) kConnectivityClassNames s"

interpretation connectivity_class_text: enum_names kConnectivityClassNames "\<lambda>v. v \<noteq> CC_Unknown" connectivity_class_to_string
proof
  show "\<exists>n \<in> set kConnectivityClassNames. en_value n = v \<and> en_canonical n = connectivity_class_to_string v" for v
    by (cases v) (simp_all add: connectivity_class_to_string_def kConnectivityClassNames_def)
  show "spellings_distinct kConnectivityClassNames" by code_simp
qed

datatype link_direction =
  LD_Unknown | LD_Unidirectional | LD_Bidirectional

definition kLinkDirectionNames :: "link_direction enum_name list" where
  "kLinkDirectionNames =
    [enum_name LD_Unknown ''UNKNOWN'' ''Unknown'',
     enum_name LD_Unidirectional ''UNIDIRECTIONAL'' ''Unidirectional'',
     enum_name LD_Bidirectional ''BIDIRECTIONAL'' ''Bidirectional'']"

definition link_direction_to_string :: "link_direction \<Rightarrow> string" where
  "link_direction_to_string v = render_names kLinkDirectionNames v"

definition link_direction_from_string :: "string \<Rightarrow> link_direction option" where
  "link_direction_from_string s = parse_names (\<lambda>v. v \<noteq> LD_Unknown) kLinkDirectionNames s"

interpretation link_direction_text: enum_names kLinkDirectionNames "\<lambda>v. v \<noteq> LD_Unknown" link_direction_to_string
proof
  show "\<exists>n \<in> set kLinkDirectionNames. en_value n = v \<and> en_canonical n = link_direction_to_string v" for v
    by (cases v) (simp_all add: link_direction_to_string_def kLinkDirectionNames_def)
  show "spellings_distinct kLinkDirectionNames" by code_simp
qed

datatype reachability =
  RB_Unknown | RB_Reachable | RB_Unreachable | RB_RevalidationRequired

definition kReachabilityNames :: "reachability enum_name list" where
  "kReachabilityNames =
    [enum_name RB_Unknown ''UNKNOWN'' ''Unknown'',
     enum_name RB_Reachable ''REACHABLE'' ''Reachable'',
     enum_name RB_Unreachable ''UNREACHABLE'' ''Unreachable'',
     enum_name RB_RevalidationRequired ''REVALIDATION_REQUIRED'' ''RevalidationRequired'']"

definition reachability_to_string :: "reachability \<Rightarrow> string" where
  "reachability_to_string v = render_names kReachabilityNames v"

definition reachability_from_string :: "string \<Rightarrow> reachability option" where
  "reachability_from_string s = parse_names (\<lambda>v. v \<noteq> RB_Unknown) kReachabilityNames s"

interpretation reachability_text: enum_names kReachabilityNames "\<lambda>v. v \<noteq> RB_Unknown" reachability_to_string
proof
  show "\<exists>n \<in> set kReachabilityNames. en_value n = v \<and> en_canonical n = reachability_to_string v" for v
    by (cases v) (simp_all add: reachability_to_string_def kReachabilityNames_def)
  show "spellings_distinct kReachabilityNames" by code_simp
qed

datatype bandwidth_class =
  BW_Unknown | BW_Low | BW_Moderate | BW_High | BW_VeryHigh

definition kBandwidthClassNames :: "bandwidth_class enum_name list" where
  "kBandwidthClassNames =
    [enum_name BW_Unknown ''UNKNOWN'' ''Unknown'',
     enum_name BW_Low ''LOW'' ''Low'',
     enum_name BW_Moderate ''MODERATE'' ''Moderate'',
     enum_name BW_High ''HIGH'' ''High'',
     enum_name BW_VeryHigh ''VERY_HIGH'' ''VeryHigh'']"

definition bandwidth_class_to_string :: "bandwidth_class \<Rightarrow> string" where
  "bandwidth_class_to_string v = render_names kBandwidthClassNames v"

definition bandwidth_class_from_string :: "string \<Rightarrow> bandwidth_class option" where
  "bandwidth_class_from_string s = parse_names (\<lambda>v. v \<noteq> BW_Unknown) kBandwidthClassNames s"

interpretation bandwidth_class_text: enum_names kBandwidthClassNames "\<lambda>v. v \<noteq> BW_Unknown" bandwidth_class_to_string
proof
  show "\<exists>n \<in> set kBandwidthClassNames. en_value n = v \<and> en_canonical n = bandwidth_class_to_string v" for v
    by (cases v) (simp_all add: bandwidth_class_to_string_def kBandwidthClassNames_def)
  show "spellings_distinct kBandwidthClassNames" by code_simp
qed

datatype latency_class =
  LT_Unknown | LT_VeryLow | LT_Low | LT_Moderate | LT_High

definition kLatencyClassNames :: "latency_class enum_name list" where
  "kLatencyClassNames =
    [enum_name LT_Unknown ''UNKNOWN'' ''Unknown'',
     enum_name LT_VeryLow ''VERY_LOW'' ''VeryLow'',
     enum_name LT_Low ''LOW'' ''Low'',
     enum_name LT_Moderate ''MODERATE'' ''Moderate'',
     enum_name LT_High ''HIGH'' ''High'']"

definition latency_class_to_string :: "latency_class \<Rightarrow> string" where
  "latency_class_to_string v = render_names kLatencyClassNames v"

definition latency_class_from_string :: "string \<Rightarrow> latency_class option" where
  "latency_class_from_string s = parse_names (\<lambda>v. v \<noteq> LT_Unknown) kLatencyClassNames s"

interpretation latency_class_text: enum_names kLatencyClassNames "\<lambda>v. v \<noteq> LT_Unknown" latency_class_to_string
proof
  show "\<exists>n \<in> set kLatencyClassNames. en_value n = v \<and> en_canonical n = latency_class_to_string v" for v
    by (cases v) (simp_all add: latency_class_to_string_def kLatencyClassNames_def)
  show "spellings_distinct kLatencyClassNames" by code_simp
qed

datatype accelerator_vendor =
  AV_Unknown | AV_Nvidia | AV_Amd | AV_Intel | AV_Other

definition kAcceleratorVendorNames :: "accelerator_vendor enum_name list" where
  "kAcceleratorVendorNames =
    [enum_name AV_Unknown ''UNKNOWN'' ''Unknown'',
     enum_name AV_Nvidia ''NVIDIA'' ''Nvidia'',
     enum_name AV_Amd ''AMD'' ''Amd'',
     enum_name AV_Intel ''INTEL'' ''Intel'',
     enum_name AV_Other ''OTHER'' ''Other'']"

definition accelerator_vendor_to_string :: "accelerator_vendor \<Rightarrow> string" where
  "accelerator_vendor_to_string v = render_names kAcceleratorVendorNames v"

definition accelerator_vendor_from_string :: "string \<Rightarrow> accelerator_vendor option" where
  "accelerator_vendor_from_string s = parse_names (\<lambda>v. v \<noteq> AV_Unknown) kAcceleratorVendorNames s"

interpretation accelerator_vendor_text: enum_names kAcceleratorVendorNames "\<lambda>v. v \<noteq> AV_Unknown" accelerator_vendor_to_string
proof
  show "\<exists>n \<in> set kAcceleratorVendorNames. en_value n = v \<and> en_canonical n = accelerator_vendor_to_string v" for v
    by (cases v) (simp_all add: accelerator_vendor_to_string_def kAcceleratorVendorNames_def)
  show "spellings_distinct kAcceleratorVendorNames" by code_simp
qed

datatype health_state =
  HS_Unknown | HS_Healthy | HS_Degraded | HS_Unhealthy

definition kHealthStateNames :: "health_state enum_name list" where
  "kHealthStateNames =
    [enum_name HS_Unknown ''UNKNOWN'' ''Unknown'',
     enum_name HS_Healthy ''HEALTHY'' ''Healthy'',
     enum_name HS_Degraded ''DEGRADED'' ''Degraded'',
     enum_name HS_Unhealthy ''UNHEALTHY'' ''Unhealthy'']"

definition health_state_to_string :: "health_state \<Rightarrow> string" where
  "health_state_to_string v = render_names kHealthStateNames v"

definition health_state_from_string :: "string \<Rightarrow> health_state option" where
  "health_state_from_string s = parse_names (\<lambda>v. v \<noteq> HS_Unknown) kHealthStateNames s"

interpretation health_state_text: enum_names kHealthStateNames "\<lambda>v. v \<noteq> HS_Unknown" health_state_to_string
proof
  show "\<exists>n \<in> set kHealthStateNames. en_value n = v \<and> en_canonical n = health_state_to_string v" for v
    by (cases v) (simp_all add: health_state_to_string_def kHealthStateNames_def)
  show "spellings_distinct kHealthStateNames" by code_simp
qed

datatype constraint_kind =
  CK_Unknown | CK_PlacementScope | CK_ConnectivityRequirement | CK_FailureDomainIndependence
  | CK_CapacityFloor | CK_MaintenanceWindow

definition kConstraintKindNames :: "constraint_kind enum_name list" where
  "kConstraintKindNames =
    [enum_name CK_Unknown ''UNKNOWN'' ''Unknown'',
     enum_name CK_PlacementScope ''PLACEMENT_SCOPE'' ''PlacementScope'',
     enum_name CK_ConnectivityRequirement ''CONNECTIVITY_REQUIREMENT'' ''ConnectivityRequirement'',
     enum_name CK_FailureDomainIndependence ''FAILURE_DOMAIN_INDEPENDENCE'' ''FailureDomainIndependence'',
     enum_name CK_CapacityFloor ''CAPACITY_FLOOR'' ''CapacityFloor'',
     enum_name CK_MaintenanceWindow ''MAINTENANCE_WINDOW'' ''MaintenanceWindow'']"

definition constraint_kind_to_string :: "constraint_kind \<Rightarrow> string" where
  "constraint_kind_to_string v = render_names kConstraintKindNames v"

definition constraint_kind_from_string :: "string \<Rightarrow> constraint_kind option" where
  "constraint_kind_from_string s = parse_names (\<lambda>v. v \<noteq> CK_Unknown) kConstraintKindNames s"

interpretation constraint_kind_text: enum_names kConstraintKindNames "\<lambda>v. v \<noteq> CK_Unknown" constraint_kind_to_string
proof
  show "\<exists>n \<in> set kConstraintKindNames. en_value n = v \<and> en_canonical n = constraint_kind_to_string v" for v
    by (cases v) (simp_all add: constraint_kind_to_string_def kConstraintKindNames_def)
  show "spellings_distinct kConstraintKindNames" by code_simp
qed

text \<open>Enumerations compare by their underlying value; three of them key maps or sorts.\<close>

fun failure_domain_class_code :: "failure_domain_class \<Rightarrow> nat" where
  "failure_domain_class_code FDC_Unknown = 0"
| "failure_domain_class_code FDC_Rack = 1"
| "failure_domain_class_code FDC_Row = 2"
| "failure_domain_class_code FDC_SwitchPlane = 3"
| "failure_domain_class_code FDC_PowerFeed = 4"
| "failure_domain_class_code FDC_NetworkPlane = 5"
| "failure_domain_class_code FDC_AvailabilityZone = 6"
| "failure_domain_class_code FDC_StorageDomain = 7"
| "failure_domain_class_code FDC_CoolingLoop = 8"
| "failure_domain_class_code FDC_ControlPlane = 9"

lemma failure_domain_class_code_inject: "failure_domain_class_code x = failure_domain_class_code y \<Longrightarrow> x = y"
  by (cases x; cases y) simp_all

instantiation failure_domain_class :: linorder
begin

definition less_eq_failure_domain_class :: "failure_domain_class \<Rightarrow> failure_domain_class \<Rightarrow> bool" where
  "x \<le> y \<longleftrightarrow> failure_domain_class_code x \<le> failure_domain_class_code y"

definition less_failure_domain_class :: "failure_domain_class \<Rightarrow> failure_domain_class \<Rightarrow> bool" where
  "x < y \<longleftrightarrow> failure_domain_class_code x < failure_domain_class_code y"

instance
  by standard (auto simp: less_eq_failure_domain_class_def less_failure_domain_class_def dest: failure_domain_class_code_inject)

end

fun placement_domain_class_code :: "placement_domain_class \<Rightarrow> nat" where
  "placement_domain_class_code PDC_Unknown = 0"
| "placement_domain_class_code PDC_LowLatencyFabric = 1"
| "placement_domain_class_code PDC_AvailabilityDomain = 2"
| "placement_domain_class_code PDC_NetworkTier = 3"
| "placement_domain_class_code PDC_PowerBoundary = 4"
| "placement_domain_class_code PDC_StorageLocality = 5"
| "placement_domain_class_code PDC_FailureDomain = 6"
| "placement_domain_class_code PDC_PolicyClass = 7"

lemma placement_domain_class_code_inject: "placement_domain_class_code x = placement_domain_class_code y \<Longrightarrow> x = y"
  by (cases x; cases y) simp_all

instantiation placement_domain_class :: linorder
begin

definition less_eq_placement_domain_class :: "placement_domain_class \<Rightarrow> placement_domain_class \<Rightarrow> bool" where
  "x \<le> y \<longleftrightarrow> placement_domain_class_code x \<le> placement_domain_class_code y"

definition less_placement_domain_class :: "placement_domain_class \<Rightarrow> placement_domain_class \<Rightarrow> bool" where
  "x < y \<longleftrightarrow> placement_domain_class_code x < placement_domain_class_code y"

instance
  by standard (auto simp: less_eq_placement_domain_class_def less_placement_domain_class_def dest: placement_domain_class_code_inject)

end

fun accelerator_vendor_code :: "accelerator_vendor \<Rightarrow> nat" where
  "accelerator_vendor_code AV_Unknown = 0"
| "accelerator_vendor_code AV_Nvidia = 1"
| "accelerator_vendor_code AV_Amd = 2"
| "accelerator_vendor_code AV_Intel = 3"
| "accelerator_vendor_code AV_Other = 4"

lemma accelerator_vendor_code_inject: "accelerator_vendor_code x = accelerator_vendor_code y \<Longrightarrow> x = y"
  by (cases x; cases y) simp_all

instantiation accelerator_vendor :: linorder
begin

definition less_eq_accelerator_vendor :: "accelerator_vendor \<Rightarrow> accelerator_vendor \<Rightarrow> bool" where
  "x \<le> y \<longleftrightarrow> accelerator_vendor_code x \<le> accelerator_vendor_code y"

definition less_accelerator_vendor :: "accelerator_vendor \<Rightarrow> accelerator_vendor \<Rightarrow> bool" where
  "x < y \<longleftrightarrow> accelerator_vendor_code x < accelerator_vendor_code y"

instance
  by standard (auto simp: less_eq_accelerator_vendor_def less_accelerator_vendor_def dest: accelerator_vendor_code_inject)

end

end
