(* ===== verification/Lifecycle.thy ===== *)
theory Lifecycle
  imports Identity Taxonomy
begin

text \<open>
  Lifecycle enumerations, their text forms and the readiness contract
  (src/include/cluster_fabric/lifecycle.hpp and src/src/lifecycle.cpp). \<open>permissive_contract\<close> and
  \<open>strict_contract\<close> are \<^verbatim>\<open>ReadinessContract::permissive\<close> and \<^verbatim>\<open>ReadinessContract::strict\<close>. Counts of type
  \<^verbatim>\<open>std::size_t\<close> are natural numbers. A readiness blocker is its machine-readable code and its subject;
  the human-readable detail is left out.
\<close>

datatype cluster_lifecycle =
  CL_Declared | CL_Forming | CL_Partial | CL_Ready | CL_Degraded | CL_RevalidationRequired
  | CL_Retiring | CL_Retired

definition kClusterLifecycleNames :: "cluster_lifecycle enum_name list" where
  "kClusterLifecycleNames =
    [enum_name CL_Declared ''DECLARED'' ''Declared'',
     enum_name CL_Forming ''FORMING'' ''Forming'',
     enum_name CL_Partial ''PARTIAL'' ''Partial'',
     enum_name CL_Ready ''READY'' ''Ready'',
     enum_name CL_Degraded ''DEGRADED'' ''Degraded'',
     enum_name CL_RevalidationRequired ''REVALIDATION_REQUIRED'' ''RevalidationRequired'',
     enum_name CL_Retiring ''RETIRING'' ''Retiring'',
     enum_name CL_Retired ''RETIRED'' ''Retired'']"

definition cluster_lifecycle_to_string :: "cluster_lifecycle \<Rightarrow> string" where
  "cluster_lifecycle_to_string v = render_names kClusterLifecycleNames v"

definition cluster_lifecycle_from_string :: "string \<Rightarrow> cluster_lifecycle option" where
  "cluster_lifecycle_from_string s = parse_names (\<lambda>v. True) kClusterLifecycleNames s"

interpretation cluster_lifecycle_text: enum_names kClusterLifecycleNames "\<lambda>v. True" cluster_lifecycle_to_string
proof
  show "\<exists>n \<in> set kClusterLifecycleNames. en_value n = v \<and> en_canonical n = cluster_lifecycle_to_string v" for v
    by (cases v) (simp_all add: cluster_lifecycle_to_string_def kClusterLifecycleNames_def)
  show "spellings_distinct kClusterLifecycleNames" by code_simp
qed

datatype rack_membership_state =
  RM_Unknown | RM_Active | RM_Unavailable | RM_Withdrawn | RM_Retired

definition kRackMembershipStateNames :: "rack_membership_state enum_name list" where
  "kRackMembershipStateNames =
    [enum_name RM_Unknown ''UNKNOWN'' ''Unknown'',
     enum_name RM_Active ''ACTIVE'' ''Active'',
     enum_name RM_Unavailable ''UNAVAILABLE'' ''Unavailable'',
     enum_name RM_Withdrawn ''WITHDRAWN'' ''Withdrawn'',
     enum_name RM_Retired ''RETIRED'' ''Retired'']"

definition rack_membership_state_to_string :: "rack_membership_state \<Rightarrow> string" where
  "rack_membership_state_to_string v = render_names kRackMembershipStateNames v"

definition rack_membership_state_from_string :: "string \<Rightarrow> rack_membership_state option" where
  "rack_membership_state_from_string s = parse_names (\<lambda>v. True) kRackMembershipStateNames s"

interpretation rack_membership_state_text: enum_names kRackMembershipStateNames "\<lambda>v. True" rack_membership_state_to_string
proof
  show "\<exists>n \<in> set kRackMembershipStateNames. en_value n = v \<and> en_canonical n = rack_membership_state_to_string v" for v
    by (cases v) (simp_all add: rack_membership_state_to_string_def kRackMembershipStateNames_def)
  show "spellings_distinct kRackMembershipStateNames" by code_simp
qed

datatype rack_lifecycle_state =
  RL_Unknown | RL_Declared | RL_Forming | RL_Ready | RL_Degraded | RL_Retiring | RL_Retired

definition kRackLifecycleStateNames :: "rack_lifecycle_state enum_name list" where
  "kRackLifecycleStateNames =
    [enum_name RL_Unknown ''UNKNOWN'' ''Unknown'',
     enum_name RL_Declared ''DECLARED'' ''Declared'',
     enum_name RL_Forming ''FORMING'' ''Forming'',
     enum_name RL_Ready ''READY'' ''Ready'',
     enum_name RL_Degraded ''DEGRADED'' ''Degraded'',
     enum_name RL_Retiring ''RETIRING'' ''Retiring'',
     enum_name RL_Retired ''RETIRED'' ''Retired'']"

definition rack_lifecycle_state_to_string :: "rack_lifecycle_state \<Rightarrow> string" where
  "rack_lifecycle_state_to_string v = render_names kRackLifecycleStateNames v"

definition rack_lifecycle_state_from_string :: "string \<Rightarrow> rack_lifecycle_state option" where
  "rack_lifecycle_state_from_string s = parse_names (\<lambda>v. True) kRackLifecycleStateNames s"

interpretation rack_lifecycle_state_text: enum_names kRackLifecycleStateNames "\<lambda>v. True" rack_lifecycle_state_to_string
proof
  show "\<exists>n \<in> set kRackLifecycleStateNames. en_value n = v \<and> en_canonical n = rack_lifecycle_state_to_string v" for v
    by (cases v) (simp_all add: rack_lifecycle_state_to_string_def kRackLifecycleStateNames_def)
  show "spellings_distinct kRackLifecycleStateNames" by code_simp
qed

datatype rack_currentness =
  RC_Unknown | RC_Current | RC_Superseded | RC_RevalidationRequired

definition kRackCurrentnessNames :: "rack_currentness enum_name list" where
  "kRackCurrentnessNames =
    [enum_name RC_Unknown ''UNKNOWN'' ''Unknown'',
     enum_name RC_Current ''CURRENT'' ''Current'',
     enum_name RC_Superseded ''SUPERSEDED'' ''Superseded'',
     enum_name RC_RevalidationRequired ''REVALIDATION_REQUIRED'' ''RevalidationRequired'']"

definition rack_currentness_to_string :: "rack_currentness \<Rightarrow> string" where
  "rack_currentness_to_string v = render_names kRackCurrentnessNames v"

definition rack_currentness_from_string :: "string \<Rightarrow> rack_currentness option" where
  "rack_currentness_from_string s = parse_names (\<lambda>v. True) kRackCurrentnessNames s"

interpretation rack_currentness_text: enum_names kRackCurrentnessNames "\<lambda>v. True" rack_currentness_to_string
proof
  show "\<exists>n \<in> set kRackCurrentnessNames. en_value n = v \<and> en_canonical n = rack_currentness_to_string v" for v
    by (cases v) (simp_all add: rack_currentness_to_string_def kRackCurrentnessNames_def)
  show "spellings_distinct kRackCurrentnessNames" by code_simp
qed

fun rack_membership_state_code :: "rack_membership_state \<Rightarrow> nat" where
  "rack_membership_state_code RM_Unknown = 0"
| "rack_membership_state_code RM_Active = 1"
| "rack_membership_state_code RM_Unavailable = 2"
| "rack_membership_state_code RM_Withdrawn = 3"
| "rack_membership_state_code RM_Retired = 4"

lemma rack_membership_state_code_inject: "rack_membership_state_code x = rack_membership_state_code y \<Longrightarrow> x = y"
  by (cases x; cases y) simp_all

instantiation rack_membership_state :: linorder
begin

definition less_eq_rack_membership_state :: "rack_membership_state \<Rightarrow> rack_membership_state \<Rightarrow> bool" where
  "x \<le> y \<longleftrightarrow> rack_membership_state_code x \<le> rack_membership_state_code y"

definition less_rack_membership_state :: "rack_membership_state \<Rightarrow> rack_membership_state \<Rightarrow> bool" where
  "x < y \<longleftrightarrow> rack_membership_state_code x < rack_membership_state_code y"

instance
  by standard (auto simp: less_eq_rack_membership_state_def less_rack_membership_state_def dest: rack_membership_state_code_inject)

end

definition is_consumable_lifecycle :: "cluster_lifecycle \<Rightarrow> bool" where
  "is_consumable_lifecycle v \<longleftrightarrow> v = CL_Ready \<or> v = CL_Partial \<or> v = CL_Degraded"

definition accepts_mutations :: "cluster_lifecycle \<Rightarrow> bool" where
  "accepts_mutations v \<longleftrightarrow> v \<noteq> CL_Retired"

subsection \<open>The readiness contract\<close>

record readiness_contract =
  rc_minimum_current_racks :: nat
  rc_mandatory_racks :: "rack_id list"
  rc_require_all_active_racks_current :: bool
  rc_require_connectivity_evidence :: bool
  rc_minimum_current_links :: nat
  rc_required_placement_domain_classes :: "placement_domain_class list"
  rc_required_failure_domain_classes :: "failure_domain_class list"
  rc_allow_partial :: bool
  rc_allow_degraded :: bool
  rc_require_no_conflicts :: bool

definition default_contract :: readiness_contract where
  "default_contract =
     \<lparr>rc_minimum_current_racks = 1,
      rc_mandatory_racks = [],
      rc_require_all_active_racks_current = True,
      rc_require_connectivity_evidence = False,
      rc_minimum_current_links = 0,
      rc_required_placement_domain_classes = [],
      rc_required_failure_domain_classes = [],
      rc_allow_partial = True,
      rc_allow_degraded = True,
      rc_require_no_conflicts = True\<rparr>"

definition permissive_contract :: readiness_contract where
  "permissive_contract = default_contract
     \<lparr>rc_minimum_current_racks := 0,
      rc_require_all_active_racks_current := False,
      rc_require_connectivity_evidence := False,
      rc_minimum_current_links := 0,
      rc_allow_partial := True,
      rc_allow_degraded := True,
      rc_require_no_conflicts := False\<rparr>"

definition strict_contract :: readiness_contract where
  "strict_contract = default_contract
     \<lparr>rc_minimum_current_racks := 1,
      rc_require_all_active_racks_current := True,
      rc_require_connectivity_evidence := True,
      rc_minimum_current_links := 1,
      rc_allow_partial := False,
      rc_allow_degraded := False,
      rc_require_no_conflicts := True\<rparr>"

record readiness_blocker =
  rb_code :: string
  rb_subject :: string

record readiness_evaluation =
  re_satisfied :: bool
  re_lifecycle :: cluster_lifecycle
  re_blockers :: "readiness_blocker list"

end
