(* ===== verification/Rack_Reference.thy ===== *)
theory Rack_Reference
  imports Generation Evidence Lifecycle
begin

text \<open>
  The rack reference: the narrow, bounded description of one rack that the cluster authority accepts
  (src/include/cluster_fabric/rack_reference.hpp and src/src/rack_reference.cpp), its validation and
  its canonical form. Optional counts stay \<open>option\<close>s of words: an absent value is UNKNOWN, never zero.
  The explanatory text of a validation result is left out; its issue and subject are kept.
\<close>

definition kMaxFailureDomainRefs :: nat where "kMaxFailureDomainRefs = 256"
definition kMaxRackEndpoints :: nat where "kMaxRackEndpoints = 256"
definition kMaxCapacityQuantities :: nat where "kMaxCapacityQuantities = 64"

record accelerator_class_summary =
  ac_vendor :: accelerator_vendor
  ac_family :: string
  ac_device_count :: "u32 option"
  ac_device_memory_bytes :: "u64 option"

record rack_composition_summary =
  cm_accelerators :: "accelerator_class_summary list"
  cm_cpu_sockets :: "u32 option"
  cm_cpu_cores :: "u32 option"
  cm_host_memory_bytes :: "u64 option"
  cm_nic_count :: "u32 option"
  cm_switch_count :: "u32 option"
  cm_composition_label :: string
  cm_provenance :: evidence_provenance

definition composition_unknown :: rack_composition_summary where
  "composition_unknown =
     \<lparr>cm_accelerators = [], cm_cpu_sockets = None, cm_cpu_cores = None, cm_host_memory_bytes = None,
      cm_nic_count = None, cm_switch_count = None, cm_composition_label = [],
      cm_provenance = EP_Unknown\<rparr>"

record rack_endpoint =
  ep_id :: endpoint_id
  ep_network_domain :: "network_domain_id option"
  ep_link_domain :: "link_domain_id option"
  ep_connectivity :: connectivity_class
  ep_evidence :: evidence_stamp

record rack_failure_domain_hint =
  fh_klass :: failure_domain_class
  fh_id :: failure_domain_id
  fh_evidence :: evidence_stamp

record rack_reference =
  rf_rack :: rack_id
  rf_generation :: rack_generation
  rf_rack_lifecycle :: rack_lifecycle_state
  rf_currentness :: rack_currentness
  rf_composition :: rack_composition_summary
  rf_endpoints :: "rack_endpoint list"
  rf_failure_domain_hints :: "rack_failure_domain_hint list"
  rf_evidence :: evidence_stamp
  rf_publisher :: "publisher_id option"
  rf_publication :: publication_generation
  rf_boot :: boot_id
  rf_cluster_epoch :: cluster_epoch
  rf_coordinator_epoch :: coordinator_epoch
  rf_health :: health_state
  rf_origin_label :: string

text \<open>The default member initialisers of \<^verbatim>\<open>RackReference\<close>.\<close>

definition default_reference :: rack_reference where
  "default_reference =
     \<lparr>rf_rack = id_unknown, rf_generation = counter_zero, rf_rack_lifecycle = RL_Unknown,
      rf_currentness = RC_Unknown, rf_composition = composition_unknown, rf_endpoints = [],
      rf_failure_domain_hints = [], rf_evidence = stamp_unknown, rf_publisher = None,
      rf_publication = counter_zero, rf_boot = id_unknown, rf_cluster_epoch = counter_zero,
      rf_coordinator_epoch = counter_zero, rf_health = HS_Unknown, rf_origin_label = []\<rparr>"

datatype rack_reference_issue =
  RI_None | RI_MissingRackId | RI_MissingGeneration | RI_TooManyEndpoints
  | RI_TooManyFailureDomainHints | RI_TooManyAcceleratorClasses | RI_InvalidLabel
  | RI_DuplicateEndpoint | RI_DuplicateFailureDomainHint | RI_MissingPublisher
  | RI_UnknownProvenance

fun rack_reference_issue_to_string :: "rack_reference_issue \<Rightarrow> string" where
  "rack_reference_issue_to_string RI_None = ''NONE''"
| "rack_reference_issue_to_string RI_MissingRackId = ''MISSING_RACK_ID''"
| "rack_reference_issue_to_string RI_MissingGeneration = ''MISSING_GENERATION''"
| "rack_reference_issue_to_string RI_TooManyEndpoints = ''TOO_MANY_ENDPOINTS''"
| "rack_reference_issue_to_string RI_TooManyFailureDomainHints = ''TOO_MANY_FAILURE_DOMAIN_HINTS''"
| "rack_reference_issue_to_string RI_TooManyAcceleratorClasses = ''TOO_MANY_ACCELERATOR_CLASSES''"
| "rack_reference_issue_to_string RI_InvalidLabel = ''INVALID_LABEL''"
| "rack_reference_issue_to_string RI_DuplicateEndpoint = ''DUPLICATE_ENDPOINT''"
| "rack_reference_issue_to_string RI_DuplicateFailureDomainHint = ''DUPLICATE_FAILURE_DOMAIN_HINT''"
| "rack_reference_issue_to_string RI_MissingPublisher = ''MISSING_PUBLISHER''"
| "rack_reference_issue_to_string RI_UnknownProvenance = ''UNKNOWN_PROVENANCE''"

record rack_reference_validation =
  rv_issue :: rack_reference_issue
  rv_subject :: string

definition ref_issue :: "rack_reference_issue \<Rightarrow> string \<Rightarrow> rack_reference_validation" where
  "ref_issue i subject = \<lparr>rv_issue = i, rv_subject = subject\<rparr>"

definition rv_ok :: "rack_reference_validation \<Rightarrow> bool" where
  "rv_ok v \<longleftrightarrow> rv_issue v = RI_None"

definition validate_rack_reference :: "rack_reference \<Rightarrow> rack_reference_validation" where
  "validate_rack_reference r =
     (let subject = ''rack/'' @ id_value (rf_rack r) in
      if id_value (rf_rack r) = [] then ref_issue RI_MissingRackId ''rack''
      else if \<not> counter_known (rf_generation r) then ref_issue RI_MissingGeneration subject
      else if length (rf_endpoints r) > kMaxRackEndpoints
        then ref_issue RI_TooManyEndpoints subject
      else if length (rf_failure_domain_hints r) > kMaxFailureDomainRefs
        then ref_issue RI_TooManyFailureDomainHints subject
      else if length (cm_accelerators (rf_composition r)) > kMaxCapacityQuantities
        then ref_issue RI_TooManyAcceleratorClasses subject
      else if \<not> iv_ok (validate_label (cm_composition_label (rf_composition r)))
          \<and> cm_composition_label (rf_composition r) \<noteq> []
        then ref_issue RI_InvalidLabel subject
      else if \<not> iv_ok (validate_label (rf_origin_label r)) \<and> rf_origin_label r \<noteq> []
        then ref_issue RI_InvalidLabel subject
      else if list_ex (\<lambda>a. ac_family a \<noteq> [] \<and> \<not> iv_ok (validate_label (ac_family a)))
          (cm_accelerators (rf_composition r))
        then ref_issue RI_InvalidLabel subject
      else if list_ex (\<lambda>h. fh_klass h = FDC_Unknown) (rf_failure_domain_hints r)
        then ref_issue RI_InvalidLabel subject
      else if list_ex (\<lambda>e. id_value (ep_id e) = []) (rf_endpoints r)
        then ref_issue RI_InvalidLabel subject
      else if rf_publisher r = None then ref_issue RI_MissingPublisher subject
      else if es_provenance (rf_evidence r) = EP_Unknown then ref_issue RI_UnknownProvenance subject
      else \<lparr>rv_issue = RI_None, rv_subject = []\<rparr>)"

text \<open>The defaulted three-way comparison of accelerator summaries compares the members in order.\<close>

definition accel_key ::
  "accelerator_class_summary \<Rightarrow> accelerator_vendor \<times> string \<times> u32 option \<times> u64 option" where
  "accel_key a = (ac_vendor a, ac_family a, ac_device_count a, ac_device_memory_bytes a)"

definition canonicalize :: "rack_reference \<Rightarrow> rack_reference" where
  "canonicalize r = r
     \<lparr>rf_composition := (rf_composition r)
        \<lparr>cm_accelerators := canon_by accel_key (cm_accelerators (rf_composition r))\<rparr>,
      rf_endpoints := canon_by ep_id (rf_endpoints r),
      rf_failure_domain_hints :=
        canon_by (\<lambda>h. (fh_klass h, fh_id h)) (rf_failure_domain_hints r)\<rparr>"

lemma validate_rack_reference_ok_iff:
  "rv_ok (validate_rack_reference r) \<longleftrightarrow>
     id_known (rf_rack r) \<and> counter_known (rf_generation r)
     \<and> length (rf_endpoints r) \<le> kMaxRackEndpoints
     \<and> length (rf_failure_domain_hints r) \<le> kMaxFailureDomainRefs
     \<and> length (cm_accelerators (rf_composition r)) \<le> kMaxCapacityQuantities
     \<and> (cm_composition_label (rf_composition r) = []
          \<or> iv_ok (validate_label (cm_composition_label (rf_composition r))))
     \<and> (rf_origin_label r = [] \<or> iv_ok (validate_label (rf_origin_label r)))
     \<and> (\<forall>a \<in> set (cm_accelerators (rf_composition r)).
          ac_family a = [] \<or> iv_ok (validate_label (ac_family a)))
     \<and> (\<forall>h \<in> set (rf_failure_domain_hints r). fh_klass h \<noteq> FDC_Unknown)
     \<and> (\<forall>e \<in> set (rf_endpoints r). id_known (ep_id e))
     \<and> rf_publisher r \<noteq> None \<and> es_provenance (rf_evidence r) \<noteq> EP_Unknown"
  by (auto simp: validate_rack_reference_def rv_ok_def ref_issue_def id_known_def Let_def
      list_ex_iff not_less)

lemma canonicalize_idem [simp]: "canonicalize (canonicalize r) = canonicalize r"
  by (simp add: canonicalize_def)

lemma canonicalize_valid:
  assumes "rv_ok (validate_rack_reference r)"
  shows "rv_ok (validate_rack_reference (canonicalize r))"
  using assms set_canon_by [of accel_key "cm_accelerators (rf_composition r)"]
    set_canon_by [of ep_id "rf_endpoints r"]
    set_canon_by [of "\<lambda>h. (fh_klass h, fh_id h)" "rf_failure_domain_hints r"]
    length_canon_by [of accel_key "cm_accelerators (rf_composition r)"]
    length_canon_by [of ep_id "rf_endpoints r"]
    length_canon_by [of "\<lambda>h. (fh_klass h, fh_id h)" "rf_failure_domain_hints r"]
  unfolding validate_rack_reference_ok_iff canonicalize_def by auto

lemma canonicalize_fields [simp]:
  "rf_rack (canonicalize r) = rf_rack r"
  "rf_generation (canonicalize r) = rf_generation r"
  "rf_rack_lifecycle (canonicalize r) = rf_rack_lifecycle r"
  "rf_currentness (canonicalize r) = rf_currentness r"
  "rf_evidence (canonicalize r) = rf_evidence r"
  "rf_publisher (canonicalize r) = rf_publisher r"
  "rf_publication (canonicalize r) = rf_publication r"
  "rf_boot (canonicalize r) = rf_boot r"
  "rf_cluster_epoch (canonicalize r) = rf_cluster_epoch r"
  "rf_coordinator_epoch (canonicalize r) = rf_coordinator_epoch r"
  "rf_health (canonicalize r) = rf_health r"
  "rf_origin_label (canonicalize r) = rf_origin_label r"
  by (simp_all add: canonicalize_def)

text \<open>An accelerator summary is its key, so no summary is lost.\<close>

lemma set_canon_accelerators: "set (canon_by accel_key xs) = set xs"
proof -
  have "inj accel_key" by (rule injI) (simp add: accel_key_def)
  then show ?thesis using keys_canon_by [of accel_key xs] by (metis inj_image_eq_iff)
qed

subsection \<open>Properties\<close>

text \<open>
  C35. Canonicalizing a valid reference gives a valid reference whose accelerators, endpoints and failure
  domain hints are strictly sorted by their keys. Nothing is invented and no key is lost: the accelerators
  are the same set, endpoints and hints are among the given ones and have all their keys. Every other field
  is untouched, and doing it again changes nothing.
\<close>

theorem canonical_form:
  assumes "rv_ok (validate_rack_reference r)" and "c = canonicalize r"
  shows "rv_ok (validate_rack_reference c) \<and> canonicalize c = c
     \<and> sorted_wrt (\<lambda>a b. ep_id a < ep_id b) (rf_endpoints c)
     \<and> set (rf_endpoints c) \<subseteq> set (rf_endpoints r) \<and> ep_id ` set (rf_endpoints c) = ep_id ` set (rf_endpoints r)
     \<and> sorted_wrt (\<lambda>a b. (fh_klass a, fh_id a) < (fh_klass b, fh_id b)) (rf_failure_domain_hints c)
     \<and> set (rf_failure_domain_hints c) \<subseteq> set (rf_failure_domain_hints r)
     \<and> (\<lambda>h. (fh_klass h, fh_id h)) ` set (rf_failure_domain_hints c)
         = (\<lambda>h. (fh_klass h, fh_id h)) ` set (rf_failure_domain_hints r)
     \<and> sorted_wrt (\<lambda>a b. accel_key a < accel_key b) (cm_accelerators (rf_composition c))
     \<and> set (cm_accelerators (rf_composition c)) = set (cm_accelerators (rf_composition r))
     \<and> c\<lparr>rf_endpoints := rf_endpoints r, rf_failure_domain_hints := rf_failure_domain_hints r,
         rf_composition := (rf_composition c)\<lparr>cm_accelerators := cm_accelerators (rf_composition r)\<rparr>\<rparr> = r"
proof -
  have c: "rf_endpoints c = canon_by ep_id (rf_endpoints r)"
    "rf_failure_domain_hints c = canon_by (\<lambda>h. (fh_klass h, fh_id h)) (rf_failure_domain_hints r)"
    "cm_accelerators (rf_composition c) = canon_by accel_key (cm_accelerators (rf_composition r))"
    by (simp_all add: assms(2) canonicalize_def)
  show ?thesis
    unfolding c
    by (intro conjI canon_by_sorted keys_canon_by set_canon_by set_canon_accelerators)
      (simp_all add: assms(2) canonicalize_valid [OF assms(1)], simp add: canonicalize_def)
qed

definition sample_reference :: rack_reference where
  "sample_reference = default_reference
     \<lparr>rf_rack := StrongId ''r'', rf_generation := StrongCounter 1, rf_publisher := Some (StrongId ''p''),
      rf_evidence := stamp_make EP_Measured 1 0,
      rf_endpoints := map (\<lambda>(k, c). \<lparr>ep_id = StrongId k, ep_network_domain = None, ep_link_domain = None,
          ep_connectivity = c, ep_evidence = stamp_unknown\<rparr>)
        [(''e2'', CC_Overlay), (''e1'', CC_Overlay), (''e2'', CC_DirectFabric)],
      rf_failure_domain_hints := map (\<lambda>(c, k). \<lparr>fh_klass = c, fh_id = StrongId k, fh_evidence = stamp_unknown\<rparr>)
        [(FDC_PowerFeed, ''f2''), (FDC_PowerFeed, ''f1''), (FDC_PowerFeed, ''f2'')],
      rf_composition := composition_unknown
        \<lparr>cm_accelerators := map (\<lambda>f. \<lparr>ac_vendor = AV_Nvidia, ac_family = f, ac_device_count = Some 8,
          ac_device_memory_bytes = None\<rparr>) [''h200'', ''h100'', ''h200'']\<rparr>\<rparr>"

theorem canonical_form_witness:
  "sorted_wrt (\<lambda>a b. ep_id a < ep_id b) (rf_endpoints (canonicalize sample_reference))
   \<and> ep_id ` set (rf_endpoints (canonicalize sample_reference)) = {StrongId ''e1'', StrongId ''e2''}
   \<and> (\<lambda>h. (fh_klass h, fh_id h)) ` set (rf_failure_domain_hints (canonicalize sample_reference))
       = {(FDC_PowerFeed, StrongId ''f1''), (FDC_PowerFeed, StrongId ''f2'')}
   \<and> ac_family ` set (cm_accelerators (rf_composition (canonicalize sample_reference))) = {''h100'', ''h200''}"
proof -
  have "rv_ok (validate_rack_reference sample_reference)" by code_simp
  from canonical_form [OF this refl] show ?thesis by (auto simp: sample_reference_def)
qed

end
