(* ===== verification/Ieee_Double.thy ===== *)
theory Ieee_Double
  imports Prelude
begin

text \<open>
  The C++ type \<^verbatim>\<open>double\<close> as the program uses it: the IEEE 754 binary64 bit pattern, the finiteness test
  \<^verbatim>\<open>std::isfinite\<close>, the comparison \<^verbatim>\<open>==\<close> and addition in the default rounding mode. Every finite double
  is an integral multiple of \<open>2 ^ -1074\<close>; \<open>scaled\<close> is that integer, so a sum is computed exactly and
  rounded once, to nearest with ties to even.
\<close>

datatype double = Double (double_bits: u64)

definition d_sign :: "double \<Rightarrow> bool" where
  "d_sign d \<longleftrightarrow> 2 ^ 63 \<le> unat (double_bits d)"

definition d_magnitude :: "double \<Rightarrow> nat" where
  "d_magnitude d = unat (double_bits d) mod 2 ^ 63"

definition d_exponent :: "double \<Rightarrow> nat" where
  "d_exponent d = d_magnitude d div 2 ^ 52"

definition d_fraction :: "double \<Rightarrow> nat" where
  "d_fraction d = d_magnitude d mod 2 ^ 52"

definition is_finite :: "double \<Rightarrow> bool" where
  "is_finite d \<longleftrightarrow> d_exponent d \<noteq> 2047"

definition is_nan :: "double \<Rightarrow> bool" where
  "is_nan d \<longleftrightarrow> d_exponent d = 2047 \<and> d_fraction d \<noteq> 0"

definition scaled_magnitude :: "double \<Rightarrow> nat" where
  "scaled_magnitude d =
     (if d_exponent d = 0 then d_fraction d else (2 ^ 52 + d_fraction d) * 2 ^ (d_exponent d - 1))"

definition scaled :: "double \<Rightarrow> int" where
  "scaled d = (if d_sign d then - int (scaled_magnitude d) else int (scaled_magnitude d))"

definition make_double :: "bool \<Rightarrow> nat \<Rightarrow> double" where
  "make_double neg magnitude = Double (of_nat ((if neg then 2 ^ 63 else 0) + magnitude))"

definition double_zero :: double where
  "double_zero = Double 0"

definition quiet_nan :: double where
  "quiet_nan = make_double False (2047 * 2 ^ 52 + 2 ^ 51)"

text \<open>The number of low bits to drop so that at most 53 significant bits remain.\<close>

fun excess_bits :: "nat \<Rightarrow> nat" where
  "excess_bits n = (if n < 2 ^ 53 then 0 else Suc (excess_bits (n div 2)))"

declare excess_bits.simps [simp del]

definition round_magnitude :: "nat \<Rightarrow> nat" where
  "round_magnitude n =
     (let sh = excess_bits n;
          q = n div 2 ^ sh;
          r = n mod 2 ^ sh;
          q' = (if 2 ^ sh < 2 * r \<or> 2 ^ sh = 2 * r \<and> odd q then q + 1 else q)
      in min (sh * 2 ^ 52 + q') (2047 * 2 ^ 52))"

definition double_add :: "double \<Rightarrow> double \<Rightarrow> double" where
  "double_add x y =
     (if is_nan x \<or> is_nan y then quiet_nan
      else if \<not> is_finite x then (if \<not> is_finite y \<and> d_sign x \<noteq> d_sign y then quiet_nan else x)
      else if \<not> is_finite y then y
      else let k = scaled x + scaled y in
        if k = 0 then make_double (d_sign x \<and> d_sign y) 0
        else make_double (k < 0) (round_magnitude (nat \<bar>k\<bar>)))"

definition double_eq :: "double \<Rightarrow> double \<Rightarrow> bool" where
  "double_eq x y \<longleftrightarrow>
     \<not> is_nan x \<and> \<not> is_nan y
     \<and> (double_bits x = double_bits y \<or> d_magnitude x = 0 \<and> d_magnitude y = 0)"

lemma excess_bits_shift:
  assumes "2 ^ 52 \<le> m" and "m < 2 ^ 53"
  shows "excess_bits (m * 2 ^ j) = j"
proof (induction j)
  case 0
  then show ?case using assms by (simp add: excess_bits.simps)
next
  case (Suc j)
  have "(2::nat) ^ 53 \<le> m * 2 ^ Suc j"
  proof -
    have "(2::nat) ^ 53 = 2 ^ 52 * 2" by simp
    also have "\<dots> \<le> m * (2 * 2 ^ j)" using assms(1) by (intro mult_mono) auto
    finally show ?thesis by simp
  qed
  then have "\<not> m * 2 ^ Suc j < 2 ^ 53" by (simp only: not_less)
  moreover have "m * 2 ^ Suc j div 2 = m * 2 ^ j" by simp
  ultimately show ?case using Suc by (subst excess_bits.simps) (simp only: if_False)
qed

lemma d_magnitude_split: "d_magnitude d = d_exponent d * 2 ^ 52 + d_fraction d"
  by (simp add: d_exponent_def d_fraction_def)

lemma d_exponent_le: "d_exponent d \<le> 2047"
proof -
  have "d_magnitude d < 2 ^ 63" by (simp add: d_magnitude_def)
  then show ?thesis by (simp add: d_exponent_def)
qed

lemma round_scaled:
  assumes "is_finite d"
  shows "round_magnitude (scaled_magnitude d) = d_magnitude d"
proof -
  have f: "d_fraction d < 2 ^ 52" by (simp add: d_fraction_def)
  have e: "d_exponent d < 2047" using assms d_exponent_le [of d] by (simp add: is_finite_def)
  have le: "d_magnitude d \<le> 2047 * 2 ^ 52" using e f unfolding d_magnitude_split by simp
  show ?thesis
  proof (cases "d_exponent d = 0")
    case True
    then have "excess_bits (scaled_magnitude d) = 0"
      using f by (simp add: scaled_magnitude_def excess_bits.simps)
    then show ?thesis
      using True le by (simp add: round_magnitude_def scaled_magnitude_def d_magnitude_split)
  next
    case False
    define j where "j = d_exponent d - 1"
    have n: "scaled_magnitude d = (2 ^ 52 + d_fraction d) * 2 ^ j"
      using False by (simp add: scaled_magnitude_def j_def)
    have x: "excess_bits (scaled_magnitude d) = j"
      unfolding n using f by (intro excess_bits_shift) auto
    have "round_magnitude (scaled_magnitude d) = min (j * 2 ^ 52 + (2 ^ 52 + d_fraction d)) (2047 * 2 ^ 52)"
      unfolding round_magnitude_def x Let_def by (simp add: n)
    also have "j * 2 ^ 52 + (2 ^ 52 + d_fraction d) = d_magnitude d"
      using False by (simp add: d_magnitude_split j_def algebra_simps diff_mult_distrib)
    finally show ?thesis using le by simp
  qed
qed

lemma make_double_self: "make_double (d_sign d) (d_magnitude d) = d"
proof -
  have b: "unat (double_bits d) < 2 ^ 64" using unsigned_less [of "double_bits d"] by simp
  have "(if d_sign d then 2 ^ 63 else 0) + d_magnitude d = unat (double_bits d)"
  proof (cases "d_sign d")
    case True
    then have "unat (double_bits d) mod 2 ^ 63 = unat (double_bits d) - 2 ^ 63"
      using b by (simp add: d_sign_def mod_if)
    with True show ?thesis by (simp add: d_magnitude_def d_sign_def)
  qed (simp add: d_magnitude_def d_sign_def)
  then show ?thesis by (simp add: make_double_def)
qed

text \<open>Adding a finite value to positive zero gives that value, with negative zero made positive.\<close>

lemma double_add_zero:
  assumes "is_finite d"
  shows "double_add double_zero d = (if d_magnitude d = 0 then double_zero else d)"
proof -
  have z: "scaled double_zero = 0" "is_finite double_zero" "\<not> is_nan double_zero"
    "\<not> d_sign double_zero"
    by (simp_all add: scaled_def scaled_magnitude_def is_finite_def is_nan_def d_sign_def d_exponent_def
        d_fraction_def d_magnitude_def double_zero_def)
  have nn: "\<not> is_nan d" using assms by (simp add: is_nan_def is_finite_def)
  have m0: "scaled_magnitude d = 0 \<longleftrightarrow> d_magnitude d = 0"
    by (simp add: scaled_magnitude_def d_magnitude_split)
  have "scaled d = 0 \<longleftrightarrow> d_magnitude d = 0"
    by (simp add: scaled_def m0)
  moreover have "make_double False 0 = double_zero" by (simp add: make_double_def double_zero_def)
  moreover have "make_double (scaled d < 0) (round_magnitude (nat \<bar>scaled d\<bar>)) = d" if "d_magnitude d \<noteq> 0"
  proof -
    have "(scaled d < 0) = d_sign d" using that m0 by (auto simp: scaled_def)
    moreover have "nat \<bar>scaled d\<bar> = scaled_magnitude d" by (simp add: scaled_def)
    ultimately show ?thesis using round_scaled [OF assms] make_double_self by simp
  qed
  ultimately show ?thesis using z nn assms by (simp add: double_add_def Let_def)
qed

end
