(* ===== verification/Domains.thy ===== *)
theory Domains
  imports Rack_Reference Ieee_Double
begin

text \<open>
  Domain records, inter-rack links and cluster constraints
  (src/include/cluster_fabric/domains.hpp and src/include/cluster_fabric/topology.hpp).

  The eight domain structs of the source share the members \<^verbatim>\<open>id\<close>, \<^verbatim>\<open>racks\<close> and \<^verbatim>\<open>header\<close> and differ in
  their remaining members. They are the record \<open>domain\<close>, whose field \<open>dm_body\<close> holds those remaining
  members: the class of a placement or failure domain, the connectivity class of a network domain,
  the class and quantities of a capacity domain, the parent of a power or cooling domain, and
  nothing for storage and link domains. One type synonym per struct keeps them apart.
\<close>

record domain_header =
  dh_evidence :: evidence_stamp
  dh_generation :: domain_generation
  dh_publisher :: "publisher_id option"
  dh_cluster_epoch :: cluster_epoch
  dh_coordinator_epoch :: coordinator_epoch
  dh_label :: string

definition default_header :: domain_header where
  "default_header =
     \<lparr>dh_evidence = stamp_unknown, dh_generation = counter_zero, dh_publisher = None,
      dh_cluster_epoch = counter_zero, dh_coordinator_epoch = counter_zero, dh_label = []\<rparr>"

record ('tag, 'body) domain =
  dm_id :: "'tag strong_id"
  dm_body :: 'body
  dm_racks :: "rack_id list"
  dm_header :: domain_header

record capacity_quantity =
  cq_unit :: string
  cq_value :: "double option"
  cq_provenance :: evidence_provenance
  cq_aggregated :: bool

record capacity_body =
  cb_klass :: capacity_domain_class
  cb_quantities :: "capacity_quantity list"

type_synonym placement_domain = "(PlacementDomainIdTag, placement_domain_class) domain"
type_synonym capacity_domain = "(CapacityDomainIdTag, capacity_body) domain"
type_synonym failure_domain = "(FailureDomainIdTag, failure_domain_class) domain"
type_synonym network_domain = "(NetworkDomainIdTag, connectivity_class) domain"
type_synonym storage_domain = "(StorageDomainIdTag, unit) domain"
type_synonym power_domain = "(PowerDomainIdTag, power_domain_id option) domain"
type_synonym cooling_domain = "(CoolingDomainIdTag, cooling_domain_id option) domain"
type_synonym link_domain = "(LinkDomainIdTag, unit) domain"

text \<open>
  The defaulted member-wise comparison. Only capacity quantities need care: their values are
  compared as floating-point numbers.
\<close>

fun optional_double_eq :: "double option \<Rightarrow> double option \<Rightarrow> bool" where
  "optional_double_eq None None \<longleftrightarrow> True"
| "optional_double_eq (Some x) (Some y) \<longleftrightarrow> double_eq x y"
| "optional_double_eq _ _ \<longleftrightarrow> False"

definition quantity_eq :: "capacity_quantity \<Rightarrow> capacity_quantity \<Rightarrow> bool" where
  "quantity_eq a b \<longleftrightarrow>
     cq_unit a = cq_unit b \<and> optional_double_eq (cq_value a) (cq_value b)
     \<and> cq_provenance a = cq_provenance b \<and> cq_aggregated a = cq_aggregated b"

definition capacity_body_eq :: "capacity_body \<Rightarrow> capacity_body \<Rightarrow> bool" where
  "capacity_body_eq a b \<longleftrightarrow>
     cb_klass a = cb_klass b \<and> list_all2 quantity_eq (cb_quantities a) (cb_quantities b)"

definition domain_eq ::
  "('b \<Rightarrow> 'b \<Rightarrow> bool) \<Rightarrow> ('t, 'b) domain \<Rightarrow> ('t, 'b) domain \<Rightarrow> bool" where
  "domain_eq body_eq a b \<longleftrightarrow>
     dm_id a = dm_id b \<and> body_eq (dm_body a) (dm_body b) \<and> dm_racks a = dm_racks b
     \<and> dm_header a = dm_header b"

record domain_generations =
  dg_placement :: domain_generation
  dg_capacity :: domain_generation
  dg_failure :: domain_generation
  dg_network :: domain_generation
  dg_storage :: domain_generation
  dg_power :: domain_generation
  dg_cooling :: domain_generation
  dg_link :: domain_generation

definition domain_generations_of :: "domain_generation \<Rightarrow> domain_generations" where
  "domain_generations_of g =
     \<lparr>dg_placement = g, dg_capacity = g, dg_failure = g, dg_network = g, dg_storage = g,
      dg_power = g, dg_cooling = g, dg_link = g\<rparr>"

record cluster_constraint =
  cn_id :: constraint_id
  cn_kind :: constraint_kind
  cn_racks :: "rack_id list"
  cn_domain_ref :: string
  cn_statement :: string
  cn_header :: domain_header

subsection \<open>Inter-rack links and the topology record\<close>

record inter_rack_link =
  lk_id :: link_id
  lk_source :: rack_id
  lk_destination :: rack_id
  lk_direction :: link_direction
  lk_connectivity :: connectivity_class
  lk_network_domain :: "network_domain_id option"
  lk_link_domain :: "link_domain_id option"
  lk_source_endpoint :: "endpoint_id option"
  lk_destination_endpoint :: "endpoint_id option"
  lk_bandwidth_class :: bandwidth_class
  lk_nominal_bandwidth_bps :: "u64 option"
  lk_latency_class :: latency_class
  lk_nominal_latency_nanos :: "u64 option"
  lk_hop_count :: "u32 option"
  lk_reachability :: reachability
  lk_health :: health_state
  lk_failure_domains :: "failure_domain_id list"
  lk_header :: domain_header
  lk_topology_epoch :: topology_epoch
  lk_topology_generation :: topology_generation
  lk_publication :: publication_generation
  lk_boot :: "boot_id option"

definition lk_evidence :: "inter_rack_link \<Rightarrow> evidence_stamp" where
  "lk_evidence l = dh_evidence (lk_header l)"

definition lk_set_evidence :: "evidence_stamp \<Rightarrow> inter_rack_link \<Rightarrow> inter_rack_link" where
  "lk_set_evidence e l = l\<lparr>lk_header := (lk_header l)\<lparr>dh_evidence := e\<rparr>\<rparr>"

record topology_epoch_record =
  te_epoch :: topology_epoch
  te_generation :: topology_generation
  te_established_at :: timestamp
  te_evidence :: evidence_stamp
  te_reason :: string

definition default_topology_record :: topology_epoch_record where
  "default_topology_record =
     \<lparr>te_epoch = counter_zero, te_generation = counter_zero, te_established_at = ts_unknown,
      te_evidence = stamp_unknown, te_reason = []\<rparr>"

datatype domain_independence =
  DI_Unknown | DI_Independent | DI_Shared | DI_RevalidationRequired

lemma lk_set_evidence_fields [simp]:
  "lk_id (lk_set_evidence e l) = lk_id l"
  "lk_source (lk_set_evidence e l) = lk_source l"
  "lk_destination (lk_set_evidence e l) = lk_destination l"
  "lk_direction (lk_set_evidence e l) = lk_direction l"
  "lk_reachability (lk_set_evidence e l) = lk_reachability l"
  "lk_health (lk_set_evidence e l) = lk_health l"
  "lk_failure_domains (lk_set_evidence e l) = lk_failure_domains l"
  "lk_topology_epoch (lk_set_evidence e l) = lk_topology_epoch l"
  "lk_topology_generation (lk_set_evidence e l) = lk_topology_generation l"
  "lk_evidence (lk_set_evidence e l) = e"
  "lk_boot (lk_set_evidence e l) = lk_boot l"
  by (simp_all add: lk_set_evidence_def lk_evidence_def)

end
