(* ===== verification/Cluster_State.thy ===== *)
theory Cluster_State
  imports Ordered_Map Domains
begin

text \<open>
  The canonical cluster state (src/include/cluster_fabric/cluster_state.hpp): the authoritative
  composition, one \<open>omap\<close> per \<^verbatim>\<open>std::map\<close> member, and its elementary queries
  (src/src/cluster_state.cpp).
\<close>

record fenced_authority =
  fa_boot :: boot_id
  fa_rack :: rack_id
  fa_reason :: string
  fa_fenced_at :: timestamp

record retired_identity =
  ri_rack :: rack_id
  ri_last_generation :: rack_generation
  ri_retired_at :: timestamp
  ri_reason :: string

record rack_record =
  rr_reference :: rack_reference
  rr_membership :: rack_membership_state
  rr_membership_generation :: membership_generation
  rr_accepted_at_generation :: cluster_generation
  rr_membership_evidence :: evidence_stamp
  rr_authoritative_current :: bool
  rr_non_authoritative_reason :: string

definition default_rack_record :: rack_record where
  "default_rack_record =
     \<lparr>rr_reference = default_reference, rr_membership = RM_Unknown,
      rr_membership_generation = counter_zero, rr_accepted_at_generation = counter_zero,
      rr_membership_evidence = stamp_unknown, rr_authoritative_current = False,
      rr_non_authoritative_reason = []\<rparr>"

type_synonym rack_map = "(rack_id, rack_record) omap"
type_synonym link_map = "(link_id, inter_rack_link) omap"
type_synonym constraint_map = "(constraint_id, cluster_constraint) omap"
type_synonym ('t, 'b) domain_map = "('t strong_id, ('t, 'b) domain) omap"

record cluster_state =
  cs_id :: cluster_id
  cs_epoch :: cluster_epoch
  cs_coordinator_epoch :: coordinator_epoch
  cs_generation :: cluster_generation
  cs_membership_generation :: membership_generation
  cs_topology_epoch :: topology_epoch
  cs_topology_generation :: topology_generation
  cs_connectivity_generation :: connectivity_generation
  cs_health_generation :: health_generation
  cs_constraint_generation :: constraint_generation
  cs_domain_generations :: domain_generations
  cs_snapshot_generation :: snapshot_generation
  cs_publication_generation :: publication_generation
  cs_lifecycle :: cluster_lifecycle
  cs_readiness_contract :: readiness_contract
  cs_topology_record :: topology_epoch_record
  cs_racks :: rack_map
  cs_links :: link_map
  cs_placement_domains :: "(PlacementDomainIdTag, placement_domain_class) domain_map"
  cs_capacity_domains :: "(CapacityDomainIdTag, capacity_body) domain_map"
  cs_failure_domains :: "(FailureDomainIdTag, failure_domain_class) domain_map"
  cs_network_domains :: "(NetworkDomainIdTag, connectivity_class) domain_map"
  cs_storage_domains :: "(StorageDomainIdTag, unit) domain_map"
  cs_power_domains :: "(PowerDomainIdTag, power_domain_id option) domain_map"
  cs_cooling_domains :: "(CoolingDomainIdTag, cooling_domain_id option) domain_map"
  cs_link_domains :: "(LinkDomainIdTag, unit) domain_map"
  cs_constraints :: constraint_map
  cs_fenced_authorities :: "fenced_authority list"
  cs_retired_racks :: "retired_identity list"
  cs_withdrawn_racks :: "rack_id list"
  cs_last_mutation_at :: timestamp
  cs_declared_at :: timestamp

text \<open>The default-constructed \<^verbatim>\<open>ClusterState\<close>.\<close>

definition empty_state :: cluster_state where
  "empty_state =
     \<lparr>cs_id = id_unknown, cs_epoch = counter_zero, cs_coordinator_epoch = counter_zero,
      cs_generation = counter_zero, cs_membership_generation = counter_zero,
      cs_topology_epoch = counter_zero, cs_topology_generation = counter_zero,
      cs_connectivity_generation = counter_zero, cs_health_generation = counter_zero,
      cs_constraint_generation = counter_zero,
      cs_domain_generations = domain_generations_of counter_zero,
      cs_snapshot_generation = counter_zero, cs_publication_generation = counter_zero,
      cs_lifecycle = CL_Declared, cs_readiness_contract = default_contract,
      cs_topology_record = default_topology_record,
      cs_racks = om_empty, cs_links = om_empty, cs_placement_domains = om_empty,
      cs_capacity_domains = om_empty, cs_failure_domains = om_empty,
      cs_network_domains = om_empty, cs_storage_domains = om_empty, cs_power_domains = om_empty,
      cs_cooling_domains = om_empty, cs_link_domains = om_empty, cs_constraints = om_empty,
      cs_fenced_authorities = [], cs_retired_racks = [], cs_withdrawn_racks = [],
      cs_last_mutation_at = ts_unknown, cs_declared_at = ts_unknown\<rparr>"

subsection \<open>Elementary queries\<close>

definition is_active :: "rack_record \<Rightarrow> bool" where
  "is_active r \<longleftrightarrow> rr_membership r = RM_Active"

definition is_current_active :: "rack_record \<Rightarrow> bool" where
  "is_current_active r \<longleftrightarrow> is_active r \<and> rr_authoritative_current r"

definition needs_revalidation :: "rack_record \<Rightarrow> bool" where
  "needs_revalidation r \<longleftrightarrow>
     (if \<not> is_active r then False
      else if rf_currentness (rr_reference r) = RC_RevalidationRequired then True
      else requires_revalidation (rf_evidence (rr_reference r)))"

definition has_rack :: "cluster_state \<Rightarrow> rack_id \<Rightarrow> bool" where
  "has_rack s rack \<longleftrightarrow> om_find (cs_racks s) rack \<noteq> None"

definition is_rack_member :: "cluster_state \<Rightarrow> rack_id \<Rightarrow> bool" where
  "is_rack_member s rack \<longleftrightarrow>
     (case om_find (cs_racks s) rack of None \<Rightarrow> False | Some r \<Rightarrow> rr_membership r \<noteq> RM_Unknown)"

definition is_boot_fenced :: "cluster_state \<Rightarrow> boot_id \<Rightarrow> bool" where
  "is_boot_fenced s boot \<longleftrightarrow> list_ex (\<lambda>f. fa_boot f = boot) (cs_fenced_authorities s)"

definition is_rack_retired :: "cluster_state \<Rightarrow> rack_id \<Rightarrow> bool" where
  "is_rack_retired s rack \<longleftrightarrow> list_ex (\<lambda>r. ri_rack r = rack) (cs_retired_racks s)"

definition current_rack_count :: "cluster_state \<Rightarrow> nat" where
  "current_rack_count s = length (filter is_current_active (om_values (cs_racks s)))"

lemma is_boot_fenced_iff: "is_boot_fenced s b \<longleftrightarrow> b \<in> fa_boot ` set (cs_fenced_authorities s)"
  by (auto simp: is_boot_fenced_def list_ex_iff)

lemma is_rack_retired_iff: "is_rack_retired s k \<longleftrightarrow> k \<in> ri_rack ` set (cs_retired_racks s)"
  by (auto simp: is_rack_retired_def list_ex_iff)

lemma is_rack_member_iff:
  "is_rack_member s k \<longleftrightarrow> (\<exists>r. om_find (cs_racks s) k = Some r \<and> rr_membership r \<noteq> RM_Unknown)"
  by (auto simp: is_rack_member_def split: option.splits)

lemma is_rack_member_has_rack: "is_rack_member s k \<Longrightarrow> has_rack s k"
  by (auto simp: is_rack_member_iff has_rack_def)

end
