(* ===== verification/Readiness.thy ===== *)
theory Readiness
  imports Cluster_State
begin

text \<open>
  The evaluation of the readiness contract (\<^verbatim>\<open>evaluate_readiness\<close> in src/src/cluster_state.cpp). The
  blockers are the lists the function appends to in order, one definition per group of checks, then
  sorted on (code, subject). The main results are \<open>evaluate_satisfied_iff\<close>, the declarative reading of
  the contract, and \<open>consumable_current_rack\<close>: a cluster that may be consumed has an active rack.
\<close>

definition blocker :: "string \<Rightarrow> string \<Rightarrow> readiness_blocker" where
  "blocker code subject = \<lparr>rb_code = code, rb_subject = subject\<rparr>"

definition rack_subject :: "rack_id \<Rightarrow> string" where
  "rack_subject rack = ''rack/'' @ id_value rack"

definition link_subject :: "link_id \<Rightarrow> string" where
  "link_subject link = ''link/'' @ id_value link"

definition active_count :: "cluster_state \<Rightarrow> nat" where
  "active_count s = length (filter is_active (om_values (cs_racks s)))"

definition any_revalidation :: "cluster_state \<Rightarrow> bool" where
  "any_revalidation s \<longleftrightarrow> list_ex needs_revalidation (om_values (cs_racks s))"

definition count_blockers :: "cluster_state \<Rightarrow> readiness_blocker list" where
  "count_blockers s =
     (if active_count s = 0 then [blocker ''no_active_rack'' ''cluster''] else []) @
     (if current_rack_count s < rc_minimum_current_racks (cs_readiness_contract s)
      then [blocker ''minimum_current_racks_not_met'' ''cluster''] else [])"

definition mandatory_blocker :: "cluster_state \<Rightarrow> rack_id \<Rightarrow> readiness_blocker list" where
  "mandatory_blocker s mandatory =
     (case om_find (cs_racks s) mandatory of
        None \<Rightarrow> [blocker ''mandatory_rack_missing'' (rack_subject mandatory)]
      | Some r \<Rightarrow>
          if \<not> is_active r then [blocker ''mandatory_rack_not_active'' (rack_subject mandatory)]
          else if \<not> is_current_active r
            then [blocker ''mandatory_rack_not_current'' (rack_subject mandatory)]
          else [])"

definition mandatory_not_current :: "cluster_state \<Rightarrow> rack_id \<Rightarrow> bool" where
  "mandatory_not_current s mandatory \<longleftrightarrow>
     (case om_find (cs_racks s) mandatory of
        None \<Rightarrow> False
      | Some r \<Rightarrow> is_active r \<and> \<not> is_current_active r)"

definition all_current_blockers :: "cluster_state \<Rightarrow> readiness_blocker list" where
  "all_current_blockers s =
     (if rc_require_all_active_racks_current (cs_readiness_contract s)
      then map (\<lambda>(k, r). blocker ''active_rack_not_current'' (rack_subject k))
             (filter (\<lambda>(k, r). is_active r \<and> \<not> rr_authoritative_current r) (om_entries (cs_racks s)))
      else [])"

definition revalidation_blockers :: "cluster_state \<Rightarrow> readiness_blocker list" where
  "revalidation_blockers s =
     (if any_revalidation s
      then map (\<lambda>(k, r). blocker ''rack_revalidation_required'' (rack_subject k))
             (filter (\<lambda>(k, r). needs_revalidation r) (om_entries (cs_racks s)))
      else [])"

definition current_links :: "cluster_state \<Rightarrow> nat" where
  "current_links s = length (filter (\<lambda>l. is_current (lk_evidence l)) (om_values (cs_links s)))"

definition connectivity_blockers :: "cluster_state \<Rightarrow> readiness_blocker list" where
  "connectivity_blockers s =
     (if rc_require_connectivity_evidence (cs_readiness_contract s) \<and> current_links s = 0
      then [blocker ''connectivity_evidence_missing'' ''cluster''] else []) @
     (if current_links s < rc_minimum_current_links (cs_readiness_contract s)
      then [blocker ''minimum_current_links_not_met'' ''cluster''] else [])"

definition domain_is_current :: "domain_header \<Rightarrow> bool" where
  "domain_is_current h \<longleftrightarrow> is_current (dh_evidence h)"

definition domain_needs_revalidation :: "domain_header \<Rightarrow> bool" where
  "domain_needs_revalidation h \<longleftrightarrow> requires_revalidation (dh_evidence h)"

definition placement_class_present :: "cluster_state \<Rightarrow> placement_domain_class \<Rightarrow> bool" where
  "placement_class_present s klass \<longleftrightarrow>
     list_ex (\<lambda>d. dm_body d = klass \<and> domain_is_current (dm_header d))
       (om_values (cs_placement_domains s))"

definition failure_class_present :: "cluster_state \<Rightarrow> failure_domain_class \<Rightarrow> bool" where
  "failure_class_present s klass \<longleftrightarrow>
     list_ex (\<lambda>d. dm_body d = klass \<and> domain_is_current (dm_header d))
       (om_values (cs_failure_domains s))"

definition class_blockers :: "cluster_state \<Rightarrow> readiness_blocker list" where
  "class_blockers s =
     map (\<lambda>klass. blocker ''placement_domain_class_missing''
            (''placement_domain_class/'' @ placement_domain_class_to_string klass))
       (filter (\<lambda>klass. \<not> placement_class_present s klass)
          (rc_required_placement_domain_classes (cs_readiness_contract s))) @
     map (\<lambda>klass. blocker ''failure_domain_class_missing''
            (''failure_domain_class/'' @ failure_domain_class_to_string klass))
       (filter (\<lambda>klass. \<not> failure_class_present s klass)
          (rc_required_failure_domain_classes (cs_readiness_contract s)))"

definition conflict_blockers :: "cluster_state \<Rightarrow> readiness_blocker list" where
  "conflict_blockers s =
     (if rc_require_no_conflicts (cs_readiness_contract s)
      then
        map (\<lambda>(k, l). blocker ''structural_conflict'' (link_subject k))
          (filter (\<lambda>(k, l). \<not> has_rack s (lk_source l) \<or> \<not> has_rack s (lk_destination l))
             (om_entries (cs_links s))) @
        concat (map (\<lambda>(k, r).
          (if rr_authoritative_current r \<and> is_boot_fenced s (rf_boot (rr_reference r))
           then [blocker ''structural_conflict'' (rack_subject k)] else []) @
          (if rr_authoritative_current r \<and> is_rack_retired s k
           then [blocker ''structural_conflict'' (rack_subject k)] else []))
          (om_entries (cs_racks s)))
      else [])"

definition readiness_blockers :: "cluster_state \<Rightarrow> readiness_blocker list" where
  "readiness_blockers s =
     count_blockers s @
     concat (map (mandatory_blocker s) (rc_mandatory_racks (cs_readiness_contract s))) @
     all_current_blockers s @ revalidation_blockers s @ connectivity_blockers s @
     class_blockers s @ conflict_blockers s"

definition revalidation_is_required_element :: "cluster_state \<Rightarrow> bool" where
  "revalidation_is_required_element s \<longleftrightarrow>
     (current_rack_count s < rc_minimum_current_racks (cs_readiness_contract s) \<and> any_revalidation s)
     \<or> list_ex (mandatory_not_current s) (rc_mandatory_racks (cs_readiness_contract s))
     \<or> (any_revalidation s \<and> \<not> rc_allow_degraded (cs_readiness_contract s))"

definition knowingly_incomplete :: "cluster_state \<Rightarrow> bool" where
  "knowingly_incomplete s \<longleftrightarrow>
     list_ex (\<lambda>r. rr_membership r = RM_Unavailable \<or> rr_membership r = RM_Withdrawn)
       (om_values (cs_racks s))
     \<or> cs_withdrawn_racks s \<noteq> []"

definition evaluate_readiness :: "cluster_state \<Rightarrow> readiness_evaluation" where
  "evaluate_readiness s =
     (if cs_lifecycle s = CL_Retired
      then \<lparr>re_satisfied = False, re_lifecycle = CL_Retired,
            re_blockers = [blocker ''cluster_retired'' ''cluster'']\<rparr>
      else if cs_lifecycle s = CL_Retiring
      then \<lparr>re_satisfied = False, re_lifecycle = CL_Retiring,
            re_blockers = [blocker ''cluster_retiring'' ''cluster'']\<rparr>
      else
        let blockers = sort_key (\<lambda>b. (rb_code b, rb_subject b)) (readiness_blockers s);
            satisfied = (blockers = [])
        in \<lparr>re_satisfied = satisfied,
            re_lifecycle =
              (if revalidation_is_required_element s then CL_RevalidationRequired
               else if satisfied
                 then (if knowingly_incomplete s \<and> rc_allow_partial (cs_readiness_contract s)
                       then CL_Partial else CL_Ready)
               else if current_rack_count s > 0 then CL_Degraded
               else if active_count s > 0 then CL_Forming
               else CL_Declared),
            re_blockers = blockers\<rparr>)"

subsection \<open>What the evaluation depends on\<close>

text \<open>
  The part of the state the evaluation reads. Two states that agree on it, and neither of which is
  retired or retiring, are evaluated alike whatever their lifecycle and counters are.
\<close>

definition readiness_view where
  "readiness_view s =
     (cs_readiness_contract s, cs_racks s, cs_links s, cs_placement_domains s, cs_failure_domains s,
      cs_fenced_authorities s, cs_retired_racks s, cs_withdrawn_racks s)"

definition terminal_lifecycle :: "cluster_lifecycle \<Rightarrow> bool" where
  "terminal_lifecycle l \<longleftrightarrow> l = CL_Retired \<or> l = CL_Retiring"

lemmas readiness_part_defs =
  active_count_def any_revalidation_def count_blockers_def mandatory_blocker_def
  mandatory_not_current_def all_current_blockers_def revalidation_blockers_def current_links_def
  connectivity_blockers_def placement_class_present_def failure_class_present_def class_blockers_def
  conflict_blockers_def revalidation_is_required_element_def knowingly_incomplete_def
  current_rack_count_def has_rack_def is_boot_fenced_def is_rack_retired_def

lemma readiness_blockers_cong:
  assumes "readiness_view s = readiness_view t"
  shows "readiness_blockers s = readiness_blockers t"
    and "revalidation_is_required_element s = revalidation_is_required_element t"
    and "knowingly_incomplete s = knowingly_incomplete t"
    and "current_rack_count s = current_rack_count t"
    and "active_count s = active_count t"
proof -
  have e: "cs_readiness_contract s = cs_readiness_contract t" "cs_racks s = cs_racks t"
    "cs_links s = cs_links t" "cs_placement_domains s = cs_placement_domains t"
    "cs_failure_domains s = cs_failure_domains t"
    "cs_fenced_authorities s = cs_fenced_authorities t" "cs_retired_racks s = cs_retired_racks t"
    "cs_withdrawn_racks s = cs_withdrawn_racks t"
    using assms by (simp_all add: readiness_view_def)
  show "readiness_blockers s = readiness_blockers t"
    unfolding readiness_blockers_def readiness_part_defs e by (rule refl)
  show "revalidation_is_required_element s = revalidation_is_required_element t"
    unfolding readiness_part_defs e by (rule refl)
  show "knowingly_incomplete s = knowingly_incomplete t"
    unfolding readiness_part_defs e by (rule refl)
  show "current_rack_count s = current_rack_count t"
    unfolding readiness_part_defs e by (rule refl)
  show "active_count s = active_count t"
    unfolding readiness_part_defs e by (rule refl)
qed

lemma evaluate_readiness_cong:
  assumes "readiness_view s = readiness_view t"
    and "\<not> terminal_lifecycle (cs_lifecycle s)" and "\<not> terminal_lifecycle (cs_lifecycle t)"
  shows "evaluate_readiness s = evaluate_readiness t"
proof -
  have "cs_readiness_contract s = cs_readiness_contract t"
    using assms(1) by (simp add: readiness_view_def)
  then show ?thesis
    using assms(2,3) readiness_blockers_cong [OF assms(1)]
    by (simp add: evaluate_readiness_def terminal_lifecycle_def)
qed

lemma evaluate_terminal:
  "terminal_lifecycle (cs_lifecycle s) \<Longrightarrow>
     re_lifecycle (evaluate_readiness s) = cs_lifecycle s \<and> \<not> re_satisfied (evaluate_readiness s)"
  by (auto simp: evaluate_readiness_def terminal_lifecycle_def)

lemma evaluate_terminal_iff:
  "terminal_lifecycle (re_lifecycle (evaluate_readiness s)) \<longleftrightarrow> terminal_lifecycle (cs_lifecycle s)"
  by (auto simp: evaluate_readiness_def terminal_lifecycle_def Let_def)

lemma evaluate_lifecycle_Ready:
  "re_lifecycle (evaluate_readiness s) = CL_Ready \<Longrightarrow> re_satisfied (evaluate_readiness s)"
  by (auto simp: evaluate_readiness_def Let_def split: if_splits)

lemma evaluate_satisfied_Nil:
  "re_satisfied (evaluate_readiness s) \<longleftrightarrow>
     \<not> terminal_lifecycle (cs_lifecycle s) \<and> readiness_blockers s = []"
proof -
  have "sort_key f xs = [] \<longleftrightarrow> xs = []" for f :: "readiness_blocker \<Rightarrow> string \<times> string" and xs
    by (metis length_0_conv length_sort)
  then show ?thesis by (auto simp: evaluate_readiness_def Let_def terminal_lifecycle_def)
qed

subsection \<open>The contract, read declaratively\<close>

definition contract_holds :: "cluster_state \<Rightarrow> bool" where
  "contract_holds s \<longleftrightarrow>
     (let c = cs_readiness_contract s in
      (\<exists>k r. om_find (cs_racks s) k = Some r \<and> is_active r)
      \<and> rc_minimum_current_racks c \<le> current_rack_count s
      \<and> (\<forall>k \<in> set (rc_mandatory_racks c).
           \<exists>r. om_find (cs_racks s) k = Some r \<and> is_current_active r)
      \<and> (rc_require_all_active_racks_current c \<longrightarrow>
           (\<forall>k r. om_find (cs_racks s) k = Some r \<and> is_active r \<longrightarrow> rr_authoritative_current r))
      \<and> (\<forall>k r. om_find (cs_racks s) k = Some r \<longrightarrow> \<not> needs_revalidation r)
      \<and> (rc_require_connectivity_evidence c \<longrightarrow> 0 < current_links s)
      \<and> rc_minimum_current_links c \<le> current_links s
      \<and> (\<forall>klass \<in> set (rc_required_placement_domain_classes c). placement_class_present s klass)
      \<and> (\<forall>klass \<in> set (rc_required_failure_domain_classes c). failure_class_present s klass)
      \<and> (rc_require_no_conflicts c \<longrightarrow>
           (\<forall>k l. om_find (cs_links s) k = Some l \<longrightarrow>
              has_rack s (lk_source l) \<and> has_rack s (lk_destination l))
           \<and> (\<forall>k r. om_find (cs_racks s) k = Some r \<and> rr_authoritative_current r \<longrightarrow>
                \<not> is_boot_fenced s (rf_boot (rr_reference r)) \<and> \<not> is_rack_retired s k)))"

lemma active_count_pos:
  "active_count s \<noteq> 0 \<longleftrightarrow> (\<exists>k r. om_find (cs_racks s) k = Some r \<and> is_active r)"
  by (auto simp: active_count_def filter_empty_conv set_om_values)

lemma any_revalidation_iff:
  "any_revalidation s \<longleftrightarrow> (\<exists>k r. om_find (cs_racks s) k = Some r \<and> needs_revalidation r)"
  by (auto simp: any_revalidation_def list_ex_iff set_om_values)

lemma count_blockers_Nil:
  "count_blockers s = [] \<longleftrightarrow>
     (\<exists>k r. om_find (cs_racks s) k = Some r \<and> is_active r)
     \<and> rc_minimum_current_racks (cs_readiness_contract s) \<le> current_rack_count s"
  by (auto simp: count_blockers_def active_count_pos [symmetric] not_less)

lemma mandatory_blockers_Nil:
  "concat (map (mandatory_blocker s) ks) = [] \<longleftrightarrow>
     (\<forall>k \<in> set ks. \<exists>r. om_find (cs_racks s) k = Some r \<and> is_current_active r)"
proof -
  have "mandatory_blocker s k = [] \<longleftrightarrow> (\<exists>r. om_find (cs_racks s) k = Some r \<and> is_current_active r)" for k
    by (auto simp: mandatory_blocker_def is_current_active_def split: option.splits)
  then show ?thesis by auto
qed

lemma rack_blockers_Nil:
  "all_current_blockers s = [] \<longleftrightarrow>
     (rc_require_all_active_racks_current (cs_readiness_contract s) \<longrightarrow>
        (\<forall>k r. om_find (cs_racks s) k = Some r \<and> is_active r \<longrightarrow> rr_authoritative_current r))"
  "revalidation_blockers s = [] \<longleftrightarrow>
     (\<forall>k r. om_find (cs_racks s) k = Some r \<longrightarrow> \<not> needs_revalidation r)"
  by (auto simp: all_current_blockers_def revalidation_blockers_def any_revalidation_iff
      filter_empty_conv)

lemma connectivity_blockers_Nil:
  "connectivity_blockers s = [] \<longleftrightarrow>
     (rc_require_connectivity_evidence (cs_readiness_contract s) \<longrightarrow> 0 < current_links s)
     \<and> rc_minimum_current_links (cs_readiness_contract s) \<le> current_links s"
  by (auto simp: connectivity_blockers_def)

lemma class_blockers_Nil:
  "class_blockers s = [] \<longleftrightarrow>
     (\<forall>klass \<in> set (rc_required_placement_domain_classes (cs_readiness_contract s)).
        placement_class_present s klass)
     \<and> (\<forall>klass \<in> set (rc_required_failure_domain_classes (cs_readiness_contract s)).
        failure_class_present s klass)"
  by (auto simp: class_blockers_def filter_empty_conv)

lemma conflict_blockers_Nil:
  "conflict_blockers s = [] \<longleftrightarrow>
     (rc_require_no_conflicts (cs_readiness_contract s) \<longrightarrow>
        (\<forall>k l. om_find (cs_links s) k = Some l \<longrightarrow>
           has_rack s (lk_source l) \<and> has_rack s (lk_destination l))
        \<and> (\<forall>k r. om_find (cs_racks s) k = Some r \<and> rr_authoritative_current r \<longrightarrow>
             \<not> is_boot_fenced s (rf_boot (rr_reference r)) \<and> \<not> is_rack_retired s k))"
  by (auto simp: conflict_blockers_def om_filter_Nil om_entries_all)

lemma readiness_blockers_Nil: "readiness_blockers s = [] \<longleftrightarrow> contract_holds s"
  unfolding readiness_blockers_def contract_holds_def Let_def append_is_Nil_conv
    count_blockers_Nil mandatory_blockers_Nil rack_blockers_Nil connectivity_blockers_Nil
    class_blockers_Nil conflict_blockers_Nil
  by (simp only: conj_assoc)

lemma current_rack_count_pos:
  "0 < current_rack_count s \<longleftrightarrow> (\<exists>k r. om_find (cs_racks s) k = Some r \<and> is_current_active r)"
  by (auto simp: current_rack_count_def filter_empty_conv set_om_values)

lemma consumable_active_rack:
  assumes "is_consumable_lifecycle (re_lifecycle (evaluate_readiness s))"
  shows "\<exists>k r. om_find (cs_racks s) k = Some r \<and> is_active r"
proof (cases "re_satisfied (evaluate_readiness s)")
  case True
  then have "contract_holds s" by (simp add: evaluate_satisfied_Nil readiness_blockers_Nil)
  then show ?thesis by (simp add: contract_holds_def Let_def)
next
  case False
  then have "0 < current_rack_count s"
    using assms by (auto simp: evaluate_readiness_def is_consumable_lifecycle_def Let_def split: if_splits)
  then show ?thesis by (auto simp: current_rack_count_pos is_current_active_def)
qed

subsection \<open>Where the evaluation differs from its documentation\<close>

text \<open>include/cluster_fabric/lifecycle.hpp (lines 137 to 139) says that with \<^verbatim>\<open>allow_degraded\<close> elements that are not
  mandatory do not block READY and that without it any degraded element does. The flag only selects the
  lifecycle label: whether the evaluation is satisfied does not depend on it.\<close>

lemma degraded_flag_ignored:
  "re_satisfied (evaluate_readiness
       (s\<lparr>cs_readiness_contract := (cs_readiness_contract s)\<lparr>rc_allow_degraded := flag\<rparr>\<rparr>))
     \<longleftrightarrow> re_satisfied (evaluate_readiness s)"
proof -
  let ?s = "s\<lparr>cs_readiness_contract := (cs_readiness_contract s)\<lparr>rc_allow_degraded := flag\<rparr>\<rparr>"
  have "contract_holds ?s \<longleftrightarrow> contract_holds s"
    by (simp add: contract_holds_def Let_def current_rack_count_def current_links_def placement_class_present_def
        failure_class_present_def has_rack_def is_boot_fenced_def is_rack_retired_def)
  then show ?thesis by (simp add: evaluate_satisfied_Nil readiness_blockers_Nil)
qed

text \<open>docs/operations.md (line 257) lists \<^verbatim>\<open>minimum_current_links_not_met\<close> under \<^verbatim>\<open>require_connectivity_evidence\<close>; the
  minimum is demanded whether or not that flag is set.\<close>

lemma minimum_links_unconditional:
  assumes "current_links s < rc_minimum_current_links (cs_readiness_contract s)"
  shows "\<not> re_satisfied (evaluate_readiness s)"
  using assms by (simp add: evaluate_satisfied_Nil readiness_blockers_Nil contract_holds_def Let_def)

text \<open>lifecycle.hpp (lines 134 and 135) says that with \<^verbatim>\<open>allow_partial\<close> an incomplete rack set may still be READY and is
  PARTIAL otherwise. It is PARTIAL when the flag is set and READY when it is not.\<close>

lemma partial_when_allowed:
  assumes "re_satisfied (evaluate_readiness s)" and "knowingly_incomplete s" and "\<not> revalidation_is_required_element s"
  shows "re_lifecycle (evaluate_readiness s)
    = (if rc_allow_partial (cs_readiness_contract s) then CL_Partial else CL_Ready)"
  using assms unfolding evaluate_readiness_def by (simp add: Let_def split: if_splits)

subsection \<open>Properties\<close>

text \<open>
  C29. The evaluation is satisfied exactly when the cluster is not retiring or retired and every clause of
  its readiness contract holds as the code reads it; the blockers it lists are therefore complete. The
  flag \<^verbatim>\<open>allow_degraded\<close> is no clause (\<open>degraded_flag_ignored\<close>) and the minimum of current links is demanded
  unconditionally (\<open>minimum_links_unconditional\<close>), both against the documentation.
\<close>

theorem readiness_exact:
  "re_satisfied (evaluate_readiness s) \<longleftrightarrow> \<not> terminal_lifecycle (cs_lifecycle s) \<and> contract_holds s"
  by (simp add: evaluate_satisfied_Nil readiness_blockers_Nil)

end
