(* ===== verification/Queries.thy ===== *)
theory Queries
  imports Readiness
begin

text \<open>
  Derived indexes and deterministic queries over the canonical state (src/src/cluster_state.cpp):
  \<^verbatim>\<open>ClusterIndexes::rebuild\<close> and its accessors, \<^verbatim>\<open>aggregate_capacity\<close>, \<^verbatim>\<open>failure_domain_independence\<close> and
  \<^verbatim>\<open>reachability_between\<close>. The loops of the queries are folds over the same flags the code keeps; each
  query then has a lemma that reads the flags as statements about the records.
\<close>

subsection \<open>Indexes\<close>

text \<open>\<^verbatim>\<open>index[key].push_back(value)\<close> for every pair of a list.\<close>

definition om_at :: "('k::linorder, 'v list) omap \<Rightarrow> 'k \<Rightarrow> 'v list" where
  "om_at m k = (case om_find m k of None \<Rightarrow> [] | Some vs \<Rightarrow> vs)"

definition om_push :: "('k::linorder, 'v list) omap \<Rightarrow> 'k \<times> 'v \<Rightarrow> ('k, 'v list) omap" where
  "om_push m p = om_insert (fst p) (om_at m (fst p) @ [snd p]) m"

definition push_all :: "('k::linorder \<times> 'v) list \<Rightarrow> ('k, 'v list) omap" where
  "push_all ps = foldl om_push om_empty ps"

definition sort_lists :: "('k::linorder, 'v::linorder list) omap \<Rightarrow> ('k, 'v list) omap" where
  "sort_lists m = om_map (\<lambda>_ vs. sort vs) m"

definition member_lists :: "('t, 'b) domain_map \<Rightarrow> ('t strong_id, rack_id list) omap" where
  "member_lists m =
     foldl (\<lambda>ix (k, d). om_insert k (sort_unique (dm_racks d)) ix) om_empty (om_entries m)"

definition member_pairs :: "('t, 'b) domain_map \<Rightarrow> (rack_id \<times> 't strong_id) list" where
  "member_pairs m =
     concat (map (\<lambda>(k, d). map (\<lambda>rack. (rack, k)) (sort_unique (dm_racks d))) (om_entries m))"

record cluster_indexes =
  ix_rack_count :: nat
  ix_racks_in_placement :: "(placement_domain_id, rack_id list) omap"
  ix_racks_in_capacity :: "(capacity_domain_id, rack_id list) omap"
  ix_racks_in_failure :: "(failure_domain_id, rack_id list) omap"
  ix_racks_in_network :: "(network_domain_id, rack_id list) omap"
  ix_placement_of_rack :: "(rack_id, placement_domain_id list) omap"
  ix_capacity_of_rack :: "(rack_id, capacity_domain_id list) omap"
  ix_failure_of_rack :: "(rack_id, failure_domain_id list) omap"
  ix_network_of_rack :: "(rack_id, network_domain_id list) omap"
  ix_links_from :: "(rack_id, link_id list) omap"
  ix_links_to :: "(rack_id, link_id list) omap"
  ix_placement_by_class :: "(placement_domain_class, placement_domain_id list) omap"
  ix_failure_by_class :: "(failure_domain_class, failure_domain_id list) omap"
  ix_racks_by_membership :: "(rack_membership_state, rack_id list) omap"
  ix_racks_by_boot :: "(boot_id, rack_id list) omap"

definition rebuild :: "cluster_state \<Rightarrow> cluster_indexes" where
  "rebuild s =
     \<lparr>ix_rack_count = om_size (cs_racks s),
      ix_racks_in_placement = member_lists (cs_placement_domains s),
      ix_racks_in_capacity = member_lists (cs_capacity_domains s),
      ix_racks_in_failure = member_lists (cs_failure_domains s),
      ix_racks_in_network = member_lists (cs_network_domains s),
      ix_placement_of_rack = sort_lists (push_all (member_pairs (cs_placement_domains s))),
      ix_capacity_of_rack = sort_lists (push_all (member_pairs (cs_capacity_domains s))),
      ix_failure_of_rack = sort_lists (push_all (member_pairs (cs_failure_domains s))),
      ix_network_of_rack = sort_lists (push_all (member_pairs (cs_network_domains s))),
      ix_links_from =
        sort_lists (push_all (map (\<lambda>(k, l). (lk_source l, k)) (om_entries (cs_links s)))),
      ix_links_to =
        sort_lists (push_all (map (\<lambda>(k, l). (lk_destination l, k)) (om_entries (cs_links s)))),
      ix_placement_by_class =
        push_all (map (\<lambda>(k, d). (dm_body d, k)) (om_entries (cs_placement_domains s))),
      ix_failure_by_class =
        push_all (map (\<lambda>(k, d). (dm_body d, k)) (om_entries (cs_failure_domains s))),
      ix_racks_by_membership =
        push_all (map (\<lambda>(k, r). (rr_membership r, k)) (om_entries (cs_racks s))),
      ix_racks_by_boot =
        push_all (map (\<lambda>(k, r). (rf_boot (rr_reference r), k)) (om_entries (cs_racks s)))\<rparr>"

definition racks_in_placement_domain :: "cluster_indexes \<Rightarrow> placement_domain_id \<Rightarrow> rack_id list" where
  "racks_in_placement_domain ix k = om_at (ix_racks_in_placement ix) k"

definition racks_in_capacity_domain :: "cluster_indexes \<Rightarrow> capacity_domain_id \<Rightarrow> rack_id list" where
  "racks_in_capacity_domain ix k = om_at (ix_racks_in_capacity ix) k"

definition racks_in_failure_domain :: "cluster_indexes \<Rightarrow> failure_domain_id \<Rightarrow> rack_id list" where
  "racks_in_failure_domain ix k = om_at (ix_racks_in_failure ix) k"

definition racks_in_network_domain :: "cluster_indexes \<Rightarrow> network_domain_id \<Rightarrow> rack_id list" where
  "racks_in_network_domain ix k = om_at (ix_racks_in_network ix) k"

definition placement_domains_of :: "cluster_indexes \<Rightarrow> rack_id \<Rightarrow> placement_domain_id list" where
  "placement_domains_of ix rack = om_at (ix_placement_of_rack ix) rack"

definition capacity_domains_of :: "cluster_indexes \<Rightarrow> rack_id \<Rightarrow> capacity_domain_id list" where
  "capacity_domains_of ix rack = om_at (ix_capacity_of_rack ix) rack"

definition failure_domains_of :: "cluster_indexes \<Rightarrow> rack_id \<Rightarrow> failure_domain_id list" where
  "failure_domains_of ix rack = om_at (ix_failure_of_rack ix) rack"

definition network_domains_of :: "cluster_indexes \<Rightarrow> rack_id \<Rightarrow> network_domain_id list" where
  "network_domains_of ix rack = om_at (ix_network_of_rack ix) rack"

definition links_from :: "cluster_indexes \<Rightarrow> rack_id \<Rightarrow> link_id list" where
  "links_from ix rack = om_at (ix_links_from ix) rack"

definition links_to :: "cluster_indexes \<Rightarrow> rack_id \<Rightarrow> link_id list" where
  "links_to ix rack = om_at (ix_links_to ix) rack"

definition placement_domains_of_class ::
  "cluster_indexes \<Rightarrow> placement_domain_class \<Rightarrow> placement_domain_id list" where
  "placement_domains_of_class ix klass = om_at (ix_placement_by_class ix) klass"

definition failure_domains_of_class ::
  "cluster_indexes \<Rightarrow> failure_domain_class \<Rightarrow> failure_domain_id list" where
  "failure_domains_of_class ix klass = om_at (ix_failure_by_class ix) klass"

definition racks_in_membership_state ::
  "cluster_indexes \<Rightarrow> rack_membership_state \<Rightarrow> rack_id list" where
  "racks_in_membership_state ix m = om_at (ix_racks_by_membership ix) m"

definition racks_for_boot :: "cluster_indexes \<Rightarrow> boot_id \<Rightarrow> rack_id list" where
  "racks_for_boot ix boot = om_at (ix_racks_by_boot ix) boot"

lemma om_at_push: "om_at (om_push m p) k = om_at m k @ (if fst p = k then [snd p] else [])"
  by (auto simp: om_at_def om_push_def)

lemma om_at_push_all: "om_at (push_all ps) k = map snd (filter (\<lambda>p. fst p = k) ps)"
proof -
  have "om_at (foldl om_push m ps) k = om_at m k @ map snd (filter (\<lambda>p. fst p = k) ps)" for m
    by (induction ps arbitrary: m) (auto simp: om_at_push)
  moreover have "om_at om_empty k = []" by (simp add: om_at_def)
  ultimately show ?thesis by (simp add: push_all_def)
qed

lemma om_at_sort_lists: "om_at (sort_lists m) k = sort (om_at m k)"
  by (simp add: om_at_def sort_lists_def split: option.splits)

lemma om_find_push_all: "om_find (push_all ps) k = None \<longleftrightarrow> k \<notin> fst ` set ps"
proof -
  have "om_find (foldl om_push m ps) k = None \<longleftrightarrow> om_find m k = None \<and> k \<notin> fst ` set ps" for m
    by (induction ps arbitrary: m) (auto simp: om_push_def)
  then show ?thesis by (simp add: push_all_def)
qed

lemma om_find_member_lists:
  fixes m :: "('t, 'b) domain_map"
  shows "om_find (member_lists m) k = map_option (\<lambda>d. sort_unique (dm_racks d)) (om_find m k)"
proof -
  let ?step = "\<lambda>ix (k, d). om_insert k (sort_unique (dm_racks d)) ix"
  have fold: "om_find (foldl ?step ix es) k
      = (case map_of es k of None \<Rightarrow> om_find ix k | Some d \<Rightarrow> Some (sort_unique (dm_racks d)))"
    if "distinct (map fst es)" for ix and es :: "('t strong_id \<times> ('t, 'b) domain) list"
    using that
  proof (induction es arbitrary: ix)
    case (Cons e es)
    obtain k' d where e: "e = (k', d)" by (cases e)
    have "map_of es k' = None" using Cons.prems e by (simp add: map_of_eq_None_iff)
    then show ?case using Cons e by (auto split: option.splits)
  qed simp
  show ?thesis
    using fold [of "om_entries m" om_empty] by (simp add: member_lists_def om_find_def [symmetric] split: option.splits)
qed

text \<open>Pairs generated in the order of the map's keys stay sorted per bucket.\<close>

lemma sorted_keys_filter: "sorted_wrt (<) (map fst (filter P (om_entries m)))"
proof -
  have "sorted_wrt (\<lambda>a b. fst a < fst b) (om_entries m)"
    using om_entries_sorted [of m] by (simp add: sorted_wrt_map)
  then show ?thesis by (simp add: sorted_wrt_map sorted_wrt_filter)
qed

lemma index_by_eq:
  "om_at (push_all (map (\<lambda>(k, v). (f v, k)) (om_entries m))) c
     = map fst (filter (\<lambda>(k, v). f v = c) (om_entries m))"
proof -
  have "map snd (filter (\<lambda>p. fst p = c) (map (\<lambda>(k, v). (f v, k)) es))
      = map fst (filter (\<lambda>(k, v). f v = c) es)" for es
    by (induction es) auto
  then show ?thesis by (simp add: om_at_push_all)
qed

lemma filter_const_pairs:
  "distinct rs \<Longrightarrow> filter (\<lambda>p. fst p = rack) (map (\<lambda>r. (r, k)) rs) = (if rack \<in> set rs then [(rack, k)] else [])"
  by (induction rs) auto

lemma member_index_eq:
  fixes m :: "('t, 'b) domain_map"
  shows "om_at (push_all (member_pairs m)) rack
     = map fst (filter (\<lambda>(k, d). rack \<in> set (dm_racks d)) (om_entries m))"
proof -
  have d: "distinct (sort_unique (xs :: rack_id list))" for xs
    using sort_unique_sorted [of xs] by (simp add: strict_sorted_iff)
  have "map snd (filter (\<lambda>p. fst p = rack)
        (concat (map (\<lambda>(k, d). map (\<lambda>r. (r, k)) (sort_unique (dm_racks d))) es)))
      = map fst (filter (\<lambda>(k, d). rack \<in> set (dm_racks d)) es)"
    for es :: "('t strong_id \<times> ('t, 'b) domain) list"
    by (induction es) (auto simp: filter_const_pairs [OF d])
  then show ?thesis by (simp add: om_at_push_all member_pairs_def)
qed

lemma sorted_bucket: "sort (map fst (filter P (om_entries m))) = map fst (filter P (om_entries m))"
  by (rule sorted_sort_id) (rule sorted_wrt_less_sorted [OF sorted_keys_filter])

lemma member_index_sorted:
  "om_at (sort_lists (push_all (member_pairs m))) rack
     = map fst (filter (\<lambda>(k, d). rack \<in> set (dm_racks d)) (om_entries m))"
  by (simp only: om_at_sort_lists member_index_eq sorted_bucket)

lemma link_index_sorted:
  "om_at (sort_lists (push_all (map (\<lambda>(k, l). (f l, k)) (om_entries m)))) rack
     = map fst (filter (\<lambda>(k, l). f l = rack) (om_entries m))"
  by (simp only: om_at_sort_lists index_by_eq sorted_bucket)

lemmas index_lookup =
  index_by_eq member_index_eq member_index_sorted link_index_sorted

subsection \<open>Reachability\<close>

record reach_flags =
  rg_current :: bool
  rg_reachable :: bool
  rg_unreachable :: bool
  rg_revalidation :: bool

definition no_reach_flags :: reach_flags where
  "no_reach_flags =
     \<lparr>rg_current = False, rg_reachable = False, rg_unreachable = False, rg_revalidation = False\<rparr>"

definition link_forward :: "rack_id \<Rightarrow> rack_id \<Rightarrow> inter_rack_link \<Rightarrow> bool" where
  "link_forward source destination l \<longleftrightarrow>
     (if lk_source l = source \<and> lk_destination l = destination then True
      else lk_source l = destination \<and> lk_destination l = source
           \<and> lk_direction l = LD_Bidirectional)"

definition reach_step ::
  "rack_id \<Rightarrow> rack_id \<Rightarrow> reach_flags \<Rightarrow> inter_rack_link \<Rightarrow> reach_flags" where
  "reach_step source destination g l =
     (if \<not> link_forward source destination l then g
      else if requires_revalidation (lk_evidence l) then g\<lparr>rg_revalidation := True\<rparr>
      else if \<not> is_current (lk_evidence l) then g
      else let g = g\<lparr>rg_current := True\<rparr> in
        if lk_reachability l = RB_Reachable then g\<lparr>rg_reachable := True\<rparr>
        else if lk_reachability l = RB_Unreachable then g\<lparr>rg_unreachable := True\<rparr>
        else if lk_reachability l = RB_RevalidationRequired then g\<lparr>rg_revalidation := True\<rparr>
        else g)"

definition reachability_between :: "cluster_state \<Rightarrow> rack_id \<Rightarrow> rack_id \<Rightarrow> reachability" where
  "reachability_between s source destination =
     (if \<not> has_rack s source \<or> \<not> has_rack s destination then RB_Unknown
      else let g = foldl (reach_step source destination) no_reach_flags (om_values (cs_links s)) in
        if rg_reachable g then RB_Reachable
        else if rg_revalidation g then RB_RevalidationRequired
        else if rg_current g \<and> rg_unreachable g then RB_Unreachable
        else RB_Unknown)"

text \<open>The links that speak about a pair of racks, and those among them that are current.\<close>

definition pair_link :: "cluster_state \<Rightarrow> rack_id \<Rightarrow> rack_id \<Rightarrow> inter_rack_link \<Rightarrow> bool" where
  "pair_link s a b l \<longleftrightarrow> (\<exists>k. om_find (cs_links s) k = Some l) \<and> link_forward a b l"

lemma is_current_not_revalidation: "is_current e \<Longrightarrow> \<not> requires_revalidation e"
  by (auto simp: is_current_def is_current_evidence_provenance_def requires_revalidation_def)

lemma reach_fold:
  fixes a b
  defines "cur \<equiv> \<lambda>l. link_forward a b l \<and> is_current (lk_evidence l)"
  shows "rg_current (foldl (reach_step a b) g ls) \<longleftrightarrow> rg_current g \<or> (\<exists>l \<in> set ls. cur l)"
    and "rg_reachable (foldl (reach_step a b) g ls) \<longleftrightarrow>
      rg_reachable g \<or> (\<exists>l \<in> set ls. cur l \<and> lk_reachability l = RB_Reachable)"
    and "rg_unreachable (foldl (reach_step a b) g ls) \<longleftrightarrow>
      rg_unreachable g \<or> (\<exists>l \<in> set ls. cur l \<and> lk_reachability l = RB_Unreachable)"
    and "rg_revalidation (foldl (reach_step a b) g ls) \<longleftrightarrow>
      rg_revalidation g \<or> (\<exists>l \<in> set ls. link_forward a b l \<and> (requires_revalidation (lk_evidence l)
        \<or> is_current (lk_evidence l) \<and> lk_reachability l = RB_RevalidationRequired))"
proof -
  have step: "rg_current (reach_step a b g l) \<longleftrightarrow> rg_current g \<or> cur l"
    "rg_reachable (reach_step a b g l) \<longleftrightarrow> rg_reachable g \<or> cur l \<and> lk_reachability l = RB_Reachable"
    "rg_unreachable (reach_step a b g l) \<longleftrightarrow> rg_unreachable g \<or> cur l \<and> lk_reachability l = RB_Unreachable"
    "rg_revalidation (reach_step a b g l) \<longleftrightarrow> rg_revalidation g \<or>
       link_forward a b l \<and> (requires_revalidation (lk_evidence l)
        \<or> is_current (lk_evidence l) \<and> lk_reachability l = RB_RevalidationRequired)" for g l
    by (auto simp: reach_step_def cur_def Let_def dest: is_current_not_revalidation)
  show "rg_current (foldl (reach_step a b) g ls) \<longleftrightarrow> rg_current g \<or> (\<exists>l \<in> set ls. cur l)"
    by (induction ls arbitrary: g) (auto simp: step)
  show "rg_reachable (foldl (reach_step a b) g ls) \<longleftrightarrow>
      rg_reachable g \<or> (\<exists>l \<in> set ls. cur l \<and> lk_reachability l = RB_Reachable)"
    by (induction ls arbitrary: g) (auto simp: step)
  show "rg_unreachable (foldl (reach_step a b) g ls) \<longleftrightarrow>
      rg_unreachable g \<or> (\<exists>l \<in> set ls. cur l \<and> lk_reachability l = RB_Unreachable)"
    by (induction ls arbitrary: g) (auto simp: step)
  show "rg_revalidation (foldl (reach_step a b) g ls) \<longleftrightarrow>
      rg_revalidation g \<or> (\<exists>l \<in> set ls. link_forward a b l \<and> (requires_revalidation (lk_evidence l)
        \<or> is_current (lk_evidence l) \<and> lk_reachability l = RB_RevalidationRequired))"
    by (induction ls arbitrary: g) (auto simp: step)
qed

lemma reachability_between_eq:
  "reachability_between s a b =
     (if \<not> has_rack s a \<or> \<not> has_rack s b then RB_Unknown
      else if \<exists>l. pair_link s a b l \<and> is_current (lk_evidence l) \<and> lk_reachability l = RB_Reachable
        then RB_Reachable
      else if \<exists>l. pair_link s a b l \<and> (requires_revalidation (lk_evidence l)
          \<or> is_current (lk_evidence l) \<and> lk_reachability l = RB_RevalidationRequired)
        then RB_RevalidationRequired
      else if \<exists>l. pair_link s a b l \<and> is_current (lk_evidence l) \<and> lk_reachability l = RB_Unreachable
        then RB_Unreachable
      else RB_Unknown)"
  unfolding reachability_between_def Let_def reach_fold pair_link_def
  by (auto simp: no_reach_flags_def set_om_values)

subsection \<open>Failure-domain independence\<close>

record independence_flags =
  ig_lhs_current :: bool
  ig_rhs_current :: bool
  ig_revalidation :: bool
  ig_shared :: bool

definition independence_step ::
  "cluster_state \<Rightarrow> rack_id \<Rightarrow> rack_id \<Rightarrow> failure_domain_class \<Rightarrow> independence_flags
     \<Rightarrow> failure_domain_id \<Rightarrow> independence_flags" where
  "independence_step s lhs rhs klass g k =
     (case om_find (cs_failure_domains s) k of
        None \<Rightarrow> g
      | Some d \<Rightarrow>
          if dm_body d \<noteq> klass then g
          else if domain_needs_revalidation (dm_header d) then g\<lparr>ig_revalidation := True\<rparr>
          else if \<not> domain_is_current (dm_header d) then g
          else
            let in_lhs = binary_search (dm_racks d) lhs;
                in_rhs = binary_search (dm_racks d) rhs;
                g = (if in_lhs then g\<lparr>ig_lhs_current := True\<rparr> else g);
                g = (if in_rhs then g\<lparr>ig_rhs_current := True\<rparr> else g)
            in if in_lhs \<and> in_rhs then g\<lparr>ig_shared := True\<rparr> else g)"

definition failure_domain_independence ::
  "cluster_state \<Rightarrow> cluster_indexes \<Rightarrow> rack_id \<Rightarrow> rack_id \<Rightarrow> failure_domain_class
     \<Rightarrow> domain_independence" where
  "failure_domain_independence s ix lhs rhs klass =
     (if klass = FDC_Unknown then DI_Unknown
      else if om_find (cs_racks s) lhs = None \<or> om_find (cs_racks s) rhs = None then DI_Unknown
      else
        let g0 = \<lparr>ig_lhs_current = False, ig_rhs_current = False, ig_revalidation = False,
                  ig_shared = False\<rparr>;
            g1 = foldl (independence_step s lhs rhs klass) g0 (failure_domains_of ix lhs);
            g2 = foldl (independence_step s lhs rhs klass) g1 (failure_domains_of ix rhs)
        in if ig_shared g2 then DI_Shared
           else if ig_revalidation g2 then DI_RevalidationRequired
           else if ig_lhs_current g2 \<and> ig_rhs_current g2 then DI_Independent
           else DI_Unknown)"

text \<open>
  A failure domain of the class with the given member; \<open>sorted_members\<close> is the part of the state
  invariants the binary search of the query relies on.
\<close>

definition class_domain :: "cluster_state \<Rightarrow> failure_domain_class \<Rightarrow> rack_id \<Rightarrow> failure_domain \<Rightarrow> bool" where
  "class_domain s klass rack d \<longleftrightarrow>
     (\<exists>k. om_find (cs_failure_domains s) k = Some d) \<and> dm_body d = klass \<and> rack \<in> set (dm_racks d)"

definition sorted_members :: "('t, 'b) domain_map \<Rightarrow> bool" where
  "sorted_members m \<longleftrightarrow> (\<forall>k d. om_find m k = Some d \<longrightarrow> sorted_unique (dm_racks d))"

lemma independence_step_flags:
  fixes klass :: failure_domain_class
  assumes "sorted_members (cs_failure_domains s)"
  defines "cur \<equiv> \<lambda>k P. \<exists>d. om_find (cs_failure_domains s) k = Some d \<and> dm_body d = klass
      \<and> domain_is_current (dm_header d) \<and> P (set (dm_racks d))"
    and "rvl \<equiv> \<lambda>k. \<exists>d. om_find (cs_failure_domains s) k = Some d \<and> dm_body d = klass
      \<and> domain_needs_revalidation (dm_header d)"
  shows "ig_lhs_current (independence_step s a b klass g k) \<longleftrightarrow> ig_lhs_current g \<or> cur k (\<lambda>R. a \<in> R)"
    and "ig_rhs_current (independence_step s a b klass g k) \<longleftrightarrow> ig_rhs_current g \<or> cur k (\<lambda>R. b \<in> R)"
    and "ig_shared (independence_step s a b klass g k) \<longleftrightarrow> ig_shared g \<or> cur k (\<lambda>R. a \<in> R \<and> b \<in> R)"
    and "ig_revalidation (independence_step s a b klass g k) \<longleftrightarrow> ig_revalidation g \<or> rvl k"
proof -
  have b: "binary_search (dm_racks d) r \<longleftrightarrow> r \<in> set (dm_racks d)"
    if "om_find (cs_failure_domains s) k = Some d" for d r
    using assms(1) that by (simp add: sorted_members_def sorted_unique_iff)
  have n: "domain_is_current h \<Longrightarrow> \<not> domain_needs_revalidation h" for h
    by (auto simp: domain_is_current_def domain_needs_revalidation_def dest: is_current_not_revalidation)
  show "ig_lhs_current (independence_step s a b klass g k) \<longleftrightarrow> ig_lhs_current g \<or> cur k (\<lambda>R. a \<in> R)"
    by (auto simp: independence_step_def cur_def Let_def b dest: n split: option.splits)
  show "ig_rhs_current (independence_step s a b klass g k) \<longleftrightarrow> ig_rhs_current g \<or> cur k (\<lambda>R. b \<in> R)"
    by (auto simp: independence_step_def cur_def Let_def b dest: n split: option.splits)
  show "ig_shared (independence_step s a b klass g k) \<longleftrightarrow> ig_shared g \<or> cur k (\<lambda>R. a \<in> R \<and> b \<in> R)"
    by (auto simp: independence_step_def cur_def Let_def b dest: n split: option.splits)
  show "ig_revalidation (independence_step s a b klass g k) \<longleftrightarrow> ig_revalidation g \<or> rvl k"
    by (auto simp: independence_step_def rvl_def Let_def b split: option.splits)
qed

lemma foldl_flag:
  assumes "\<And>g k. flag (step g k) \<longleftrightarrow> flag g \<or> P k"
  shows "flag (foldl step g ks) \<longleftrightarrow> flag g \<or> (\<exists>k \<in> set ks. P k)"
  by (induction ks arbitrary: g) (auto simp: assms)

lemma failure_domains_of_rebuild:
  "k \<in> set (failure_domains_of (rebuild s) rack) \<longleftrightarrow>
     (\<exists>d. om_find (cs_failure_domains s) k = Some d \<and> rack \<in> set (dm_racks d))"
  by (force simp: failure_domains_of_def rebuild_def member_index_sorted)

lemma failure_domain_independence_eq:
  assumes "sorted_members (cs_failure_domains s)"
  shows "failure_domain_independence s (rebuild s) a b klass =
     (if klass = FDC_Unknown \<or> \<not> has_rack s a \<or> \<not> has_rack s b then DI_Unknown
      else if \<exists>d. class_domain s klass a d \<and> class_domain s klass b d \<and> domain_is_current (dm_header d)
        then DI_Shared
      else if \<exists>d. (class_domain s klass a d \<or> class_domain s klass b d) \<and> domain_needs_revalidation (dm_header d)
        then DI_RevalidationRequired
      else if (\<exists>d. class_domain s klass a d \<and> domain_is_current (dm_header d))
          \<and> (\<exists>d. class_domain s klass b d \<and> domain_is_current (dm_header d))
        then DI_Independent
      else DI_Unknown)"
proof -
  let ?step = "independence_step s a b klass"
  let ?g0 = "\<lparr>ig_lhs_current = False, ig_rhs_current = False, ig_revalidation = False, ig_shared = False\<rparr>"
  define g where
    "g = foldl ?step (foldl ?step ?g0 (failure_domains_of (rebuild s) a)) (failure_domains_of (rebuild s) b)"
  note flags = independence_step_flags [OF assms, where a = a and b = b and klass = klass]
  have sh: "ig_shared g \<longleftrightarrow>
      (\<exists>d. class_domain s klass a d \<and> class_domain s klass b d \<and> domain_is_current (dm_header d))"
    unfolding g_def foldl_flag [where flag = ig_shared, OF flags(3)] Bex_def failure_domains_of_rebuild
      class_domain_def by auto
  have rv: "ig_revalidation g \<longleftrightarrow>
      (\<exists>d. (class_domain s klass a d \<or> class_domain s klass b d) \<and> domain_needs_revalidation (dm_header d))"
    unfolding g_def foldl_flag [where flag = ig_revalidation, OF flags(4)] Bex_def
      failure_domains_of_rebuild class_domain_def by auto
  have lc: "ig_lhs_current g \<longleftrightarrow> (\<exists>d. class_domain s klass a d \<and> domain_is_current (dm_header d))"
    unfolding g_def foldl_flag [where flag = ig_lhs_current, OF flags(1)] Bex_def
      failure_domains_of_rebuild class_domain_def by auto
  have rc: "ig_rhs_current g \<longleftrightarrow> (\<exists>d. class_domain s klass b d \<and> domain_is_current (dm_header d))"
    unfolding g_def foldl_flag [where flag = ig_rhs_current, OF flags(2)] Bex_def
      failure_domains_of_rebuild class_domain_def by auto
  show ?thesis
    unfolding failure_domain_independence_def Let_def g_def [symmetric] has_rack_def sh rv lc rc
    by (cases "klass = FDC_Unknown") (simp_all only: not_not simp_thms if_True if_False)
qed

subsection \<open>Capacity aggregation\<close>

datatype capacity_aggregate_status =
  CA_Unknown | CA_Known | CA_MixedSemantics | CA_IncompleteEvidence | CA_RevalidationRequired

record capacity_aggregate =
  ca_status :: capacity_aggregate_status
  ca_unit :: string
  ca_value :: "double option"
  ca_provenance :: evidence_provenance
  ca_reason :: string

record aggregate_flags =
  ag_found_any :: bool
  ag_any_unknown_value :: bool
  ag_any_revalidation :: bool
  ag_provenance :: "evidence_provenance option"
  ag_mixed :: bool
  ag_aggregated_seen :: bool
  ag_aggregated_unset :: bool
  ag_total :: double
  ag_contributing :: nat

definition no_aggregate_flags :: aggregate_flags where
  "no_aggregate_flags =
     \<lparr>ag_found_any = False, ag_any_unknown_value = False, ag_any_revalidation = False,
      ag_provenance = None, ag_mixed = False, ag_aggregated_seen = False,
      ag_aggregated_unset = False, ag_total = double_zero, ag_contributing = 0\<rparr>"

text \<open>The pair \<^verbatim>\<open>provenance\<close>/\<^verbatim>\<open>provenance_set\<close> of the code is one optional value.\<close>

definition aggregate_step :: "string \<Rightarrow> aggregate_flags \<Rightarrow> capacity_quantity \<Rightarrow> aggregate_flags" where
  "aggregate_step unit g q =
     (if cq_unit q \<noteq> unit then g
      else
        let g = g\<lparr>ag_found_any := True\<rparr>;
            g = (if cq_provenance q = EP_Reconstructed then g\<lparr>ag_any_revalidation := True\<rparr> else g);
            g = (case ag_provenance g of
                   None \<Rightarrow> g\<lparr>ag_provenance := Some (cq_provenance q)\<rparr>
                 | Some p \<Rightarrow> if p \<noteq> cq_provenance q then g\<lparr>ag_mixed := True\<rparr> else g);
            g = (if cq_aggregated q then g\<lparr>ag_aggregated_seen := True\<rparr>
                 else g\<lparr>ag_aggregated_unset := True\<rparr>)
        in case cq_value q of
             None \<Rightarrow> g\<lparr>ag_any_unknown_value := True\<rparr>
           | Some v \<Rightarrow> g\<lparr>ag_total := double_add (ag_total g) v, ag_contributing := Suc (ag_contributing g)\<rparr>)"

text \<open>The member loop: the first member rack that is unknown or requires revalidation decides.\<close>

fun member_obstacle :: "cluster_state \<Rightarrow> rack_id list \<Rightarrow> (capacity_aggregate_status \<times> string) option" where
  "member_obstacle s [] = None"
| "member_obstacle s (rack # racks) =
     (case om_find (cs_racks s) rack of
        None \<Rightarrow> Some (CA_IncompleteEvidence, ''member_rack_unknown'')
      | Some r \<Rightarrow>
          if requires_revalidation (rf_evidence (rr_reference r))
          then Some (CA_RevalidationRequired, ''member_rack_requires_revalidation'')
          else member_obstacle s racks)"

definition aggregate_capacity :: "cluster_state \<Rightarrow> capacity_domain_id \<Rightarrow> string \<Rightarrow> capacity_aggregate" where
  "aggregate_capacity s k unit =
     (let refused = (\<lambda>status reason.
            \<lparr>ca_status = status, ca_unit = unit, ca_value = None, ca_provenance = EP_Unknown,
             ca_reason = reason\<rparr>)
      in case om_find (cs_capacity_domains s) k of
        None \<Rightarrow> refused CA_Unknown ''unknown_capacity_domain''
      | Some d \<Rightarrow>
          let g = foldl (aggregate_step unit) no_aggregate_flags (cb_quantities (dm_body d)) in
          if \<not> ag_found_any g then refused CA_Unknown ''no_quantity_with_unit''
          else if ag_any_revalidation g
            then refused CA_RevalidationRequired ''reconstructed_quantity_requires_revalidation''
          else if ag_mixed g \<or> ag_aggregated_seen g \<and> ag_aggregated_unset g
            then refused CA_MixedSemantics ''member_quantities_have_different_semantics''
          else case member_obstacle s (dm_racks d) of
            Some (status, reason) \<Rightarrow> refused status reason
          | None \<Rightarrow>
              if ag_any_unknown_value g then refused CA_IncompleteEvidence ''member_quantity_unknown''
              else
                \<lparr>ca_status = CA_Known, ca_unit = unit, ca_value = Some (ag_total g),
                 ca_provenance =
                   (if ag_contributing g > 1 then EP_Derived
                    else case ag_provenance g of None \<Rightarrow> EP_Unknown | Some p \<Rightarrow> p),
                 ca_reason =
                   (if ag_contributing g > 1 then ''derived_from_member_quantities''
                    else ''single_supplied_quantity'')\<rparr>)"

text \<open>The fold over the quantities of the unit.\<close>

lemma aggregate_filter:
  "foldl (aggregate_step unit) g qs = foldl (aggregate_step unit) g (filter (\<lambda>q. cq_unit q = unit) qs)"
  by (induction qs arbitrary: g) (simp_all add: aggregate_step_def)

lemma aggregate_first:
  assumes "cq_unit q = unit"
  defines "g \<equiv> aggregate_step unit no_aggregate_flags q"
  shows "ag_found_any g" "ag_any_revalidation g \<longleftrightarrow> cq_provenance q = EP_Reconstructed"
    "ag_provenance g = Some (cq_provenance q)" "\<not> ag_mixed g"
    "ag_aggregated_seen g \<longleftrightarrow> cq_aggregated q" "ag_aggregated_unset g \<longleftrightarrow> \<not> cq_aggregated q"
    "ag_any_unknown_value g \<longleftrightarrow> cq_value q = None"
    "cq_value q \<noteq> None \<Longrightarrow> ag_total g = double_add double_zero (the (cq_value q))"
  using assms(1) by (auto simp: g_def aggregate_step_def no_aggregate_flags_def Let_def split: option.splits)

lemma aggregate_next:
  assumes "cq_unit q = unit" and "ag_provenance g = Some p"
  shows "ag_found_any (aggregate_step unit g q)"
    "ag_any_revalidation (aggregate_step unit g q) \<longleftrightarrow> ag_any_revalidation g \<or> cq_provenance q = EP_Reconstructed"
    "ag_provenance (aggregate_step unit g q) = Some p"
    "ag_mixed (aggregate_step unit g q) \<longleftrightarrow> ag_mixed g \<or> cq_provenance q \<noteq> p"
    "ag_aggregated_seen (aggregate_step unit g q) \<longleftrightarrow> ag_aggregated_seen g \<or> cq_aggregated q"
    "ag_aggregated_unset (aggregate_step unit g q) \<longleftrightarrow> ag_aggregated_unset g \<or> \<not> cq_aggregated q"
    "ag_any_unknown_value (aggregate_step unit g q) \<longleftrightarrow> ag_any_unknown_value g \<or> cq_value q = None"
    "cq_value q \<noteq> None \<Longrightarrow>
       ag_total (aggregate_step unit g q) = double_add (ag_total g) (the (cq_value q))"
  using assms by (auto simp: aggregate_step_def Let_def split: option.splits)

lemma aggregate_rest:
  assumes "\<forall>q \<in> set qs. cq_unit q = unit" and "ag_provenance g = Some p" and "ag_found_any g"
  defines "h \<equiv> foldl (aggregate_step unit) g qs"
  shows "ag_found_any h"
    "ag_any_revalidation h \<longleftrightarrow> ag_any_revalidation g \<or> (\<exists>q \<in> set qs. cq_provenance q = EP_Reconstructed)"
    "ag_mixed h \<longleftrightarrow> ag_mixed g \<or> (\<exists>q \<in> set qs. cq_provenance q \<noteq> p)"
    "ag_aggregated_seen h \<longleftrightarrow> ag_aggregated_seen g \<or> (\<exists>q \<in> set qs. cq_aggregated q)"
    "ag_aggregated_unset h \<longleftrightarrow> ag_aggregated_unset g \<or> (\<exists>q \<in> set qs. \<not> cq_aggregated q)"
    "ag_any_unknown_value h \<longleftrightarrow> ag_any_unknown_value g \<or> (\<exists>q \<in> set qs. cq_value q = None)"
    "\<forall>q \<in> set qs. cq_value q \<noteq> None \<Longrightarrow>
       ag_total h = foldl double_add (ag_total g) (map (the \<circ> cq_value) qs)"
proof -
  have "ag_found_any h
      \<and> (ag_any_revalidation h \<longleftrightarrow> ag_any_revalidation g \<or> (\<exists>q \<in> set qs. cq_provenance q = EP_Reconstructed))
      \<and> (ag_mixed h \<longleftrightarrow> ag_mixed g \<or> (\<exists>q \<in> set qs. cq_provenance q \<noteq> p))
      \<and> (ag_aggregated_seen h \<longleftrightarrow> ag_aggregated_seen g \<or> (\<exists>q \<in> set qs. cq_aggregated q))
      \<and> (ag_aggregated_unset h \<longleftrightarrow> ag_aggregated_unset g \<or> (\<exists>q \<in> set qs. \<not> cq_aggregated q))
      \<and> (ag_any_unknown_value h \<longleftrightarrow> ag_any_unknown_value g \<or> (\<exists>q \<in> set qs. cq_value q = None))
      \<and> ((\<forall>q \<in> set qs. cq_value q \<noteq> None) \<longrightarrow>
           ag_total h = foldl double_add (ag_total g) (map (the \<circ> cq_value) qs))"
    unfolding h_def using assms(1-3)
  proof (induction qs arbitrary: g)
    case (Cons q qs)
    have q: "cq_unit q = unit" "\<forall>q \<in> set qs. cq_unit q = unit" using Cons.prems(1) by simp_all
    note n = aggregate_next [OF q(1) Cons.prems(2)]
    from Cons.IH [OF q(2) n(3) n(1)] show ?case
      by (simp add: n(2,4,5,6,7) disj_assoc) (simp add: n(8))
  qed simp
  then show "ag_found_any h"
    "ag_any_revalidation h \<longleftrightarrow> ag_any_revalidation g \<or> (\<exists>q \<in> set qs. cq_provenance q = EP_Reconstructed)"
    "ag_mixed h \<longleftrightarrow> ag_mixed g \<or> (\<exists>q \<in> set qs. cq_provenance q \<noteq> p)"
    "ag_aggregated_seen h \<longleftrightarrow> ag_aggregated_seen g \<or> (\<exists>q \<in> set qs. cq_aggregated q)"
    "ag_aggregated_unset h \<longleftrightarrow> ag_aggregated_unset g \<or> (\<exists>q \<in> set qs. \<not> cq_aggregated q)"
    "ag_any_unknown_value h \<longleftrightarrow> ag_any_unknown_value g \<or> (\<exists>q \<in> set qs. cq_value q = None)"
    "\<forall>q \<in> set qs. cq_value q \<noteq> None \<Longrightarrow>
       ag_total h = foldl double_add (ag_total g) (map (the \<circ> cq_value) qs)"
    by blast+
qed

lemma member_obstacle_None:
  "member_obstacle s racks = None \<longleftrightarrow>
     (\<forall>k \<in> set racks. \<exists>r. om_find (cs_racks s) k = Some r \<and> \<not> requires_revalidation (rf_evidence (rr_reference r)))"
  by (induction s racks rule: member_obstacle.induct) (auto split: option.splits)

text \<open>What the aggregate of a domain may rest on: the quantities of the unit and the member racks.\<close>

definition aggregable :: "cluster_state \<Rightarrow> capacity_domain \<Rightarrow> capacity_quantity list \<Rightarrow> bool" where
  "aggregable s d qs \<longleftrightarrow>
     qs \<noteq> []
     \<and> (\<forall>q \<in> set qs. cq_value q \<noteq> None \<and> cq_provenance q \<noteq> EP_Reconstructed
          \<and> cq_provenance q = cq_provenance (hd qs) \<and> cq_aggregated q = cq_aggregated (hd qs))
     \<and> (\<forall>k \<in> set (dm_racks d). \<exists>r. om_find (cs_racks s) k = Some r
          \<and> \<not> requires_revalidation (rf_evidence (rr_reference r)))"

lemma aggregate_capacity_quantities:
  assumes d: "om_find (cs_capacity_domains s) k = Some d"
    and qs: "qs = filter (\<lambda>q. cq_unit q = unit) (cb_quantities (dm_body d))"
  shows "ca_status (aggregate_capacity s k unit) = CA_Known \<longleftrightarrow> aggregable s d qs"
    and "aggregable s d qs \<Longrightarrow>
       ca_value (aggregate_capacity s k unit) = Some (foldl double_add double_zero (map (the \<circ> cq_value) qs))"
proof -
  let ?g = "foldl (aggregate_step unit) no_aggregate_flags (cb_quantities (dm_body d))"
  let ?known = "ag_found_any ?g \<and> \<not> ag_any_revalidation ?g
      \<and> \<not> (ag_mixed ?g \<or> ag_aggregated_seen ?g \<and> ag_aggregated_unset ?g)
      \<and> member_obstacle s (dm_racks d) = None \<and> \<not> ag_any_unknown_value ?g"
  have no: "\<not> CA_Known \<in> fst ` set_option (member_obstacle s racks)" for racks
    by (induction s racks rule: member_obstacle.induct) (auto split: option.splits)
  have st: "ca_status (aggregate_capacity s k unit) = CA_Known \<longleftrightarrow> ?known"
    using no [of "dm_racks d"] d
    by (auto simp: aggregate_capacity_def Let_def split: option.splits)
  have val: "ca_value (aggregate_capacity s k unit) = Some (ag_total ?g)" if ?known
    using that d by (auto simp: aggregate_capacity_def Let_def)
  have g: "?g = foldl (aggregate_step unit) no_aggregate_flags qs" unfolding qs by (rule aggregate_filter)
  have "(?known \<longleftrightarrow> aggregable s d qs) \<and>
      (aggregable s d qs \<longrightarrow> ag_total ?g = foldl double_add double_zero (map (the \<circ> cq_value) qs))"
  proof (cases qs)
    case Nil
    then show ?thesis unfolding g by (simp add: aggregable_def no_aggregate_flags_def)
  next
    case (Cons q rest)
    have u: "cq_unit q = unit" "\<forall>q \<in> set rest. cq_unit q = unit"
      using arg_cong [OF Cons, of set] unfolding qs by auto
    note f = aggregate_first [OF u(1)]
    note r = aggregate_rest [OF u(2) f(3) f(1)]
    have g': "?g = foldl (aggregate_step unit) (aggregate_step unit no_aggregate_flags q) rest"
      unfolding g Cons by simp
    have "?known \<longleftrightarrow> aggregable s d qs"
      unfolding g' aggregable_def member_obstacle_None Cons
      unfolding r(2-6) f(2,4-7) list.sel list.set ball_simps using r(1) f(4)
      by (cases "cq_aggregated q") auto
    moreover have "ag_total ?g = foldl double_add double_zero (map (the \<circ> cq_value) qs)" if "aggregable s d qs"
    proof -
      have "cq_value q \<noteq> None" "\<forall>q \<in> set rest. cq_value q \<noteq> None"
        using that unfolding aggregable_def Cons by simp_all
      then show ?thesis unfolding g' using r(7) f(8) Cons by simp
    qed
    ultimately show ?thesis by blast
  qed
  then have e: "?known \<longleftrightarrow> aggregable s d qs"
    and t: "aggregable s d qs \<Longrightarrow> ag_total ?g = foldl double_add double_zero (map (the \<circ> cq_value) qs)"
    by blast+
  show "ca_status (aggregate_capacity s k unit) = CA_Known \<longleftrightarrow> aggregable s d qs"
    unfolding st by (rule e)
  show "ca_value (aggregate_capacity s k unit) = Some (foldl double_add double_zero (map (the \<circ> cq_value) qs))"
    if a: "aggregable s d qs"
    unfolding t [OF a, symmetric] using a unfolding e [symmetric] by (rule val)
qed

subsection \<open>Where the answers differ from their documentation\<close>

text \<open>include/cluster_fabric/cluster_state.hpp (lines 228 and 229), docs/boundaries.md (line 71) and docs/invariants.md
  (line 104) say that reachability is UNKNOWN unless a link carries current evidence. Without any current
  link, one that requires revalidation makes the answer REVALIDATION_REQUIRED.\<close>

lemma revalidation_not_unknown:
  assumes "has_rack s a" and "has_rack s b" and "pair_link s a b l" and "requires_revalidation (lk_evidence l)"
    and "\<And>l. pair_link s a b l \<Longrightarrow> \<not> is_current (lk_evidence l)"
  shows "reachability_between s a b = RB_RevalidationRequired"
  using assms by (auto simp: reachability_between_eq)

text \<open>docs/invariants.md (lines 102 and 103) says that independence is UNKNOWN when no current domain of the class covers both
  racks, and docs/boundaries.md (lines 80 to 82) that it is whenever current evidence does not cover both.
  Racks in different current domains are INDEPENDENT although no domain covers both, and without any
  current domain one that requires revalidation makes the answer REVALIDATION_REQUIRED.\<close>

lemma independent_without_common_domain:
  assumes "sorted_members (cs_failure_domains s)" and "has_rack s a" and "has_rack s b" and "klass \<noteq> FDC_Unknown"
    and "\<And>d. \<not> (class_domain s klass a d \<and> class_domain s klass b d)"
    and "\<And>d. class_domain s klass a d \<or> class_domain s klass b d \<Longrightarrow> \<not> domain_needs_revalidation (dm_header d)"
    and "class_domain s klass a d" "domain_is_current (dm_header d)"
    and "class_domain s klass b e" "domain_is_current (dm_header e)"
  shows "failure_domain_independence s (rebuild s) a b klass = DI_Independent"
  using assms by (auto simp: failure_domain_independence_eq)

lemma independence_revalidation_not_unknown:
  assumes "sorted_members (cs_failure_domains s)" and "has_rack s a" and "has_rack s b" and "klass \<noteq> FDC_Unknown"
    and "class_domain s klass a d" and "domain_needs_revalidation (dm_header d)"
    and "\<And>d. class_domain s klass a d \<or> class_domain s klass b d \<Longrightarrow> \<not> domain_is_current (dm_header d)"
  shows "failure_domain_independence s (rebuild s) a b klass = DI_RevalidationRequired"
  using assms by (auto simp: failure_domain_independence_eq)

subsection \<open>Sample states\<close>

text \<open>Three racks on two power feeds, the first two on the same.\<close>

definition sample_domain :: "string \<Rightarrow> rack_id list \<Rightarrow> failure_domain" where
  "sample_domain k racks =
     \<lparr>dm_id = StrongId k, dm_body = FDC_PowerFeed, dm_racks = racks,
      dm_header = default_header\<lparr>dh_evidence := stamp_make EP_Measured 1000 0\<rparr>\<rparr>"

definition sample_racks :: cluster_state where
  "sample_racks = empty_state
     \<lparr>cs_racks := om_of_values (\<lambda>r. rf_rack (rr_reference r))
        (map (\<lambda>k. default_rack_record\<lparr>rr_reference := default_reference\<lparr>rf_rack := StrongId k\<rparr>\<rparr>) [''a'', ''b'', ''c'']),
      cs_failure_domains := om_of_values dm_id
        [sample_domain ''feed-1'' [StrongId ''a'', StrongId ''b''], sample_domain ''feed-2'' [StrongId ''c'']]\<rparr>"

lemma sample_find:
  "om_find (cs_failure_domains sample_racks) k =
    (if k = StrongId ''feed-2'' then Some (sample_domain ''feed-2'' [StrongId ''c''])
     else if k = StrongId ''feed-1'' then Some (sample_domain ''feed-1'' [StrongId ''a'', StrongId ''b'']) else None)"
  by (auto simp: sample_racks_def om_find_of_values sample_domain_def)

lemma sample_has: "has_rack sample_racks (StrongId ''a'')" "has_rack sample_racks (StrongId ''b'')" "has_rack sample_racks (StrongId ''c'')"
  by code_simp+

lemma sample_domains:
  "(\<exists>k. om_find (cs_failure_domains sample_racks) k = Some d) \<longleftrightarrow>
     d = sample_domain ''feed-1'' [StrongId ''a'', StrongId ''b''] \<or> d = sample_domain ''feed-2'' [StrongId ''c'']"
  unfolding sample_find by (auto split: if_splits intro: exI [of _ "StrongId ''feed-1''"] exI [of _ "StrongId ''feed-2''"])

lemma sample_class:
  "class_domain sample_racks FDC_PowerFeed rack d \<longleftrightarrow>
     d = sample_domain ''feed-1'' [StrongId ''a'', StrongId ''b''] \<and> rack \<in> {StrongId ''a'', StrongId ''b''}
     \<or> d = sample_domain ''feed-2'' [StrongId ''c''] \<and> rack = StrongId ''c''"
  unfolding class_domain_def sample_domains by (auto simp: sample_domain_def)

lemma sample_sorted: "sorted_members (cs_failure_domains sample_racks)"
  by (auto simp: sorted_members_def sample_find sample_domain_def sorted_unique_def)  (code_simp)

lemma sample_current: "domain_is_current (dm_header (sample_domain k racks))" "\<not> domain_needs_revalidation (dm_header (sample_domain k racks))"
  by (simp_all add: sample_domain_def domain_is_current_def domain_needs_revalidation_def) code_simp+

subsection \<open>Properties\<close>

text \<open>
  C32. The reachability reported between two racks is decided by the links that lead from the first to the
  second: reachable when a current link says so, otherwise requiring revalidation when a link's evidence
  does, otherwise unreachable when a current link says so, otherwise unknown. The order of the links, and
  links whose evidence is stale, have no influence. The documentation says UNKNOWN also where only a link
  that requires revalidation leads to the second rack (\<open>revalidation_not_unknown\<close>).
\<close>

theorem reachability_exact:
  "reachability_between s a b =
     (if \<not> (has_rack s a \<and> has_rack s b) then RB_Unknown
      else if \<exists>l. pair_link s a b l \<and> is_current (lk_evidence l) \<and> lk_reachability l = RB_Reachable
        then RB_Reachable
      else if \<exists>l. pair_link s a b l \<and> (requires_revalidation (lk_evidence l)
          \<or> is_current (lk_evidence l) \<and> lk_reachability l = RB_RevalidationRequired)
        then RB_RevalidationRequired
      else if \<exists>l. pair_link s a b l \<and> is_current (lk_evidence l) \<and> lk_reachability l = RB_Unreachable
        then RB_Unreachable
      else RB_Unknown)"
  by (simp only: reachability_between_eq de_Morgan_conj)

text \<open>
  C34. A capacity aggregate is known exactly when the domain has quantities of the unit, each has a value,
  none is reconstructed, all have the same provenance and the same aggregation flag, and every member rack
  is known with evidence that needs no revalidation. Its value is then the sum of those quantities in
  their order, in IEEE double arithmetic.
\<close>

theorem aggregate_capacity_exact:
  assumes "om_find (cs_capacity_domains s) k = Some d"
    and "qs = filter (\<lambda>q. cq_unit q = unit) (cb_quantities (dm_body d))"
  shows "(ca_status (aggregate_capacity s k unit) = CA_Known \<longleftrightarrow> aggregable s d qs)
     \<and> (aggregable s d qs \<longrightarrow> ca_value (aggregate_capacity s k unit)
          = Some (foldl double_add double_zero (map (the \<circ> cq_value) qs)))"
  using aggregate_capacity_quantities [OF assms] by blast

definition sample_quantity :: capacity_quantity where
  "sample_quantity = \<lparr>cq_unit = ''gpu'', cq_value = Some (Double 4607182418800017408), cq_provenance = EP_Measured,
     cq_aggregated = False\<rparr>"

definition sample_capacity :: capacity_domain where
  "sample_capacity = \<lparr>dm_id = StrongId ''d'',
     dm_body = \<lparr>cb_klass = CDC_AcceleratorPool, cb_quantities = [sample_quantity]\<rparr>, dm_racks = [],
     dm_header = default_header\<rparr>"

theorem aggregate_capacity_exact_witness:
  "ca_value (aggregate_capacity (empty_state\<lparr>cs_capacity_domains := om_insert (StrongId ''d'') sample_capacity om_empty\<rparr>)
     (StrongId ''d'') ''gpu'') = Some (Double 4607182418800017408)"
proof -
  have sum: "double_add double_zero (Double 4607182418800017408) = Double 4607182418800017408"
    by (subst double_add_zero) (simp_all add: is_finite_def d_exponent_def d_magnitude_def)
  show ?thesis
    using aggregate_capacity_exact [of "empty_state\<lparr>cs_capacity_domains := om_insert (StrongId ''d'') sample_capacity om_empty\<rparr>"
        "StrongId ''d''" sample_capacity "[sample_quantity]" "''gpu''"] sum
    by (simp add: aggregable_def) (simp add: sample_capacity_def sample_quantity_def)
qed

text \<open>
  C33. Two racks are reported to share a failure domain of a class when a current domain of the class has
  both as members; otherwise revalidation is reported when a domain of either requires it; independence is
  claimed only when each is a member of a current domain of the class. The answer through the index is the
  answer over the domains of the state. The documentation says UNKNOWN in the second case and, read
  literally, in the third (\<open>independence_revalidation_not_unknown\<close>, \<open>independent_without_common_domain\<close>).
\<close>

theorem failure_domain_independence_exact:
  assumes "sorted_members (cs_failure_domains s)"
  shows "failure_domain_independence s (rebuild s) a b klass =
     (if klass = FDC_Unknown \<or> \<not> has_rack s a \<or> \<not> has_rack s b then DI_Unknown
      else if \<exists>d. class_domain s klass a d \<and> class_domain s klass b d \<and> domain_is_current (dm_header d)
        then DI_Shared
      else if \<exists>d. (class_domain s klass a d \<or> class_domain s klass b d) \<and> domain_needs_revalidation (dm_header d)
        then DI_RevalidationRequired
      else if (\<exists>d. class_domain s klass a d \<and> domain_is_current (dm_header d))
          \<and> (\<exists>d. class_domain s klass b d \<and> domain_is_current (dm_header d))
        then DI_Independent
      else DI_Unknown)"
  by (rule failure_domain_independence_eq [OF assms])

theorem failure_domain_independence_exact_witness:
  "failure_domain_independence sample_racks (rebuild sample_racks) (StrongId ''a'') (StrongId ''b'') FDC_PowerFeed
     = DI_Shared
   \<and> failure_domain_independence sample_racks (rebuild sample_racks) (StrongId ''a'') (StrongId ''c'') FDC_PowerFeed
     = DI_Independent"
  by (simp add: failure_domain_independence_exact [OF sample_sorted] sample_has sample_class sample_current conj_disj_distribR ex_disj_distrib)
   (simp add: sample_domain_def)

end
