(* ===== verification/Invariants.thy ===== *)
theory Invariants
  imports Queries
begin

text \<open>
  Invariant checking over the canonical state and the derived indexes (src/src/invariant.cpp). A
  report is the list of its violations, each with its identifier and subject (the explanatory
  detail is left out), sorted as \<^verbatim>\<open>finish\<close> sorts them. \<open>check_invariants_ok_iff\<close> reads the whole check as
  the conjunction \<open>state_ok\<close>; \<open>indexes_match\<close> shows that rebuilt indexes always pass their check.
\<close>

datatype invariant_id =
  II_Unknown | II_SingleClusterIdentity | II_ClusterEpochKnown | II_CoordinatorEpochKnown
  | II_ClusterGenerationKnown | II_GenerationsMonotonic | II_MembershipGenerationConsistent
  | II_TopologyEpochKnown | II_TopologyGenerationConsistent | II_RackIdentitiesValid
  | II_RackGenerationAuthoritative | II_RackGenerationUnique | II_RackNotFenced | II_RackNotRetired
  | II_RackMembershipConsistent | II_RackReferenceBounded | II_LinkEndpointsResolve
  | II_LinkDirectionConsistent | II_LinkNoSelfLoop | II_LinkIdentitiesUnique
  | II_DomainMembersResolve | II_DomainClassConsistent | II_DomainGenerationsConsistent
  | II_ConstraintReferencesResolve | II_IndexMatchesCanonical | II_SnapshotMapMatchesState
  | II_LifecycleConsistent | II_UnknownNeverPositive | II_RecoveredEvidenceNotCurrent
  | II_FencedAuthorityConsistent | II_CountsWithinBounds | II_AccountingBaseline

fun invariant_code :: "invariant_id \<Rightarrow> nat" where
  "invariant_code II_Unknown = 0"
| "invariant_code II_SingleClusterIdentity = 1"
| "invariant_code II_ClusterEpochKnown = 2"
| "invariant_code II_CoordinatorEpochKnown = 3"
| "invariant_code II_ClusterGenerationKnown = 4"
| "invariant_code II_GenerationsMonotonic = 5"
| "invariant_code II_MembershipGenerationConsistent = 6"
| "invariant_code II_TopologyEpochKnown = 7"
| "invariant_code II_TopologyGenerationConsistent = 8"
| "invariant_code II_RackIdentitiesValid = 9"
| "invariant_code II_RackGenerationAuthoritative = 10"
| "invariant_code II_RackGenerationUnique = 11"
| "invariant_code II_RackNotFenced = 12"
| "invariant_code II_RackNotRetired = 13"
| "invariant_code II_RackMembershipConsistent = 14"
| "invariant_code II_RackReferenceBounded = 15"
| "invariant_code II_LinkEndpointsResolve = 16"
| "invariant_code II_LinkDirectionConsistent = 17"
| "invariant_code II_LinkNoSelfLoop = 18"
| "invariant_code II_LinkIdentitiesUnique = 19"
| "invariant_code II_DomainMembersResolve = 20"
| "invariant_code II_DomainClassConsistent = 21"
| "invariant_code II_DomainGenerationsConsistent = 22"
| "invariant_code II_ConstraintReferencesResolve = 23"
| "invariant_code II_IndexMatchesCanonical = 24"
| "invariant_code II_SnapshotMapMatchesState = 25"
| "invariant_code II_LifecycleConsistent = 26"
| "invariant_code II_UnknownNeverPositive = 27"
| "invariant_code II_RecoveredEvidenceNotCurrent = 28"
| "invariant_code II_FencedAuthorityConsistent = 29"
| "invariant_code II_CountsWithinBounds = 30"
| "invariant_code II_AccountingBaseline = 31"

record invariant_violation =
  vi_id :: invariant_id
  vi_subject :: string

type_synonym invariant_report = "invariant_violation list"

text \<open>\<^verbatim>\<open>add\<close> under the condition of the enclosing \<^verbatim>\<open>if\<close>.\<close>

definition violated :: "bool \<Rightarrow> invariant_id \<Rightarrow> string \<Rightarrow> invariant_report" where
  "violated condition i subject =
     (if condition then [\<lparr>vi_id = i, vi_subject = subject\<rparr>] else [])"

definition finish :: "invariant_report \<Rightarrow> invariant_report" where
  "finish report = sort_key (\<lambda>v. (invariant_code (vi_id v), vi_subject v)) report"

definition report_ok :: "invariant_report \<Rightarrow> bool" where
  "report_ok report \<longleftrightarrow> report = []"

definition kMaxRacksPerCluster :: nat where "kMaxRacksPerCluster = 16384"
definition kMaxInterRackLinks :: nat where "kMaxInterRackLinks = 262144"
definition kMaxDomainsPerClass :: nat where "kMaxDomainsPerClass = 16384"
definition kMaxConstraints :: nat where "kMaxConstraints = 4096"

definition state_is_empty :: "cluster_state \<Rightarrow> bool" where
  "state_is_empty s \<longleftrightarrow>
     om_entries (cs_racks s) = [] \<and> om_entries (cs_links s) = []
     \<and> om_entries (cs_placement_domains s) = [] \<and> om_entries (cs_capacity_domains s) = []
     \<and> om_entries (cs_failure_domains s) = [] \<and> om_entries (cs_network_domains s) = []
     \<and> om_entries (cs_storage_domains s) = [] \<and> om_entries (cs_power_domains s) = []
     \<and> om_entries (cs_cooling_domains s) = [] \<and> om_entries (cs_link_domains s) = []
     \<and> om_entries (cs_constraints s) = [] \<and> cs_retired_racks s = []
     \<and> cs_withdrawn_racks s = [] \<and> cs_fenced_authorities s = []"

definition counter_violations :: "cluster_state \<Rightarrow> invariant_report" where
  "counter_violations s =
     violated (id_value (cs_id s) = []) II_SingleClusterIdentity ''cluster'' @
     violated (\<not> counter_known (cs_epoch s)) II_ClusterEpochKnown ''cluster'' @
     violated (\<not> counter_known (cs_coordinator_epoch s)) II_CoordinatorEpochKnown ''cluster'' @
     violated (\<not> counter_known (cs_generation s)) II_ClusterGenerationKnown ''cluster'' @
     violated (\<not> counter_known (cs_membership_generation s)) II_GenerationsMonotonic ''cluster'' @
     violated (\<not> counter_known (cs_topology_epoch s)) II_TopologyEpochKnown ''cluster'' @
     violated (\<not> counter_known (cs_topology_generation s)) II_TopologyGenerationConsistent ''cluster'' @
     violated (te_epoch (cs_topology_record s) \<noteq> cs_topology_epoch s)
       II_TopologyGenerationConsistent ''cluster'' @
     violated (te_generation (cs_topology_record s) \<noteq> cs_topology_generation s)
       II_TopologyGenerationConsistent ''cluster'' @
     violated (cvalue (cs_membership_generation s) > cvalue (cs_generation s))
       II_MembershipGenerationConsistent ''cluster'' @
     violated (cvalue (cs_topology_generation s) > cvalue (cs_generation s))
       II_TopologyGenerationConsistent ''cluster''"

definition count_violations :: "cluster_state \<Rightarrow> invariant_report" where
  "count_violations s =
     violated (om_size (cs_racks s) > kMaxRacksPerCluster) II_CountsWithinBounds ''cluster'' @
     violated (om_size (cs_links s) > kMaxInterRackLinks) II_CountsWithinBounds ''cluster'' @
     violated (om_size (cs_constraints s) > kMaxConstraints) II_CountsWithinBounds ''cluster'' @
     violated (list_ex (\<lambda>count. count > kMaxDomainsPerClass)
         [om_size (cs_placement_domains s), om_size (cs_capacity_domains s),
          om_size (cs_failure_domains s), om_size (cs_network_domains s),
          om_size (cs_storage_domains s), om_size (cs_power_domains s),
          om_size (cs_cooling_domains s), om_size (cs_link_domains s)])
       II_CountsWithinBounds ''cluster''"

definition rack_violations :: "cluster_state \<Rightarrow> rack_id \<Rightarrow> rack_record \<Rightarrow> invariant_report" where
  "rack_violations s k r =
     (let ref = rr_reference r; subject = rack_subject k in
      violated (rf_rack ref \<noteq> k) II_RackIdentitiesValid subject @
      violated (\<not> counter_known (rf_generation ref)) II_RackGenerationAuthoritative subject @
      violated (length (rf_endpoints ref) > kMaxRackEndpoints) II_RackReferenceBounded subject @
      violated (length (rf_failure_domain_hints ref) > kMaxFailureDomainRefs)
        II_RackReferenceBounded subject @
      (if rr_membership r = RM_Unknown
       then
         violated (rr_authoritative_current r) II_RackMembershipConsistent subject @
         violated (rf_currentness ref \<noteq> RC_Unknown \<and> rf_currentness ref \<noteq> RC_RevalidationRequired)
           II_RackMembershipConsistent subject
       else []) @
      violated (cvalue (rr_membership_generation r) > cvalue (cs_membership_generation s))
        II_MembershipGenerationConsistent subject @
      (if rr_authoritative_current r
       then
         violated (is_zero (rf_generation ref)) II_RackGenerationAuthoritative subject @
         violated (is_boot_fenced s (rf_boot ref)) II_RackNotFenced subject @
         violated (is_rack_retired s k) II_RackNotRetired subject @
         violated (es_provenance (rf_evidence ref) = EP_Unknown) II_UnknownNeverPositive subject @
         violated (es_provenance (rf_evidence ref) = EP_Reconstructed)
           II_RecoveredEvidenceNotCurrent subject
       else []))"

definition link_violations :: "cluster_state \<Rightarrow> link_id \<Rightarrow> inter_rack_link \<Rightarrow> invariant_report" where
  "link_violations s k l =
     (let subject = link_subject k;
          claims_reachability =
            (lk_reachability l = RB_Reachable \<or> lk_reachability l = RB_Unreachable)
      in
      violated (lk_id l \<noteq> k) II_LinkIdentitiesUnique subject @
      violated (\<not> is_rack_member s (lk_source l)) II_LinkEndpointsResolve subject @
      violated (\<not> is_rack_member s (lk_destination l)) II_LinkEndpointsResolve subject @
      violated (lk_source l = lk_destination l) II_LinkNoSelfLoop subject @
      violated (lk_direction l = LD_Unknown) II_LinkDirectionConsistent subject @
      violated (lk_topology_epoch l \<noteq> cs_topology_epoch s
          \<and> \<not> requires_revalidation (lk_evidence l)) II_TopologyGenerationConsistent subject @
      violated (lk_topology_epoch l \<noteq> cs_topology_epoch s
          \<and> (claims_reachability \<or> lk_health l \<noteq> HS_Unknown)) II_TopologyGenerationConsistent subject @
      violated (cvalue (lk_topology_generation l) > cvalue (cs_topology_generation s))
        II_TopologyGenerationConsistent subject @
      concat (map (\<lambda>d. violated (om_find (cs_failure_domains s) d = None)
          II_LinkEndpointsResolve subject) (lk_failure_domains l)))"

text \<open>The generic lambda \<^verbatim>\<open>check_domain\<close>: \<open>unclassified\<close> says that the class of a domain is \<^verbatim>\<open>Unknown\<close>.\<close>

definition check_domain ::
  "cluster_state \<Rightarrow> ('t, 'b) domain_map \<Rightarrow> ('b \<Rightarrow> bool) \<Rightarrow> string \<Rightarrow> invariant_report" where
  "check_domain s m unclassified label =
     concat (map (\<lambda>(k, d).
       let subject = label @ ''/'' @ id_value k in
       violated (unclassified (dm_body d)) II_DomainClassConsistent subject @
       concat (map (\<lambda>rack. violated (\<not> is_rack_member s rack) II_DomainMembersResolve subject)
         (dm_racks d)) @
       violated (\<not> sorted_unique (dm_racks d)) II_DomainMembersResolve subject)
       (om_entries m))"

definition max_generation :: "('t, 'b) domain_map \<Rightarrow> u64" where
  "max_generation m =
     foldl (\<lambda>v d. max v (cvalue (dh_generation (dm_header d)))) 0 (om_values m)"

definition domain_violations :: "cluster_state \<Rightarrow> invariant_report" where
  "domain_violations s =
     check_domain s (cs_placement_domains s) (\<lambda>c. c = PDC_Unknown) ''placement_domain'' @
     check_domain s (cs_capacity_domains s) (\<lambda>c. cb_klass c = CDC_Unknown) ''capacity_domain'' @
     check_domain s (cs_failure_domains s) (\<lambda>c. c = FDC_Unknown) ''failure_domain'' @
     check_domain s (cs_network_domains s) (\<lambda>c. c = CC_Unknown) ''network_domain'' @
     check_domain s (cs_storage_domains s) (\<lambda>_. False) ''storage_domain'' @
     check_domain s (cs_power_domains s) (\<lambda>_. False) ''power_domain'' @
     check_domain s (cs_cooling_domains s) (\<lambda>_. False) ''cooling_domain'' @
     check_domain s (cs_link_domains s) (\<lambda>_. False) ''link_domain''"

definition domain_generation_violations :: "cluster_state \<Rightarrow> invariant_report" where
  "domain_generation_violations s =
     (let g = cs_domain_generations s in
      violated (max_generation (cs_placement_domains s) > cvalue (dg_placement g))
        II_DomainGenerationsConsistent ''placement_domain'' @
      violated (max_generation (cs_capacity_domains s) > cvalue (dg_capacity g))
        II_DomainGenerationsConsistent ''capacity_domain'' @
      violated (max_generation (cs_failure_domains s) > cvalue (dg_failure g))
        II_DomainGenerationsConsistent ''failure_domain'' @
      violated (max_generation (cs_network_domains s) > cvalue (dg_network g))
        II_DomainGenerationsConsistent ''network_domain'' @
      violated (max_generation (cs_storage_domains s) > cvalue (dg_storage g))
        II_DomainGenerationsConsistent ''storage_domain'' @
      violated (max_generation (cs_power_domains s) > cvalue (dg_power g))
        II_DomainGenerationsConsistent ''power_domain'' @
      violated (max_generation (cs_cooling_domains s) > cvalue (dg_cooling g))
        II_DomainGenerationsConsistent ''cooling_domain'' @
      violated (max_generation (cs_link_domains s) > cvalue (dg_link g))
        II_DomainGenerationsConsistent ''link_domain'')"

definition constraint_violations :: "cluster_state \<Rightarrow> invariant_report" where
  "constraint_violations s =
     concat (map (\<lambda>(k, c).
       concat (map (\<lambda>rack. violated (\<not> is_rack_member s rack) II_ConstraintReferencesResolve
         (''constraint/'' @ id_value k)) (cn_racks c)))
       (om_entries (cs_constraints s)))"

definition withdrawn_violations :: "cluster_state \<Rightarrow> invariant_report" where
  "withdrawn_violations s =
     violated (\<not> sorted_unique (cs_withdrawn_racks s)) II_RackMembershipConsistent ''cluster'' @
     concat (map (\<lambda>rack.
       violated (case om_find (cs_racks s) rack of
           None \<Rightarrow> True | Some r \<Rightarrow> rr_membership r \<noteq> RM_Withdrawn)
         II_RackMembershipConsistent (rack_subject rack)) (cs_withdrawn_racks s)) @
     concat (map (\<lambda>(k, r).
       violated (rr_membership r = RM_Withdrawn \<and> \<not> binary_search (cs_withdrawn_racks s) k)
         II_RackMembershipConsistent (rack_subject k)) (om_entries (cs_racks s)))"

text \<open>The loops that compare each element with its predecessor and stop at the first failure.\<close>

fun adjacent_increasing :: "('a \<Rightarrow> 'k::linorder) \<Rightarrow> 'a list \<Rightarrow> bool" where
  "adjacent_increasing f (x # y # xs) \<longleftrightarrow> f x < f y \<and> adjacent_increasing f (y # xs)"
| "adjacent_increasing f xs \<longleftrightarrow> True"

definition fenced_violations :: "cluster_state \<Rightarrow> invariant_report" where
  "fenced_violations s =
     violated (\<not> adjacent_increasing fa_boot (cs_fenced_authorities s))
       II_FencedAuthorityConsistent ''cluster'' @
     concat (map (\<lambda>f.
       violated (case om_find (cs_racks s) (fa_rack f) of
           None \<Rightarrow> False
         | Some r \<Rightarrow> rr_authoritative_current r \<and> rf_boot (rr_reference r) = fa_boot f)
         II_RackNotFenced (rack_subject (fa_rack f))) (cs_fenced_authorities s))"

definition retired_violations :: "cluster_state \<Rightarrow> invariant_report" where
  "retired_violations s =
     violated (\<not> adjacent_increasing ri_rack (cs_retired_racks s)) II_RackNotRetired ''cluster''"

definition lifecycle_violations :: "cluster_state \<Rightarrow> invariant_report" where
  "lifecycle_violations s =
     violated (cs_lifecycle s = CL_Ready \<and> \<not> re_satisfied (evaluate_readiness s))
       II_LifecycleConsistent ''cluster'' @
     (if cs_lifecycle s = CL_Retired \<and> om_entries (cs_racks s) \<noteq> []
      then concat (map (\<lambda>(k, r).
             violated (rr_authoritative_current r) II_LifecycleConsistent (rack_subject k))
             (om_entries (cs_racks s)))
      else [])"

definition snapshot_violations :: "cluster_state \<Rightarrow> invariant_report" where
  "snapshot_violations s =
     violated (cvalue (cs_snapshot_generation s) > cvalue (cs_publication_generation s))
       II_SnapshotMapMatchesState ''cluster''"

subsection \<open>The index check\<close>

definition member_index_violations ::
  "('t, 'b) domain_map \<Rightarrow> ('t strong_id \<Rightarrow> rack_id list) \<Rightarrow> string \<Rightarrow> invariant_report" where
  "member_index_violations m listed label =
     concat (map (\<lambda>(k, d). violated (listed k \<noteq> sort_unique (dm_racks d))
       II_IndexMatchesCanonical (label @ ''/'' @ id_value k)) (om_entries m))"

definition expected_domains :: "('t, 'b) domain_map \<Rightarrow> rack_id \<Rightarrow> 't strong_id list" where
  "expected_domains m rack = map fst (filter (\<lambda>(k, d). binary_search (dm_racks d) rack) (om_entries m))"

definition check_indexes :: "cluster_state \<Rightarrow> cluster_indexes \<Rightarrow> invariant_report" where
  "check_indexes s ix = finish (
     member_index_violations (cs_placement_domains s) (racks_in_placement_domain ix) ''placement_domain'' @
     member_index_violations (cs_capacity_domains s) (racks_in_capacity_domain ix) ''capacity_domain'' @
     member_index_violations (cs_failure_domains s) (racks_in_failure_domain ix) ''failure_domain'' @
     member_index_violations (cs_network_domains s) (racks_in_network_domain ix) ''network_domain'' @
     concat (map (\<lambda>(k, r).
       violated (placement_domains_of ix k \<noteq> expected_domains (cs_placement_domains s) k)
         II_IndexMatchesCanonical (rack_subject k) @
       violated (failure_domains_of ix k \<noteq> expected_domains (cs_failure_domains s) k)
         II_IndexMatchesCanonical (rack_subject k)) (om_entries (cs_racks s))) @
     concat (map (\<lambda>(k, l).
       violated (\<not> binary_search (links_from ix (lk_source l)) k)
         II_IndexMatchesCanonical (link_subject k) @
       violated (\<not> binary_search (links_to ix (lk_destination l)) k)
         II_IndexMatchesCanonical (link_subject k)) (om_entries (cs_links s))) @
     (let expected_membership =
            push_all (map (\<lambda>(k, r). (rr_membership r, k)) (om_entries (cs_racks s)))
      in violated (list_ex (\<lambda>(m, ks). racks_in_membership_state ix m \<noteq> ks)
           (om_entries expected_membership)) II_IndexMatchesCanonical ''cluster'') @
     (let expected_boot =
            push_all (map (\<lambda>(k, r). (rf_boot (rr_reference r), k)) (om_entries (cs_racks s)))
      in case find (\<lambda>(b, ks). racks_for_boot ix b \<noteq> ks) (om_entries expected_boot) of
           None \<Rightarrow> []
         | Some (b, ks) \<Rightarrow> violated True II_IndexMatchesCanonical (''boot/'' @ id_value b)))"

definition check_invariants :: "cluster_state \<Rightarrow> cluster_indexes option \<Rightarrow> invariant_report" where
  "check_invariants s indexes =
     (if state_is_empty s then []
      else finish (
        counter_violations s @ count_violations s @
        concat (map (\<lambda>(k, r). rack_violations s k r) (om_entries (cs_racks s))) @
        concat (map (\<lambda>(k, l). link_violations s k l) (om_entries (cs_links s))) @
        domain_violations s @ domain_generation_violations s @ constraint_violations s @
        withdrawn_violations s @ fenced_violations s @ retired_violations s @
        lifecycle_violations s @ snapshot_violations s @
        (case indexes of None \<Rightarrow> [] | Some ix \<Rightarrow> check_indexes s ix)))"

subsection \<open>The invariants as a predicate\<close>

definition counters_ok :: "cluster_state \<Rightarrow> bool" where
  "counters_ok s \<longleftrightarrow>
     id_known (cs_id s) \<and> counter_known (cs_epoch s) \<and> counter_known (cs_coordinator_epoch s)
     \<and> counter_known (cs_generation s) \<and> counter_known (cs_membership_generation s)
     \<and> counter_known (cs_topology_epoch s) \<and> counter_known (cs_topology_generation s)
     \<and> te_epoch (cs_topology_record s) = cs_topology_epoch s
     \<and> te_generation (cs_topology_record s) = cs_topology_generation s
     \<and> cvalue (cs_membership_generation s) \<le> cvalue (cs_generation s)
     \<and> cvalue (cs_topology_generation s) \<le> cvalue (cs_generation s)"

definition counts_ok :: "cluster_state \<Rightarrow> bool" where
  "counts_ok s \<longleftrightarrow>
     om_size (cs_racks s) \<le> kMaxRacksPerCluster \<and> om_size (cs_links s) \<le> kMaxInterRackLinks
     \<and> om_size (cs_constraints s) \<le> kMaxConstraints
     \<and> om_size (cs_placement_domains s) \<le> kMaxDomainsPerClass
     \<and> om_size (cs_capacity_domains s) \<le> kMaxDomainsPerClass
     \<and> om_size (cs_failure_domains s) \<le> kMaxDomainsPerClass
     \<and> om_size (cs_network_domains s) \<le> kMaxDomainsPerClass
     \<and> om_size (cs_storage_domains s) \<le> kMaxDomainsPerClass
     \<and> om_size (cs_power_domains s) \<le> kMaxDomainsPerClass
     \<and> om_size (cs_cooling_domains s) \<le> kMaxDomainsPerClass
     \<and> om_size (cs_link_domains s) \<le> kMaxDomainsPerClass"

definition rack_ok :: "cluster_state \<Rightarrow> rack_id \<Rightarrow> rack_record \<Rightarrow> bool" where
  "rack_ok s k r \<longleftrightarrow>
     rf_rack (rr_reference r) = k \<and> counter_known (rf_generation (rr_reference r))
     \<and> length (rf_endpoints (rr_reference r)) \<le> kMaxRackEndpoints
     \<and> length (rf_failure_domain_hints (rr_reference r)) \<le> kMaxFailureDomainRefs
     \<and> (rr_membership r = RM_Unknown \<longrightarrow>
          \<not> rr_authoritative_current r
          \<and> rf_currentness (rr_reference r) \<in> {RC_Unknown, RC_RevalidationRequired})
     \<and> rr_membership_generation r \<le> cs_membership_generation s
     \<and> (rr_authoritative_current r \<longrightarrow>
          \<not> is_boot_fenced s (rf_boot (rr_reference r)) \<and> \<not> is_rack_retired s k
          \<and> es_provenance (rf_evidence (rr_reference r)) \<notin> {EP_Unknown, EP_Reconstructed})"

definition link_ok :: "cluster_state \<Rightarrow> link_id \<Rightarrow> inter_rack_link \<Rightarrow> bool" where
  "link_ok s k l \<longleftrightarrow>
     lk_id l = k \<and> is_rack_member s (lk_source l) \<and> is_rack_member s (lk_destination l)
     \<and> lk_source l \<noteq> lk_destination l \<and> lk_direction l \<noteq> LD_Unknown
     \<and> (lk_topology_epoch l \<noteq> cs_topology_epoch s \<longrightarrow>
          requires_revalidation (lk_evidence l) \<and> lk_health l = HS_Unknown
          \<and> lk_reachability l \<notin> {RB_Reachable, RB_Unreachable})
     \<and> lk_topology_generation l \<le> cs_topology_generation s
     \<and> (\<forall>d \<in> set (lk_failure_domains l). om_find (cs_failure_domains s) d \<noteq> None)"

definition domains_ok :: "cluster_state \<Rightarrow> ('t, 'b) domain_map \<Rightarrow> ('b \<Rightarrow> bool) \<Rightarrow> bool" where
  "domains_ok s m unclassified \<longleftrightarrow>
     (\<forall>k d. om_find m k = Some d \<longrightarrow>
        \<not> unclassified (dm_body d) \<and> (\<forall>rack \<in> set (dm_racks d). is_rack_member s rack)
        \<and> sorted_unique (dm_racks d))"

definition generations_ok :: "('t, 'b) domain_map \<Rightarrow> domain_generation \<Rightarrow> bool" where
  "generations_ok m g \<longleftrightarrow> (\<forall>k d. om_find m k = Some d \<longrightarrow> dh_generation (dm_header d) \<le> g)"

definition all_domains_ok :: "cluster_state \<Rightarrow> bool" where
  "all_domains_ok s \<longleftrightarrow>
     domains_ok s (cs_placement_domains s) (\<lambda>c. c = PDC_Unknown)
     \<and> domains_ok s (cs_capacity_domains s) (\<lambda>c. cb_klass c = CDC_Unknown)
     \<and> domains_ok s (cs_failure_domains s) (\<lambda>c. c = FDC_Unknown)
     \<and> domains_ok s (cs_network_domains s) (\<lambda>c. c = CC_Unknown)
     \<and> domains_ok s (cs_storage_domains s) (\<lambda>_. False)
     \<and> domains_ok s (cs_power_domains s) (\<lambda>_. False)
     \<and> domains_ok s (cs_cooling_domains s) (\<lambda>_. False)
     \<and> domains_ok s (cs_link_domains s) (\<lambda>_. False)"

definition all_generations_ok :: "cluster_state \<Rightarrow> bool" where
  "all_generations_ok s \<longleftrightarrow>
     generations_ok (cs_placement_domains s) (dg_placement (cs_domain_generations s))
     \<and> generations_ok (cs_capacity_domains s) (dg_capacity (cs_domain_generations s))
     \<and> generations_ok (cs_failure_domains s) (dg_failure (cs_domain_generations s))
     \<and> generations_ok (cs_network_domains s) (dg_network (cs_domain_generations s))
     \<and> generations_ok (cs_storage_domains s) (dg_storage (cs_domain_generations s))
     \<and> generations_ok (cs_power_domains s) (dg_power (cs_domain_generations s))
     \<and> generations_ok (cs_cooling_domains s) (dg_cooling (cs_domain_generations s))
     \<and> generations_ok (cs_link_domains s) (dg_link (cs_domain_generations s))"

definition withdrawn_ok :: "cluster_state \<Rightarrow> bool" where
  "withdrawn_ok s \<longleftrightarrow>
     sorted_wrt (<) (cs_withdrawn_racks s)
     \<and> (\<forall>k. k \<in> set (cs_withdrawn_racks s) \<longleftrightarrow>
          (\<exists>r. om_find (cs_racks s) k = Some r \<and> rr_membership r = RM_Withdrawn))"

definition lifecycle_ok :: "cluster_state \<Rightarrow> bool" where
  "lifecycle_ok s \<longleftrightarrow>
     (cs_lifecycle s = CL_Ready \<longrightarrow> re_satisfied (evaluate_readiness s))
     \<and> (cs_lifecycle s = CL_Retired \<longrightarrow>
          (\<forall>k r. om_find (cs_racks s) k = Some r \<longrightarrow> \<not> rr_authoritative_current r))"

definition state_ok :: "cluster_state \<Rightarrow> bool" where
  "state_ok s \<longleftrightarrow>
     counters_ok s \<and> counts_ok s
     \<and> (\<forall>k r. om_find (cs_racks s) k = Some r \<longrightarrow> rack_ok s k r)
     \<and> (\<forall>k l. om_find (cs_links s) k = Some l \<longrightarrow> link_ok s k l)
     \<and> all_domains_ok s \<and> all_generations_ok s
     \<and> (\<forall>k c. om_find (cs_constraints s) k = Some c \<longrightarrow> (\<forall>rack \<in> set (cn_racks c). is_rack_member s rack))
     \<and> withdrawn_ok s
     \<and> sorted_wrt (\<lambda>a b. fa_boot a < fa_boot b) (cs_fenced_authorities s)
     \<and> sorted_wrt (\<lambda>a b. ri_rack a < ri_rack b) (cs_retired_racks s)
     \<and> lifecycle_ok s
     \<and> cvalue (cs_snapshot_generation s) \<le> cvalue (cs_publication_generation s)"

lemma violated_Nil [simp]: "violated b i subject = [] \<longleftrightarrow> \<not> b"
  by (simp add: violated_def)

lemma finish_Nil [simp]: "finish report = [] \<longleftrightarrow> report = []"
  unfolding finish_def by (metis length_0_conv length_sort)

lemma counter_violations_Nil: "counter_violations s = [] \<longleftrightarrow> counters_ok s"
  by (auto simp: counter_violations_def counters_ok_def id_known_def not_less)

lemma count_violations_Nil: "count_violations s = [] \<longleftrightarrow> counts_ok s"
  by (auto simp: count_violations_def counts_ok_def not_less)

lemma rack_violations_Nil: "rack_violations s k r = [] \<longleftrightarrow> rack_ok s k r"
  by (auto simp: rack_violations_def rack_ok_def Let_def not_less less_eq_strong_counter_def
      counter_known_def is_zero_def)

lemma link_violations_Nil: "link_violations s k l = [] \<longleftrightarrow> link_ok s k l"
  by (auto simp: link_violations_def link_ok_def Let_def not_less less_eq_strong_counter_def)

lemma check_domain_Nil: "check_domain s m unclassified label = [] \<longleftrightarrow> domains_ok s m unclassified"
  by (auto simp: check_domain_def domains_ok_def Let_def om_entries_all)

lemma max_generation_le:
  fixes m :: "('t, 'b) domain_map"
  shows "max_generation m \<le> g \<longleftrightarrow> generations_ok m (StrongCounter g)"
proof -
  have "foldl (\<lambda>v d. max v (cvalue (dh_generation (dm_header d)))) v ds \<le> g \<longleftrightarrow>
      v \<le> g \<and> (\<forall>d \<in> set ds. cvalue (dh_generation (dm_header d)) \<le> g)" for v and ds :: "('t, 'b) domain list"
    by (induction ds arbitrary: v) auto
  then show ?thesis
    by (auto simp: max_generation_def generations_ok_def set_om_values less_eq_strong_counter_def)
qed

lemma max_generation_greater: "max_generation m > cvalue g \<longleftrightarrow> \<not> generations_ok m g"
  using max_generation_le [of m "cvalue g"] by (simp add: not_le [symmetric])

lemma adjacent_increasing_iff: "adjacent_increasing f xs \<longleftrightarrow> sorted_wrt (\<lambda>a b. f a < f b) xs"
proof (induction f xs rule: adjacent_increasing.induct)
  case (1 f x y xs)
  then show ?case by (auto intro: less_trans)
qed simp_all

lemma withdrawn_violations_Nil: "withdrawn_violations s = [] \<longleftrightarrow> withdrawn_ok s"
proof -
  have "withdrawn_violations s = [] \<longleftrightarrow>
      sorted_wrt (<) (cs_withdrawn_racks s)
      \<and> (\<forall>k \<in> set (cs_withdrawn_racks s). \<exists>r. om_find (cs_racks s) k = Some r \<and> rr_membership r = RM_Withdrawn)
      \<and> (\<forall>k r. om_find (cs_racks s) k = Some r \<longrightarrow>
           rr_membership r = RM_Withdrawn \<longrightarrow> binary_search (cs_withdrawn_racks s) k)"
    by (auto simp: withdrawn_violations_def om_entries_all sorted_unique_iff split: option.splits)
  also have "\<dots> \<longleftrightarrow> withdrawn_ok s"
    unfolding withdrawn_ok_def by auto
  finally show ?thesis .
qed

text \<open>The second half of the fenced check adds nothing: the rack check covers it.\<close>

lemma fenced_violations_Nil:
  assumes "\<forall>k r. om_find (cs_racks s) k = Some r \<longrightarrow> rack_ok s k r"
  shows "fenced_violations s = [] \<longleftrightarrow> sorted_wrt (\<lambda>a b. fa_boot a < fa_boot b) (cs_fenced_authorities s)"
  using assms
  by (auto simp: fenced_violations_def adjacent_increasing_iff rack_ok_def is_boot_fenced_iff
      split: option.splits)

lemma lifecycle_violations_Nil: "lifecycle_violations s = [] \<longleftrightarrow> lifecycle_ok s"
proof -
  have "om_entries m = [] \<Longrightarrow> om_find m k = None" for m :: rack_map and k
    by (simp add: om_entries_Nil_iff)
  then show ?thesis
    by (auto simp: lifecycle_violations_def lifecycle_ok_def om_entries_all)
qed

lemma check_invariants_ok_iff:
  "report_ok (check_invariants s None) \<longleftrightarrow> state_is_empty s \<or> state_ok s"
proof -
  have "check_invariants s None = [] \<longleftrightarrow> state_ok s" if "\<not> state_is_empty s"
  proof -
    have "check_invariants s None = [] \<longleftrightarrow>
        counters_ok s \<and> counts_ok s
        \<and> (\<forall>k r. om_find (cs_racks s) k = Some r \<longrightarrow> rack_ok s k r)
        \<and> (\<forall>k l. om_find (cs_links s) k = Some l \<longrightarrow> link_ok s k l)
        \<and> domain_violations s = [] \<and> domain_generation_violations s = []
        \<and> constraint_violations s = [] \<and> withdrawn_ok s \<and> fenced_violations s = []
        \<and> retired_violations s = [] \<and> lifecycle_ok s \<and> snapshot_violations s = []"
      using that
      by (simp add: check_invariants_def counter_violations_Nil count_violations_Nil om_entries_all
          rack_violations_Nil link_violations_Nil withdrawn_violations_Nil lifecycle_violations_Nil)
    moreover have "domain_violations s = [] \<longleftrightarrow> all_domains_ok s"
      by (simp add: domain_violations_def all_domains_ok_def check_domain_Nil)
    moreover have "domain_generation_violations s = [] \<longleftrightarrow> all_generations_ok s"
      by (simp add: domain_generation_violations_def all_generations_ok_def max_generation_greater Let_def)
    moreover have "constraint_violations s = [] \<longleftrightarrow>
        (\<forall>k c. om_find (cs_constraints s) k = Some c \<longrightarrow> (\<forall>rack \<in> set (cn_racks c). is_rack_member s rack))"
      by (simp add: constraint_violations_def om_entries_all)
    moreover have "retired_violations s = [] \<longleftrightarrow> sorted_wrt (\<lambda>a b. ri_rack a < ri_rack b) (cs_retired_racks s)"
      by (simp add: retired_violations_def adjacent_increasing_iff)
    moreover have "snapshot_violations s = [] \<longleftrightarrow>
        cvalue (cs_snapshot_generation s) \<le> cvalue (cs_publication_generation s)"
      by (simp add: snapshot_violations_def not_less)
    ultimately show ?thesis
      unfolding state_ok_def using fenced_violations_Nil [of s] by blast
  qed
  then show ?thesis
    by (auto simp: report_ok_def check_invariants_def)
qed

subsection \<open>Rebuilt indexes pass the index check\<close>

lemma om_at_push_all_entry:
  "om_find (push_all ps) k = Some ks \<Longrightarrow> om_at (push_all ps) k = ks"
  by (simp add: om_at_def)

lemma indexes_match:
  assumes "sorted_members (cs_placement_domains s)" and "sorted_members (cs_failure_domains s)"
  shows "check_indexes s (rebuild s) = []"
proof -
  have listed: "member_index_violations m (om_at (member_lists m)) label = []"
    for m :: "('t, 'b) domain_map" and label
    by (auto simp: member_index_violations_def om_entries_all om_at_def om_find_member_lists)
  have expected: "expected_domains m k = map fst (filter (\<lambda>(j, d). k \<in> set (dm_racks d)) (om_entries m))"
    if "sorted_members m" for m :: "('t, 'b) domain_map" and k
    unfolding expected_domains_def using that
    by (intro arg_cong [where f = "map fst"] filter_cong refl)
      (auto simp: sorted_members_def sorted_unique_iff)
  have bucket: "binary_search (map fst (filter P (om_entries m))) k \<longleftrightarrow> (\<exists>v. om_find m k = Some v \<and> P (k, v))"
    for m :: link_map and P k
    using sorted_keys_filter [of P m] by (auto simp: image_iff)
  have pick: "find (\<lambda>(b, ks). om_at (push_all ps) b \<noteq> ks) (om_entries (push_all ps)) = None"
    "\<not> list_ex (\<lambda>(b, ks). om_at (push_all ps) b \<noteq> ks) (om_entries (push_all ps))"
    for ps :: "('k::linorder \<times> rack_id) list"
    by (auto simp: find_None_iff list_ex_iff om_at_push_all_entry)
  show ?thesis
    unfolding check_indexes_def racks_in_placement_domain_def racks_in_capacity_domain_def
      racks_in_failure_domain_def racks_in_network_domain_def placement_domains_of_def
      failure_domains_of_def links_from_def links_to_def racks_in_membership_state_def
      racks_for_boot_def rebuild_def cluster_indexes.simps listed
      member_index_sorted link_index_sorted Let_def
    using expected [OF assms(1)] expected [OF assms(2)]
    by (simp add: om_entries_all bucket pick)
qed

lemma check_invariants_indexes:
  assumes "report_ok (check_invariants s None)"
  shows "report_ok (check_invariants s (Some (rebuild s)))"
proof (cases "state_is_empty s")
  case True
  then show ?thesis by (simp add: check_invariants_def report_ok_def)
next
  case False
  then have "state_ok s" using assms by (simp add: check_invariants_ok_iff)
  then have "sorted_members (cs_placement_domains s)" "sorted_members (cs_failure_domains s)"
    by (auto simp: state_ok_def all_domains_ok_def domains_ok_def sorted_members_def)
  then have "check_indexes s (rebuild s) = []" by (rule indexes_match)
  then show ?thesis using assms False by (simp add: check_invariants_def report_ok_def)
qed

subsection \<open>Where the check differs from its documentation\<close>

text \<open>docs/invariants.md says that no rack has membership UNKNOWN (line 37) and that every link has the topology epoch of the
  cluster (line 31). The check accepts a registered rack whose membership is UNKNOWN as long as it claims
  nothing, and a link of an earlier epoch that requires revalidation and claims neither reachability nor
  health. The state below has both. An empty state is not checked at all, so it may lack the identity and
  the epochs that lines 24 to 28 demand.\<close>

definition superseded_link :: inter_rack_link where
  "superseded_link =
     \<lparr>lk_id = StrongId ''l1'', lk_source = StrongId ''r2'', lk_destination = StrongId ''r3'',
      lk_direction = LD_Bidirectional, lk_connectivity = CC_DirectFabric, lk_network_domain = None, lk_link_domain = None,
      lk_source_endpoint = None, lk_destination_endpoint = None, lk_bandwidth_class = BW_Unknown,
      lk_nominal_bandwidth_bps = None, lk_latency_class = LT_Unknown, lk_nominal_latency_nanos = None,
      lk_hop_count = None, lk_reachability = RB_RevalidationRequired, lk_health = HS_Unknown, lk_failure_domains = [],
      lk_header = default_header\<lparr>dh_evidence := stamp_unknown\<lparr>es_freshness := FR_RevalidationRequired\<rparr>,
        dh_generation := StrongCounter 1\<rparr>,
      lk_topology_epoch = StrongCounter 1, lk_topology_generation = StrongCounter 1,
      lk_publication = StrongCounter 1, lk_boot = None\<rparr>"

definition sample_inert :: cluster_state where
  "sample_inert = empty_state
     \<lparr>cs_id := StrongId ''c1'', cs_epoch := StrongCounter 1, cs_coordinator_epoch := StrongCounter 1,
      cs_generation := StrongCounter 1, cs_membership_generation := StrongCounter 1,
      cs_topology_epoch := StrongCounter 2, cs_topology_generation := StrongCounter 1,
      cs_topology_record := default_topology_record\<lparr>te_epoch := StrongCounter 2, te_generation := StrongCounter 1\<rparr>,
      cs_racks := om_of_values (\<lambda>r. rf_rack (rr_reference r))
        (map (\<lambda>(k, m). default_rack_record\<lparr>rr_membership := m,
            rr_reference := default_reference\<lparr>rf_rack := StrongId k, rf_generation := StrongCounter 1\<rparr>\<rparr>)
          [(''r1'', RM_Unknown), (''r2'', RM_Active), (''r3'', RM_Active)]),
      cs_links := om_insert (StrongId ''l1'') superseded_link om_empty\<rparr>"

lemma inert_records_accepted:
  "report_ok (check_invariants sample_inert None)
   \<and> map_option rr_membership (om_find (cs_racks sample_inert) (StrongId ''r1'')) = Some RM_Unknown
   \<and> map_option lk_topology_epoch (om_find (cs_links sample_inert) (StrongId ''l1'')) \<noteq> Some (cs_topology_epoch sample_inert)"
  by (intro conjI; code_simp)

lemma unidentified_empty_accepted: "report_ok (check_invariants empty_state None) \<and> \<not> id_known (cs_id empty_state)"
  by (intro conjI; code_simp)

subsection \<open>Properties\<close>

text \<open>
  C30. The invariant check reports nothing exactly when the state is the empty, undeclared one or satisfies
  the declarative reading of all invariants. That reading is the one of the code: it allows inert racks of
  UNKNOWN membership and inert links of an earlier topology epoch, which the documentation forbids
  (\<open>inert_records_accepted\<close>).
\<close>

theorem check_invariants_exact:
  "report_ok (check_invariants s None) \<longleftrightarrow> state_is_empty s \<or> state_ok s"
  by (rule check_invariants_ok_iff)

end
