(* ===== verification/Mutation.thy ===== *)
theory Mutation
  imports Cluster_State
begin

text \<open>
  Mutation requests and results (src/include/cluster_fabric/mutation.hpp, src/src/mutation.cpp and
  src/include/cluster_fabric/error.hpp). A result keeps its outcome, its rejection reason, the
  structured error (category, stage, subject and machine-readable reason code) and the generations
  it reports; the human-readable message and the explanation are left out.
\<close>

datatype error_category =
  EC_None | EC_Identity | EC_Protocol | EC_Persistence | EC_Authority | EC_Generation
  | EC_Validation | EC_Resource | EC_Transport | EC_Shutdown | EC_Internal

fun error_category_to_string :: "error_category \<Rightarrow> string" where
  "error_category_to_string EC_None = ''NONE''"
| "error_category_to_string EC_Identity = ''IDENTITY''"
| "error_category_to_string EC_Protocol = ''PROTOCOL''"
| "error_category_to_string EC_Persistence = ''PERSISTENCE''"
| "error_category_to_string EC_Authority = ''AUTHORITY''"
| "error_category_to_string EC_Generation = ''GENERATION''"
| "error_category_to_string EC_Validation = ''VALIDATION''"
| "error_category_to_string EC_Resource = ''RESOURCE''"
| "error_category_to_string EC_Transport = ''TRANSPORT''"
| "error_category_to_string EC_Shutdown = ''SHUTDOWN''"
| "error_category_to_string EC_Internal = ''INTERNAL''"

datatype error_stage =
  ES_None | ES_Decode | ES_ValidateAuthority | ES_ValidateGeneration | ES_ValidateReference
  | ES_ConstructCandidate | ES_VerifyInvariants | ES_Commit | ES_Persist | ES_Publish
  | ES_Encode | ES_Transport | ES_Recover | ES_Shutdown

fun error_stage_to_string :: "error_stage \<Rightarrow> string" where
  "error_stage_to_string ES_None = ''NONE''"
| "error_stage_to_string ES_Decode = ''DECODE''"
| "error_stage_to_string ES_ValidateAuthority = ''VALIDATE_AUTHORITY''"
| "error_stage_to_string ES_ValidateGeneration = ''VALIDATE_GENERATION''"
| "error_stage_to_string ES_ValidateReference = ''VALIDATE_REFERENCE''"
| "error_stage_to_string ES_ConstructCandidate = ''CONSTRUCT_CANDIDATE''"
| "error_stage_to_string ES_VerifyInvariants = ''VERIFY_INVARIANTS''"
| "error_stage_to_string ES_Commit = ''COMMIT''"
| "error_stage_to_string ES_Persist = ''PERSIST''"
| "error_stage_to_string ES_Publish = ''PUBLISH''"
| "error_stage_to_string ES_Encode = ''ENCODE''"
| "error_stage_to_string ES_Transport = ''TRANSPORT''"
| "error_stage_to_string ES_Recover = ''RECOVER''"
| "error_stage_to_string ES_Shutdown = ''SHUTDOWN''"

datatype mutation_kind =
  MK_Unknown | MK_DeclareCluster | MK_RegisterRackPublisher | MK_AddRack
  | MK_UpdateRackGeneration | MK_MarkRackUnavailable | MK_WithdrawRack | MK_RetireRack
  | MK_RecoverRack | MK_PublishInterRackLink | MK_WithdrawInterRackLink
  | MK_PublishPlacementDomain | MK_PublishCapacityDomain | MK_PublishFailureDomain
  | MK_PublishNetworkDomain | MK_PublishStorageDomain | MK_PublishPowerDomain
  | MK_PublishCoolingDomain | MK_PublishLinkDomain | MK_PublishConstraint
  | MK_PublishHealthCurrentness | MK_WithdrawEvidence | MK_SupersedeTopology
  | MK_PublishSnapshot | MK_RevalidateRecoveredState | MK_RetireCluster

fun mutation_kind_to_string :: "mutation_kind \<Rightarrow> string" where
  "mutation_kind_to_string MK_Unknown = ''UNKNOWN''"
| "mutation_kind_to_string MK_DeclareCluster = ''DECLARE_CLUSTER''"
| "mutation_kind_to_string MK_RegisterRackPublisher = ''REGISTER_RACK_PUBLISHER''"
| "mutation_kind_to_string MK_AddRack = ''ADD_RACK''"
| "mutation_kind_to_string MK_UpdateRackGeneration = ''UPDATE_RACK_GENERATION''"
| "mutation_kind_to_string MK_MarkRackUnavailable = ''MARK_RACK_UNAVAILABLE''"
| "mutation_kind_to_string MK_WithdrawRack = ''WITHDRAW_RACK''"
| "mutation_kind_to_string MK_RetireRack = ''RETIRE_RACK''"
| "mutation_kind_to_string MK_RecoverRack = ''RECOVER_RACK''"
| "mutation_kind_to_string MK_PublishInterRackLink = ''PUBLISH_INTER_RACK_LINK''"
| "mutation_kind_to_string MK_WithdrawInterRackLink = ''WITHDRAW_INTER_RACK_LINK''"
| "mutation_kind_to_string MK_PublishPlacementDomain = ''PUBLISH_PLACEMENT_DOMAIN''"
| "mutation_kind_to_string MK_PublishCapacityDomain = ''PUBLISH_CAPACITY_DOMAIN''"
| "mutation_kind_to_string MK_PublishFailureDomain = ''PUBLISH_FAILURE_DOMAIN''"
| "mutation_kind_to_string MK_PublishNetworkDomain = ''PUBLISH_NETWORK_DOMAIN''"
| "mutation_kind_to_string MK_PublishStorageDomain = ''PUBLISH_STORAGE_DOMAIN''"
| "mutation_kind_to_string MK_PublishPowerDomain = ''PUBLISH_POWER_DOMAIN''"
| "mutation_kind_to_string MK_PublishCoolingDomain = ''PUBLISH_COOLING_DOMAIN''"
| "mutation_kind_to_string MK_PublishLinkDomain = ''PUBLISH_LINK_DOMAIN''"
| "mutation_kind_to_string MK_PublishConstraint = ''PUBLISH_CONSTRAINT''"
| "mutation_kind_to_string MK_PublishHealthCurrentness = ''PUBLISH_HEALTH_CURRENTNESS''"
| "mutation_kind_to_string MK_WithdrawEvidence = ''WITHDRAW_EVIDENCE''"
| "mutation_kind_to_string MK_SupersedeTopology = ''SUPERSEDE_TOPOLOGY''"
| "mutation_kind_to_string MK_PublishSnapshot = ''PUBLISH_SNAPSHOT''"
| "mutation_kind_to_string MK_RevalidateRecoveredState = ''REVALIDATE_RECOVERED_STATE''"
| "mutation_kind_to_string MK_RetireCluster = ''RETIRE_CLUSTER''"

definition mutation_kind_values :: "mutation_kind list" where
  "mutation_kind_values =
     [MK_Unknown, MK_DeclareCluster, MK_RegisterRackPublisher, MK_AddRack,
      MK_UpdateRackGeneration, MK_MarkRackUnavailable, MK_WithdrawRack, MK_RetireRack,
      MK_RecoverRack, MK_PublishInterRackLink, MK_WithdrawInterRackLink,
      MK_PublishPlacementDomain, MK_PublishCapacityDomain, MK_PublishFailureDomain,
      MK_PublishNetworkDomain, MK_PublishStorageDomain, MK_PublishPowerDomain,
      MK_PublishCoolingDomain, MK_PublishLinkDomain, MK_PublishConstraint,
      MK_PublishHealthCurrentness, MK_WithdrawEvidence, MK_SupersedeTopology,
      MK_PublishSnapshot, MK_RevalidateRecoveredState, MK_RetireCluster]"

definition mutation_kind_from_string :: "string \<Rightarrow> mutation_kind option" where
  "mutation_kind_from_string s = find (\<lambda>v. mutation_kind_to_string v = s) mutation_kind_values"

datatype mutation_outcome =
  MO_Accepted | MO_NoChange | MO_Rejected | MO_RevalidationRequired

fun mutation_outcome_to_string :: "mutation_outcome \<Rightarrow> string" where
  "mutation_outcome_to_string MO_Accepted = ''ACCEPTED''"
| "mutation_outcome_to_string MO_NoChange = ''NO_CHANGE''"
| "mutation_outcome_to_string MO_Rejected = ''REJECTED''"
| "mutation_outcome_to_string MO_RevalidationRequired = ''REVALIDATION_REQUIRED''"

datatype rejection_reason =
  RR_None | RR_StaleClusterEpoch | RR_StaleCoordinatorEpoch | RR_StaleRackBoot
  | RR_StaleRackGeneration | RR_StaleTopologyEpoch | RR_StalePublication | RR_NotAuthorized
  | RR_Conflict | RR_UnknownRack | RR_UnknownDomain | RR_InvalidDomain
  | RR_InvalidRelationship | RR_Retired | RR_WrongCluster | RR_LimitExceeded | RR_Malformed
  | RR_NotReady | RR_ShuttingDown | RR_PersistenceFailed | RR_InvariantViolation | RR_Internal

fun rejection_reason_to_string :: "rejection_reason \<Rightarrow> string" where
  "rejection_reason_to_string RR_None = ''NONE''"
| "rejection_reason_to_string RR_StaleClusterEpoch = ''REJECT_STALE_CLUSTER_EPOCH''"
| "rejection_reason_to_string RR_StaleCoordinatorEpoch = ''REJECT_STALE_COORDINATOR_EPOCH''"
| "rejection_reason_to_string RR_StaleRackBoot = ''REJECT_STALE_RACK_BOOT''"
| "rejection_reason_to_string RR_StaleRackGeneration = ''REJECT_STALE_RACK_GENERATION''"
| "rejection_reason_to_string RR_StaleTopologyEpoch = ''REJECT_STALE_TOPOLOGY_EPOCH''"
| "rejection_reason_to_string RR_StalePublication = ''REJECT_STALE_PUBLICATION''"
| "rejection_reason_to_string RR_NotAuthorized = ''REJECT_NOT_AUTHORIZED''"
| "rejection_reason_to_string RR_Conflict = ''REJECT_CONFLICT''"
| "rejection_reason_to_string RR_UnknownRack = ''REJECT_UNKNOWN_RACK''"
| "rejection_reason_to_string RR_UnknownDomain = ''REJECT_UNKNOWN_DOMAIN''"
| "rejection_reason_to_string RR_InvalidDomain = ''REJECT_INVALID_DOMAIN''"
| "rejection_reason_to_string RR_InvalidRelationship = ''REJECT_INVALID_RELATIONSHIP''"
| "rejection_reason_to_string RR_Retired = ''REJECT_RETIRED''"
| "rejection_reason_to_string RR_WrongCluster = ''REJECT_WRONG_CLUSTER''"
| "rejection_reason_to_string RR_LimitExceeded = ''REJECT_LIMIT_EXCEEDED''"
| "rejection_reason_to_string RR_Malformed = ''REJECT_MALFORMED''"
| "rejection_reason_to_string RR_NotReady = ''REJECT_NOT_READY''"
| "rejection_reason_to_string RR_ShuttingDown = ''REJECT_SHUTTING_DOWN''"
| "rejection_reason_to_string RR_PersistenceFailed = ''REJECT_PERSISTENCE_FAILED''"
| "rejection_reason_to_string RR_InvariantViolation = ''REJECT_INVARIANT_VIOLATION''"
| "rejection_reason_to_string RR_Internal = ''REJECT_INTERNAL''"

definition rejection_reason_values :: "rejection_reason list" where
  "rejection_reason_values =
     [RR_None, RR_StaleClusterEpoch, RR_StaleCoordinatorEpoch, RR_StaleRackBoot,
      RR_StaleRackGeneration, RR_StaleTopologyEpoch, RR_StalePublication, RR_NotAuthorized,
      RR_Conflict, RR_UnknownRack, RR_UnknownDomain, RR_InvalidDomain, RR_InvalidRelationship,
      RR_Retired, RR_WrongCluster, RR_LimitExceeded, RR_Malformed, RR_NotReady,
      RR_ShuttingDown, RR_PersistenceFailed, RR_InvariantViolation, RR_Internal]"

definition rejection_reason_from_string :: "string \<Rightarrow> rejection_reason option" where
  "rejection_reason_from_string s = find (\<lambda>v. rejection_reason_to_string v = s) rejection_reason_values"

record structured_error =
  se_category :: error_category
  se_stage :: error_stage
  se_subject :: string
  se_reason :: string

definition error_none :: structured_error where
  "error_none = \<lparr>se_category = EC_None, se_stage = ES_None, se_subject = [], se_reason = []\<rparr>"

definition kMaxEncodedStringBytes :: nat where "kMaxEncodedStringBytes = 4096"

definition make_error :: "error_category \<Rightarrow> error_stage \<Rightarrow> string \<Rightarrow> structured_error" where
  "make_error category stage reason =
     \<lparr>se_category = category, se_stage = stage, se_subject = [],
      se_reason = (if length reason > kMaxEncodedStringBytes then take kMaxEncodedStringBytes reason
                   else reason)\<rparr>"

subsection \<open>Requests\<close>

record mutation_authority =
  ma_cluster_epoch :: cluster_epoch
  ma_coordinator_epoch :: coordinator_epoch
  ma_topology_epoch :: topology_epoch
  ma_topology_generation :: topology_generation
  ma_boot :: "boot_id option"
  ma_publisher :: "publisher_id option"
  ma_rack :: "rack_id option"
  ma_rack_generation :: "rack_generation option"
  ma_publication :: publication_generation

definition default_authority :: mutation_authority where
  "default_authority =
     \<lparr>ma_cluster_epoch = counter_zero, ma_coordinator_epoch = counter_zero,
      ma_topology_epoch = counter_zero, ma_topology_generation = counter_zero, ma_boot = None,
      ma_publisher = None, ma_rack = None, ma_rack_generation = None,
      ma_publication = counter_zero\<rparr>"

record mutation_request =
  mq_kind :: mutation_kind
  mq_cluster :: cluster_id
  mq_authority :: mutation_authority
  mq_evidence :: evidence_stamp
  mq_reason :: string
  mq_requested_at :: timestamp
  mq_declared_lifecycle :: cluster_lifecycle
  mq_readiness_contract :: readiness_contract
  mq_rack_reference :: rack_reference
  mq_membership :: rack_membership_state
  mq_expected_rack_generation :: "rack_generation option"
  mq_new_rack_generation :: "rack_generation option"
  mq_placement_domain :: "placement_domain option"
  mq_capacity_domain :: "capacity_domain option"
  mq_failure_domain :: "failure_domain option"
  mq_network_domain :: "network_domain option"
  mq_storage_domain :: "storage_domain option"
  mq_power_domain :: "power_domain option"
  mq_cooling_domain :: "cooling_domain option"
  mq_link_domain :: "link_domain option"
  mq_constraint :: "cluster_constraint option"
  mq_link :: "inter_rack_link option"
  mq_link_id :: "link_id option"
  mq_target_topology_epoch :: "topology_epoch option"
  mq_topology_reason :: string
  mq_health :: health_state
  mq_reachability :: reachability
  mq_evidence_selector :: string
  mq_racks :: "rack_id list"

definition default_request :: mutation_request where
  "default_request =
     \<lparr>mq_kind = MK_Unknown, mq_cluster = id_unknown, mq_authority = default_authority,
      mq_evidence = stamp_unknown, mq_reason = [], mq_requested_at = ts_unknown,
      mq_declared_lifecycle = CL_Declared, mq_readiness_contract = default_contract,
      mq_rack_reference = default_reference, mq_membership = RM_Unknown,
      mq_expected_rack_generation = None, mq_new_rack_generation = None,
      mq_placement_domain = None, mq_capacity_domain = None, mq_failure_domain = None,
      mq_network_domain = None, mq_storage_domain = None, mq_power_domain = None,
      mq_cooling_domain = None, mq_link_domain = None, mq_constraint = None, mq_link = None,
      mq_link_id = None, mq_target_topology_epoch = None, mq_topology_reason = [],
      mq_health = HS_Unknown, mq_reachability = RB_Unknown, mq_evidence_selector = [],
      mq_racks = []\<rparr>"

subsection \<open>Results\<close>

record mutation_result =
  mr_outcome :: mutation_outcome
  mr_reason :: rejection_reason
  mr_error :: structured_error
  mr_cluster_epoch :: cluster_epoch
  mr_coordinator_epoch :: coordinator_epoch
  mr_cluster_generation :: cluster_generation
  mr_membership_generation :: membership_generation
  mr_topology_epoch :: topology_epoch
  mr_topology_generation :: topology_generation
  mr_connectivity_generation :: connectivity_generation
  mr_health_generation :: health_generation
  mr_constraint_generation :: constraint_generation
  mr_snapshot_generation :: snapshot_generation
  mr_publication_generation :: publication_generation
  mr_lifecycle :: cluster_lifecycle

definition default_result :: mutation_result where
  "default_result =
     \<lparr>mr_outcome = MO_Rejected, mr_reason = RR_None, mr_error = error_none,
      mr_cluster_epoch = counter_zero, mr_coordinator_epoch = counter_zero,
      mr_cluster_generation = counter_zero, mr_membership_generation = counter_zero,
      mr_topology_epoch = counter_zero, mr_topology_generation = counter_zero,
      mr_connectivity_generation = counter_zero, mr_health_generation = counter_zero,
      mr_constraint_generation = counter_zero, mr_snapshot_generation = counter_zero,
      mr_publication_generation = counter_zero, mr_lifecycle = CL_Declared\<rparr>"

definition mr_accepted :: "mutation_result \<Rightarrow> bool" where
  "mr_accepted r \<longleftrightarrow> mr_outcome r = MO_Accepted \<or> mr_outcome r = MO_NoChange"

definition is_stale_reason :: "rejection_reason \<Rightarrow> bool" where
  "is_stale_reason r \<longleftrightarrow>
     r \<in> {RR_StaleClusterEpoch, RR_StaleCoordinatorEpoch, RR_StaleRackBoot, RR_StaleRackGeneration,
          RR_StaleTopologyEpoch, RR_StalePublication}"

definition reason_category :: "rejection_reason \<Rightarrow> error_category" where
  "reason_category r =
     (if is_stale_reason r then EC_Generation
      else if r = RR_NotAuthorized \<or> r = RR_Conflict \<or> r = RR_Retired then EC_Authority
      else if r = RR_LimitExceeded then EC_Resource
      else if r = RR_PersistenceFailed then EC_Persistence
      else if r = RR_ShuttingDown then EC_Shutdown
      else if r = RR_Internal \<or> r = RR_InvariantViolation then EC_Internal
      else EC_Validation)"

definition rejected :: "rejection_reason \<Rightarrow> error_stage \<Rightarrow> string \<Rightarrow> string \<Rightarrow> mutation_result" where
  "rejected reason stage subject reason_code =
     (let reason_code = (if reason_code = [] then rejection_reason_to_string reason else reason_code)
      in default_result
        \<lparr>mr_outcome := MO_Rejected,
         mr_reason := reason,
         mr_error := (make_error (reason_category reason) stage reason_code)\<lparr>se_subject := subject\<rparr>\<rparr>)"

lemma rejected_simps [simp]:
  "mr_outcome (rejected reason stage subject code) = MO_Rejected"
  "mr_reason (rejected reason stage subject code) = reason"
  by (simp_all add: rejected_def Let_def)

text \<open>Parsing the text of a kind or of a reason is the inverse of rendering it.\<close>

lemma mutation_kind_text: "mutation_kind_from_string (mutation_kind_to_string v) = Some v"
  by (cases v) (simp_all add: mutation_kind_from_string_def mutation_kind_values_def)

lemma rejection_reason_text: "rejection_reason_from_string (rejection_reason_to_string v) = Some v"
  by (cases v) (simp_all add: rejection_reason_from_string_def rejection_reason_values_def)

subsection \<open>All texts\<close>

text \<open>
  Every enumeration reads its own text back: for each value of each enumeration, parsing what
  \<^verbatim>\<open>to_string\<close> prints gives that value. No two values of an enumeration share a spelling.
\<close>

lemma enum_texts_roundtrip:
  "failure_domain_class_from_string (failure_domain_class_to_string v1) = Some v1
   \<and> placement_domain_class_from_string (placement_domain_class_to_string v2) = Some v2
   \<and> capacity_domain_class_from_string (capacity_domain_class_to_string v3) = Some v3
   \<and> connectivity_class_from_string (connectivity_class_to_string v4) = Some v4
   \<and> link_direction_from_string (link_direction_to_string v5) = Some v5
   \<and> reachability_from_string (reachability_to_string v6) = Some v6
   \<and> bandwidth_class_from_string (bandwidth_class_to_string v7) = Some v7
   \<and> latency_class_from_string (latency_class_to_string v8) = Some v8
   \<and> accelerator_vendor_from_string (accelerator_vendor_to_string v9) = Some v9
   \<and> health_state_from_string (health_state_to_string v10) = Some v10
   \<and> constraint_kind_from_string (constraint_kind_to_string v11) = Some v11
   \<and> evidence_provenance_from_string (evidence_provenance_to_string v12) = Some v12
   \<and> freshness_from_string (freshness_to_string v13) = Some v13
   \<and> cluster_lifecycle_from_string (cluster_lifecycle_to_string v14) = Some v14
   \<and> rack_membership_state_from_string (rack_membership_state_to_string v15) = Some v15
   \<and> rack_lifecycle_state_from_string (rack_lifecycle_state_to_string v16) = Some v16
   \<and> rack_currentness_from_string (rack_currentness_to_string v17) = Some v17
   \<and> mutation_kind_from_string (mutation_kind_to_string v18) = Some v18
   \<and> rejection_reason_from_string (rejection_reason_to_string v19) = Some v19"
  unfolding failure_domain_class_from_string_def placement_domain_class_from_string_def
    capacity_domain_class_from_string_def connectivity_class_from_string_def link_direction_from_string_def
    reachability_from_string_def bandwidth_class_from_string_def latency_class_from_string_def
    accelerator_vendor_from_string_def health_state_from_string_def constraint_kind_from_string_def
    evidence_provenance_from_string_def freshness_from_string_def cluster_lifecycle_from_string_def
    rack_membership_state_from_string_def rack_lifecycle_state_from_string_def
    rack_currentness_from_string_def
  by (intro conjI failure_domain_class_text.parse_show placement_domain_class_text.parse_show
      capacity_domain_class_text.parse_show connectivity_class_text.parse_show
      link_direction_text.parse_show reachability_text.parse_show bandwidth_class_text.parse_show
      latency_class_text.parse_show accelerator_vendor_text.parse_show health_state_text.parse_show
      constraint_kind_text.parse_show evidence_provenance_text.parse_show freshness_text.parse_show
      cluster_lifecycle_text.parse_show rack_membership_state_text.parse_show
      rack_lifecycle_state_text.parse_show rack_currentness_text.parse_show mutation_kind_text
      rejection_reason_text)

end
