(* ===== verification/Journal.thy ===== *)
theory Journal
  imports Cluster_State
begin

text \<open>
  The undo journal of the commit path (\<^verbatim>\<open>detail::StateJournal\<close> in src/src/detail/coordinator_impl.hpp,
  \<^verbatim>\<open>ScalarSnapshot\<close>, \<^verbatim>\<open>capture_scalars\<close>, \<^verbatim>\<open>restore_scalars\<close> and \<^verbatim>\<open>rollback\<close> in
  src/src/coordinator_engine.cpp). The closures the source pushes are values of \<open>undo_entry\<close>: the prior
  value of one map entry (\<open>None\<close> when it was absent) or of the scalars. A journal is the list of its
  entries, newest first, which is the order \<^verbatim>\<open>rollback\<close> runs them in.

  The locale \<open>journal_slot\<close> states what the journal needs of one map of the state; it is interpreted for
  the eleven maps. \<open>rollback_cong\<close> is the key fact about scalars: once the journal holds a scalar
  snapshot, whatever happens to scalars later does not influence what a rollback produces.
\<close>

record scalar_snapshot =
  ss_epoch :: cluster_epoch
  ss_coordinator_epoch :: coordinator_epoch
  ss_generation :: cluster_generation
  ss_membership_generation :: membership_generation
  ss_topology_epoch :: topology_epoch
  ss_topology_generation :: topology_generation
  ss_connectivity_generation :: connectivity_generation
  ss_health_generation :: health_generation
  ss_constraint_generation :: constraint_generation
  ss_domain_generations :: domain_generations
  ss_snapshot_generation :: snapshot_generation
  ss_publication_generation :: publication_generation
  ss_lifecycle :: cluster_lifecycle
  ss_readiness_contract :: readiness_contract
  ss_topology_record :: topology_epoch_record
  ss_fenced_authorities :: "fenced_authority list"
  ss_retired_racks :: "retired_identity list"
  ss_withdrawn_racks :: "rack_id list"
  ss_last_mutation_at :: timestamp
  ss_declared_at :: timestamp

definition capture_scalars :: "cluster_state \<Rightarrow> scalar_snapshot" where
  "capture_scalars s =
     \<lparr>ss_epoch = cs_epoch s,
      ss_coordinator_epoch = cs_coordinator_epoch s,
      ss_generation = cs_generation s,
      ss_membership_generation = cs_membership_generation s,
      ss_topology_epoch = cs_topology_epoch s,
      ss_topology_generation = cs_topology_generation s,
      ss_connectivity_generation = cs_connectivity_generation s,
      ss_health_generation = cs_health_generation s,
      ss_constraint_generation = cs_constraint_generation s,
      ss_domain_generations = cs_domain_generations s,
      ss_snapshot_generation = cs_snapshot_generation s,
      ss_publication_generation = cs_publication_generation s,
      ss_lifecycle = cs_lifecycle s,
      ss_readiness_contract = cs_readiness_contract s,
      ss_topology_record = cs_topology_record s,
      ss_fenced_authorities = cs_fenced_authorities s,
      ss_retired_racks = cs_retired_racks s,
      ss_withdrawn_racks = cs_withdrawn_racks s,
      ss_last_mutation_at = cs_last_mutation_at s,
      ss_declared_at = cs_declared_at s\<rparr>"

definition restore_scalars :: "scalar_snapshot \<Rightarrow> cluster_state \<Rightarrow> cluster_state" where
  "restore_scalars x s = s
     \<lparr>cs_epoch := ss_epoch x,
      cs_coordinator_epoch := ss_coordinator_epoch x,
      cs_generation := ss_generation x,
      cs_membership_generation := ss_membership_generation x,
      cs_topology_epoch := ss_topology_epoch x,
      cs_topology_generation := ss_topology_generation x,
      cs_connectivity_generation := ss_connectivity_generation x,
      cs_health_generation := ss_health_generation x,
      cs_constraint_generation := ss_constraint_generation x,
      cs_domain_generations := ss_domain_generations x,
      cs_snapshot_generation := ss_snapshot_generation x,
      cs_publication_generation := ss_publication_generation x,
      cs_lifecycle := ss_lifecycle x,
      cs_readiness_contract := ss_readiness_contract x,
      cs_topology_record := ss_topology_record x,
      cs_fenced_authorities := ss_fenced_authorities x,
      cs_retired_racks := ss_retired_racks x,
      cs_withdrawn_racks := ss_withdrawn_racks x,
      cs_last_mutation_at := ss_last_mutation_at x,
      cs_declared_at := ss_declared_at x\<rparr>"

datatype undo_entry =
  UndoScalars scalar_snapshot
  | UndoRack rack_id "rack_record option"
  | UndoLink link_id "inter_rack_link option"
  | UndoPlacement placement_domain_id "placement_domain option"
  | UndoCapacity capacity_domain_id "capacity_domain option"
  | UndoFailure failure_domain_id "failure_domain option"
  | UndoNetwork network_domain_id "network_domain option"
  | UndoStorage storage_domain_id "storage_domain option"
  | UndoPower power_domain_id "power_domain option"
  | UndoCooling cooling_domain_id "cooling_domain option"
  | UndoLinkDomain link_domain_id "link_domain option"
  | UndoConstraint constraint_id "cluster_constraint option"

type_synonym journal = "undo_entry list"

fun undo_map :: "'k::linorder \<Rightarrow> 'v option \<Rightarrow> ('k, 'v) omap \<Rightarrow> ('k, 'v) omap" where
  "undo_map k None m = om_erase k m"
| "undo_map k (Some v) m = om_insert k v m"

fun apply_undo :: "undo_entry \<Rightarrow> cluster_state \<Rightarrow> cluster_state" where
  "apply_undo (UndoScalars x) s = restore_scalars x s"
| "apply_undo (UndoRack k v) s = s\<lparr>cs_racks := undo_map k v (cs_racks s)\<rparr>"
| "apply_undo (UndoLink k v) s = s\<lparr>cs_links := undo_map k v (cs_links s)\<rparr>"
| "apply_undo (UndoPlacement k v) s = s\<lparr>cs_placement_domains := undo_map k v (cs_placement_domains s)\<rparr>"
| "apply_undo (UndoCapacity k v) s = s\<lparr>cs_capacity_domains := undo_map k v (cs_capacity_domains s)\<rparr>"
| "apply_undo (UndoFailure k v) s = s\<lparr>cs_failure_domains := undo_map k v (cs_failure_domains s)\<rparr>"
| "apply_undo (UndoNetwork k v) s = s\<lparr>cs_network_domains := undo_map k v (cs_network_domains s)\<rparr>"
| "apply_undo (UndoStorage k v) s = s\<lparr>cs_storage_domains := undo_map k v (cs_storage_domains s)\<rparr>"
| "apply_undo (UndoPower k v) s = s\<lparr>cs_power_domains := undo_map k v (cs_power_domains s)\<rparr>"
| "apply_undo (UndoCooling k v) s = s\<lparr>cs_cooling_domains := undo_map k v (cs_cooling_domains s)\<rparr>"
| "apply_undo (UndoLinkDomain k v) s = s\<lparr>cs_link_domains := undo_map k v (cs_link_domains s)\<rparr>"
| "apply_undo (UndoConstraint k v) s = s\<lparr>cs_constraints := undo_map k v (cs_constraints s)\<rparr>"

definition rollback :: "journal \<Rightarrow> cluster_state \<Rightarrow> cluster_state" where
  "rollback j s = foldl (\<lambda>s u. apply_undo u s) s j"

definition record_scalars :: "cluster_state \<Rightarrow> journal \<Rightarrow> journal" where
  "record_scalars s j = UndoScalars (capture_scalars s) # j"

definition record_rack :: "cluster_state \<Rightarrow> rack_id \<Rightarrow> journal \<Rightarrow> journal" where
  "record_rack s k j = UndoRack k (om_find (cs_racks s) k) # j"

definition record_link :: "cluster_state \<Rightarrow> link_id \<Rightarrow> journal \<Rightarrow> journal" where
  "record_link s k j = UndoLink k (om_find (cs_links s) k) # j"

definition record_constraint :: "cluster_state \<Rightarrow> constraint_id \<Rightarrow> journal \<Rightarrow> journal" where
  "record_constraint s k j = UndoConstraint k (om_find (cs_constraints s) k) # j"

text \<open>The journal entries of a loop that records each visited entry before it changes it.\<close>

definition record_entries ::
  "('k \<Rightarrow> 'v option \<Rightarrow> undo_entry) \<Rightarrow> ('k \<times> 'v) list \<Rightarrow> journal \<Rightarrow> journal" where
  "record_entries mk es j = foldl (\<lambda>j (k, v). mk k (Some v) # j) j es"

subsection \<open>Rollback\<close>

lemma rollback_Nil [simp]: "rollback [] s = s"
  by (simp add: rollback_def)

lemma rollback_Cons [simp]: "rollback (u # j) s = rollback j (apply_undo u s)"
  by (simp add: rollback_def)

definition same_maps :: "cluster_state \<Rightarrow> cluster_state \<Rightarrow> bool" where
  "same_maps s t \<longleftrightarrow>
     cs_id s = cs_id t \<and> cs_racks s = cs_racks t \<and> cs_links s = cs_links t
     \<and> cs_placement_domains s = cs_placement_domains t
     \<and> cs_capacity_domains s = cs_capacity_domains t
     \<and> cs_failure_domains s = cs_failure_domains t
     \<and> cs_network_domains s = cs_network_domains t
     \<and> cs_storage_domains s = cs_storage_domains t
     \<and> cs_power_domains s = cs_power_domains t
     \<and> cs_cooling_domains s = cs_cooling_domains t
     \<and> cs_link_domains s = cs_link_domains t
     \<and> cs_constraints s = cs_constraints t"

lemma same_maps_refl [simp]: "same_maps s s"
  by (simp add: same_maps_def)

lemma restore_captured [simp]: "restore_scalars (capture_scalars s) s = s"
  by (cases s) (simp add: restore_scalars_def capture_scalars_def)

lemma restore_same_maps: "same_maps s t \<Longrightarrow> restore_scalars x s = restore_scalars x t"
  by (cases s; cases t) (simp add: restore_scalars_def same_maps_def)

lemma apply_undo_same_maps: "same_maps s t \<Longrightarrow> same_maps (apply_undo u s) (apply_undo u t)"
  by (cases u) (simp_all add: restore_same_maps, simp_all add: same_maps_def)

lemma rollback_cong:
  "UndoScalars x \<in> set j \<Longrightarrow> same_maps s t \<Longrightarrow> rollback j s = rollback j t"
proof (induction j arbitrary: s t)
  case (Cons u j)
  show ?case
  proof (cases "u = UndoScalars x")
    case True
    with Cons.prems(2) show ?thesis by (simp add: restore_same_maps)
  next
    case False
    with Cons show ?thesis by (auto intro: Cons.IH apply_undo_same_maps)
  qed
qed simp

lemma set_record_entries [simp]:
  "set (record_entries mk es j) = set j \<union> (\<lambda>(k, v). mk k (Some v)) ` set es"
  by (induction es arbitrary: j) (auto simp: record_entries_def)

subsection \<open>One map of the state under the journal\<close>

lemma om_find_foldl_insert_other:
  "\<forall>v. (k, v) \<notin> set es \<Longrightarrow> om_find (foldl (\<lambda>m (k, v). om_insert k v m) m es) k = om_find m k"
  by (induction es arbitrary: m) auto

lemma om_find_foldl_insert:
  "distinct (map fst es) \<Longrightarrow> (k, v) \<in> set es
     \<Longrightarrow> om_find (foldl (\<lambda>m (k, v). om_insert k v m) m es) k = Some v"
proof (induction es arbitrary: m)
  case (Cons e es)
  show ?case
  proof (cases "e = (k, v)")
    case True
    then have "\<forall>w. (k, w) \<notin> set es" using Cons.prems by force
    with True show ?thesis by (simp add: om_find_foldl_insert_other)
  next
    case False
    with Cons.prems have "distinct (map fst es)" "(k, v) \<in> set es" by auto
    then show ?thesis using Cons.IH by (cases e) simp
  qed
qed simp

locale journal_slot =
  fixes get :: "cluster_state \<Rightarrow> ('k::linorder, 'v) omap"
    and put :: "('k, 'v) omap \<Rightarrow> cluster_state \<Rightarrow> cluster_state"
    and mk :: "'k \<Rightarrow> 'v option \<Rightarrow> undo_entry"
  assumes undo_put: "apply_undo (mk k v) s = put (undo_map k v (get s)) s"
    and get_put: "get (put m s) = m"
    and put_get: "put (get s) s = s"
    and put_put: "put m (put m' s) = put m s"
begin

lemma insert_undone: "apply_undo (mk k (om_find (get s) k)) (put (om_insert k v (get s)) s) = s"
  by (cases "om_find (get s) k") (simp_all add: undo_put get_put put_put put_get undo_simps om.ins_same)

lemma erase_undone: "apply_undo (mk k (om_find (get s) k)) (put (om_erase k (get s)) s) = s"
  by (cases "om_find (get s) k")
    (simp_all add: undo_put get_put put_put put_get undo_simps om.del_del om.del_absent)

lemma rollback_entries:
  "rollback (record_entries mk es j) s
     = rollback j (put (foldl (\<lambda>m (k, v). om_insert k v m) (get s) (rev es)) s)"
proof (induction es arbitrary: s rule: rev_induct)
  case Nil
  show ?case by (simp add: record_entries_def put_get)
next
  case (snoc e es)
  obtain k v where e: "e = (k, v)" by (cases e)
  have "rollback (record_entries mk (es @ [e]) j) s
      = rollback (record_entries mk es j) (put (om_insert k v (get s)) s)"
    by (simp add: record_entries_def e undo_put)
  also have "\<dots> = rollback j (put (foldl (\<lambda>m (k, v). om_insert k v m) (get s) (rev (es @ [e]))) s)"
    by (simp add: snoc.IH get_put put_put e)
  finally show ?case .
qed

text \<open>A loop that records and changes the entries satisfying \<open>P\<close> is undone by the entries it recorded.\<close>

lemma loop_undone:
  assumes "\<And>k v. \<not> P (k, v) \<Longrightarrow> f k v = v"
  shows "rollback (record_entries mk (filter P (om_entries (get s))) j) (put (om_map f (get s)) s)
     = rollback j s"
proof -
  let ?es = "filter P (om_entries (get s))"
  have "foldl (\<lambda>m (k, v). om_insert k v m) (om_map f (get s)) (rev ?es) = get s"
  proof (rule om_ext)
    fix k
    have d: "distinct (map fst (rev ?es))"
      using om_entries_distinct [of "get s"] by (simp add: rev_map [symmetric] distinct_map_filter)
    show "om_find (foldl (\<lambda>m (k, v). om_insert k v m) (om_map f (get s)) (rev ?es)) k = om_find (get s) k"
    proof (cases "om_find (get s) k")
      case None
      then have "\<forall>v. (k, v) \<notin> set (rev ?es)" by simp
      with None show ?thesis by (simp add: om_find_foldl_insert_other)
    next
      case (Some v)
      show ?thesis
      proof (cases "P (k, v)")
        case True
        then have "(k, v) \<in> set (rev ?es)" using Some by simp
        then show ?thesis using Some om_find_foldl_insert [OF d] by simp
      next
        case False
        then have "\<forall>w. (k, w) \<notin> set (rev ?es)" using Some by auto
        then show ?thesis using Some assms [OF False] by (simp add: om_find_foldl_insert_other)
      qed
    qed
  qed
  then show ?thesis by (simp add: rollback_entries get_put put_put put_get)
qed

end

interpretation rack_slot: journal_slot cs_racks "\<lambda>m s. s\<lparr>cs_racks := m\<rparr>" UndoRack
  by unfold_locales simp_all

interpretation link_slot: journal_slot cs_links "\<lambda>m s. s\<lparr>cs_links := m\<rparr>" UndoLink
  by unfold_locales simp_all

interpretation placement_slot: journal_slot cs_placement_domains "\<lambda>m s. s\<lparr>cs_placement_domains := m\<rparr>" UndoPlacement
  by unfold_locales simp_all

interpretation capacity_slot: journal_slot cs_capacity_domains "\<lambda>m s. s\<lparr>cs_capacity_domains := m\<rparr>" UndoCapacity
  by unfold_locales simp_all

interpretation failure_slot: journal_slot cs_failure_domains "\<lambda>m s. s\<lparr>cs_failure_domains := m\<rparr>" UndoFailure
  by unfold_locales simp_all

interpretation network_slot: journal_slot cs_network_domains "\<lambda>m s. s\<lparr>cs_network_domains := m\<rparr>" UndoNetwork
  by unfold_locales simp_all

interpretation storage_slot: journal_slot cs_storage_domains "\<lambda>m s. s\<lparr>cs_storage_domains := m\<rparr>" UndoStorage
  by unfold_locales simp_all

interpretation power_slot: journal_slot cs_power_domains "\<lambda>m s. s\<lparr>cs_power_domains := m\<rparr>" UndoPower
  by unfold_locales simp_all

interpretation cooling_slot: journal_slot cs_cooling_domains "\<lambda>m s. s\<lparr>cs_cooling_domains := m\<rparr>" UndoCooling
  by unfold_locales simp_all

interpretation link_domain_slot: journal_slot cs_link_domains "\<lambda>m s. s\<lparr>cs_link_domains := m\<rparr>" UndoLinkDomain
  by unfold_locales simp_all

interpretation constraint_slot: journal_slot cs_constraints "\<lambda>m s. s\<lparr>cs_constraints := m\<rparr>" UndoConstraint
  by unfold_locales simp_all

end
