(* ===== verification/Engine.thy ===== *)
theory Engine
  imports Invariants Mutation Journal
begin

text \<open>
  The commit engine's common parts (src/src/coordinator_engine.cpp): the apply context, the results of
  a handler, the checked advance of counters, the comparison of rack publications and the two
  authority gates \<^verbatim>\<open>validate_common\<close> and \<^verbatim>\<open>validate_boot\<close>.

  A handler takes the configuration, the current time, the request and the context, and returns its
  result together with the context as it left it, partial changes before a late refusal included.
  \<open>undoes\<close> is the contract every handler keeps towards the journal: rolling back after it gives the
  state that rolling back before it would have given.
\<close>

record coordinator_config =
  cc_cluster :: cluster_id
  cc_readiness_contract :: readiness_contract
  cc_max_racks :: nat
  cc_max_links :: nat
  cc_max_domains_per_class :: nat
  cc_max_constraints :: nat
  cc_persist_on_commit :: bool

definition default_config :: "cluster_id \<Rightarrow> coordinator_config" where
  "default_config cluster =
     \<lparr>cc_cluster = cluster, cc_readiness_contract = default_contract,
      cc_max_racks = kMaxRacksPerCluster, cc_max_links = kMaxInterRackLinks,
      cc_max_domains_per_class = kMaxDomainsPerClass, cc_max_constraints = kMaxConstraints,
      cc_persist_on_commit = True\<rparr>"

record apply_context =
  ax_state :: cluster_state
  ax_journal :: journal
  ax_changed :: bool

type_synonym handler_result = "mutation_result \<times> apply_context"

definition reject_with ::
  "rejection_reason \<Rightarrow> error_stage \<Rightarrow> string \<Rightarrow> string \<Rightarrow> apply_context \<Rightarrow> handler_result" where
  "reject_with reason stage subject code ctx = (rejected reason stage subject code, ctx)"

definition accepted_result :: mutation_result where
  "accepted_result = default_result\<lparr>mr_outcome := MO_Accepted\<rparr>"

definition gate_ok :: mutation_result where
  "gate_ok = accepted_result"

definition accepted_change :: "apply_context \<Rightarrow> handler_result" where
  "accepted_change ctx = (accepted_result, ctx\<lparr>ax_changed := True\<rparr>)"

definition accepted_no_change :: "apply_context \<Rightarrow> handler_result" where
  "accepted_no_change ctx = (default_result\<lparr>mr_outcome := MO_NoChange\<rparr>, ctx)"

definition upd_state :: "(cluster_state \<Rightarrow> cluster_state) \<Rightarrow> apply_context \<Rightarrow> apply_context" where
  "upd_state f ctx = ctx\<lparr>ax_state := f (ax_state ctx)\<rparr>"

text \<open>\<^verbatim>\<open>journal.record_rack(rack)\<close> followed by \<^verbatim>\<open>racks.insert_or_assign(rack, record)\<close>.\<close>

definition put_rack :: "rack_id \<Rightarrow> rack_record \<Rightarrow> apply_context \<Rightarrow> apply_context" where
  "put_rack k r ctx = ctx
     \<lparr>ax_journal := record_rack (ax_state ctx) k (ax_journal ctx),
      ax_state := (ax_state ctx)\<lparr>cs_racks := om_insert k r (cs_racks (ax_state ctx))\<rparr>\<rparr>"

definition put_link :: "link_id \<Rightarrow> inter_rack_link \<Rightarrow> apply_context \<Rightarrow> apply_context" where
  "put_link k l ctx = ctx
     \<lparr>ax_journal := record_link (ax_state ctx) k (ax_journal ctx),
      ax_state := (ax_state ctx)\<lparr>cs_links := om_insert k l (cs_links (ax_state ctx))\<rparr>\<rparr>"

definition erase_link :: "link_id \<Rightarrow> apply_context \<Rightarrow> apply_context" where
  "erase_link k ctx = ctx
     \<lparr>ax_journal := record_link (ax_state ctx) k (ax_journal ctx),
      ax_state := (ax_state ctx)\<lparr>cs_links := om_erase k (cs_links (ax_state ctx))\<rparr>\<rparr>"

text \<open>The loops \<^verbatim>\<open>for (auto& entry : links)\<close> and \<^verbatim>\<open>for (auto& entry : racks)\<close>: the entries that satisfy
  the condition are recorded and then changed in place.\<close>

definition update_links ::
  "(inter_rack_link \<Rightarrow> bool) \<Rightarrow> (inter_rack_link \<Rightarrow> inter_rack_link) \<Rightarrow> apply_context \<Rightarrow> apply_context" where
  "update_links P f ctx = ctx
     \<lparr>ax_journal := record_entries UndoLink
        (filter (\<lambda>(k, l). P l) (om_entries (cs_links (ax_state ctx)))) (ax_journal ctx),
      ax_state := (ax_state ctx)
        \<lparr>cs_links := om_map (\<lambda>_ l. if P l then f l else l) (cs_links (ax_state ctx))\<rparr>\<rparr>"

definition update_racks ::
  "(rack_record \<Rightarrow> bool) \<Rightarrow> (rack_record \<Rightarrow> rack_record) \<Rightarrow> apply_context \<Rightarrow> apply_context" where
  "update_racks P f ctx = ctx
     \<lparr>ax_journal := record_entries UndoRack
        (filter (\<lambda>(k, r). P r) (om_entries (cs_racks (ax_state ctx)))) (ax_journal ctx),
      ax_state := (ax_state ctx)
        \<lparr>cs_racks := om_map (\<lambda>_ r. if P r then f r else r) (cs_racks (ax_state ctx))\<rparr>\<rparr>"

text \<open>\<^verbatim>\<open>bump\<close> on one counter of the state: no result when the counter cannot be advanced.\<close>

definition bump_membership :: "apply_context \<Rightarrow> apply_context option" where
  "bump_membership ctx =
     map_option (\<lambda>g. upd_state (\<lambda>s. s\<lparr>cs_membership_generation := g\<rparr>) ctx)
       (counter_next (cs_membership_generation (ax_state ctx)))"

definition bump_topology :: "apply_context \<Rightarrow> apply_context option" where
  "bump_topology ctx =
     map_option (\<lambda>g. upd_state (\<lambda>s. s\<lparr>cs_topology_generation := g\<rparr>) ctx)
       (counter_next (cs_topology_generation (ax_state ctx)))"

definition bump_connectivity :: "apply_context \<Rightarrow> apply_context option" where
  "bump_connectivity ctx =
     map_option (\<lambda>g. upd_state (\<lambda>s. s\<lparr>cs_connectivity_generation := g\<rparr>) ctx)
       (counter_next (cs_connectivity_generation (ax_state ctx)))"

definition bump_health :: "apply_context \<Rightarrow> apply_context option" where
  "bump_health ctx =
     map_option (\<lambda>g. upd_state (\<lambda>s. s\<lparr>cs_health_generation := g\<rparr>) ctx)
       (counter_next (cs_health_generation (ax_state ctx)))"

definition bump_constraint :: "apply_context \<Rightarrow> apply_context option" where
  "bump_constraint ctx =
     map_option (\<lambda>g. upd_state (\<lambda>s. s\<lparr>cs_constraint_generation := g\<rparr>) ctx)
       (counter_next (cs_constraint_generation (ax_state ctx)))"

definition bump_snapshot :: "apply_context \<Rightarrow> apply_context option" where
  "bump_snapshot ctx =
     map_option (\<lambda>g. upd_state (\<lambda>s. s\<lparr>cs_snapshot_generation := g\<rparr>) ctx)
       (counter_next (cs_snapshot_generation (ax_state ctx)))"

definition bump_publication :: "apply_context \<Rightarrow> apply_context option" where
  "bump_publication ctx =
     map_option (\<lambda>g. upd_state (\<lambda>s. s\<lparr>cs_publication_generation := g\<rparr>) ctx)
       (counter_next (cs_publication_generation (ax_state ctx)))"

definition advance_aggregate :: "domain_generation \<Rightarrow> domain_generation \<Rightarrow> domain_generation option" where
  "advance_aggregate aggregate record =
     (let candidate = cvalue aggregate + 1;
          v = max candidate (cvalue record)
      in if v < cvalue aggregate \<or> v = 0 then None else Some (StrongCounter v))"

subsection \<open>Comparing rack publications\<close>

definition normalized_for_compare :: "rack_reference \<Rightarrow> rack_reference" where
  "normalized_for_compare r =
     (let v = canonicalize r in v
        \<lparr>rf_publication := counter_zero,
         rf_evidence := stamp_unknown,
         rf_health := HS_Unknown,
         rf_currentness := RC_Unknown,
         rf_coordinator_epoch := counter_zero,
         rf_cluster_epoch := counter_zero,
         rf_endpoints := map (\<lambda>e. e\<lparr>ep_evidence := stamp_unknown\<rparr>) (rf_endpoints v),
         rf_failure_domain_hints :=
           map (\<lambda>h. h\<lparr>fh_evidence := stamp_unknown\<rparr>) (rf_failure_domain_hints v)\<rparr>)"

definition same_authoritative_content :: "rack_reference \<Rightarrow> rack_reference \<Rightarrow> bool" where
  "same_authoritative_content lhs rhs \<longleftrightarrow>
     (let a = normalized_for_compare lhs; b = normalized_for_compare rhs in
      a\<lparr>rf_boot := rf_boot b, rf_publisher := rf_publisher b\<rparr> = b)"

definition identical_publication :: "rack_reference \<Rightarrow> rack_reference \<Rightarrow> bool" where
  "identical_publication lhs rhs \<longleftrightarrow>
     same_authoritative_content lhs rhs \<and> rf_boot lhs = rf_boot rhs
     \<and> rf_publisher lhs = rf_publisher rhs \<and> rf_publication lhs = rf_publication rhs
     \<and> rf_evidence lhs = rf_evidence rhs \<and> rf_health lhs = rf_health rhs"

text \<open>Two optional publishers that are both present and differ.\<close>

definition publishers_differ :: "publisher_id option \<Rightarrow> publisher_id option \<Rightarrow> bool" where
  "publishers_differ a b \<longleftrightarrow>
     (case a of None \<Rightarrow> False | Some p \<Rightarrow> (case b of None \<Rightarrow> False | Some q \<Rightarrow> p \<noteq> q))"

subsection \<open>Authority gates\<close>

definition validate_common :: "cluster_state \<Rightarrow> mutation_request \<Rightarrow> mutation_result" where
  "validate_common s q =
     (let cluster_subject = ''cluster'' in
      if mq_kind q = MK_Unknown then rejected RR_Malformed ES_Decode ''request'' []
      else if \<not> iv_ok (validate_identity (id_value (mq_cluster q)))
        then rejected RR_Malformed ES_Decode cluster_subject []
      else if mq_kind q \<noteq> MK_DeclareCluster \<and> mq_cluster q \<noteq> cs_id s
        then rejected RR_WrongCluster ES_ValidateAuthority (''cluster/'' @ id_value (mq_cluster q)) []
      else if mq_kind q \<noteq> MK_DeclareCluster \<and> \<not> counter_known (cs_epoch s)
        then rejected RR_NotReady ES_ValidateAuthority cluster_subject []
      else if mq_kind q = MK_DeclareCluster
        then
          if counter_known (cs_epoch s) \<and> ma_cluster_epoch (mq_authority q) \<noteq> cs_epoch s
          then rejected RR_StaleClusterEpoch ES_ValidateGeneration cluster_subject []
          else gate_ok
      else if ma_cluster_epoch (mq_authority q) \<noteq> cs_epoch s
        then rejected RR_StaleClusterEpoch ES_ValidateGeneration cluster_subject []
      else if ma_coordinator_epoch (mq_authority q) \<noteq> cs_coordinator_epoch s
        then rejected RR_StaleCoordinatorEpoch ES_ValidateGeneration cluster_subject []
      else if \<not> accepts_mutations (cs_lifecycle s)
        then rejected RR_Retired ES_ValidateAuthority cluster_subject []
      else gate_ok)"

definition validate_boot :: "cluster_state \<Rightarrow> mutation_request \<Rightarrow> rack_id \<Rightarrow> mutation_result" where
  "validate_boot s q rack =
     (case ma_boot (mq_authority q) of
        None \<Rightarrow> gate_ok
      | Some boot \<Rightarrow>
          if is_boot_fenced s boot
          then rejected RR_StaleRackBoot ES_ValidateAuthority (rack_subject rack) []
          else case om_find (cs_racks s) rack of
            None \<Rightarrow> gate_ok
          | Some r \<Rightarrow>
              let ref = rr_reference r;
                  publication = ma_publication (mq_authority q);
                  incoming = mq_rack_reference q in
              if rr_authoritative_current r \<and> rf_boot ref \<noteq> boot
              then rejected RR_NotAuthorized ES_ValidateAuthority (rack_subject rack) []
              else if publishers_differ (ma_publisher (mq_authority q)) (rf_publisher ref)
              then rejected RR_NotAuthorized ES_ValidateAuthority (rack_subject rack) []
              else if rf_boot ref = boot \<and> counter_known publication
                  \<and> cvalue publication \<le> cvalue (rf_publication ref)
                  \<and> \<not> (cvalue publication = cvalue (rf_publication ref)
                       \<and> rf_rack incoming = rack \<and> rf_boot incoming = boot
                       \<and> same_authoritative_content ref (canonicalize incoming))
              then rejected RR_StalePublication ES_ValidateGeneration (rack_subject rack)
                     ''stale_publication''
              else gate_ok)"

subsection \<open>The contract towards the journal\<close>

definition has_scalars :: "journal \<Rightarrow> bool" where
  "has_scalars j \<longleftrightarrow> (\<exists>x. UndoScalars x \<in> set j)"

definition undoes :: "apply_context \<Rightarrow> apply_context \<Rightarrow> bool" where
  "undoes ctx ctx' \<longleftrightarrow>
     (has_scalars (ax_journal ctx) \<longrightarrow>
        has_scalars (ax_journal ctx')
        \<and> rollback (ax_journal ctx') (ax_state ctx') = rollback (ax_journal ctx) (ax_state ctx))"

lemma undoes_refl [simp]: "undoes ctx ctx"
  by (simp add: undoes_def)

lemma undoes_trans: "undoes a b \<Longrightarrow> undoes b c \<Longrightarrow> undoes a c"
  by (simp add: undoes_def)

lemma undoes_changed [simp]: "undoes a (b\<lparr>ax_changed := c\<rparr>) = undoes a b"
  by (simp add: undoes_def)

lemma undoes_scalars:
  assumes "\<And>s. same_maps (f s) s" and "undoes a b"
  shows "undoes a (upd_state f b)"
proof -
  have "rollback (ax_journal b) (f (ax_state b)) = rollback (ax_journal b) (ax_state b)"
    if "has_scalars (ax_journal b)"
    using that assms(1) rollback_cong by (auto simp: has_scalars_def)
  then show ?thesis using assms(2) by (auto simp: undoes_def upd_state_def)
qed

lemma undoes_put_rack: "undoes a b \<Longrightarrow> undoes a (put_rack k r b)"
  using rack_slot.insert_undone
  by (auto simp: undoes_def put_rack_def record_rack_def has_scalars_def simp del: apply_undo.simps)

lemma undoes_put_link: "undoes a b \<Longrightarrow> undoes a (put_link k l b)"
  using link_slot.insert_undone
  by (auto simp: undoes_def put_link_def record_link_def has_scalars_def simp del: apply_undo.simps)

lemma undoes_erase_link: "undoes a b \<Longrightarrow> undoes a (erase_link k b)"
  using link_slot.erase_undone
  by (auto simp: undoes_def erase_link_def record_link_def has_scalars_def simp del: apply_undo.simps)

lemma undoes_update_links: "undoes a b \<Longrightarrow> undoes a (update_links P f b)"
  using link_slot.loop_undone [where P = "\<lambda>(k, l). P l" and f = "\<lambda>_ l. if P l then f l else l"]
  by (auto simp: undoes_def update_links_def has_scalars_def)

lemma undoes_update_racks: "undoes a b \<Longrightarrow> undoes a (update_racks P f b)"
  using rack_slot.loop_undone [where P = "\<lambda>(k, r). P r" and f = "\<lambda>_ r. if P r then f r else r"]
  by (auto simp: undoes_def update_racks_def has_scalars_def)

lemmas bump_defs = bump_membership_def bump_topology_def bump_connectivity_def bump_health_def
  bump_constraint_def bump_snapshot_def bump_publication_def

lemma undoes_bump:
  "bump_membership b = Some c \<Longrightarrow> undoes a b \<Longrightarrow> undoes a c"
  "bump_topology b = Some c \<Longrightarrow> undoes a b \<Longrightarrow> undoes a c"
  "bump_connectivity b = Some c \<Longrightarrow> undoes a b \<Longrightarrow> undoes a c"
  "bump_health b = Some c \<Longrightarrow> undoes a b \<Longrightarrow> undoes a c"
  "bump_constraint b = Some c \<Longrightarrow> undoes a b \<Longrightarrow> undoes a c"
  "bump_snapshot b = Some c \<Longrightarrow> undoes a b \<Longrightarrow> undoes a c"
  "bump_publication b = Some c \<Longrightarrow> undoes a b \<Longrightarrow> undoes a c"
  by (auto simp: bump_defs intro!: undoes_scalars) (simp_all add: same_maps_def)

lemmas undoes_intros = undoes_put_rack undoes_put_link undoes_erase_link undoes_update_links
  undoes_update_racks

lemma handler_results [simp]:
  "fst (reject_with reason stage subject code ctx) = rejected reason stage subject code"
  "snd (reject_with reason stage subject code ctx) = ctx"
  "fst (accepted_change ctx) = accepted_result"
  "snd (accepted_change ctx) = ctx\<lparr>ax_changed := True\<rparr>"
  "snd (accepted_no_change ctx) = ctx"
  by (simp_all add: reject_with_def accepted_change_def accepted_no_change_def)

lemma handler_result_eqs [simp]:
  "reject_with reason stage subject code ctx = (r, ctx') \<longleftrightarrow>
     r = rejected reason stage subject code \<and> ctx' = ctx"
  "accepted_change ctx = (r, ctx') \<longleftrightarrow> r = accepted_result \<and> ctx' = ctx\<lparr>ax_changed := True\<rparr>"
  "accepted_no_change ctx = (r, ctx') \<longleftrightarrow> r = default_result\<lparr>mr_outcome := MO_NoChange\<rparr> \<and> ctx' = ctx"
  by (auto simp: reject_with_def accepted_change_def accepted_no_change_def)

end
