(* ===== verification/Rack_Mutations.thy ===== *)
theory Rack_Mutations
  imports Engine
begin

text \<open>
  The rack-scoped handlers of the commit engine (src/src/coordinator_engine.cpp): publisher
  registration, admission, generation update, membership change and recovery.
\<close>

text \<open>\<^verbatim>\<open>request.authority.rack.value_or(request.rack_reference.rack)\<close>.\<close>

definition request_rack :: "mutation_request \<Rightarrow> rack_id" where
  "request_rack q =
     (case ma_rack (mq_authority q) of Some k \<Rightarrow> k | None \<Rightarrow> rf_rack (mq_rack_reference q))"

definition composition_empty :: "rack_composition_summary \<Rightarrow> bool" where
  "composition_empty c \<longleftrightarrow>
     cm_accelerators c = [] \<and> cm_cpu_sockets c = None \<and> cm_cpu_cores c = None
     \<and> cm_host_memory_bytes c = None \<and> cm_nic_count c = None \<and> cm_switch_count c = None
     \<and> cm_composition_label c = []"

definition currentness_reason :: "bool \<Rightarrow> string" where
  "currentness_reason current = (if current then [] else ''evidence_not_current'')"

definition registration_record :: "cluster_state \<Rightarrow> mutation_request \<Rightarrow> rack_id \<Rightarrow> rack_generation \<Rightarrow> rack_record" where
  "registration_record s q rack generation =
     (let a = mq_authority q; incoming = mq_rack_reference q in
      default_rack_record
        \<lparr>rr_reference := default_reference
           \<lparr>rf_rack := rack,
            rf_generation := generation,
            rf_rack_lifecycle := rf_rack_lifecycle incoming,
            rf_currentness := RC_Unknown,
            rf_composition := rf_composition incoming,
            rf_evidence := mq_evidence q,
            rf_publisher := ma_publisher a,
            rf_publication := ma_publication a,
            rf_boot := (case ma_boot a of Some b \<Rightarrow> b | None \<Rightarrow> rf_boot incoming),
            rf_cluster_epoch := cs_epoch s,
            rf_coordinator_epoch := cs_coordinator_epoch s,
            rf_origin_label := rf_origin_label incoming\<rparr>,
         rr_membership := RM_Unknown,
         rr_membership_generation := cs_membership_generation s,
         rr_accepted_at_generation := cs_generation s,
         rr_membership_evidence := mq_evidence q,
         rr_authoritative_current := False,
         rr_non_authoritative_reason := ''registered_but_not_admitted''\<rparr>)"

definition apply_register_publisher ::
  "coordinator_config \<Rightarrow> mutation_request \<Rightarrow> apply_context \<Rightarrow> handler_result" where
  "apply_register_publisher cfg q ctx =
     (let s = ax_state ctx; a = mq_authority q; rack = request_rack q in
      if id_value rack = [] then reject_with RR_Malformed ES_ValidateReference ''rack'' [] ctx
      else if is_rack_retired s rack
        then reject_with RR_Retired ES_ValidateReference (rack_subject rack) [] ctx
      else if ma_publisher a = None
        then reject_with RR_NotAuthorized ES_ValidateAuthority (rack_subject rack) [] ctx
      else case om_find (cs_racks s) rack of
        Some r \<Rightarrow>
          if publishers_differ (rf_publisher (rr_reference r)) (ma_publisher a)
          then reject_with RR_Conflict ES_ValidateAuthority (rack_subject rack) [] ctx
          else if counter_known (rf_generation (rr_reference r))
              \<and> (case ma_rack_generation a of
                   None \<Rightarrow> False | Some g \<Rightarrow> g < rf_generation (rr_reference r))
          then reject_with RR_StaleRackGeneration ES_ValidateGeneration (rack_subject rack) [] ctx
          else accepted_no_change ctx
      | None \<Rightarrow>
          if om_size (cs_racks s) \<ge> cc_max_racks cfg
          then reject_with RR_LimitExceeded ES_ValidateReference (rack_subject rack) [] ctx
          else
            let generation = (case ma_rack_generation a of
                  Some g \<Rightarrow> g | None \<Rightarrow> rf_generation (mq_rack_reference q)) in
            if \<not> counter_known generation
            then reject_with RR_Malformed ES_ValidateReference (rack_subject rack) [] ctx
            else accepted_change (put_rack rack (registration_record s q rack generation) ctx))"

text \<open>
  The checks of \<^verbatim>\<open>apply_add_rack\<close> against an existing record: an early answer, or none when the
  admission goes on.
\<close>

definition admission_answer :: "rack_id \<Rightarrow> rack_record \<Rightarrow> rack_reference \<Rightarrow> apply_context \<Rightarrow> handler_result option" where
  "admission_answer rack r incoming ctx =
     (let ref = rr_reference r;
          placeholder = (rr_membership r = RM_Unknown \<and> \<not> rr_authoritative_current r)
      in
      if rf_generation incoming < rf_generation ref
      then Some (reject_with RR_StaleRackGeneration ES_ValidateGeneration (rack_subject rack) [] ctx)
      else if rf_generation incoming = rf_generation ref \<and> placeholder
      then
        if publishers_differ (rf_publisher ref) (rf_publisher incoming)
        then Some (reject_with RR_Conflict ES_ValidateAuthority (rack_subject rack) [] ctx)
        else None
      else if rf_generation incoming = rf_generation ref
      then
        if \<not> same_authoritative_content ref incoming
        then Some (reject_with RR_Conflict ES_ValidateReference (rack_subject rack)
               ''conflicting_rack_publication'' ctx)
        else if identical_publication ref incoming
            \<or> (same_authoritative_content ref incoming \<and> rf_boot ref = rf_boot incoming
               \<and> rf_publisher ref = rf_publisher incoming
               \<and> rf_publication ref = rf_publication incoming)
        then Some (accepted_no_change ctx)
        else if rf_boot ref = rf_boot incoming
            \<and> cvalue (rf_publication incoming) \<le> cvalue (rf_publication ref)
        then Some (reject_with RR_StalePublication ES_ValidateGeneration (rack_subject rack)
               ''stale_publication'' ctx)
        else None
      else if publishers_differ (rf_publisher ref) (rf_publisher incoming)
      then Some (reject_with RR_NotAuthorized ES_ValidateAuthority (rack_subject rack) [] ctx)
      else None)"

definition admitted_reference :: "cluster_state \<Rightarrow> timestamp \<Rightarrow> rack_reference \<Rightarrow> rack_reference" where
  "admitted_reference s now incoming =
     incoming
       \<lparr>rf_cluster_epoch := cs_epoch s,
        rf_coordinator_epoch := cs_coordinator_epoch s,
        rf_currentness := RC_Current,
        rf_evidence :=
          (if es_freshness (rf_evidence incoming) = FR_Unknown
              \<and> ts_known (es_observed_at (rf_evidence incoming))
           then refresh now (rf_evidence incoming) else rf_evidence incoming)\<rparr>"

definition admitted_record :: "cluster_state \<Rightarrow> timestamp \<Rightarrow> rack_reference \<Rightarrow> rack_record \<Rightarrow> rack_record" where
  "admitted_record s now incoming r =
     (let ref = admitted_reference s now incoming; current = is_current (rf_evidence ref) in
      r\<lparr>rr_reference := ref,
        rr_membership := RM_Active,
        rr_accepted_at_generation := cs_generation s,
        rr_membership_evidence := rf_evidence ref,
        rr_authoritative_current := current,
        rr_non_authoritative_reason := currentness_reason current\<rparr>)"

definition apply_add_rack ::
  "coordinator_config \<Rightarrow> timestamp \<Rightarrow> mutation_request \<Rightarrow> apply_context \<Rightarrow> handler_result" where
  "apply_add_rack cfg now q ctx =
     (let s = ax_state ctx;
          incoming = canonicalize (mq_rack_reference q);
          validation = validate_rack_reference incoming;
          rack = rf_rack incoming;
          existing = om_find (cs_racks s) rack
      in
      if \<not> rv_ok validation
      then reject_with RR_Malformed ES_ValidateReference (rv_subject validation) [] ctx
      else if is_rack_retired s rack
      then reject_with RR_Retired ES_ValidateReference (rack_subject rack) [] ctx
      else if \<not> mr_accepted (validate_boot s q rack) then (validate_boot s q rack, ctx)
      else
        case (case existing of
                Some r \<Rightarrow> admission_answer rack r incoming ctx
              | None \<Rightarrow>
                  if om_size (cs_racks s) \<ge> cc_max_racks cfg
                  then Some (reject_with RR_LimitExceeded ES_ValidateReference (rack_subject rack) [] ctx)
                  else None) of
          Some answer \<Rightarrow> answer
        | None \<Rightarrow>
            let previous = (case existing of None \<Rightarrow> default_rack_record | Some r \<Rightarrow> r);
                new_record = (existing = None);
                generation_advanced =
                  (\<not> new_record \<and> rf_generation incoming > rf_generation (rr_reference previous));
                membership_changed = (new_record \<or> rr_membership previous \<noteq> RM_Active);
                record = admitted_record s now incoming previous;
                readmit = upd_state (\<lambda>s. s\<lparr>cs_withdrawn_racks := removeAll rack (cs_withdrawn_racks s)\<rparr>)
            in
            if membership_changed \<or> generation_advanced
            then
              case bump_membership ctx of
                None \<Rightarrow> reject_with RR_LimitExceeded ES_Commit ''cluster'' [] ctx
              | Some ctx' \<Rightarrow>
                  accepted_change (put_rack rack
                    (record\<lparr>rr_membership_generation := cs_membership_generation (ax_state ctx')\<rparr>)
                    (readmit ctx'))
            else accepted_change (put_rack rack record (readmit ctx)))"

definition updated_record :: "cluster_state \<Rightarrow> mutation_request \<Rightarrow> rack_generation \<Rightarrow> rack_record \<Rightarrow> rack_record" where
  "updated_record s q generation r =
     (let a = mq_authority q; incoming = mq_rack_reference q; current = is_current (mq_evidence q);
          ref = rr_reference r in
      r\<lparr>rr_reference := ref
          \<lparr>rf_generation := generation,
           rf_rack_lifecycle := rf_rack_lifecycle incoming,
           rf_composition :=
             (if composition_empty (rf_composition incoming) then rf_composition ref
              else rf_composition incoming),
           rf_publisher :=
             (if ma_publisher a = None then rf_publisher ref else ma_publisher a),
           rf_publication := ma_publication a,
           rf_boot := (case ma_boot a of Some b \<Rightarrow> b | None \<Rightarrow> rf_boot ref),
           rf_evidence := mq_evidence q,
           rf_cluster_epoch := cs_epoch s,
           rf_coordinator_epoch := cs_coordinator_epoch s,
           rf_currentness := RC_Current\<rparr>,
        rr_accepted_at_generation := cs_generation s,
        rr_authoritative_current := current,
        rr_non_authoritative_reason := currentness_reason current\<rparr>)"

definition apply_update_rack_generation :: "mutation_request \<Rightarrow> apply_context \<Rightarrow> handler_result" where
  "apply_update_rack_generation q ctx =
     (let s = ax_state ctx; rack = request_rack q in
      if id_value rack = [] then reject_with RR_Malformed ES_ValidateReference ''rack'' [] ctx
      else case om_find (cs_racks s) rack of
        None \<Rightarrow> reject_with RR_UnknownRack ES_ValidateReference (rack_subject rack) [] ctx
      | Some r \<Rightarrow>
          if \<not> mr_accepted (validate_boot s q rack) then (validate_boot s q rack, ctx)
          else
            let current = rf_generation (rr_reference r) in
            if (case mq_expected_rack_generation q of None \<Rightarrow> False | Some e \<Rightarrow> e \<noteq> current)
            then reject_with RR_Conflict ES_ValidateGeneration (rack_subject rack)
                   ''generation_compare_failed'' ctx
            else case mq_new_rack_generation q of
              None \<Rightarrow> reject_with RR_Malformed ES_ValidateReference (rack_subject rack) [] ctx
            | Some g \<Rightarrow>
                if g < current
                then reject_with RR_StaleRackGeneration ES_ValidateGeneration (rack_subject rack) [] ctx
                else if g = current then accepted_no_change ctx
                else case bump_membership ctx of
                  None \<Rightarrow> reject_with RR_LimitExceeded ES_Commit ''cluster'' [] ctx
                | Some ctx' \<Rightarrow>
                    accepted_change (put_rack rack
                      ((updated_record s q g r)
                         \<lparr>rr_membership_generation := cs_membership_generation (ax_state ctx')\<rparr>)
                      ctx'))"

definition changed_membership :: "mutation_request \<Rightarrow> rack_membership_state \<Rightarrow> rack_record \<Rightarrow> rack_record" where
  "changed_membership q target r =
     (let r = r\<lparr>rr_membership := target, rr_membership_evidence := mq_evidence q\<rparr> in
      if target \<noteq> RM_Active
      then r\<lparr>rr_authoritative_current := False,
             rr_reference := (rr_reference r)\<lparr>rf_currentness := RC_RevalidationRequired\<rparr>,
             rr_non_authoritative_reason := ''membership_'' @ rack_membership_state_to_string target\<rparr>
      else r)"

definition withdrawn_after :: "rack_id \<Rightarrow> rack_membership_state \<Rightarrow> rack_id list \<Rightarrow> rack_id list" where
  "withdrawn_after rack target withdrawn =
     (if target = RM_Withdrawn
      then (if rack \<in> set withdrawn then withdrawn else sort (withdrawn @ [rack]))
      else remove1 rack withdrawn)"

definition retired_after ::
  "rack_id \<Rightarrow> rack_generation \<Rightarrow> timestamp \<Rightarrow> string \<Rightarrow> retired_identity list \<Rightarrow> retired_identity list" where
  "retired_after rack generation now reason retired =
     (if list_ex (\<lambda>r. ri_rack r = rack) retired then retired
      else sort_key ri_rack (retired @
        [\<lparr>ri_rack = rack, ri_last_generation = generation, ri_retired_at = now, ri_reason = reason\<rparr>]))"

definition apply_membership_change ::
  "timestamp \<Rightarrow> mutation_request \<Rightarrow> rack_membership_state \<Rightarrow> bool \<Rightarrow> apply_context \<Rightarrow> handler_result" where
  "apply_membership_change now q target add_retired_identity ctx =
     (let s = ax_state ctx; rack = request_rack q in
      if id_value rack = [] then reject_with RR_Malformed ES_ValidateReference ''rack'' [] ctx
      else case om_find (cs_racks s) rack of
        None \<Rightarrow> reject_with RR_UnknownRack ES_ValidateReference (rack_subject rack) [] ctx
      | Some r \<Rightarrow>
          if \<not> mr_accepted (validate_boot s q rack) then (validate_boot s q rack, ctx)
          else if rr_membership r = target then accepted_no_change ctx
          else if rr_membership r = RM_Retired \<and> target \<noteq> RM_Retired
          then reject_with RR_Retired ES_ValidateAuthority (rack_subject rack) [] ctx
          else case bump_membership ctx of
            None \<Rightarrow> reject_with RR_LimitExceeded ES_Commit ''cluster'' [] ctx
          | Some ctx' \<Rightarrow>
              let record = (changed_membership q target r)
                    \<lparr>rr_membership_generation := cs_membership_generation (ax_state ctx')\<rparr>;
                  listed = upd_state (\<lambda>s. s
                    \<lparr>cs_withdrawn_racks := withdrawn_after rack target (cs_withdrawn_racks s)\<rparr>) ctx';
                  retired =
                    (if add_retired_identity
                     then upd_state (\<lambda>s. s\<lparr>cs_retired_racks := retired_after rack
                            (rf_generation (rr_reference record)) now (mq_reason q) (cs_retired_racks s)\<rparr>) listed
                     else listed)
              in accepted_change (put_rack rack record retired))"

definition recovered_record ::
  "cluster_state \<Rightarrow> mutation_request \<Rightarrow> rack_id \<Rightarrow> rack_generation \<Rightarrow> boot_id \<Rightarrow> rack_record \<Rightarrow> rack_record" where
  "recovered_record s q rack target boot r =
     (let a = mq_authority q; incoming = mq_rack_reference q; ref = rr_reference r;
          current = is_current (mq_evidence q) in
      r\<lparr>rr_reference := ref
          \<lparr>rf_rack := rack,
           rf_generation := target,
           rf_composition :=
             (if composition_empty (rf_composition incoming) then rf_composition ref
              else rf_composition incoming),
           rf_endpoints := (if rf_endpoints incoming = [] then rf_endpoints ref else rf_endpoints incoming),
           rf_failure_domain_hints :=
             (if rf_failure_domain_hints incoming = [] then rf_failure_domain_hints ref
              else rf_failure_domain_hints incoming),
           rf_rack_lifecycle := rf_rack_lifecycle incoming,
           rf_publisher := (if ma_publisher a = None then rf_publisher ref else ma_publisher a),
           rf_boot := boot,
           rf_publication := ma_publication a,
           rf_evidence := mq_evidence q,
           rf_cluster_epoch := cs_epoch s,
           rf_coordinator_epoch := cs_coordinator_epoch s,
           rf_currentness := RC_Current,
           rf_health := rf_health incoming\<rparr>,
        rr_membership := RM_Active,
        rr_membership_evidence := mq_evidence q,
        rr_accepted_at_generation := cs_generation s,
        rr_authoritative_current := current,
        rr_non_authoritative_reason := currentness_reason current\<rparr>)"

definition apply_recover_rack :: "mutation_request \<Rightarrow> apply_context \<Rightarrow> handler_result" where
  "apply_recover_rack q ctx =
     (let s = ax_state ctx;
          incoming = canonicalize (mq_rack_reference q);
          rack = (if id_value (rf_rack incoming) = [] then request_rack q else rf_rack incoming)
      in
      if id_value rack = [] then reject_with RR_Malformed ES_ValidateReference ''rack'' [] ctx
      else if is_rack_retired s rack
      then reject_with RR_Retired ES_ValidateReference (rack_subject rack) [] ctx
      else case om_find (cs_racks s) rack of
        None \<Rightarrow> reject_with RR_UnknownRack ES_ValidateReference (rack_subject rack) [] ctx
      | Some r \<Rightarrow>
          (case ma_boot (mq_authority q) of
             None \<Rightarrow> reject_with RR_NotAuthorized ES_ValidateAuthority (rack_subject rack) [] ctx
           | Some boot \<Rightarrow>
               let current = rf_generation (rr_reference r);
                   target = (case mq_new_rack_generation q of None \<Rightarrow> current | Some g \<Rightarrow> g)
               in
               if is_boot_fenced s boot
               then reject_with RR_StaleRackBoot ES_ValidateAuthority (rack_subject rack) [] ctx
               else if rf_boot (rr_reference r) = boot \<and> \<not> rr_authoritative_current r
               then reject_with RR_StaleRackBoot ES_ValidateAuthority (rack_subject rack) [] ctx
               else if target < current
               then reject_with RR_StaleRackGeneration ES_ValidateGeneration (rack_subject rack) [] ctx
               else case bump_membership ctx of
                 None \<Rightarrow> reject_with RR_LimitExceeded ES_Commit ''cluster'' [] ctx
               | Some ctx' \<Rightarrow>
                   accepted_change (put_rack rack
                     ((recovered_record s q rack target boot r)
                        \<lparr>rr_membership_generation := cs_membership_generation (ax_state ctx')\<rparr>)
                     (upd_state (\<lambda>s. s\<lparr>cs_withdrawn_racks := removeAll rack (cs_withdrawn_racks s)\<rparr>) ctx'))))"

subsection \<open>The handlers keep the journal contract\<close>

lemma undoes_register: "undoes ctx (snd (apply_register_publisher cfg q ctx))"
  unfolding apply_register_publisher_def Let_def
  by (auto split: option.splits if_splits intro!: undoes_put_rack)

lemma admission_answer_ctx: "admission_answer rack r incoming ctx = Some a \<Longrightarrow> snd a = ctx"
  by (auto simp: admission_answer_def Let_def split: if_splits)

lemma undoes_withdrawn:
  "undoes a b \<Longrightarrow> undoes a (upd_state (\<lambda>s. s\<lparr>cs_withdrawn_racks := f s\<rparr>) b)"
  by (rule undoes_scalars) (simp_all add: same_maps_def)

lemma undoes_retired:
  "undoes a b \<Longrightarrow> undoes a (upd_state (\<lambda>s. s\<lparr>cs_retired_racks := f s\<rparr>) b)"
  by (rule undoes_scalars) (simp_all add: same_maps_def)

lemma undoes_add_rack: "undoes ctx (snd (apply_add_rack cfg now q ctx))"
  unfolding apply_add_rack_def Let_def
  by (auto split: option.splits if_splits dest!: admission_answer_ctx
      intro!: undoes_put_rack undoes_withdrawn elim!: undoes_bump)

lemma undoes_update_rack_generation: "undoes ctx (snd (apply_update_rack_generation q ctx))"
  unfolding apply_update_rack_generation_def Let_def
  by (auto split: option.splits if_splits intro!: undoes_put_rack elim!: undoes_bump)

lemma undoes_membership_change: "undoes ctx (snd (apply_membership_change now q target retire ctx))"
  unfolding apply_membership_change_def Let_def
  by (auto split: option.splits if_splits
      intro!: undoes_put_rack undoes_withdrawn undoes_retired elim!: undoes_bump)

lemma undoes_recover_rack: "undoes ctx (snd (apply_recover_rack q ctx))"
  unfolding apply_recover_rack_def Let_def
  by (auto split: option.splits if_splits intro!: undoes_put_rack undoes_withdrawn elim!: undoes_bump)

end
