(* ===== verification/Domain_Mutations.thy ===== *)
theory Domain_Mutations
  imports Engine
begin

text \<open>
  The domain- and constraint-scoped handlers of the commit engine (src/src/coordinator_engine.cpp).
  \<^verbatim>\<open>DomainTraits<Domain>\<close> is the record \<open>domain_traits\<close>: the map a domain class lives in, the aggregate
  generation it advances, its label, its class test and its class-specific validation. The template
  \<^verbatim>\<open>publish_domain_record\<close> takes it as an argument and is instantiated at the eight values below.

  The locale \<open>domain_class\<close> is the contract of such traits; it extends \<open>journal_slot\<close>, and its
  interpretations give the journal contract of the handler for every class at once.
\<close>

definition kMaxDomainMembers :: nat where "kMaxDomainMembers = 16384"

record ('t, 'b) domain_traits =
  dt_get :: "cluster_state \<Rightarrow> ('t, 'b) domain_map"
  dt_put :: "('t, 'b) domain_map \<Rightarrow> cluster_state \<Rightarrow> cluster_state"
  dt_undo :: "'t strong_id \<Rightarrow> ('t, 'b) domain option \<Rightarrow> undo_entry"
  dt_aggregate :: "domain_generations \<Rightarrow> domain_generation"
  dt_set_aggregate :: "domain_generation \<Rightarrow> domain_generations \<Rightarrow> domain_generations"
  dt_label :: string
  dt_unclassified :: "'b \<Rightarrow> bool"
  dt_body_eq :: "'b \<Rightarrow> 'b \<Rightarrow> bool"
  dt_extra :: "('t, 'b) domain \<Rightarrow> mutation_result \<times> ('t, 'b) domain"

definition no_extra :: "('t, 'b) domain \<Rightarrow> mutation_result \<times> ('t, 'b) domain" where
  "no_extra d = (gate_ok, d)"

subsection \<open>Capacity quantities\<close>

fun evidence_provenance_code :: "evidence_provenance \<Rightarrow> nat" where
  "evidence_provenance_code EP_Unknown = 0"
| "evidence_provenance_code EP_Measured = 1"
| "evidence_provenance_code EP_Reported = 2"
| "evidence_provenance_code EP_Derived = 3"
| "evidence_provenance_code EP_Estimated = 4"
| "evidence_provenance_code EP_Synthetic = 5"
| "evidence_provenance_code EP_Reconstructed = 6"

definition quantity_key :: "capacity_quantity \<Rightarrow> string \<times> nat \<times> bool" where
  "quantity_key q = (cq_unit q, evidence_provenance_code (cq_provenance q), cq_aggregated q)"

fun quantities_answer :: "string \<Rightarrow> string option \<Rightarrow> capacity_quantity list \<Rightarrow> mutation_result" where
  "quantities_answer subject previous_unit [] = gate_ok"
| "quantities_answer subject previous_unit (q # qs) =
     (if cq_unit q = [] \<or> \<not> iv_ok (validate_label (cq_unit q))
      then rejected RR_InvalidDomain ES_ValidateReference subject []
      else if (case cq_value q of None \<Rightarrow> False | Some v \<Rightarrow> \<not> is_finite v)
      then rejected RR_InvalidDomain ES_ValidateReference subject []
      else if previous_unit = Some (cq_unit q)
      then rejected RR_Conflict ES_ValidateReference subject []
      else quantities_answer subject (Some (cq_unit q)) qs)"

definition capacity_extra :: "capacity_domain \<Rightarrow> mutation_result \<times> capacity_domain" where
  "capacity_extra d =
     (let subject = ''capacity_domain/'' @ id_value (dm_id d) in
      if length (cb_quantities (dm_body d)) > kMaxCapacityQuantities
      then (rejected RR_LimitExceeded ES_ValidateReference subject [], d)
      else
        let sorted = sort_key quantity_key (cb_quantities (dm_body d)) in
        (quantities_answer subject None sorted,
         d\<lparr>dm_body := (dm_body d)\<lparr>cb_quantities := sorted\<rparr>\<rparr>))"

subsection \<open>The eight domain classes\<close>

definition placement_traits :: "(PlacementDomainIdTag, placement_domain_class) domain_traits" where
  "placement_traits =
     \<lparr>dt_get = cs_placement_domains, dt_put = (\<lambda>m s. s\<lparr>cs_placement_domains := m\<rparr>),
      dt_undo = UndoPlacement, dt_aggregate = dg_placement,
      dt_set_aggregate = (\<lambda>g d. d\<lparr>dg_placement := g\<rparr>), dt_label = ''placement_domain'',
      dt_unclassified = (\<lambda>c. c = PDC_Unknown), dt_body_eq = (=), dt_extra = no_extra\<rparr>"

definition capacity_traits :: "(CapacityDomainIdTag, capacity_body) domain_traits" where
  "capacity_traits =
     \<lparr>dt_get = cs_capacity_domains, dt_put = (\<lambda>m s. s\<lparr>cs_capacity_domains := m\<rparr>),
      dt_undo = UndoCapacity, dt_aggregate = dg_capacity,
      dt_set_aggregate = (\<lambda>g d. d\<lparr>dg_capacity := g\<rparr>), dt_label = ''capacity_domain'',
      dt_unclassified = (\<lambda>c. cb_klass c = CDC_Unknown), dt_body_eq = capacity_body_eq,
      dt_extra = capacity_extra\<rparr>"

definition failure_traits :: "(FailureDomainIdTag, failure_domain_class) domain_traits" where
  "failure_traits =
     \<lparr>dt_get = cs_failure_domains, dt_put = (\<lambda>m s. s\<lparr>cs_failure_domains := m\<rparr>),
      dt_undo = UndoFailure, dt_aggregate = dg_failure,
      dt_set_aggregate = (\<lambda>g d. d\<lparr>dg_failure := g\<rparr>), dt_label = ''failure_domain'',
      dt_unclassified = (\<lambda>c. c = FDC_Unknown), dt_body_eq = (=), dt_extra = no_extra\<rparr>"

definition network_traits :: "(NetworkDomainIdTag, connectivity_class) domain_traits" where
  "network_traits =
     \<lparr>dt_get = cs_network_domains, dt_put = (\<lambda>m s. s\<lparr>cs_network_domains := m\<rparr>),
      dt_undo = UndoNetwork, dt_aggregate = dg_network,
      dt_set_aggregate = (\<lambda>g d. d\<lparr>dg_network := g\<rparr>), dt_label = ''network_domain'',
      dt_unclassified = (\<lambda>c. c = CC_Unknown), dt_body_eq = (=), dt_extra = no_extra\<rparr>"

definition storage_traits :: "(StorageDomainIdTag, unit) domain_traits" where
  "storage_traits =
     \<lparr>dt_get = cs_storage_domains, dt_put = (\<lambda>m s. s\<lparr>cs_storage_domains := m\<rparr>),
      dt_undo = UndoStorage, dt_aggregate = dg_storage,
      dt_set_aggregate = (\<lambda>g d. d\<lparr>dg_storage := g\<rparr>), dt_label = ''storage_domain'',
      dt_unclassified = (\<lambda>_. False), dt_body_eq = (=), dt_extra = no_extra\<rparr>"

definition power_traits :: "(PowerDomainIdTag, power_domain_id option) domain_traits" where
  "power_traits =
     \<lparr>dt_get = cs_power_domains, dt_put = (\<lambda>m s. s\<lparr>cs_power_domains := m\<rparr>),
      dt_undo = UndoPower, dt_aggregate = dg_power,
      dt_set_aggregate = (\<lambda>g d. d\<lparr>dg_power := g\<rparr>), dt_label = ''power_domain'',
      dt_unclassified = (\<lambda>_. False), dt_body_eq = (=), dt_extra = no_extra\<rparr>"

definition cooling_traits :: "(CoolingDomainIdTag, cooling_domain_id option) domain_traits" where
  "cooling_traits =
     \<lparr>dt_get = cs_cooling_domains, dt_put = (\<lambda>m s. s\<lparr>cs_cooling_domains := m\<rparr>),
      dt_undo = UndoCooling, dt_aggregate = dg_cooling,
      dt_set_aggregate = (\<lambda>g d. d\<lparr>dg_cooling := g\<rparr>), dt_label = ''cooling_domain'',
      dt_unclassified = (\<lambda>_. False), dt_body_eq = (=), dt_extra = no_extra\<rparr>"

definition link_domain_traits :: "(LinkDomainIdTag, unit) domain_traits" where
  "link_domain_traits =
     \<lparr>dt_get = cs_link_domains, dt_put = (\<lambda>m s. s\<lparr>cs_link_domains := m\<rparr>),
      dt_undo = UndoLinkDomain, dt_aggregate = dg_link,
      dt_set_aggregate = (\<lambda>g d. d\<lparr>dg_link := g\<rparr>), dt_label = ''link_domain'',
      dt_unclassified = (\<lambda>_. False), dt_body_eq = (=), dt_extra = no_extra\<rparr>"

subsection \<open>Publishing a domain\<close>

definition domain_subject :: "('t, 'b) domain_traits \<Rightarrow> ('t, 'b) domain \<Rightarrow> string" where
  "domain_subject T d = dt_label T @ ''/'' @ id_value (dm_id d)"

text \<open>The payload check sorts the member list (and the quantities) of the domain it is given.\<close>

definition validate_domain_payload ::
  "('t, 'b) domain_traits \<Rightarrow> cluster_state \<Rightarrow> ('t, 'b) domain \<Rightarrow> mutation_result \<times> ('t, 'b) domain" where
  "validate_domain_payload T s d =
     (if length (dm_racks d) > kMaxDomainMembers
      then (rejected RR_LimitExceeded ES_ValidateReference (dt_label T) [], d)
      else
        let d = d\<lparr>dm_racks := sort_unique (dm_racks d)\<rparr> in
        if list_ex (\<lambda>rack. \<not> is_rack_member s rack) (dm_racks d)
        then (rejected RR_UnknownRack ES_ValidateReference (domain_subject T d) [], d)
        else if \<not> counter_known (dh_generation (dm_header d))
        then (rejected RR_InvalidDomain ES_ValidateGeneration (domain_subject T d) [], d)
        else if dt_unclassified T (dm_body d)
        then (rejected RR_InvalidDomain ES_ValidateReference (domain_subject T d) [], d)
        else dt_extra T d)"

text \<open>The comparison with an existing record of the same identity: an early answer, or none.\<close>

definition domain_answer ::
  "('t, 'b) domain_traits \<Rightarrow> ('t, 'b) domain \<Rightarrow> ('t, 'b) domain \<Rightarrow> apply_context \<Rightarrow> handler_result option" where
  "domain_answer T d existing ctx =
     (let subject = domain_subject T d;
          g = dh_generation (dm_header d); g0 = dh_generation (dm_header existing) in
      if cvalue g < cvalue g0
      then Some (reject_with RR_StalePublication ES_ValidateGeneration subject
             ''stale_domain_generation'' ctx)
      else if g = g0
      then
        if domain_eq (dt_body_eq T) d existing then Some (accepted_no_change ctx)
        else Some (reject_with RR_Conflict ES_ValidateReference subject
               ''conflicting_domain_publication'' ctx)
      else None)"

text \<open>\<^verbatim>\<open>journal.record(Traits::member, id)\<close> followed by \<^verbatim>\<open>map.insert_or_assign(id, domain)\<close>.\<close>

definition put_domain ::
  "('t, 'b) domain_traits \<Rightarrow> ('t, 'b) domain \<Rightarrow> apply_context \<Rightarrow> apply_context" where
  "put_domain T d ctx = ctx
     \<lparr>ax_journal := dt_undo T (dm_id d) (om_find (dt_get T (ax_state ctx)) (dm_id d)) # ax_journal ctx,
      ax_state := dt_put T (om_insert (dm_id d) d (dt_get T (ax_state ctx))) (ax_state ctx)\<rparr>"

definition mirror_topology_generation :: "apply_context \<Rightarrow> apply_context" where
  "mirror_topology_generation = upd_state (\<lambda>s. s
     \<lparr>cs_topology_record := (cs_topology_record s)\<lparr>te_generation := cs_topology_generation s\<rparr>\<rparr>)"

definition stamp_header :: "cluster_state \<Rightarrow> domain_header \<Rightarrow> domain_header" where
  "stamp_header s h =
     h\<lparr>dh_cluster_epoch := cs_epoch s, dh_coordinator_epoch := cs_coordinator_epoch s\<rparr>"

definition publish_domain_record ::
  "coordinator_config \<Rightarrow> ('t, 'b) domain_traits \<Rightarrow> ('t, 'b) domain \<Rightarrow> apply_context \<Rightarrow> handler_result" where
  "publish_domain_record cfg T supplied ctx =
     (let s = ax_state ctx; (payload_result, d) = validate_domain_payload T s supplied;
          subject = domain_subject T supplied in
      if id_value (dm_id supplied) = []
      then reject_with RR_InvalidDomain ES_ValidateReference (dt_label T) [] ctx
      else if \<not> mr_accepted payload_result then (payload_result, ctx)
      else
        case (case om_find (dt_get T s) (dm_id d) of
                Some existing \<Rightarrow> domain_answer T d existing ctx
              | None \<Rightarrow>
                  if om_size (dt_get T s) \<ge> cc_max_domains_per_class cfg
                  then Some (reject_with RR_LimitExceeded ES_ValidateReference subject [] ctx)
                  else None) of
          Some answer \<Rightarrow> answer
        | None \<Rightarrow>
            let d = d\<lparr>dm_header := stamp_header s (dm_header d)\<rparr> in
            case advance_aggregate (dt_aggregate T (cs_domain_generations s)) (dh_generation (dm_header d)) of
              None \<Rightarrow> reject_with RR_LimitExceeded ES_Commit subject [] ctx
            | Some g \<Rightarrow>
                let ctx = upd_state (\<lambda>s. s
                      \<lparr>cs_domain_generations := dt_set_aggregate T g (cs_domain_generations s)\<rparr>) ctx;
                    ctx = put_domain T d ctx in
                case bump_topology ctx of
                  None \<Rightarrow> reject_with RR_LimitExceeded ES_Commit subject [] ctx
                | Some ctx \<Rightarrow> accepted_change (mirror_topology_generation ctx))"

definition put_constraint :: "cluster_constraint \<Rightarrow> apply_context \<Rightarrow> apply_context" where
  "put_constraint c ctx = ctx
     \<lparr>ax_journal := record_constraint (ax_state ctx) (cn_id c) (ax_journal ctx),
      ax_state := (ax_state ctx)
        \<lparr>cs_constraints := om_insert (cn_id c) c (cs_constraints (ax_state ctx))\<rparr>\<rparr>"

definition apply_publish_constraint ::
  "coordinator_config \<Rightarrow> mutation_request \<Rightarrow> apply_context \<Rightarrow> handler_result" where
  "apply_publish_constraint cfg q ctx =
     (let s = ax_state ctx in
      case mq_constraint q of
        None \<Rightarrow> reject_with RR_Malformed ES_Decode ''constraint'' [] ctx
      | Some supplied \<Rightarrow>
          let subject = ''constraint/'' @ id_value (cn_id supplied);
              c = supplied\<lparr>cn_racks := sort_unique (cn_racks supplied)\<rparr>;
              g = dh_generation (cn_header c) in
          if length (cn_racks supplied) > kMaxDomainMembers
          then reject_with RR_LimitExceeded ES_ValidateReference subject [] ctx
          else if list_ex (\<lambda>rack. \<not> is_rack_member s rack) (cn_racks c)
          then reject_with RR_UnknownRack ES_ValidateReference subject [] ctx
          else if cn_kind c = CK_Unknown
          then reject_with RR_InvalidDomain ES_ValidateReference subject [] ctx
          else if \<not> counter_known g
          then reject_with RR_InvalidDomain ES_ValidateGeneration subject [] ctx
          else
            case (case om_find (cs_constraints s) (cn_id c) of
                    Some existing \<Rightarrow>
                      if cvalue g < cvalue (dh_generation (cn_header existing))
                      then Some (reject_with RR_StalePublication ES_ValidateGeneration subject
                             ''stale_constraint_generation'' ctx)
                      else if g = dh_generation (cn_header existing)
                      then
                        if c = existing then Some (accepted_no_change ctx)
                        else Some (reject_with RR_Conflict ES_ValidateReference subject [] ctx)
                      else None
                  | None \<Rightarrow>
                      if om_size (cs_constraints s) \<ge> cc_max_constraints cfg
                      then Some (reject_with RR_LimitExceeded ES_ValidateReference subject [] ctx)
                      else None) of
              Some answer \<Rightarrow> answer
            | None \<Rightarrow>
                case bump_constraint ctx of
                  None \<Rightarrow> reject_with RR_LimitExceeded ES_Commit subject [] ctx
                | Some ctx \<Rightarrow>
                    accepted_change (put_constraint (c\<lparr>cn_header := stamp_header s (cn_header c)\<rparr>) ctx))"

subsection \<open>The contract of a domain class\<close>

locale domain_class =
  journal_slot "dt_get T" "dt_put T" "dt_undo T" for T :: "('t, 'b) domain_traits" +
  assumes extra_keeps: "dt_extra T d = (r, d') \<Longrightarrow>
      dm_id d' = dm_id d \<and> dm_racks d' = dm_racks d \<and> dm_header d' = dm_header d
      \<and> dt_unclassified T (dm_body d') = dt_unclassified T (dm_body d)"
begin

lemma payload_keeps:
  assumes "validate_domain_payload T s d = (r, d')" and "mr_accepted r"
  shows "dm_id d' = dm_id d" and "sorted_unique (dm_racks d')"
    and "\<forall>rack \<in> set (dm_racks d'). is_rack_member s rack"
    and "counter_known (dh_generation (dm_header d'))" and "dm_header d' = dm_header d"
    and "\<not> dt_unclassified T (dm_body d')"
proof -
  let ?d = "d\<lparr>dm_racks := sort_unique (dm_racks d)\<rparr>"
  have rej: "\<not> mr_accepted (rejected reason stage subject code)" for reason stage subject code
    by (simp add: mr_accepted_def)
  have "dt_extra T ?d = (r, d')" and guards: "\<not> list_ex (\<lambda>rack. \<not> is_rack_member s rack) (dm_racks ?d)"
    "counter_known (dh_generation (dm_header ?d))" "\<not> dt_unclassified T (dm_body ?d)"
    using assms rej by (auto simp: validate_domain_payload_def Let_def split: if_splits)
  from extra_keeps [OF this(1)] guards
  show "dm_id d' = dm_id d" "sorted_unique (dm_racks d')"
    "\<forall>rack \<in> set (dm_racks d'). is_rack_member s rack"
    "counter_known (dh_generation (dm_header d'))" "dm_header d' = dm_header d"
    "\<not> dt_unclassified T (dm_body d')"
    by (simp_all add: list_ex_iff)
qed

lemma undoes_put_domain: "undoes a b \<Longrightarrow> undoes a (put_domain T d b)"
  using insert_undone by (auto simp: undoes_def put_domain_def has_scalars_def)

lemma undoes_publish: "undoes ctx (snd (publish_domain_record cfg T d ctx))"
proof -
  have aux: "undoes ctx (upd_state (\<lambda>s. s\<lparr>cs_domain_generations := f s\<rparr>) ctx)" for f
    by (rule undoes_scalars) (simp_all add: same_maps_def)
  have mirror: "undoes ctx b \<Longrightarrow> undoes ctx (mirror_topology_generation b)" for b
    unfolding mirror_topology_generation_def by (rule undoes_scalars) (simp_all add: same_maps_def)
  show ?thesis
    unfolding publish_domain_record_def Let_def domain_answer_def
    by (auto simp: split: prod.splits option.splits if_splits
        intro!: mirror undoes_put_domain aux elim!: undoes_bump)
qed

end

interpretation placement_class: domain_class placement_traits
  by unfold_locales (auto simp: placement_traits_def no_extra_def)

interpretation capacity_class: domain_class capacity_traits
  by unfold_locales (auto simp: capacity_traits_def capacity_extra_def Let_def split: if_splits)

interpretation failure_class: domain_class failure_traits
  by unfold_locales (auto simp: failure_traits_def no_extra_def)

interpretation network_class: domain_class network_traits
  by unfold_locales (auto simp: network_traits_def no_extra_def)

interpretation storage_class: domain_class storage_traits
  by unfold_locales (auto simp: storage_traits_def no_extra_def)

interpretation power_class: domain_class power_traits
  by unfold_locales (auto simp: power_traits_def no_extra_def)

interpretation cooling_class: domain_class cooling_traits
  by unfold_locales (auto simp: cooling_traits_def no_extra_def)

interpretation link_domain_class: domain_class link_domain_traits
  by unfold_locales (auto simp: link_domain_traits_def no_extra_def)

lemma undoes_put_constraint: "undoes a b \<Longrightarrow> undoes a (put_constraint c b)"
  using constraint_slot.insert_undone
  by (auto simp: undoes_def put_constraint_def record_constraint_def has_scalars_def simp del: apply_undo.simps)

lemma undoes_publish_constraint: "undoes ctx (snd (apply_publish_constraint cfg q ctx))"
  unfolding apply_publish_constraint_def Let_def
  by (auto split: prod.splits option.splits if_splits intro!: undoes_put_constraint elim!: undoes_bump)

end
