(* ===== verification/Topology_Mutations.thy ===== *)
theory Topology_Mutations
  imports Rack_Mutations Domain_Mutations
begin

text \<open>
  The topology- and evidence-scoped handlers of the commit engine
  (src/src/coordinator_engine.cpp): publishing and withdrawing inter-rack links, superseding the
  topology epoch, publishing health and reachability, withdrawing evidence.
\<close>

definition comparable_link :: "inter_rack_link \<Rightarrow> inter_rack_link" where
  "comparable_link l = (lk_set_evidence stamp_unknown l)\<lparr>lk_publication := counter_zero\<rparr>"

definition link_answer :: "inter_rack_link \<Rightarrow> inter_rack_link \<Rightarrow> string \<Rightarrow> apply_context \<Rightarrow> handler_result option" where
  "link_answer l current subject ctx =
     (let g = dh_generation (lk_header l); g0 = dh_generation (lk_header current) in
      if cvalue g < cvalue g0
      then Some (reject_with RR_StalePublication ES_ValidateGeneration subject
             ''stale_link_generation'' ctx)
      else if g = g0
      then
        if comparable_link l = comparable_link current then Some (accepted_no_change ctx)
        else Some (reject_with RR_Conflict ES_ValidateReference subject
               ''conflicting_link_publication'' ctx)
      else None)"

definition apply_publish_link ::
  "coordinator_config \<Rightarrow> mutation_request \<Rightarrow> apply_context \<Rightarrow> handler_result" where
  "apply_publish_link cfg q ctx =
     (let s = ax_state ctx in
      case mq_link q of
        None \<Rightarrow> reject_with RR_Malformed ES_Decode ''link'' [] ctx
      | Some supplied \<Rightarrow>
          let subject = link_subject (lk_id supplied);
              l = supplied\<lparr>lk_failure_domains := sort_unique (lk_failure_domains supplied)\<rparr> in
          if lk_source l = lk_destination l
          then reject_with RR_InvalidRelationship ES_ValidateReference subject [] ctx
          else if lk_direction l = LD_Unknown
          then reject_with RR_InvalidRelationship ES_ValidateReference subject [] ctx
          else if \<not> is_rack_member s (lk_source l)
          then reject_with RR_UnknownRack ES_ValidateReference subject [] ctx
          else if \<not> is_rack_member s (lk_destination l)
          then reject_with RR_UnknownRack ES_ValidateReference subject [] ctx
          else if length (lk_failure_domains supplied) > kMaxFailureDomainRefs
          then reject_with RR_LimitExceeded ES_ValidateReference subject [] ctx
          else if list_ex (\<lambda>d. om_find (cs_failure_domains s) d = None) (lk_failure_domains l)
          then reject_with RR_UnknownDomain ES_ValidateReference subject [] ctx
          else if (case lk_network_domain l of
                     None \<Rightarrow> False | Some d \<Rightarrow> om_find (cs_network_domains s) d = None)
          then reject_with RR_UnknownDomain ES_ValidateReference subject [] ctx
          else if (case lk_link_domain l of
                     None \<Rightarrow> False | Some d \<Rightarrow> om_find (cs_link_domains s) d = None)
          then reject_with RR_UnknownDomain ES_ValidateReference subject [] ctx
          else if \<not> counter_known (dh_generation (lk_header l))
          then reject_with RR_InvalidRelationship ES_ValidateGeneration subject [] ctx
          else
            case (case om_find (cs_links s) (lk_id l) of
                    Some current \<Rightarrow> link_answer l current subject ctx
                  | None \<Rightarrow>
                      if om_size (cs_links s) \<ge> cc_max_links cfg
                      then Some (reject_with RR_LimitExceeded ES_ValidateReference subject [] ctx)
                      else None) of
              Some answer \<Rightarrow> answer
            | None \<Rightarrow>
                if lk_topology_epoch l \<noteq> cs_topology_epoch s
                then reject_with RR_StaleTopologyEpoch ES_ValidateGeneration subject [] ctx
                else
                  let accepted = l
                        \<lparr>lk_header := stamp_header s (lk_header l),
                         lk_topology_generation := cs_topology_generation s\<rparr>;
                      ctx = put_link (lk_id l) accepted ctx in
                  case bump_topology ctx of
                    None \<Rightarrow> reject_with RR_LimitExceeded ES_Commit subject [] ctx
                  | Some ctx \<Rightarrow>
                      (case bump_connectivity ctx of
                         None \<Rightarrow> reject_with RR_LimitExceeded ES_Commit subject [] ctx
                       | Some ctx \<Rightarrow> accepted_change (mirror_topology_generation ctx)))"

definition apply_withdraw_link :: "mutation_request \<Rightarrow> apply_context \<Rightarrow> handler_result" where
  "apply_withdraw_link q ctx =
     (case mq_link_id q of
        None \<Rightarrow> reject_with RR_Malformed ES_Decode ''link'' [] ctx
      | Some k \<Rightarrow>
          if om_find (cs_links (ax_state ctx)) k = None then accepted_no_change ctx
          else
            let subject = link_subject k; ctx = erase_link k ctx in
            case bump_topology ctx of
              None \<Rightarrow> reject_with RR_LimitExceeded ES_Commit subject [] ctx
            | Some ctx \<Rightarrow>
                (case bump_connectivity ctx of
                   None \<Rightarrow> reject_with RR_LimitExceeded ES_Commit subject [] ctx
                 | Some ctx \<Rightarrow> accepted_change (mirror_topology_generation ctx)))"

definition superseded_link :: "inter_rack_link \<Rightarrow> inter_rack_link" where
  "superseded_link l =
     (lk_set_evidence (mark_revalidation_required (lk_evidence l)) l)
       \<lparr>lk_reachability := RB_Unknown, lk_health := HS_Unknown\<rparr>"

definition apply_supersede_topology :: "timestamp \<Rightarrow> mutation_request \<Rightarrow> apply_context \<Rightarrow> handler_result" where
  "apply_supersede_topology now q ctx =
     (case mq_target_topology_epoch q of
        None \<Rightarrow> reject_with RR_Malformed ES_Decode ''topology'' [] ctx
      | Some target \<Rightarrow>
          if target \<le> cs_topology_epoch (ax_state ctx)
          then reject_with RR_StaleTopologyEpoch ES_ValidateGeneration ''topology'' [] ctx
          else
            let ctx = update_links (\<lambda>_. True) superseded_link ctx;
                ctx = upd_state (\<lambda>s. s\<lparr>cs_topology_epoch := target\<rparr>) ctx in
            case bump_topology ctx of
              None \<Rightarrow> reject_with RR_LimitExceeded ES_Commit ''topology'' [] ctx
            | Some ctx \<Rightarrow>
                (case bump_connectivity ctx of
                   None \<Rightarrow> reject_with RR_LimitExceeded ES_Commit ''topology'' [] ctx
                 | Some ctx \<Rightarrow>
                     accepted_change (upd_state (\<lambda>s. s\<lparr>cs_topology_record :=
                       \<lparr>te_epoch = cs_topology_epoch s,
                        te_generation = cs_topology_generation s,
                        te_established_at = now,
                        te_evidence = stamp_make EP_Reported now 0,
                        te_reason = (if mq_topology_reason q = [] then ''topology_superseded''
                                     else mq_topology_reason q)\<rparr>\<rparr>) ctx)))"

definition health_record :: "cluster_state \<Rightarrow> mutation_request \<Rightarrow> rack_record \<Rightarrow> rack_record" where
  "health_record s q r =
     (let current = is_current (mq_evidence q) in
      r\<lparr>rr_reference := (rr_reference r)
          \<lparr>rf_health := mq_health q,
           rf_evidence := mq_evidence q,
           rf_publication := ma_publication (mq_authority q),
           rf_coordinator_epoch := cs_coordinator_epoch s\<rparr>,
        rr_authoritative_current := current,
        rr_non_authoritative_reason := currentness_reason current\<rparr>)"

definition touches :: "rack_id \<Rightarrow> inter_rack_link \<Rightarrow> bool" where
  "touches rack l \<longleftrightarrow> lk_source l = rack \<or> lk_destination l = rack"

definition apply_publish_health :: "mutation_request \<Rightarrow> apply_context \<Rightarrow> handler_result" where
  "apply_publish_health q ctx =
     (let s = ax_state ctx; rack = request_rack q in
      if id_value rack = [] then reject_with RR_Malformed ES_ValidateReference ''rack'' [] ctx
      else case om_find (cs_racks s) rack of
        None \<Rightarrow> reject_with RR_UnknownRack ES_ValidateReference (rack_subject rack) [] ctx
      | Some r \<Rightarrow>
          if is_rack_retired s rack
          then reject_with RR_Retired ES_ValidateAuthority (rack_subject rack) ''retired_identity'' ctx
          else if \<not> mr_accepted (validate_boot s q rack) then (validate_boot s q rack, ctx)
          else if rf_health (rr_reference r) = mq_health q
              \<and> es_observed_at (rf_evidence (rr_reference r)) = es_observed_at (mq_evidence q)
          then accepted_no_change ctx
          else
            let ctx = put_rack rack (health_record s q r) ctx in
            if mq_reachability q \<noteq> RB_Unknown
            then
              let ctx = update_links (touches rack)
                    (\<lambda>l. (lk_set_evidence (mq_evidence q) l)\<lparr>lk_reachability := mq_reachability q\<rparr>) ctx in
              case bump_connectivity ctx of
                None \<Rightarrow> reject_with RR_LimitExceeded ES_Commit (rack_subject rack) [] ctx
              | Some ctx \<Rightarrow>
                  (case bump_health ctx of
                     None \<Rightarrow> reject_with RR_LimitExceeded ES_Commit (rack_subject rack) [] ctx
                   | Some ctx \<Rightarrow> accepted_change ctx)
            else
              case bump_health ctx of
                None \<Rightarrow> reject_with RR_LimitExceeded ES_Commit (rack_subject rack) [] ctx
              | Some ctx \<Rightarrow> accepted_change ctx)"

definition withdrawn_evidence :: "rack_record \<Rightarrow> rack_record" where
  "withdrawn_evidence r = r
     \<lparr>rr_reference := (rr_reference r)
        \<lparr>rf_evidence := mark_revalidation_required (rf_evidence (rr_reference r)),
         rf_currentness := RC_RevalidationRequired\<rparr>,
      rr_authoritative_current := False,
      rr_non_authoritative_reason := ''evidence_withdrawn''\<rparr>"

definition apply_withdraw_evidence :: "mutation_request \<Rightarrow> apply_context \<Rightarrow> handler_result" where
  "apply_withdraw_evidence q ctx =
     (let s = ax_state ctx; rack = request_rack q;
          selector = (if mq_evidence_selector q = [] then ''rack_evidence'' else mq_evidence_selector q) in
      if selector \<noteq> ''rack_evidence'' \<and> selector \<noteq> ''rack_health'' \<and> selector \<noteq> ''reachability''
      then reject_with RR_Malformed ES_ValidateReference ''evidence'' [] ctx
      else case om_find (cs_racks s) rack of
        None \<Rightarrow> reject_with RR_UnknownRack ES_ValidateReference (rack_subject rack) [] ctx
      | Some r \<Rightarrow>
          let ctx = put_rack rack (withdrawn_evidence r) ctx in
          if selector = ''reachability'' \<or> selector = ''rack_evidence''
          then
            let ctx = update_links (touches rack)
                  (\<lambda>l. (lk_set_evidence (mark_revalidation_required (lk_evidence l)) l)
                         \<lparr>lk_reachability := RB_RevalidationRequired\<rparr>) ctx in
            case bump_connectivity ctx of
              None \<Rightarrow> reject_with RR_LimitExceeded ES_Commit (rack_subject rack) [] ctx
            | Some ctx \<Rightarrow>
                (case bump_health ctx of
                   None \<Rightarrow> reject_with RR_LimitExceeded ES_Commit (rack_subject rack) [] ctx
                 | Some ctx \<Rightarrow> accepted_change ctx)
          else
            case bump_health ctx of
              None \<Rightarrow> reject_with RR_LimitExceeded ES_Commit (rack_subject rack) [] ctx
            | Some ctx \<Rightarrow> accepted_change ctx)"

subsection \<open>The handlers keep the journal contract\<close>

lemma undoes_topology:
  "undoes a b \<Longrightarrow> undoes a (mirror_topology_generation b)"
  "undoes a b \<Longrightarrow> undoes a (upd_state (\<lambda>s. s\<lparr>cs_topology_record := f s\<rparr>) b)"
  "undoes a b \<Longrightarrow> undoes a (upd_state (\<lambda>s. s\<lparr>cs_topology_epoch := g s\<rparr>) b)"
  unfolding mirror_topology_generation_def by (rule undoes_scalars, simp_all add: same_maps_def)+

lemma link_answer_ctx: "link_answer l current subject ctx = Some a \<Longrightarrow> snd a = ctx"
  by (auto simp: link_answer_def Let_def split: if_splits)

lemma undoes_publish_link: "undoes ctx (snd (apply_publish_link cfg q ctx))"
  unfolding apply_publish_link_def Let_def
  by (auto split: option.splits if_splits dest!: link_answer_ctx
      intro!: undoes_topology undoes_put_link elim!: undoes_bump)

lemma undoes_withdraw_link: "undoes ctx (snd (apply_withdraw_link q ctx))"
  unfolding apply_withdraw_link_def Let_def
  by (auto split: option.splits if_splits intro!: undoes_topology undoes_erase_link elim!: undoes_bump)

lemma undoes_supersede_topology: "undoes ctx (snd (apply_supersede_topology now q ctx))"
  unfolding apply_supersede_topology_def Let_def
  by (auto split: option.splits if_splits intro!: undoes_topology undoes_update_links elim!: undoes_bump)

lemma undoes_publish_health: "undoes ctx (snd (apply_publish_health q ctx))"
  unfolding apply_publish_health_def Let_def
  by (auto split: option.splits if_splits intro!: undoes_put_rack undoes_update_links elim!: undoes_bump)

lemma undoes_withdraw_evidence: "undoes ctx (snd (apply_withdraw_evidence q ctx))"
  unfolding apply_withdraw_evidence_def Let_def
  by (auto split: option.splits if_splits intro!: undoes_put_rack undoes_update_links elim!: undoes_bump)

end
