(* ===== verification/Cluster_Mutations.thy ===== *)
theory Cluster_Mutations
  imports Topology_Mutations
begin

text \<open>
  The cluster-level handlers of the commit engine and the dispatch over mutation kinds
  (\<^verbatim>\<open>apply_declare_cluster\<close>, \<^verbatim>\<open>apply_retire_cluster\<close>, \<^verbatim>\<open>apply_publish_snapshot\<close>, \<^verbatim>\<open>apply_revalidate\<close> and
  \<^verbatim>\<open>apply_request\<close> in src/src/coordinator_engine.cpp).
\<close>

definition journal_scalars :: "apply_context \<Rightarrow> apply_context" where
  "journal_scalars ctx = ctx\<lparr>ax_journal := record_scalars (ax_state ctx) (ax_journal ctx)\<rparr>"

definition declared_state :: "timestamp \<Rightarrow> mutation_request \<Rightarrow> cluster_state \<Rightarrow> cluster_state" where
  "declared_state now q s =
     (let a = mq_authority q in s
      \<lparr>cs_id := mq_cluster q,
       cs_epoch := (if counter_known (ma_cluster_epoch a) then ma_cluster_epoch a else StrongCounter 1),
       cs_coordinator_epoch :=
         (if counter_known (ma_coordinator_epoch a) then ma_coordinator_epoch a
          else cs_coordinator_epoch s),
       cs_generation := StrongCounter 1,
       cs_membership_generation := StrongCounter 1,
       cs_topology_epoch := StrongCounter 1,
       cs_topology_generation := StrongCounter 1,
       cs_connectivity_generation := StrongCounter 1,
       cs_health_generation := StrongCounter 1,
       cs_constraint_generation := StrongCounter 1,
       cs_domain_generations := domain_generations_of (StrongCounter 1),
       cs_snapshot_generation := StrongCounter 1,
       cs_publication_generation := StrongCounter 1,
       cs_readiness_contract := mq_readiness_contract q,
       cs_lifecycle := CL_Declared,
       cs_declared_at := now,
       cs_last_mutation_at := now,
       cs_topology_record :=
         \<lparr>te_epoch = StrongCounter 1, te_generation = StrongCounter 1, te_established_at = now,
          te_evidence = stamp_make EP_Reported now 0, te_reason = ''cluster_declared''\<rparr>\<rparr>)"

definition apply_declare_cluster :: "timestamp \<Rightarrow> mutation_request \<Rightarrow> apply_context \<Rightarrow> handler_result" where
  "apply_declare_cluster now q ctx =
     (if counter_known (cs_epoch (ax_state ctx))
      then
        if mq_readiness_contract q = cs_readiness_contract (ax_state ctx)
            \<and> mq_declared_lifecycle q = cs_lifecycle (ax_state ctx)
        then accepted_no_change ctx
        else accepted_change (upd_state (\<lambda>s. s
               \<lparr>cs_readiness_contract := mq_readiness_contract q,
                cs_lifecycle := mq_declared_lifecycle q\<rparr>) (journal_scalars ctx))
      else accepted_change (upd_state (declared_state now q) (journal_scalars ctx)))"

definition retired_record :: "rack_record \<Rightarrow> rack_record" where
  "retired_record r = r
     \<lparr>rr_authoritative_current := False,
      rr_reference := (rr_reference r)\<lparr>rf_currentness := RC_RevalidationRequired\<rparr>,
      rr_non_authoritative_reason := ''cluster_retired''\<rparr>"

definition apply_retire_cluster :: "apply_context \<Rightarrow> handler_result" where
  "apply_retire_cluster ctx =
     (if cs_lifecycle (ax_state ctx) = CL_Retired then accepted_no_change ctx
      else accepted_change (update_racks rr_authoritative_current retired_record
             (upd_state (\<lambda>s. s\<lparr>cs_lifecycle := CL_Retired\<rparr>) (journal_scalars ctx))))"

definition apply_publish_snapshot :: "apply_context \<Rightarrow> handler_result" where
  "apply_publish_snapshot ctx =
     (case bump_snapshot ctx of
        None \<Rightarrow> reject_with RR_LimitExceeded ES_Commit ''snapshot'' [] ctx
      | Some ctx \<Rightarrow>
          (case bump_publication ctx of
             None \<Rightarrow> reject_with RR_LimitExceeded ES_Commit ''snapshot'' [] ctx
           | Some ctx \<Rightarrow> accepted_change ctx))"

definition revalidated :: "rack_record \<Rightarrow> bool" where
  "revalidated r \<longleftrightarrow>
     rr_authoritative_current r \<and> is_current (rf_evidence (rr_reference r))
     \<and> es_provenance (rf_evidence (rr_reference r)) \<noteq> EP_Reconstructed"

text \<open>The candidate loop: the first unknown rack, or the racks that still lack current evidence.\<close>

fun revalidation_scan :: "cluster_state \<Rightarrow> rack_id list \<Rightarrow> rack_id + rack_id list" where
  "revalidation_scan s [] = Inr []"
| "revalidation_scan s (rack # racks) =
     (case om_find (cs_racks s) rack of
        None \<Rightarrow> Inl rack
      | Some r \<Rightarrow>
          (case revalidation_scan s racks of
             Inl unknown \<Rightarrow> Inl unknown
           | Inr still \<Rightarrow> Inr (if revalidated r then still else rack # still)))"

definition apply_revalidate :: "mutation_request \<Rightarrow> apply_context \<Rightarrow> handler_result" where
  "apply_revalidate q ctx =
     (let s = ax_state ctx;
          candidates = (if mq_racks q = [] then om_keys (cs_racks s) else mq_racks q) in
      if candidates = [] then accepted_no_change ctx
      else case revalidation_scan s candidates of
        Inl unknown \<Rightarrow> reject_with RR_UnknownRack ES_ValidateReference (rack_subject unknown) [] ctx
      | Inr still \<Rightarrow>
          if still \<noteq> []
          then ((rejected RR_Conflict ES_ValidateReference ''cluster'' ''revalidation_incomplete'')
                  \<lparr>mr_outcome := MO_RevalidationRequired\<rparr>, ctx)
          else accepted_change ctx)"

definition publish_domain_option ::
  "coordinator_config \<Rightarrow> ('t, 'b) domain_traits \<Rightarrow> ('t, 'b) domain option \<Rightarrow> apply_context \<Rightarrow> handler_result" where
  "publish_domain_option cfg T payload ctx =
     (case payload of
        None \<Rightarrow> reject_with RR_Malformed ES_Decode (dt_label T) [] ctx
      | Some d \<Rightarrow> publish_domain_record cfg T d ctx)"

definition apply_kind ::
  "coordinator_config \<Rightarrow> timestamp \<Rightarrow> mutation_request \<Rightarrow> apply_context \<Rightarrow> handler_result" where
  "apply_kind cfg now q ctx =
     (case mq_kind q of
        MK_DeclareCluster \<Rightarrow> apply_declare_cluster now q ctx
      | MK_RegisterRackPublisher \<Rightarrow> apply_register_publisher cfg q ctx
      | MK_AddRack \<Rightarrow> apply_add_rack cfg now q ctx
      | MK_UpdateRackGeneration \<Rightarrow> apply_update_rack_generation q ctx
      | MK_MarkRackUnavailable \<Rightarrow> apply_membership_change now q RM_Unavailable False ctx
      | MK_WithdrawRack \<Rightarrow> apply_membership_change now q RM_Withdrawn False ctx
      | MK_RetireRack \<Rightarrow> apply_membership_change now q RM_Retired True ctx
      | MK_RecoverRack \<Rightarrow> apply_recover_rack q ctx
      | MK_PublishInterRackLink \<Rightarrow> apply_publish_link cfg q ctx
      | MK_WithdrawInterRackLink \<Rightarrow> apply_withdraw_link q ctx
      | MK_PublishPlacementDomain \<Rightarrow> publish_domain_option cfg placement_traits (mq_placement_domain q) ctx
      | MK_PublishCapacityDomain \<Rightarrow> publish_domain_option cfg capacity_traits (mq_capacity_domain q) ctx
      | MK_PublishFailureDomain \<Rightarrow> publish_domain_option cfg failure_traits (mq_failure_domain q) ctx
      | MK_PublishNetworkDomain \<Rightarrow> publish_domain_option cfg network_traits (mq_network_domain q) ctx
      | MK_PublishStorageDomain \<Rightarrow> publish_domain_option cfg storage_traits (mq_storage_domain q) ctx
      | MK_PublishPowerDomain \<Rightarrow> publish_domain_option cfg power_traits (mq_power_domain q) ctx
      | MK_PublishCoolingDomain \<Rightarrow> publish_domain_option cfg cooling_traits (mq_cooling_domain q) ctx
      | MK_PublishLinkDomain \<Rightarrow> publish_domain_option cfg link_domain_traits (mq_link_domain q) ctx
      | MK_PublishConstraint \<Rightarrow> apply_publish_constraint cfg q ctx
      | MK_PublishHealthCurrentness \<Rightarrow> apply_publish_health q ctx
      | MK_WithdrawEvidence \<Rightarrow> apply_withdraw_evidence q ctx
      | MK_SupersedeTopology \<Rightarrow> apply_supersede_topology now q ctx
      | MK_PublishSnapshot \<Rightarrow> apply_publish_snapshot ctx
      | MK_RevalidateRecoveredState \<Rightarrow> apply_revalidate q ctx
      | MK_RetireCluster \<Rightarrow> apply_retire_cluster ctx
      | MK_Unknown \<Rightarrow> reject_with RR_Malformed ES_Decode ''request'' [] ctx)"

definition apply_request ::
  "coordinator_config \<Rightarrow> timestamp \<Rightarrow> mutation_request \<Rightarrow> apply_context \<Rightarrow> handler_result" where
  "apply_request cfg now q ctx =
     (let common = validate_common (ax_state ctx) q in
      if mr_reason common \<noteq> RR_None then (common, ctx) else apply_kind cfg now q ctx)"

subsection \<open>The handlers keep the journal contract\<close>

lemma undoes_journal_scalars: "undoes a b \<Longrightarrow> undoes a (journal_scalars b)"
  by (auto simp: undoes_def journal_scalars_def record_scalars_def has_scalars_def)

lemma undoes_lifecycle:
  "undoes a b \<Longrightarrow> undoes a (upd_state (\<lambda>s. s\<lparr>cs_lifecycle := f s\<rparr>) b)"
  "undoes a b \<Longrightarrow> undoes a (upd_state (\<lambda>s. s\<lparr>cs_readiness_contract := c, cs_lifecycle := l\<rparr>) b)"
  by (rule undoes_scalars, simp_all add: same_maps_def)+

lemma undoes_retire_cluster: "undoes ctx (snd (apply_retire_cluster ctx))"
  unfolding apply_retire_cluster_def
  by (auto intro!: undoes_update_racks undoes_lifecycle undoes_journal_scalars)

lemma undoes_publish_snapshot: "undoes ctx (snd (apply_publish_snapshot ctx))"
  unfolding apply_publish_snapshot_def by (auto split: option.splits elim!: undoes_bump)

lemma undoes_revalidate: "undoes ctx (snd (apply_revalidate q ctx))"
  unfolding apply_revalidate_def Let_def by (auto split: sum.splits)

text \<open>
  Declaring an undeclared cluster is the one exception: it also assigns the identity, which the
  scalar snapshot does not hold.
\<close>

definition declares :: "mutation_request \<Rightarrow> cluster_state \<Rightarrow> bool" where
  "declares q s \<longleftrightarrow> mq_kind q = MK_DeclareCluster \<and> \<not> counter_known (cs_epoch s)"

lemma undoes_redeclare:
  "counter_known (cs_epoch (ax_state ctx)) \<Longrightarrow> undoes ctx (snd (apply_declare_cluster now q ctx))"
  unfolding apply_declare_cluster_def by (auto intro!: undoes_lifecycle undoes_journal_scalars)

lemma undoes_apply_request:
  assumes "\<not> declares q (ax_state ctx)"
  shows "undoes ctx (snd (apply_request cfg now q ctx))"
proof -
  note publish = placement_class.undoes_publish capacity_class.undoes_publish
    failure_class.undoes_publish network_class.undoes_publish storage_class.undoes_publish
    power_class.undoes_publish cooling_class.undoes_publish link_domain_class.undoes_publish
  show ?thesis
    using assms unfolding apply_request_def Let_def apply_kind_def declares_def
    by (cases "mq_kind q")
      (simp_all add: publish_domain_option_def publish undoes_redeclare undoes_register undoes_add_rack
        undoes_update_rack_generation undoes_membership_change undoes_recover_rack undoes_publish_link
        undoes_withdraw_link undoes_publish_constraint undoes_publish_health undoes_withdraw_evidence
        undoes_supersede_topology undoes_publish_snapshot undoes_revalidate undoes_retire_cluster
        split: option.splits)
qed

end
