(* ===== verification/Durable_State.thy ===== *)
theory Durable_State
  imports Domain_Mutations
begin

text \<open>
  The durable subset of the canonical state (\<^verbatim>\<open>PersistedState\<close> in
  src/include/cluster_fabric/persistence.hpp), its projection from and recovery into the canonical state
  (\<^verbatim>\<open>to_persisted_state\<close> and \<^verbatim>\<open>from_persisted_state\<close> in src/src/coordinator_engine.cpp).
\<close>

datatype persistence_status =
  PS_Ok | PS_EmptyInput | PS_MissingFile | PS_BadMagic | PS_UnsupportedVersion | PS_TruncatedHeader
  | PS_TruncatedBody | PS_ChecksumMismatch | PS_TrailingGarbage | PS_InvalidEnum | PS_AbsurdCount
  | PS_BoundsExceeded | PS_DuplicateRackIdentity | PS_DanglingReference | PS_InvalidEpoch
  | PS_InvalidGeneration | PS_InvalidIdentity | PS_InvalidState | PS_PayloadTooLarge | PS_IoError
  | PS_AtomicReplaceFailed | PS_TempFileUnavailable

fun persistence_status_to_string :: "persistence_status \<Rightarrow> string" where
  "persistence_status_to_string PS_Ok = ''OK''"
| "persistence_status_to_string PS_EmptyInput = ''EMPTY_INPUT''"
| "persistence_status_to_string PS_MissingFile = ''MISSING_FILE''"
| "persistence_status_to_string PS_BadMagic = ''BAD_MAGIC''"
| "persistence_status_to_string PS_UnsupportedVersion = ''UNSUPPORTED_VERSION''"
| "persistence_status_to_string PS_TruncatedHeader = ''TRUNCATED_HEADER''"
| "persistence_status_to_string PS_TruncatedBody = ''TRUNCATED_BODY''"
| "persistence_status_to_string PS_ChecksumMismatch = ''CHECKSUM_MISMATCH''"
| "persistence_status_to_string PS_TrailingGarbage = ''TRAILING_GARBAGE''"
| "persistence_status_to_string PS_InvalidEnum = ''INVALID_ENUM''"
| "persistence_status_to_string PS_AbsurdCount = ''ABSURD_COUNT''"
| "persistence_status_to_string PS_BoundsExceeded = ''BOUNDS_EXCEEDED''"
| "persistence_status_to_string PS_DuplicateRackIdentity = ''DUPLICATE_RACK_IDENTITY''"
| "persistence_status_to_string PS_DanglingReference = ''DANGLING_REFERENCE''"
| "persistence_status_to_string PS_InvalidEpoch = ''INVALID_EPOCH''"
| "persistence_status_to_string PS_InvalidGeneration = ''INVALID_GENERATION''"
| "persistence_status_to_string PS_InvalidIdentity = ''INVALID_IDENTITY''"
| "persistence_status_to_string PS_InvalidState = ''INVALID_STATE''"
| "persistence_status_to_string PS_PayloadTooLarge = ''PAYLOAD_TOO_LARGE''"
| "persistence_status_to_string PS_IoError = ''IO_ERROR''"
| "persistence_status_to_string PS_AtomicReplaceFailed = ''ATOMIC_REPLACE_FAILED''"
| "persistence_status_to_string PS_TempFileUnavailable = ''TEMP_FILE_UNAVAILABLE''"

record durable_rack =
  du_rack :: rack_id
  du_generation :: rack_generation
  du_membership :: rack_membership_state
  du_publisher :: publisher_id
  du_last_accepted_publication :: publication_generation
  du_last_boot :: boot_id
  du_composition :: rack_composition_summary
  du_endpoints :: "rack_endpoint list"
  du_failure_domain_hints :: "rack_failure_domain_hint list"
  du_rack_lifecycle :: rack_lifecycle_state
  du_membership_generation :: membership_generation
  du_origin_label :: string
  du_declared_at :: timestamp

record persisted_state =
  ps_id :: cluster_id
  ps_epoch :: cluster_epoch
  ps_last_coordinator_epoch :: coordinator_epoch
  ps_generation :: cluster_generation
  ps_membership_generation :: membership_generation
  ps_topology_epoch :: topology_epoch
  ps_topology_generation :: topology_generation
  ps_connectivity_generation :: connectivity_generation
  ps_health_generation :: health_generation
  ps_constraint_generation :: constraint_generation
  ps_domain_generations :: domain_generations
  ps_snapshot_generation :: snapshot_generation
  ps_publication_generation :: publication_generation
  ps_lifecycle :: cluster_lifecycle
  ps_readiness_contract :: readiness_contract
  ps_topology_record :: topology_epoch_record
  ps_declared_at :: timestamp
  ps_last_mutation_at :: timestamp
  ps_racks :: "durable_rack list"
  ps_placement_domains :: "placement_domain list"
  ps_capacity_domains :: "capacity_domain list"
  ps_failure_domains :: "failure_domain list"
  ps_network_domains :: "network_domain list"
  ps_storage_domains :: "storage_domain list"
  ps_power_domains :: "power_domain list"
  ps_cooling_domains :: "cooling_domain list"
  ps_link_domains :: "link_domain list"
  ps_links :: "inter_rack_link list"
  ps_constraints :: "cluster_constraint list"
  ps_retired_racks :: "retired_identity list"
  ps_withdrawn_racks :: "rack_id list"
  ps_fenced_authorities :: "fenced_authority list"

subsection \<open>Projection\<close>

definition unknown_publisher :: publisher_id where
  "unknown_publisher = StrongId ''cluster-fabric-unknown''"

definition to_durable_rack :: "rack_id \<Rightarrow> rack_record \<Rightarrow> durable_rack" where
  "to_durable_rack k r =
     (let ref = rr_reference r in
      \<lparr>du_rack = k,
       du_generation = rf_generation ref,
       du_membership = rr_membership r,
       du_publisher = (case rf_publisher ref of Some p \<Rightarrow> p | None \<Rightarrow> unknown_publisher),
       du_last_accepted_publication = rf_publication ref,
       du_last_boot = rf_boot ref,
       du_composition = rf_composition ref,
       du_endpoints = rf_endpoints ref,
       du_failure_domain_hints = rf_failure_domain_hints ref,
       du_rack_lifecycle = rf_rack_lifecycle ref,
       du_membership_generation = rr_membership_generation r,
       du_origin_label = rf_origin_label ref,
       du_declared_at = es_observed_at (rr_membership_evidence r)\<rparr>)"

definition to_persisted_state :: "cluster_state \<Rightarrow> persisted_state" where
  "to_persisted_state s =
     \<lparr>ps_id = cs_id s,
      ps_epoch = cs_epoch s,
      ps_last_coordinator_epoch = cs_coordinator_epoch s,
      ps_generation = cs_generation s,
      ps_membership_generation = cs_membership_generation s,
      ps_topology_epoch = cs_topology_epoch s,
      ps_topology_generation = cs_topology_generation s,
      ps_connectivity_generation = cs_connectivity_generation s,
      ps_health_generation = cs_health_generation s,
      ps_constraint_generation = cs_constraint_generation s,
      ps_domain_generations = cs_domain_generations s,
      ps_snapshot_generation = cs_snapshot_generation s,
      ps_publication_generation = cs_publication_generation s,
      ps_lifecycle = cs_lifecycle s,
      ps_readiness_contract = cs_readiness_contract s,
      ps_topology_record = cs_topology_record s,
      ps_declared_at = cs_declared_at s,
      ps_last_mutation_at = cs_last_mutation_at s,
      ps_racks = map (\<lambda>(k, r). to_durable_rack k r) (om_entries (cs_racks s)),
      ps_placement_domains = om_values (cs_placement_domains s),
      ps_capacity_domains = om_values (cs_capacity_domains s),
      ps_failure_domains = om_values (cs_failure_domains s),
      ps_network_domains = om_values (cs_network_domains s),
      ps_storage_domains = om_values (cs_storage_domains s),
      ps_power_domains = om_values (cs_power_domains s),
      ps_cooling_domains = om_values (cs_cooling_domains s),
      ps_link_domains = om_values (cs_link_domains s),
      ps_links = om_values (cs_links s),
      ps_constraints = om_values (cs_constraints s),
      ps_retired_racks = cs_retired_racks s,
      ps_withdrawn_racks = cs_withdrawn_racks s,
      ps_fenced_authorities = cs_fenced_authorities s\<rparr>"

subsection \<open>Recovery\<close>

record recovery_report =
  rp_attempted :: bool
  rp_loaded :: bool
  rp_status :: persistence_status
  rp_racks_recovered :: nat
  rp_domains_recovered :: nat
  rp_links_recovered :: nat
  rp_retired_recovered :: nat
  rp_fenced_recovered :: nat
  rp_coordinator_epoch_advanced :: bool
  rp_previous_coordinator_epoch :: coordinator_epoch
  rp_current_coordinator_epoch :: coordinator_epoch
  rp_revalidation_required :: bool

definition default_report :: recovery_report where
  "default_report =
     \<lparr>rp_attempted = False, rp_loaded = False, rp_status = PS_Ok, rp_racks_recovered = 0,
      rp_domains_recovered = 0, rp_links_recovered = 0, rp_retired_recovered = 0,
      rp_fenced_recovered = 0, rp_coordinator_epoch_advanced = False,
      rp_previous_coordinator_epoch = counter_zero, rp_current_coordinator_epoch = counter_zero,
      rp_revalidation_required = False\<rparr>"

definition durable_record ::
  "persisted_state \<Rightarrow> coordinator_epoch \<Rightarrow> timestamp \<Rightarrow> durable_rack \<Rightarrow> rack_record" where
  "durable_record p coordinator_epoch now d =
     \<lparr>rr_reference =
        \<lparr>rf_rack = du_rack d,
         rf_generation = du_generation d,
         rf_rack_lifecycle = du_rack_lifecycle d,
         rf_currentness = RC_RevalidationRequired,
         rf_composition = du_composition d,
         rf_endpoints = du_endpoints d,
         rf_failure_domain_hints = du_failure_domain_hints d,
         rf_evidence =
           \<lparr>es_provenance = EP_Reconstructed, es_observed_at = du_declared_at d,
            es_freshness = FR_RevalidationRequired, es_ttl_millis = 0\<rparr>,
         rf_publisher = Some (du_publisher d),
         rf_publication = du_last_accepted_publication d,
         rf_boot = du_last_boot d,
         rf_cluster_epoch = ps_epoch p,
         rf_coordinator_epoch = coordinator_epoch,
         rf_health = HS_Unknown,
         rf_origin_label = du_origin_label d\<rparr>,
      rr_membership = du_membership d,
      rr_membership_generation = du_membership_generation d,
      rr_accepted_at_generation = ps_generation p,
      rr_membership_evidence = stamp_unknown
        \<lparr>es_provenance := EP_Reconstructed, es_observed_at := now,
         es_freshness := FR_RevalidationRequired\<rparr>,
      rr_authoritative_current = False,
      rr_non_authoritative_reason = ''recovered_state_requires_revalidation''\<rparr>"

text \<open>One round of the loop over the durable racks: the record, and the fence of its last boot.\<close>

definition recover_durable_rack ::
  "persisted_state \<Rightarrow> coordinator_epoch \<Rightarrow> timestamp \<Rightarrow> cluster_state \<times> recovery_report
     \<Rightarrow> durable_rack \<Rightarrow> cluster_state \<times> recovery_report" where
  "recover_durable_rack p coordinator_epoch now acc d =
     (let (s, report) = acc;
          s = s\<lparr>cs_racks := om_insert (du_rack d) (durable_record p coordinator_epoch now d) (cs_racks s)\<rparr>;
          report = report\<lparr>rp_racks_recovered := rp_racks_recovered report + 1\<rparr>
      in
      if list_ex (\<lambda>f. fa_boot f = du_last_boot d) (cs_fenced_authorities s) then (s, report)
      else
        (s\<lparr>cs_fenced_authorities := cs_fenced_authorities s @
             [\<lparr>fa_boot = du_last_boot d, fa_rack = du_rack d, fa_reason = ''coordinator_restart'',
               fa_fenced_at = now\<rparr>]\<rparr>,
         report\<lparr>rp_fenced_recovered := rp_fenced_recovered report + 1\<rparr>))"

definition refresh_header :: "timestamp \<Rightarrow> domain_header \<Rightarrow> domain_header" where
  "refresh_header now h = h\<lparr>dh_evidence := refresh now (dh_evidence h)\<rparr>"

definition recovered_domain :: "timestamp \<Rightarrow> ('t, 'b) domain \<Rightarrow> ('t, 'b) domain" where
  "recovered_domain now d = d\<lparr>dm_header := refresh_header now (dm_header d)\<rparr>"

definition recovered_link :: "inter_rack_link \<Rightarrow> inter_rack_link" where
  "recovered_link l =
     (lk_set_evidence (mark_revalidation_required (lk_evidence l)) l)
       \<lparr>lk_reachability := RB_Unknown, lk_health := HS_Unknown\<rparr>"

definition recovered_constraint :: "timestamp \<Rightarrow> cluster_constraint \<Rightarrow> cluster_constraint" where
  "recovered_constraint now c = c\<lparr>cn_header := refresh_header now (cn_header c)\<rparr>"

definition recover_domains :: "timestamp \<Rightarrow> ('t, 'b) domain list \<Rightarrow> ('t, 'b) domain_map" where
  "recover_domains now ds = om_of_values dm_id (map (recovered_domain now) ds)"

text \<open>The members that are copied as they are; the lifecycle is not among them.\<close>

definition recovered_scalars :: "persisted_state \<Rightarrow> coordinator_epoch \<Rightarrow> cluster_state" where
  "recovered_scalars p coordinator_epoch = empty_state
     \<lparr>cs_id := ps_id p,
      cs_epoch := ps_epoch p,
      cs_coordinator_epoch := coordinator_epoch,
      cs_generation := ps_generation p,
      cs_membership_generation := ps_membership_generation p,
      cs_topology_epoch := ps_topology_epoch p,
      cs_topology_generation := ps_topology_generation p,
      cs_connectivity_generation := ps_connectivity_generation p,
      cs_health_generation := ps_health_generation p,
      cs_constraint_generation := ps_constraint_generation p,
      cs_domain_generations := ps_domain_generations p,
      cs_snapshot_generation := ps_snapshot_generation p,
      cs_publication_generation := ps_publication_generation p,
      cs_readiness_contract := ps_readiness_contract p,
      cs_topology_record := ps_topology_record p,
      cs_declared_at := ps_declared_at p,
      cs_last_mutation_at := ps_last_mutation_at p,
      cs_retired_racks := ps_retired_racks p,
      cs_withdrawn_racks := ps_withdrawn_racks p,
      cs_fenced_authorities := ps_fenced_authorities p\<rparr>"

definition from_persisted_state ::
  "persisted_state \<Rightarrow> coordinator_epoch \<Rightarrow> timestamp \<Rightarrow> recovery_report \<Rightarrow> cluster_state \<times> recovery_report" where
  "from_persisted_state p coordinator_epoch now report =
     (let (s, report) = foldl (recover_durable_rack p coordinator_epoch now)
            (recovered_scalars p coordinator_epoch, report) (ps_racks p);
          s = s
            \<lparr>cs_fenced_authorities := sort_key fa_boot (cs_fenced_authorities s),
             cs_placement_domains := recover_domains now (ps_placement_domains p),
             cs_capacity_domains := recover_domains now (ps_capacity_domains p),
             cs_failure_domains := recover_domains now (ps_failure_domains p),
             cs_network_domains := recover_domains now (ps_network_domains p),
             cs_storage_domains := recover_domains now (ps_storage_domains p),
             cs_power_domains := recover_domains now (ps_power_domains p),
             cs_cooling_domains := recover_domains now (ps_cooling_domains p),
             cs_link_domains := recover_domains now (ps_link_domains p),
             cs_links := om_of_values lk_id (map recovered_link (ps_links p)),
             cs_constraints := om_of_values cn_id (map (recovered_constraint now) (ps_constraints p))\<rparr>;
          report = report
            \<lparr>rp_domains_recovered := rp_domains_recovered report +
               length (ps_placement_domains p) + length (ps_capacity_domains p) +
               length (ps_failure_domains p) + length (ps_network_domains p) +
               length (ps_storage_domains p) + length (ps_power_domains p) +
               length (ps_cooling_domains p) + length (ps_link_domains p),
             rp_links_recovered := rp_links_recovered report + length (ps_links p),
             rp_retired_recovered := length (cs_retired_racks s),
             rp_revalidation_required := (om_entries (cs_racks s) \<noteq> [])\<rparr>
      in (s\<lparr>cs_lifecycle := re_lifecycle (evaluate_readiness s)\<rparr>, report))"

end
