(* ===== verification/Recovery.thy ===== *)
theory Recovery
  imports Durable_State
begin

text \<open>
  What recovery makes of the durable projection of a state: \<open>recover_fields\<close> describes the recovered
  state member by member, and \<open>recovered_state_ok\<close> shows that it satisfies the invariants whenever the
  projected state did. The projection forgets the keys of the maps, so both need that every entry is
  stored under its own identity (\<open>keyed\<close>).
\<close>

definition keyed :: "cluster_state \<Rightarrow> bool" where
  "keyed s \<longleftrightarrow>
     (\<forall>k d. om_find (cs_placement_domains s) k = Some d \<longrightarrow> dm_id d = k)
     \<and> (\<forall>k d. om_find (cs_capacity_domains s) k = Some d \<longrightarrow> dm_id d = k)
     \<and> (\<forall>k d. om_find (cs_failure_domains s) k = Some d \<longrightarrow> dm_id d = k)
     \<and> (\<forall>k d. om_find (cs_network_domains s) k = Some d \<longrightarrow> dm_id d = k)
     \<and> (\<forall>k d. om_find (cs_storage_domains s) k = Some d \<longrightarrow> dm_id d = k)
     \<and> (\<forall>k d. om_find (cs_power_domains s) k = Some d \<longrightarrow> dm_id d = k)
     \<and> (\<forall>k d. om_find (cs_cooling_domains s) k = Some d \<longrightarrow> dm_id d = k)
     \<and> (\<forall>k d. om_find (cs_link_domains s) k = Some d \<longrightarrow> dm_id d = k)
     \<and> (\<forall>k l. om_find (cs_links s) k = Some l \<longrightarrow> lk_id l = k)
     \<and> (\<forall>k c. om_find (cs_constraints s) k = Some c \<longrightarrow> cn_id c = k)"

subsection \<open>Maps rebuilt from their values\<close>

lemma find_unique:
  assumes "y \<in> set xs" and "P y" and "\<And>x. x \<in> set xs \<Longrightarrow> P x \<Longrightarrow> x = y"
  shows "find P xs = Some y"
proof (cases "find P xs")
  case None
  with assms(1,2) show ?thesis by (simp add: find_None_iff)
next
  case (Some z)
  then have "z \<in> set xs" "P z" by (auto simp: find_Some_iff)
  then have "z = y" by (rule assms(3))
  with Some show ?thesis by simp
qed

lemma om_of_values_map:
  assumes "\<And>k v. om_find m k = Some v \<Longrightarrow> key (f v) = k"
  shows "om_of_values key (map f (om_values m)) = om_map (\<lambda>_. f) m"
proof (rule om_ext)
  fix k
  let ?vs = "rev (map f (om_values m))"
  show "om_find (om_of_values key (map f (om_values m))) k = om_find (om_map (\<lambda>_. f) m) k"
  proof (cases "om_find m k")
    case None
    then have "find (\<lambda>v. key v = k) ?vs = None"
      using assms by (fastforce simp: find_None_iff set_om_values)
    with None show ?thesis by (simp add: om_find_of_values)
  next
    case (Some v)
    have "find (\<lambda>v. key v = k) ?vs = Some (f v)"
    proof (rule find_unique)
      show "f v \<in> set ?vs" using Some by (auto simp: set_om_values)
      show "key (f v) = k" using Some assms by simp
      show "x = f v" if x: "x \<in> set ?vs" "key x = k" for x
      proof -
        from x(1) obtain j w where "om_find m j = Some w" "x = f w" by (auto simp: set_om_values)
        with x(2) assms [of j w] Some show ?thesis by simp
      qed
    qed
    with Some show ?thesis by (simp add: om_find_of_values)
  qed
qed

lemma om_fold_entries:
  "fold (\<lambda>(k, v). om_insert k (g k v)) (om_entries m) om_empty = om_map g m"
proof (rule om_ext)
  fix k
  have "om_find (fold (\<lambda>(k, v). om_insert k (g k v)) es n) k
      = (case map_of es k of None \<Rightarrow> om_find n k | Some v \<Rightarrow> Some (g k v))"
    if "distinct (map fst es)" for es n
    using that
  proof (induction es arbitrary: n)
    case (Cons e es)
    then have "map_of es (fst e) = None" by (simp add: map_of_eq_None_iff)
    with Cons show ?case by (cases e) (auto split: option.splits)
  qed simp
  from this [OF om_entries_distinct [of m], of om_empty]
  show "om_find (fold (\<lambda>(k, v). om_insert k (g k v)) (om_entries m) om_empty) k
      = om_find (om_map g m) k"
    unfolding om_find_def [of m, symmetric] by (cases "om_find m k") simp_all
qed

subsection \<open>The loop over the durable racks\<close>

definition add_fence :: "timestamp \<Rightarrow> durable_rack \<Rightarrow> fenced_authority list \<Rightarrow> fenced_authority list" where
  "add_fence now d fs =
     (if list_ex (\<lambda>f. fa_boot f = du_last_boot d) fs then fs
      else fs @ [\<lparr>fa_boot = du_last_boot d, fa_rack = du_rack d, fa_reason = ''coordinator_restart'',
                  fa_fenced_at = now\<rparr>])"

lemma recover_loop:
  "fst (foldl (recover_durable_rack p ce now) (s, report) ds) = s
     \<lparr>cs_racks := fold (\<lambda>d. om_insert (du_rack d) (durable_record p ce now d)) ds (cs_racks s),
      cs_fenced_authorities := fold (add_fence now) ds (cs_fenced_authorities s)\<rparr>"
proof (induction ds arbitrary: s report)
  case (Cons d ds)
  obtain s' report' where e: "recover_durable_rack p ce now (s, report) d = (s', report')"
    by fastforce
  then have s': "s' = s
      \<lparr>cs_racks := om_insert (du_rack d) (durable_record p ce now d) (cs_racks s),
       cs_fenced_authorities := add_fence now d (cs_fenced_authorities s)\<rparr>"
    by (auto simp: recover_durable_rack_def Let_def add_fence_def split: if_splits)
  show ?case by (simp add: e Cons.IH s')
qed simp

lemma add_fence_boots:
  "fa_boot ` set (fold (add_fence now) ds fs) = fa_boot ` set fs \<union> du_last_boot ` set ds"
proof (induction ds arbitrary: fs)
  case (Cons d ds)
  have "fa_boot ` set (add_fence now d fs) = insert (du_last_boot d) (fa_boot ` set fs)"
  proof (cases "list_ex (\<lambda>f. fa_boot f = du_last_boot d) fs")
    case True
    then have "du_last_boot d \<in> fa_boot ` set fs" by (force simp: list_ex_iff)
    with True show ?thesis by (simp add: add_fence_def insert_absorb)
  qed (simp add: add_fence_def)
  then show ?case by (simp add: Cons.IH)
qed simp

lemma add_fence_keeps: "set fs \<subseteq> set (fold (add_fence now) ds fs)"
proof (induction ds arbitrary: fs)
  case (Cons d ds)
  have "set fs \<subseteq> set (add_fence now d fs)" by (auto simp: add_fence_def)
  then show ?case using Cons.IH [of "add_fence now d fs"] by auto
qed simp

lemma add_fence_distinct:
  "distinct (map fa_boot fs) \<Longrightarrow> distinct (map fa_boot (fold (add_fence now) ds fs))"
proof (induction ds arbitrary: fs)
  case (Cons d ds)
  have "distinct (map fa_boot (add_fence now d fs))"
    using Cons.prems by (auto simp: add_fence_def list_ex_iff)
  then show ?case using Cons.IH by simp
qed simp

lemma sort_key_strict:
  assumes "distinct (map f xs)"
  shows "sorted_wrt (\<lambda>a b. f a < f b) (sort_key f xs)"
proof -
  have "distinct (map f (sort_key f xs))"
    using assms by (metis distinct_map distinct_sort set_sort)
  moreover have "sorted (map f (sort_key f xs))" by simp
  ultimately have "sorted_wrt (<) (map f (sort_key f xs))"
    by (simp add: strict_sorted_iff)
  then show ?thesis by (simp add: sorted_wrt_map)
qed

subsection \<open>The recovered state, member by member\<close>

lemma to_persisted_fields [simp]:
  "ps_id (to_persisted_state s) = cs_id s"
  "ps_epoch (to_persisted_state s) = cs_epoch s"
  "ps_last_coordinator_epoch (to_persisted_state s) = cs_coordinator_epoch s"
  "ps_generation (to_persisted_state s) = cs_generation s"
  "ps_membership_generation (to_persisted_state s) = cs_membership_generation s"
  "ps_topology_epoch (to_persisted_state s) = cs_topology_epoch s"
  "ps_topology_generation (to_persisted_state s) = cs_topology_generation s"
  "ps_connectivity_generation (to_persisted_state s) = cs_connectivity_generation s"
  "ps_health_generation (to_persisted_state s) = cs_health_generation s"
  "ps_constraint_generation (to_persisted_state s) = cs_constraint_generation s"
  "ps_domain_generations (to_persisted_state s) = cs_domain_generations s"
  "ps_snapshot_generation (to_persisted_state s) = cs_snapshot_generation s"
  "ps_publication_generation (to_persisted_state s) = cs_publication_generation s"
  "ps_readiness_contract (to_persisted_state s) = cs_readiness_contract s"
  "ps_topology_record (to_persisted_state s) = cs_topology_record s"
  "ps_declared_at (to_persisted_state s) = cs_declared_at s"
  "ps_last_mutation_at (to_persisted_state s) = cs_last_mutation_at s"
  "ps_racks (to_persisted_state s) = map (\<lambda>(k, r). to_durable_rack k r) (om_entries (cs_racks s))"
  "ps_retired_racks (to_persisted_state s) = cs_retired_racks s"
  "ps_withdrawn_racks (to_persisted_state s) = cs_withdrawn_racks s"
  "ps_fenced_authorities (to_persisted_state s) = cs_fenced_authorities s"
  by (simp_all add: to_persisted_state_def)

lemma recover_racks_map:
  "fold (\<lambda>d. om_insert (du_rack d) (durable_record p ce now d))
     (map (\<lambda>(k, r). to_durable_rack k r) (om_entries m)) om_empty
   = om_map (\<lambda>k r. durable_record p ce now (to_durable_rack k r)) m"
proof -
  have "fold (\<lambda>d. om_insert (du_rack d) (durable_record p ce now d))
      (map (\<lambda>(k, r). to_durable_rack k r) es) n
      = fold (\<lambda>(k, r). om_insert k (durable_record p ce now (to_durable_rack k r))) es n" for es n
    by (induction es arbitrary: n) (auto simp: to_durable_rack_def Let_def)
  then show ?thesis by (simp add: om_fold_entries)
qed

lemma recovered_id [simp]:
  "dm_id (recovered_domain now d) = dm_id d" "lk_id (recovered_link l) = lk_id l"
  "cn_id (recovered_constraint now c) = cn_id c"
  by (simp_all add: recovered_domain_def recovered_link_def recovered_constraint_def)

text \<open>The recovered state before its lifecycle is evaluated.\<close>

definition recovered_base :: "cluster_state \<Rightarrow> coordinator_epoch \<Rightarrow> timestamp \<Rightarrow> cluster_state" where
  "recovered_base s ce now = s
     \<lparr>cs_coordinator_epoch := ce,
      cs_lifecycle := CL_Declared,
      cs_racks := om_map (\<lambda>k r. durable_record (to_persisted_state s) ce now (to_durable_rack k r)) (cs_racks s),
      cs_links := om_map (\<lambda>_. recovered_link) (cs_links s),
      cs_placement_domains := om_map (\<lambda>_. recovered_domain now) (cs_placement_domains s),
      cs_capacity_domains := om_map (\<lambda>_. recovered_domain now) (cs_capacity_domains s),
      cs_failure_domains := om_map (\<lambda>_. recovered_domain now) (cs_failure_domains s),
      cs_network_domains := om_map (\<lambda>_. recovered_domain now) (cs_network_domains s),
      cs_storage_domains := om_map (\<lambda>_. recovered_domain now) (cs_storage_domains s),
      cs_power_domains := om_map (\<lambda>_. recovered_domain now) (cs_power_domains s),
      cs_cooling_domains := om_map (\<lambda>_. recovered_domain now) (cs_cooling_domains s),
      cs_link_domains := om_map (\<lambda>_. recovered_domain now) (cs_link_domains s),
      cs_constraints := om_map (\<lambda>_. recovered_constraint now) (cs_constraints s),
      cs_fenced_authorities := sort_key fa_boot (fold (add_fence now)
        (map (\<lambda>(k, r). to_durable_rack k r) (om_entries (cs_racks s))) (cs_fenced_authorities s))\<rparr>"

lemma from_persisted_projection:
  assumes "keyed s"
  shows "fst (from_persisted_state (to_persisted_state s) ce now report)
     = (recovered_base s ce now)\<lparr>cs_lifecycle := re_lifecycle (evaluate_readiness (recovered_base s ce now))\<rparr>"
proof -
  let ?p = "to_persisted_state s"
  note k = assms [unfolded keyed_def]
  have maps:
    "recover_domains now (ps_placement_domains ?p) = om_map (\<lambda>_. recovered_domain now) (cs_placement_domains s)"
    "recover_domains now (ps_capacity_domains ?p) = om_map (\<lambda>_. recovered_domain now) (cs_capacity_domains s)"
    "recover_domains now (ps_failure_domains ?p) = om_map (\<lambda>_. recovered_domain now) (cs_failure_domains s)"
    "recover_domains now (ps_network_domains ?p) = om_map (\<lambda>_. recovered_domain now) (cs_network_domains s)"
    "recover_domains now (ps_storage_domains ?p) = om_map (\<lambda>_. recovered_domain now) (cs_storage_domains s)"
    "recover_domains now (ps_power_domains ?p) = om_map (\<lambda>_. recovered_domain now) (cs_power_domains s)"
    "recover_domains now (ps_cooling_domains ?p) = om_map (\<lambda>_. recovered_domain now) (cs_cooling_domains s)"
    "recover_domains now (ps_link_domains ?p) = om_map (\<lambda>_. recovered_domain now) (cs_link_domains s)"
    "om_of_values lk_id (map recovered_link (ps_links ?p)) = om_map (\<lambda>_. recovered_link) (cs_links s)"
    "om_of_values cn_id (map (recovered_constraint now) (ps_constraints ?p))
       = om_map (\<lambda>_. recovered_constraint now) (cs_constraints s)"
    using k by (simp_all add: recover_domains_def to_persisted_state_def om_of_values_map)
  obtain t report' where loop: "foldl (recover_durable_rack ?p ce now)
      (recovered_scalars ?p ce, report) (ps_racks ?p) = (t, report')" by fastforce
  have "t = (recovered_scalars ?p ce)
      \<lparr>cs_racks := om_map (\<lambda>k r. durable_record ?p ce now (to_durable_rack k r)) (cs_racks s),
       cs_fenced_authorities := fold (add_fence now)
         (map (\<lambda>(k, r). to_durable_rack k r) (om_entries (cs_racks s))) (cs_fenced_authorities s)\<rparr>"
    using recover_loop [of ?p ce now "recovered_scalars ?p ce" report "ps_racks ?p"]
      recover_racks_map [of ?p ce now "cs_racks s"]
    unfolding loop by (simp add: recovered_scalars_def empty_state_def)
  then have base: "t
      \<lparr>cs_fenced_authorities := sort_key fa_boot (cs_fenced_authorities t),
       cs_placement_domains := om_map (\<lambda>_. recovered_domain now) (cs_placement_domains s),
       cs_capacity_domains := om_map (\<lambda>_. recovered_domain now) (cs_capacity_domains s),
       cs_failure_domains := om_map (\<lambda>_. recovered_domain now) (cs_failure_domains s),
       cs_network_domains := om_map (\<lambda>_. recovered_domain now) (cs_network_domains s),
       cs_storage_domains := om_map (\<lambda>_. recovered_domain now) (cs_storage_domains s),
       cs_power_domains := om_map (\<lambda>_. recovered_domain now) (cs_power_domains s),
       cs_cooling_domains := om_map (\<lambda>_. recovered_domain now) (cs_cooling_domains s),
       cs_link_domains := om_map (\<lambda>_. recovered_domain now) (cs_link_domains s),
       cs_links := om_map (\<lambda>_. recovered_link) (cs_links s),
       cs_constraints := om_map (\<lambda>_. recovered_constraint now) (cs_constraints s)\<rparr>
      = recovered_base s ce now"
    by (intro cluster_state.equality)
      (simp_all add: recovered_base_def recovered_scalars_def empty_state_def)
  show ?thesis
    unfolding from_persisted_state_def loop Let_def prod.case maps fst_conv base by (rule refl)
qed


subsection \<open>Recovery keeps the invariants\<close>

lemma evaluated_lifecycle_ok:
  assumes "cs_lifecycle s = CL_Retired \<Longrightarrow>
      (\<forall>k r. om_find (cs_racks s) k = Some r \<longrightarrow> \<not> rr_authoritative_current r)"
  shows "lifecycle_ok (s\<lparr>cs_lifecycle := re_lifecycle (evaluate_readiness s)\<rparr>)"
proof -
  let ?t = "s\<lparr>cs_lifecycle := re_lifecycle (evaluate_readiness s)\<rparr>"
  have "re_satisfied (evaluate_readiness ?t)" if r: "re_lifecycle (evaluate_readiness s) = CL_Ready"
  proof -
    have "\<not> terminal_lifecycle (cs_lifecycle s)" "re_satisfied (evaluate_readiness s)"
      using r evaluate_terminal [of s] evaluate_lifecycle_Ready [of s]
      by (auto simp: terminal_lifecycle_def)
    moreover have "readiness_view ?t = readiness_view s" by (simp add: readiness_view_def)
    ultimately show ?thesis
      using evaluate_readiness_cong [of ?t s] r by (simp add: terminal_lifecycle_def)
  qed
  moreover have "cs_lifecycle s = CL_Retired" if "re_lifecycle (evaluate_readiness s) = CL_Retired"
    using that evaluate_terminal [of s] evaluate_terminal_iff [of s]
    by (auto simp: terminal_lifecycle_def)
  ultimately show ?thesis using assms by (simp add: lifecycle_ok_def)
qed

lemma durable_record_fields [simp]:
  "rr_membership (durable_record p ce now (to_durable_rack k r)) = rr_membership r"
  "rr_authoritative_current (durable_record p ce now d) = False"
  "rr_membership_generation (durable_record p ce now (to_durable_rack k r)) = rr_membership_generation r"
  "rf_rack (rr_reference (durable_record p ce now (to_durable_rack k r))) = k"
  "rf_generation (rr_reference (durable_record p ce now (to_durable_rack k r))) = rf_generation (rr_reference r)"
  "rf_boot (rr_reference (durable_record p ce now (to_durable_rack k r))) = rf_boot (rr_reference r)"
  "rf_endpoints (rr_reference (durable_record p ce now (to_durable_rack k r))) = rf_endpoints (rr_reference r)"
  "rf_failure_domain_hints (rr_reference (durable_record p ce now (to_durable_rack k r)))
     = rf_failure_domain_hints (rr_reference r)"
  "rf_currentness (rr_reference (durable_record p ce now d)) = RC_RevalidationRequired"
  "es_provenance (rf_evidence (rr_reference (durable_record p ce now d))) = EP_Reconstructed"
  by (simp_all add: durable_record_def to_durable_rack_def Let_def)

lemma recovered_link_fields [simp]:
  "lk_source (recovered_link l) = lk_source l" "lk_destination (recovered_link l) = lk_destination l"
  "lk_direction (recovered_link l) = lk_direction l"
  "lk_topology_epoch (recovered_link l) = lk_topology_epoch l"
  "lk_topology_generation (recovered_link l) = lk_topology_generation l"
  "lk_failure_domains (recovered_link l) = lk_failure_domains l"
  "lk_reachability (recovered_link l) = RB_Unknown" "lk_health (recovered_link l) = HS_Unknown"
  "requires_revalidation (lk_evidence (recovered_link l))"
  by (simp_all add: recovered_link_def lk_evidence_def lk_set_evidence_def requires_revalidation_def
      mark_revalidation_required_def)

lemma recovered_domain_fields [simp]:
  "dm_body (recovered_domain now d) = dm_body d" "dm_racks (recovered_domain now d) = dm_racks d"
  "dh_generation (dm_header (recovered_domain now d)) = dh_generation (dm_header d)"
  "cn_racks (recovered_constraint now c) = cn_racks c"
  by (simp_all add: recovered_domain_def recovered_constraint_def refresh_header_def)

lemma recovered_base_domains:
  "cs_placement_domains (recovered_base s ce now) = om_map (\<lambda>_. recovered_domain now) (cs_placement_domains s)"
  "cs_capacity_domains (recovered_base s ce now) = om_map (\<lambda>_. recovered_domain now) (cs_capacity_domains s)"
  "cs_failure_domains (recovered_base s ce now) = om_map (\<lambda>_. recovered_domain now) (cs_failure_domains s)"
  "cs_network_domains (recovered_base s ce now) = om_map (\<lambda>_. recovered_domain now) (cs_network_domains s)"
  "cs_storage_domains (recovered_base s ce now) = om_map (\<lambda>_. recovered_domain now) (cs_storage_domains s)"
  "cs_power_domains (recovered_base s ce now) = om_map (\<lambda>_. recovered_domain now) (cs_power_domains s)"
  "cs_cooling_domains (recovered_base s ce now) = om_map (\<lambda>_. recovered_domain now) (cs_cooling_domains s)"
  "cs_link_domains (recovered_base s ce now) = om_map (\<lambda>_. recovered_domain now) (cs_link_domains s)"
  by (simp_all add: recovered_base_def)

lemma recovered_member:
  "is_rack_member (recovered_base s ce now) k \<longleftrightarrow> is_rack_member s k"
  by (auto simp: is_rack_member_def recovered_base_def split: option.splits)

lemma domains_ok_recovered:
  "domains_ok s m u \<Longrightarrow> domains_ok (recovered_base s ce now) (om_map (\<lambda>_. recovered_domain now) m) u"
  by (fastforce simp: domains_ok_def recovered_member)

lemma generations_ok_recovered:
  "generations_ok m g \<Longrightarrow> generations_ok (om_map (\<lambda>_. recovered_domain now) m) g"
  by (fastforce simp: generations_ok_def)

lemma state_ok_evaluated:
  assumes "state_ok s"
    and "lifecycle_ok (s\<lparr>cs_lifecycle := l'\<rparr>)"
  shows "state_ok (s\<lparr>cs_lifecycle := l'\<rparr>)"
  using assms
  by (simp add: state_ok_def counters_ok_def counts_ok_def rack_ok_def link_ok_def all_domains_ok_def
      domains_ok_def all_generations_ok_def withdrawn_ok_def is_rack_member_def is_boot_fenced_def
      is_rack_retired_def)

lemma recovered_rack_ok:
  "rack_ok s k r \<Longrightarrow> rack_ok (recovered_base s ce now) k (durable_record p ce now (to_durable_rack k r))"
  by (simp add: rack_ok_def recovered_base_def)

lemma recovered_link_ok: "link_ok s k l \<Longrightarrow> link_ok (recovered_base s ce now) k (recovered_link l)"
  unfolding link_ok_def recovered_member by (auto simp: recovered_base_def)

lemma recovered_fenced_sorted:
  assumes "sorted_wrt (\<lambda>a b. fa_boot a < fa_boot b) (cs_fenced_authorities s)"
  shows "sorted_wrt (\<lambda>a b. fa_boot a < fa_boot b) (cs_fenced_authorities (recovered_base s ce now))"
proof -
  have "sorted_wrt (<) (map fa_boot (cs_fenced_authorities s))"
    using assms by (simp add: sorted_wrt_map)
  then have "distinct (map fa_boot (cs_fenced_authorities s))" by (simp add: strict_sorted_iff)
  then show ?thesis by (simp add: recovered_base_def sort_key_strict add_fence_distinct)
qed

lemma recovered_withdrawn: "withdrawn_ok (recovered_base s ce now) \<longleftrightarrow> withdrawn_ok s"
proof -
  have "(\<exists>r. om_find (cs_racks (recovered_base s ce now)) k = Some r \<and> rr_membership r = RM_Withdrawn)
      \<longleftrightarrow> (\<exists>r. om_find (cs_racks s) k = Some r \<and> rr_membership r = RM_Withdrawn)" for k
    by (cases "om_find (cs_racks s) k") (simp_all add: recovered_base_def)
  moreover have "cs_withdrawn_racks (recovered_base s ce now) = cs_withdrawn_racks s"
    by (simp add: recovered_base_def)
  ultimately show ?thesis by (simp add: withdrawn_ok_def)
qed

lemma recovered_base_ok:
  assumes "state_ok s" and "counter_known ce"
  shows "state_ok (recovered_base s ce now)"
proof -
  let ?t = "recovered_base s ce now"
  note ok = assms(1) [unfolded state_ok_def]
  have counters: "counters_ok ?t" "counts_ok ?t"
    using ok assms(2) by (simp_all add: counters_ok_def counts_ok_def recovered_base_def)
  have racks: "\<forall>k r. om_find (cs_racks ?t) k = Some r \<longrightarrow> rack_ok ?t k r"
  proof (intro allI impI)
    fix k r assume "om_find (cs_racks ?t) k = Some r"
    then obtain r0 where "om_find (cs_racks s) k = Some r0"
      "r = durable_record (to_persisted_state s) ce now (to_durable_rack k r0)"
      by (auto simp: recovered_base_def)
    then show "rack_ok ?t k r" using ok recovered_rack_ok by blast
  qed
  have links: "\<forall>k l. om_find (cs_links ?t) k = Some l \<longrightarrow> link_ok ?t k l"
  proof (intro allI impI)
    fix k l assume "om_find (cs_links ?t) k = Some l"
    then obtain l0 where "om_find (cs_links s) k = Some l0" "l = recovered_link l0"
      by (auto simp: recovered_base_def)
    then show "link_ok ?t k l" using ok recovered_link_ok by blast
  qed
  have domains: "all_domains_ok ?t"
    using ok by (simp add: all_domains_ok_def recovered_base_domains domains_ok_recovered)
  have generations: "all_generations_ok ?t"
    using ok by (simp add: all_generations_ok_def recovered_base_def generations_ok_recovered)
  have constraints: "\<forall>k c. om_find (cs_constraints ?t) k = Some c \<longrightarrow>
      (\<forall>rack \<in> set (cn_racks c). is_rack_member ?t rack)"
  proof (intro allI impI)
    fix k c assume "om_find (cs_constraints ?t) k = Some c"
    then obtain c0 where "om_find (cs_constraints s) k = Some c0" "cn_racks c = cn_racks c0"
      by (auto simp: recovered_base_def)
    then show "\<forall>rack \<in> set (cn_racks c). is_rack_member ?t rack"
      using ok by (auto simp: recovered_member)
  qed
  have withdrawn: "withdrawn_ok ?t"
    using recovered_withdrawn [of s ce now] ok by simp
  have lifecycle: "lifecycle_ok ?t" by (simp add: lifecycle_ok_def recovered_base_def)
  have fenced: "sorted_wrt (\<lambda>a b. fa_boot a < fa_boot b) (cs_fenced_authorities ?t)"
    using ok by (intro recovered_fenced_sorted) simp
  have rest: "sorted_wrt (\<lambda>a b. ri_rack a < ri_rack b) (cs_retired_racks ?t)"
    "cvalue (cs_snapshot_generation ?t) \<le> cvalue (cs_publication_generation ?t)"
    using ok by (simp_all add: recovered_base_def)
  show ?thesis
    unfolding state_ok_def
    by (intro conjI counters racks links domains generations constraints withdrawn lifecycle fenced rest)
qed

lemma recovered_state_ok:
  assumes "keyed s" and "state_ok s" and "counter_known ce"
  shows "state_ok (fst (from_persisted_state (to_persisted_state s) ce now report))"
proof -
  let ?t = "recovered_base s ce now"
  have "cs_lifecycle ?t = CL_Declared" by (simp add: recovered_base_def)
  then have "lifecycle_ok (?t\<lparr>cs_lifecycle := re_lifecycle (evaluate_readiness ?t)\<rparr>)"
    by (intro evaluated_lifecycle_ok) simp
  then show ?thesis
    unfolding from_persisted_projection [OF assms(1)]
    by (rule state_ok_evaluated [OF recovered_base_ok [OF assms(2,3)]])
qed

lemma recovered_keyed:
  assumes "keyed s"
  shows "keyed (fst (from_persisted_state (to_persisted_state s) ce now report))"
  using assms unfolding from_persisted_projection [OF assms]
  by (auto simp: keyed_def recovered_base_def)

end
