(* ===== verification/Commit_Path.thy ===== *)
theory Commit_Path
  imports Cluster_Mutations Recovery
begin

text \<open>
  The commit path of the coordinator (\<^verbatim>\<open>apply_and_commit\<close>, \<^verbatim>\<open>apply_fence\<close>, \<^verbatim>\<open>persist_now\<close>, \<^verbatim>\<open>touch_state\<close>
  and \<^verbatim>\<open>fill_generations\<close> in src/src/coordinator_engine.cpp), over the members of
  \<^verbatim>\<open>ClusterCoordinator::Impl\<close> it reads and writes (src/src/detail/coordinator_impl.hpp).

  The durable store is an argument: \<open>None\<close> is the null pointer, \<open>Some save\<close> a store whose \<^verbatim>\<open>save\<close> call
  answers \<open>save p\<close> for the durable state \<open>p\<close>. The clock readings of one call are arguments too. The
  commit hook only observes and is left out, as are the locks: one call runs to completion.
\<close>

record save_outcome =
  so_ok :: bool
  so_status :: persistence_status

type_synonym store = "(persisted_state \<Rightarrow> save_outcome) option"

record coordinator =
  co_config :: coordinator_config
  co_canonical :: cluster_state
  co_indexes :: cluster_indexes
  co_indexes_valid :: bool
  co_state_version :: u64
  co_indexes_version :: u64
  co_mutations_accepted :: u64
  co_mutations_no_change :: u64
  co_mutations_rejected :: u64
  co_commits :: u64
  co_persistence_saves :: u64
  co_persistence_failures :: u64
  co_fence_events :: u64
  co_stale_replays_rejected :: u64

definition fill_generations :: "cluster_state \<Rightarrow> mutation_result \<Rightarrow> mutation_result" where
  "fill_generations s r = r
     \<lparr>mr_cluster_epoch := cs_epoch s,
      mr_coordinator_epoch := cs_coordinator_epoch s,
      mr_cluster_generation := cs_generation s,
      mr_membership_generation := cs_membership_generation s,
      mr_topology_epoch := cs_topology_epoch s,
      mr_topology_generation := cs_topology_generation s,
      mr_connectivity_generation := cs_connectivity_generation s,
      mr_health_generation := cs_health_generation s,
      mr_constraint_generation := cs_constraint_generation s,
      mr_snapshot_generation := cs_snapshot_generation s,
      mr_publication_generation := cs_publication_generation s,
      mr_lifecycle := cs_lifecycle s\<rparr>"

text \<open>Whether the durable state was stored; the result that replaces the caller's when it was not.\<close>

definition persist_now :: "store \<Rightarrow> coordinator \<Rightarrow> mutation_result \<Rightarrow> bool \<times> mutation_result \<times> coordinator" where
  "persist_now store co result =
     (case store of
        None \<Rightarrow> (True, result, co)
      | Some save \<Rightarrow>
          if \<not> cc_persist_on_commit (co_config co) then (True, result, co)
          else
            let outcome = save (to_persisted_state (co_canonical co)) in
            if \<not> so_ok outcome
            then (False,
                  rejected RR_PersistenceFailed ES_Persist ''cluster''
                    (persistence_status_to_string (so_status outcome)),
                  co\<lparr>co_persistence_failures := co_persistence_failures co + 1\<rparr>)
            else (True, result, co\<lparr>co_persistence_saves := co_persistence_saves co + 1\<rparr>))"

definition touch_state :: "coordinator \<Rightarrow> coordinator" where
  "touch_state co = co\<lparr>co_state_version := co_state_version co + 1, co_indexes_valid := False\<rparr>"

text \<open>The end of every refused commit: roll back, count, report the restored generations.\<close>

definition refuse :: "journal \<Rightarrow> mutation_result \<Rightarrow> coordinator \<Rightarrow> mutation_result \<times> coordinator" where
  "refuse j result co =
     (let s = rollback j (co_canonical co) in
      (fill_generations s result,
       co\<lparr>co_canonical := s, co_mutations_rejected := co_mutations_rejected co + 1\<rparr>))"

definition apply_and_commit ::
  "store \<Rightarrow> timestamp \<Rightarrow> mutation_request \<Rightarrow> coordinator \<Rightarrow> mutation_result \<times> coordinator" where
  "apply_and_commit store now q co =
     (let (result, ctx) = apply_request (co_config co) now q
            \<lparr>ax_state = co_canonical co, ax_journal = record_scalars (co_canonical co) [],
             ax_changed = False\<rparr>;
          journal = ax_journal ctx;
          co = co\<lparr>co_canonical := ax_state ctx\<rparr>
      in
      if mr_outcome result = MO_Rejected
      then
        let (result', co') = refuse journal result co in
        (result',
         if is_stale_reason (mr_reason result)
         then co'\<lparr>co_stale_replays_rejected := co_stale_replays_rejected co' + 1\<rparr> else co')
      else if mr_outcome result = MO_RevalidationRequired then refuse journal result co
      else if \<not> ax_changed ctx
      then
        let s = rollback journal (co_canonical co) in
        (fill_generations s result,
         co\<lparr>co_canonical := s, co_mutations_no_change := co_mutations_no_change co + 1\<rparr>)
      else
        let s = ax_state ctx;
            candidate = s\<lparr>cs_lifecycle := re_lifecycle (evaluate_readiness s)\<rparr>;
            co = co\<lparr>co_canonical := candidate\<rparr>
        in
        if \<not> report_ok (check_invariants candidate None)
        then refuse journal
               (rejected RR_InvariantViolation ES_VerifyInvariants ''cluster'' ''invariant_violation'') co
        else case counter_next (cs_generation candidate) of
          None \<Rightarrow> refuse journal
                  (rejected RR_LimitExceeded ES_Commit ''cluster'' ''generation_overflow'') co
        | Some g \<Rightarrow>
            let committed = candidate\<lparr>cs_generation := g, cs_last_mutation_at := now\<rparr>;
                (stored, result, co) = persist_now store (co\<lparr>co_canonical := committed\<rparr>) result
            in
            if \<not> stored then refuse journal result co
            else
              let co = touch_state co in
              ((fill_generations committed result)\<lparr>mr_outcome := MO_Accepted, mr_error := error_none\<rparr>,
               co\<lparr>co_commits := co_commits co + 1,
                  co_mutations_accepted := co_mutations_accepted co + 1\<rparr>))"

subsection \<open>Fencing\<close>

definition fenced_record :: "string \<Rightarrow> rack_record \<Rightarrow> rack_record" where
  "fenced_record reason r = r
     \<lparr>rr_authoritative_current := False,
      rr_reference := (rr_reference r)
        \<lparr>rf_currentness := RC_RevalidationRequired,
         rf_evidence := mark_revalidation_required (rf_evidence (rr_reference r))\<rparr>,
      rr_non_authoritative_reason := reason\<rparr>"

definition fenced_link :: "inter_rack_link \<Rightarrow> inter_rack_link" where
  "fenced_link l =
     (lk_set_evidence (mark_revalidation_required (lk_evidence l)) l)
       \<lparr>lk_reachability := RB_Unknown, lk_health := HS_Unknown\<rparr>"

definition rack_under :: "boot_id \<Rightarrow> rack_record \<Rightarrow> bool" where
  "rack_under boot r \<longleftrightarrow> rf_boot (rr_reference r) = boot"

definition link_under :: "boot_id \<Rightarrow> inter_rack_link \<Rightarrow> bool" where
  "link_under boot l \<longleftrightarrow> lk_boot l = Some boot"

definition new_fence :: "cluster_state \<Rightarrow> boot_id \<Rightarrow> string \<Rightarrow> timestamp \<Rightarrow> fenced_authority" where
  "new_fence s boot reason fenced_at =
     \<lparr>fa_boot = boot,
      fa_rack = (case find (\<lambda>(k, r). rack_under boot r) (om_entries (cs_racks s)) of
                   Some (k, r) \<Rightarrow> k | None \<Rightarrow> StrongId ''unknown-rack''),
      fa_reason = reason,
      fa_fenced_at = fenced_at\<rparr>"

text \<open>The two clock readings are the fence's own time and the time of the mutation.\<close>

definition apply_fence ::
  "store \<Rightarrow> timestamp \<Rightarrow> timestamp \<Rightarrow> boot_id \<Rightarrow> string \<Rightarrow> coordinator \<Rightarrow> coordinator" where
  "apply_fence store fenced_at now boot reason co =
     (let s = co_canonical co;
          changed = (list_ex (rack_under boot) (om_values (cs_racks s))
                     \<or> list_ex (link_under boot) (om_values (cs_links s)));
          ctx = update_links (link_under boot) fenced_link
                  (update_racks (rack_under boot) (fenced_record reason)
                     \<lparr>ax_state = s, ax_journal = [], ax_changed = changed\<rparr>);
          ctx = (if changed \<and> \<not> is_boot_fenced (ax_state ctx) boot
                 then upd_state (\<lambda>s. s\<lparr>cs_fenced_authorities :=
                        sort_key fa_boot (cs_fenced_authorities s @ [new_fence s boot reason fenced_at])\<rparr>)
                        (journal_scalars ctx)
                 else ctx)
      in
      if \<not> changed
      then co\<lparr>co_canonical := rollback (ax_journal ctx) (ax_state ctx)\<rparr>
      else
        let ctx = journal_scalars ctx;
            ctx = upd_state (\<lambda>s. s\<lparr>cs_lifecycle := re_lifecycle (evaluate_readiness s)\<rparr>) ctx;
            s = ax_state ctx
        in
        case counter_next (cs_generation s) of
          None \<Rightarrow> co\<lparr>co_canonical := rollback (ax_journal ctx) s\<rparr>
        | Some g \<Rightarrow>
            let s = s\<lparr>cs_generation := g\<rparr> in
            (case counter_next (cs_health_generation s) of
               None \<Rightarrow> co\<lparr>co_canonical := rollback (ax_journal ctx) s\<rparr>
             | Some h \<Rightarrow>
                 let s = s\<lparr>cs_health_generation := h, cs_last_mutation_at := now\<rparr>;
                     (stored, result, co) = persist_now store (co\<lparr>co_canonical := s\<rparr>) default_result
                 in
                 if \<not> stored then co\<lparr>co_canonical := rollback (ax_journal ctx) s\<rparr>
                 else
                   let co = touch_state co in
                   co\<lparr>co_commits := co_commits co + 1, co_fence_events := co_fence_events co + 1\<rparr>))"

end
