(* ===== verification/Handler_Steps.thy ===== *)
theory Handler_Steps
  imports Commit_Path
begin

text \<open>
  Every handler of the commit engine is a sequence of elementary changes of the canonical state: a
  counter advanced by \<^verbatim>\<open>bump\<close>, an entry assigned in one map, a list of identities extended. The
  relation \<open>elementary\<close> names them with the guards the handlers establish before they make them, and
  \<open>apply_request_steps\<close> shows that nothing else happens. What holds of a reflexive and transitive
  relation that contains the elementary changes therefore holds of every request
  (locale \<open>change_contract\<close>); its two interpretations are \<open>advances\<close>, the counters and generations
  that never go back, and \<open>keeps_keys\<close>, every entry stored under its own identity.
\<close>

definition generations_advance :: "domain_generations \<Rightarrow> domain_generations \<Rightarrow> bool" where
  "generations_advance g h \<longleftrightarrow>
     dg_placement g \<le> dg_placement h \<and> dg_capacity g \<le> dg_capacity h \<and> dg_failure g \<le> dg_failure h
     \<and> dg_network g \<le> dg_network h \<and> dg_storage g \<le> dg_storage h \<and> dg_power g \<le> dg_power h
     \<and> dg_cooling g \<le> dg_cooling h \<and> dg_link g \<le> dg_link h"

text \<open>The guards under which a record replaces the one stored under its key.\<close>

definition rack_guard :: "cluster_state \<Rightarrow> rack_id \<Rightarrow> rack_record \<Rightarrow> bool" where
  "rack_guard s k r \<longleftrightarrow>
     (\<forall>r0. om_find (cs_racks s) k = Some r0 \<longrightarrow>
        rf_generation (rr_reference r0) \<le> rf_generation (rr_reference r)
        \<and> (rr_membership r0 = RM_Retired \<and> is_rack_retired s k \<longrightarrow> rr_membership r = RM_Retired))
     \<and> (rr_membership r = RM_Retired \<longrightarrow>
          is_rack_retired s k \<or> (\<exists>r0. om_find (cs_racks s) k = Some r0 \<and> rr_membership r0 = RM_Retired))"

definition domain_guard :: "('t, 'b) domain_map \<Rightarrow> ('t, 'b) domain \<Rightarrow> bool" where
  "domain_guard m d \<longleftrightarrow>
     (\<forall>d0. om_find m (dm_id d) = Some d0 \<longrightarrow> dh_generation (dm_header d0) \<le> dh_generation (dm_header d))"

definition constraint_guard :: "constraint_map \<Rightarrow> cluster_constraint \<Rightarrow> bool" where
  "constraint_guard m c \<longleftrightarrow>
     (\<forall>c0. om_find m (cn_id c) = Some c0 \<longrightarrow> dh_generation (cn_header c0) \<le> dh_generation (cn_header c))"

inductive elementary :: "cluster_state \<Rightarrow> cluster_state \<Rightarrow> bool" where
  E_membership: "counter_next (cs_membership_generation s) = Some g \<Longrightarrow>
    elementary s (s\<lparr>cs_membership_generation := g\<rparr>)"
| E_topology: "counter_next (cs_topology_generation s) = Some h \<Longrightarrow>
    elementary s (s\<lparr>cs_topology_generation := h\<rparr>)"
| E_connectivity: "counter_next (cs_connectivity_generation s) = Some i \<Longrightarrow>
    elementary s (s\<lparr>cs_connectivity_generation := i\<rparr>)"
| E_health: "counter_next (cs_health_generation s) = Some j \<Longrightarrow>
    elementary s (s\<lparr>cs_health_generation := j\<rparr>)"
| E_constraint_generation: "counter_next (cs_constraint_generation s) = Some n \<Longrightarrow>
    elementary s (s\<lparr>cs_constraint_generation := n\<rparr>)"
| E_snapshot: "counter_next (cs_snapshot_generation s) = Some m \<Longrightarrow>
    elementary s (s\<lparr>cs_snapshot_generation := m\<rparr>)"
| E_publication: "counter_next (cs_publication_generation s) = Some p \<Longrightarrow>
    elementary s (s\<lparr>cs_publication_generation := p\<rparr>)"
| E_topology_epoch: "cs_topology_epoch s < e \<Longrightarrow> elementary s (s\<lparr>cs_topology_epoch := e\<rparr>)"
| E_topology_record: "elementary s (s\<lparr>cs_topology_record := t\<rparr>)"
| E_aggregate: "generations_advance (cs_domain_generations s) a \<Longrightarrow>
    elementary s (s\<lparr>cs_domain_generations := a\<rparr>)"
| E_rack: "rack_guard s k r \<Longrightarrow> elementary s (s\<lparr>cs_racks := om_insert k r (cs_racks s)\<rparr>)"
| E_racks: "(\<And>r. rf_generation (rr_reference (f r)) = rf_generation (rr_reference r)
      \<and> rr_membership (f r) = rr_membership r) \<Longrightarrow>
    elementary s (s\<lparr>cs_racks := om_map (\<lambda>_. f) (cs_racks s)\<rparr>)"
| E_link: "elementary s (s\<lparr>cs_links := om_insert (lk_id l) l (cs_links s)\<rparr>)"
| E_unlink: "elementary s (s\<lparr>cs_links := om_erase lk (cs_links s)\<rparr>)"
| E_links: "(\<And>l. lk_id (h l) = lk_id l) \<Longrightarrow> elementary s (s\<lparr>cs_links := om_map (\<lambda>_. h) (cs_links s)\<rparr>)"
| E_placement: "domain_guard (cs_placement_domains s) d1 \<Longrightarrow>
    elementary s (s\<lparr>cs_placement_domains := om_insert (dm_id d1) d1 (cs_placement_domains s)\<rparr>)"
| E_capacity: "domain_guard (cs_capacity_domains s) d2 \<Longrightarrow>
    elementary s (s\<lparr>cs_capacity_domains := om_insert (dm_id d2) d2 (cs_capacity_domains s)\<rparr>)"
| E_failure: "domain_guard (cs_failure_domains s) d3 \<Longrightarrow>
    elementary s (s\<lparr>cs_failure_domains := om_insert (dm_id d3) d3 (cs_failure_domains s)\<rparr>)"
| E_network: "domain_guard (cs_network_domains s) d4 \<Longrightarrow>
    elementary s (s\<lparr>cs_network_domains := om_insert (dm_id d4) d4 (cs_network_domains s)\<rparr>)"
| E_storage: "domain_guard (cs_storage_domains s) d5 \<Longrightarrow>
    elementary s (s\<lparr>cs_storage_domains := om_insert (dm_id d5) d5 (cs_storage_domains s)\<rparr>)"
| E_power: "domain_guard (cs_power_domains s) d6 \<Longrightarrow>
    elementary s (s\<lparr>cs_power_domains := om_insert (dm_id d6) d6 (cs_power_domains s)\<rparr>)"
| E_cooling: "domain_guard (cs_cooling_domains s) d7 \<Longrightarrow>
    elementary s (s\<lparr>cs_cooling_domains := om_insert (dm_id d7) d7 (cs_cooling_domains s)\<rparr>)"
| E_link_domain: "domain_guard (cs_link_domains s) d8 \<Longrightarrow>
    elementary s (s\<lparr>cs_link_domains := om_insert (dm_id d8) d8 (cs_link_domains s)\<rparr>)"
| E_constraint: "constraint_guard (cs_constraints s) c \<Longrightarrow>
    elementary s (s\<lparr>cs_constraints := om_insert (cn_id c) c (cs_constraints s)\<rparr>)"
| E_withdrawn: "elementary s (s\<lparr>cs_withdrawn_racks := ws\<rparr>)"
| E_retired: "set (cs_retired_racks s) \<subseteq> set rs \<Longrightarrow> elementary s (s\<lparr>cs_retired_racks := rs\<rparr>)"
| E_lifecycle: "elementary s (s\<lparr>cs_lifecycle := lc\<rparr>)"
| E_contract: "elementary s (s\<lparr>cs_readiness_contract := rc, cs_lifecycle := lc\<rparr>)"

abbreviation changes :: "cluster_state \<Rightarrow> cluster_state \<Rightarrow> bool" where
  "changes \<equiv> elementary\<^sup>*\<^sup>*"

subsection \<open>The primitives of the handlers\<close>

lemma changes_step: "changes a b \<Longrightarrow> elementary b c \<Longrightarrow> changes a c"
  by (rule rtranclp.rtrancl_into_rtrancl)

lemma changes_bump:
  "bump_membership b = Some c \<Longrightarrow> changes a (ax_state b) \<Longrightarrow> changes a (ax_state c)"
  "bump_topology b = Some c \<Longrightarrow> changes a (ax_state b) \<Longrightarrow> changes a (ax_state c)"
  "bump_connectivity b = Some c \<Longrightarrow> changes a (ax_state b) \<Longrightarrow> changes a (ax_state c)"
  "bump_health b = Some c \<Longrightarrow> changes a (ax_state b) \<Longrightarrow> changes a (ax_state c)"
  "bump_constraint b = Some c \<Longrightarrow> changes a (ax_state b) \<Longrightarrow> changes a (ax_state c)"
  "bump_snapshot b = Some c \<Longrightarrow> changes a (ax_state b) \<Longrightarrow> changes a (ax_state c)"
  "bump_publication b = Some c \<Longrightarrow> changes a (ax_state b) \<Longrightarrow> changes a (ax_state c)"
  by (auto simp: bump_defs upd_state_def elim!: changes_step intro: elementary.intros)

lemma changes_changed [simp]: "changes a (ax_state (b\<lparr>ax_changed := c\<rparr>)) = changes a (ax_state b)"
  by simp

lemma changes_put_rack:
  "changes a (ax_state b) \<Longrightarrow> rack_guard (ax_state b) k r \<Longrightarrow> changes a (ax_state (put_rack k r b))"
  by (auto simp: put_rack_def elim!: changes_step intro: elementary.intros)

lemma changes_put_link:
  "changes a (ax_state b) \<Longrightarrow> lk_id l = k \<Longrightarrow> changes a (ax_state (put_link k l b))"
  by (auto simp: put_link_def elim!: changes_step intro: elementary.intros)

lemma changes_erase_link: "changes a (ax_state b) \<Longrightarrow> changes a (ax_state (erase_link k b))"
  by (auto simp: erase_link_def elim!: changes_step intro: elementary.intros)

lemma changes_update_links:
  assumes "changes a (ax_state b)" and "\<And>l. lk_id (f l) = lk_id l"
  shows "changes a (ax_state (update_links P f b))"
  using assms(2) changes_step [OF assms(1) E_links [of "\<lambda>l. if P l then f l else l"]]
  by (simp add: update_links_def)

lemma changes_update_racks:
  assumes "changes a (ax_state b)"
    and "\<And>r. rf_generation (rr_reference (f r)) = rf_generation (rr_reference r)
      \<and> rr_membership (f r) = rr_membership r"
  shows "changes a (ax_state (update_racks P f b))"
  using assms(2) changes_step [OF assms(1) E_racks [of "\<lambda>r. if P r then f r else r"]]
  by (simp add: update_racks_def)

lemma changes_upd:
  "changes a (ax_state b) \<Longrightarrow> changes a (ax_state (upd_state (\<lambda>s. s\<lparr>cs_withdrawn_racks := f s\<rparr>) b))"
  "changes a (ax_state b) \<Longrightarrow> set (cs_retired_racks (ax_state b)) \<subseteq> set (g (ax_state b)) \<Longrightarrow>
     changes a (ax_state (upd_state (\<lambda>s. s\<lparr>cs_retired_racks := g s\<rparr>) b))"
  "changes a (ax_state b) \<Longrightarrow> changes a (ax_state (upd_state (\<lambda>s. s\<lparr>cs_topology_record := h s\<rparr>) b))"
  "changes a (ax_state b) \<Longrightarrow> cs_topology_epoch (ax_state b) < e \<Longrightarrow>
     changes a (ax_state (upd_state (\<lambda>s. s\<lparr>cs_topology_epoch := e\<rparr>) b))"
  "changes a (ax_state b) \<Longrightarrow> changes a (ax_state (upd_state (\<lambda>s. s\<lparr>cs_lifecycle := l s\<rparr>) b))"
  "changes a (ax_state b) \<Longrightarrow>
     changes a (ax_state (upd_state (\<lambda>s. s\<lparr>cs_readiness_contract := rc, cs_lifecycle := lc\<rparr>) b))"
  "changes a (ax_state b) \<Longrightarrow>
     generations_advance (cs_domain_generations (ax_state b)) (u (cs_domain_generations (ax_state b))) \<Longrightarrow>
     changes a (ax_state (upd_state (\<lambda>s. s\<lparr>cs_domain_generations := u (cs_domain_generations s)\<rparr>) b))"
  by (auto simp: upd_state_def elim!: changes_step intro: elementary.intros)

lemma changes_mirror: "changes a (ax_state b) \<Longrightarrow> changes a (ax_state (mirror_topology_generation b))"
  by (simp add: mirror_topology_generation_def changes_upd)

lemma changes_journal [simp]: "ax_state (journal_scalars b) = ax_state b"
  by (simp add: journal_scalars_def)

subsection \<open>The rack handlers\<close>

lemma bump_membership_racks:
  "bump_membership b = Some c \<Longrightarrow>
     cs_racks (ax_state c) = cs_racks (ax_state b) \<and> cs_retired_racks (ax_state c) = cs_retired_racks (ax_state b)"
  by (auto simp: bump_membership_def upd_state_def)

lemma upd_state_racks [simp]:
  "rack_guard (ax_state (upd_state (\<lambda>s. s\<lparr>cs_withdrawn_racks := f s\<rparr>) b)) k r = rack_guard (ax_state b) k r"
  by (simp add: rack_guard_def upd_state_def is_rack_retired_def)

lemma rack_guard_bump:
  "bump_membership b = Some c \<Longrightarrow> rack_guard (ax_state b) k r \<Longrightarrow> rack_guard (ax_state c) k r"
  by (auto simp: rack_guard_def is_rack_retired_def dest!: bump_membership_racks)

lemma rack_guard_fresh:
  "om_find (cs_racks s) k = None \<Longrightarrow> rr_membership r \<noteq> RM_Retired \<Longrightarrow> rack_guard s k r"
  by (simp add: rack_guard_def)

lemma rack_guard_same:
  "om_find (cs_racks s) k = Some r0 \<Longrightarrow>
   rf_generation (rr_reference r0) \<le> rf_generation (rr_reference r) \<Longrightarrow>
   rr_membership r = rr_membership r0 \<Longrightarrow> rack_guard s k r"
  by (simp add: rack_guard_def)

lemma rack_guard_live:
  "\<not> is_rack_retired s k \<Longrightarrow> rr_membership r \<noteq> RM_Retired \<Longrightarrow>
   (\<And>r0. om_find (cs_racks s) k = Some r0 \<Longrightarrow> rf_generation (rr_reference r0) \<le> rf_generation (rr_reference r))
   \<Longrightarrow> rack_guard s k r"
  by (simp add: rack_guard_def)

lemma rack_guard_live_bump:
  "bump_membership b = Some c \<Longrightarrow> \<not> is_rack_retired (ax_state b) k \<Longrightarrow> rr_membership r \<noteq> RM_Retired \<Longrightarrow>
   (\<And>r0. om_find (cs_racks (ax_state b)) k = Some r0 \<Longrightarrow>
      rf_generation (rr_reference r0) \<le> rf_generation (rr_reference r)) \<Longrightarrow> rack_guard (ax_state c) k r"
  by (rule rack_guard_bump [OF _ rack_guard_live])

lemma changes_register: "changes (ax_state ctx) (ax_state (snd (apply_register_publisher cfg q ctx)))"
  unfolding apply_register_publisher_def Let_def
  by (auto split: option.splits if_splits
      intro!: changes_put_rack rack_guard_fresh simp: registration_record_def Let_def)

lemma admission_answer_None:
  "admission_answer rack r incoming ctx = None \<Longrightarrow> rf_generation (rr_reference r) \<le> rf_generation incoming"
  by (auto simp: admission_answer_def Let_def not_less split: if_splits)

lemma admitted_record_fields [simp]:
  "rr_membership (admitted_record s now incoming r) = RM_Active"
  "rf_generation (rr_reference (admitted_record s now incoming r)) = rf_generation incoming"
  by (simp_all add: admitted_record_def admitted_reference_def Let_def)

lemma changes_add_rack: "changes (ax_state ctx) (ax_state (snd (apply_add_rack cfg now q ctx)))"
  unfolding apply_add_rack_def Let_def
  by (auto split: option.splits if_splits dest!: admission_answer_ctx admission_answer_None
      intro!: changes_put_rack changes_upd elim!: changes_bump)
    (auto simp: rack_guard_def is_rack_retired_def dest!: bump_membership_racks)

lemma changes_update_rack_generation:
  "changes (ax_state ctx) (ax_state (snd (apply_update_rack_generation q ctx)))"
  unfolding apply_update_rack_generation_def Let_def
  by (auto split: option.splits if_splits intro!: changes_put_rack elim!: changes_bump rack_guard_bump
      intro: rack_guard_same simp: updated_record_def Let_def)

lemma changed_membership_fields [simp]:
  "rr_membership (changed_membership q target r) = target"
  "rf_generation (rr_reference (changed_membership q target r)) = rf_generation (rr_reference r)"
  by (simp_all add: changed_membership_def Let_def)

lemma retired_after_set:
  "set retired \<subseteq> set (retired_after rack g now reason retired)"
  "list_ex (\<lambda>r. ri_rack r = rack) (retired_after rack g now reason retired)"
  by (auto simp: retired_after_def list_ex_iff)

lemma membership_guard:
  assumes "bump_membership ctx = Some ctx'" and "om_find (cs_racks (ax_state ctx)) k = Some r"
    and "\<not> (rr_membership r = RM_Retired \<and> target \<noteq> RM_Retired)"
    and "rr_membership r' = target" and "rf_generation (rr_reference r') = rf_generation (rr_reference r)"
  shows "rack_guard (ax_state (upd_state (\<lambda>s. s
           \<lparr>cs_retired_racks := retired_after k g now reason (cs_retired_racks s)\<rparr>)
             (upd_state (\<lambda>s. s\<lparr>cs_withdrawn_racks := f s\<rparr>) ctx'))) k r'"
  using assms bump_membership_racks [OF assms(1)]
  by (auto simp: rack_guard_def upd_state_def is_rack_retired_def retired_after_set(2))

lemma changes_membership_change:
  assumes "target = RM_Retired \<longrightarrow> retire"
  shows "changes (ax_state ctx) (ax_state (snd (apply_membership_change now q target retire ctx)))"
  unfolding apply_membership_change_def Let_def
  using assms
  by (auto split: option.splits intro!: changes_put_rack changes_upd retired_after_set(1)
      elim: changes_bump membership_guard)
    (auto simp: rack_guard_def is_rack_retired_def dest!: bump_membership_racks)

lemma recovered_record_fields [simp]:
  "rr_membership (recovered_record s q rack target boot r) = RM_Active"
  "rf_generation (rr_reference (recovered_record s q rack target boot r)) = target"
  by (simp_all add: recovered_record_def Let_def)

lemma changes_recover_rack: "changes (ax_state ctx) (ax_state (snd (apply_recover_rack q ctx)))"
  unfolding apply_recover_rack_def Let_def
  by (auto split: option.splits if_splits intro!: changes_put_rack changes_upd elim!: changes_bump)
    (auto simp: rack_guard_def is_rack_retired_def not_less dest!: bump_membership_racks)

subsection \<open>The domain handlers\<close>

lemma advance_aggregate_le: "advance_aggregate a h = Some g \<Longrightarrow> a \<le> g"
  by (auto simp: advance_aggregate_def Let_def not_less less_eq_strong_counter_def le_max_iff_disj
      split: if_splits)

lemma stamp_header_generation [simp]: "dh_generation (stamp_header s h) = dh_generation h"
  by (simp add: stamp_header_def)

lemma domain_answer_None:
  "domain_answer T d existing ctx = None \<Longrightarrow> dh_generation (dm_header existing) \<le> dh_generation (dm_header d)"
  by (auto simp: domain_answer_def Let_def not_less less_eq_strong_counter_def split: if_splits)

lemma domain_answer_ctx: "domain_answer T d existing ctx = Some a \<Longrightarrow> snd a = ctx"
  by (auto simp: domain_answer_def Let_def split: if_splits)

locale domain_changes = domain_class T for T :: "('t, 'b) domain_traits" +
  assumes put_elementary: "domain_guard (dt_get T s) d \<Longrightarrow>
      elementary s (dt_put T (om_insert (dm_id d) d (dt_get T s)) s)"
    and aggregate_elementary: "dt_aggregate T g \<le> a \<Longrightarrow> generations_advance g (dt_set_aggregate T a g)"
    and get_aggregate: "dt_get T (s\<lparr>cs_domain_generations := g\<rparr>) = dt_get T s"
begin

lemma changes_put_domain:
  "changes a (ax_state b) \<Longrightarrow> domain_guard (dt_get T (ax_state b)) d \<Longrightarrow> changes a (ax_state (put_domain T d b))"
  by (auto simp: put_domain_def elim!: changes_step intro: put_elementary)

lemma changes_publish: "changes (ax_state ctx) (ax_state (snd (publish_domain_record cfg T d ctx)))"
proof -
  have aggregate: "changes (ax_state ctx) (ax_state (upd_state (\<lambda>s. s
      \<lparr>cs_domain_generations := dt_set_aggregate T g (cs_domain_generations s)\<rparr>) ctx))"
    if "advance_aggregate (dt_aggregate T (cs_domain_generations (ax_state ctx))) h = Some g" for g h
    using advance_aggregate_le [OF that] aggregate_elementary by (intro changes_upd) auto
  have get: "dt_get T (ax_state (upd_state (\<lambda>s. s\<lparr>cs_domain_generations := f s\<rparr>) ctx))
      = dt_get T (ax_state ctx)" for f
    by (simp add: upd_state_def get_aggregate)
  show ?thesis
    unfolding publish_domain_record_def Let_def
    by (auto split: prod.splits option.splits if_splits dest!: domain_answer_ctx domain_answer_None
        intro!: changes_mirror changes_put_domain aggregate elim!: changes_bump
        simp: get domain_guard_def)
qed

end

interpretation placement_changes: domain_changes placement_traits
  by unfold_locales (auto simp: placement_traits_def generations_advance_def intro: elementary.intros)

interpretation capacity_changes: domain_changes capacity_traits
  by unfold_locales (auto simp: capacity_traits_def generations_advance_def intro: elementary.intros)

interpretation failure_changes: domain_changes failure_traits
  by unfold_locales (auto simp: failure_traits_def generations_advance_def intro: elementary.intros)

interpretation network_changes: domain_changes network_traits
  by unfold_locales (auto simp: network_traits_def generations_advance_def intro: elementary.intros)

interpretation storage_changes: domain_changes storage_traits
  by unfold_locales (auto simp: storage_traits_def generations_advance_def intro: elementary.intros)

interpretation power_changes: domain_changes power_traits
  by unfold_locales (auto simp: power_traits_def generations_advance_def intro: elementary.intros)

interpretation cooling_changes: domain_changes cooling_traits
  by unfold_locales (auto simp: cooling_traits_def generations_advance_def intro: elementary.intros)

interpretation link_domain_changes: domain_changes link_domain_traits
  by unfold_locales (auto simp: link_domain_traits_def generations_advance_def intro: elementary.intros)

lemma changes_put_constraint:
  "changes a (ax_state b) \<Longrightarrow> constraint_guard (cs_constraints (ax_state b)) c \<Longrightarrow>
   changes a (ax_state (put_constraint c b))"
  by (auto simp: put_constraint_def elim!: changes_step intro: elementary.intros)

lemma bump_constraint_constraints:
  "bump_constraint b = Some c \<Longrightarrow> cs_constraints (ax_state c) = cs_constraints (ax_state b)"
  by (auto simp: bump_constraint_def upd_state_def)

lemma changes_publish_constraint: "changes (ax_state ctx) (ax_state (snd (apply_publish_constraint cfg q ctx)))"
  unfolding apply_publish_constraint_def Let_def
  by (auto split: option.splits if_splits intro!: changes_put_constraint elim!: changes_bump)
    (auto simp: constraint_guard_def not_less less_eq_strong_counter_def dest!: bump_constraint_constraints)

subsection \<open>The topology and evidence handlers\<close>

lemma link_kept [simp]: "lk_id (lk_set_evidence e l) = lk_id l" "lk_id (superseded_link l) = lk_id l"
  by (simp_all add: lk_set_evidence_def superseded_link_def)

lemma changes_publish_link: "changes (ax_state ctx) (ax_state (snd (apply_publish_link cfg q ctx)))"
  unfolding apply_publish_link_def Let_def
  by (auto split: option.splits if_splits dest!: link_answer_ctx
      intro!: changes_mirror changes_put_link elim!: changes_bump)

lemma changes_withdraw_link: "changes (ax_state ctx) (ax_state (snd (apply_withdraw_link q ctx)))"
  unfolding apply_withdraw_link_def Let_def
  by (auto split: option.splits if_splits intro!: changes_mirror changes_erase_link elim!: changes_bump)

lemma changes_supersede_topology: "changes (ax_state ctx) (ax_state (snd (apply_supersede_topology now q ctx)))"
proof -
  have epoch: "changes (ax_state ctx) (ax_state (upd_state (\<lambda>s. s\<lparr>cs_topology_epoch := e\<rparr>)
      (update_links (\<lambda>_. True) superseded_link ctx)))" if "\<not> e \<le> cs_topology_epoch (ax_state ctx)" for e
    using that by (intro changes_upd changes_update_links) (simp_all add: update_links_def not_le)
  show ?thesis
    unfolding apply_supersede_topology_def Let_def
    by (auto split: option.splits if_splits intro!: changes_upd(3) epoch elim!: changes_bump)
qed

lemma health_record_fields [simp]:
  "rr_membership (health_record s q r) = rr_membership r"
  "rf_generation (rr_reference (health_record s q r)) = rf_generation (rr_reference r)"
  "rr_membership (withdrawn_evidence r) = rr_membership r"
  "rf_generation (rr_reference (withdrawn_evidence r)) = rf_generation (rr_reference r)"
  by (simp_all add: health_record_def withdrawn_evidence_def Let_def)

lemma changes_publish_health: "changes (ax_state ctx) (ax_state (snd (apply_publish_health q ctx)))"
  unfolding apply_publish_health_def Let_def
  by (auto split: option.splits if_splits intro!: changes_put_rack changes_update_links elim!: changes_bump
      intro: rack_guard_same)

lemma changes_withdraw_evidence: "changes (ax_state ctx) (ax_state (snd (apply_withdraw_evidence q ctx)))"
  unfolding apply_withdraw_evidence_def Let_def
  by (auto split: option.splits if_splits intro!: changes_put_rack changes_update_links elim!: changes_bump
      intro: rack_guard_same)

lemma changes_retire_cluster: "changes (ax_state ctx) (ax_state (snd (apply_retire_cluster ctx)))"
  unfolding apply_retire_cluster_def
  by (auto intro!: changes_update_racks changes_upd simp: retired_record_def)

lemma changes_publish_snapshot: "changes (ax_state ctx) (ax_state (snd (apply_publish_snapshot ctx)))"
  unfolding apply_publish_snapshot_def by (auto split: option.splits elim!: changes_bump)

lemma changes_revalidate: "changes (ax_state ctx) (ax_state (snd (apply_revalidate q ctx)))"
  unfolding apply_revalidate_def Let_def by (auto split: sum.splits)

lemma changes_redeclare:
  "counter_known (cs_epoch (ax_state ctx)) \<Longrightarrow>
   changes (ax_state ctx) (ax_state (snd (apply_declare_cluster now q ctx)))"
  unfolding apply_declare_cluster_def by (auto intro!: changes_upd)

lemma apply_request_steps:
  assumes "\<not> declares q (ax_state ctx)"
  shows "changes (ax_state ctx) (ax_state (snd (apply_request cfg now q ctx)))"
proof -
  note publish = placement_changes.changes_publish capacity_changes.changes_publish
    failure_changes.changes_publish network_changes.changes_publish storage_changes.changes_publish
    power_changes.changes_publish cooling_changes.changes_publish link_domain_changes.changes_publish
  show ?thesis
    using assms unfolding apply_request_def Let_def apply_kind_def declares_def
    by (cases "mq_kind q")
      (simp_all add: publish_domain_option_def publish changes_redeclare changes_register changes_add_rack
        changes_update_rack_generation changes_membership_change changes_recover_rack changes_publish_link
        changes_withdraw_link changes_publish_constraint changes_publish_health changes_withdraw_evidence
        changes_supersede_topology changes_publish_snapshot changes_revalidate changes_retire_cluster
        split: option.splits)
qed

subsection \<open>Contracts of the requests\<close>

locale change_contract =
  fixes R :: "cluster_state \<Rightarrow> cluster_state \<Rightarrow> bool"
  assumes reflexive: "R s s"
    and transitive: "R s t \<Longrightarrow> R t u \<Longrightarrow> R s u"
    and elementary_change: "elementary s t \<Longrightarrow> R s t"
begin

lemma changes_contract: "changes s t \<Longrightarrow> R s t"
  by (induction rule: rtranclp_induct) (auto intro: reflexive transitive elementary_change)

lemma request_contract:
  "\<not> declares q (ax_state ctx) \<Longrightarrow> R (ax_state ctx) (ax_state (snd (apply_request cfg now q ctx)))"
  by (rule changes_contract [OF apply_request_steps])

end

definition map_advances :: "('v \<Rightarrow> 'v \<Rightarrow> bool) \<Rightarrow> ('k::linorder, 'v) omap \<Rightarrow> ('k, 'v) omap \<Rightarrow> bool" where
  "map_advances P m n \<longleftrightarrow> (\<forall>k v. om_find m k = Some v \<longrightarrow> (\<exists>w. om_find n k = Some w \<and> P v w))"

definition rack_advances :: "rack_record \<Rightarrow> rack_record \<Rightarrow> bool" where
  "rack_advances r r' \<longleftrightarrow> rf_generation (rr_reference r) \<le> rf_generation (rr_reference r')"

definition domain_advances :: "('t, 'b) domain \<Rightarrow> ('t, 'b) domain \<Rightarrow> bool" where
  "domain_advances d d' \<longleftrightarrow> dh_generation (dm_header d) \<le> dh_generation (dm_header d')"

definition constraint_advances :: "cluster_constraint \<Rightarrow> cluster_constraint \<Rightarrow> bool" where
  "constraint_advances c c' \<longleftrightarrow> dh_generation (cn_header c) \<le> dh_generation (cn_header c')"

definition domain_maps_advance :: "cluster_state \<Rightarrow> cluster_state \<Rightarrow> bool" where
  "domain_maps_advance s t \<longleftrightarrow>
     map_advances domain_advances (cs_placement_domains s) (cs_placement_domains t)
     \<and> map_advances domain_advances (cs_capacity_domains s) (cs_capacity_domains t)
     \<and> map_advances domain_advances (cs_failure_domains s) (cs_failure_domains t)
     \<and> map_advances domain_advances (cs_network_domains s) (cs_network_domains t)
     \<and> map_advances domain_advances (cs_storage_domains s) (cs_storage_domains t)
     \<and> map_advances domain_advances (cs_power_domains s) (cs_power_domains t)
     \<and> map_advances domain_advances (cs_cooling_domains s) (cs_cooling_domains t)
     \<and> map_advances domain_advances (cs_link_domains s) (cs_link_domains t)
     \<and> map_advances constraint_advances (cs_constraints s) (cs_constraints t)"

definition counters_advance :: "cluster_state \<Rightarrow> cluster_state \<Rightarrow> bool" where
  "counters_advance s t \<longleftrightarrow>
     cs_generation s \<le> cs_generation t
     \<and> cs_membership_generation s \<le> cs_membership_generation t
     \<and> cs_topology_epoch s \<le> cs_topology_epoch t
     \<and> cs_topology_generation s \<le> cs_topology_generation t
     \<and> cs_connectivity_generation s \<le> cs_connectivity_generation t
     \<and> cs_health_generation s \<le> cs_health_generation t
     \<and> cs_constraint_generation s \<le> cs_constraint_generation t
     \<and> cs_snapshot_generation s \<le> cs_snapshot_generation t
     \<and> cs_publication_generation s \<le> cs_publication_generation t
     \<and> generations_advance (cs_domain_generations s) (cs_domain_generations t)"

text \<open>A rack is retired when its record says so and its identity is on the list.\<close>

definition retired_rack :: "cluster_state \<Rightarrow> rack_id \<Rightarrow> bool" where
  "retired_rack s k \<longleftrightarrow>
     is_rack_retired s k \<and> (\<exists>r. om_find (cs_racks s) k = Some r \<and> rr_membership r = RM_Retired)"

definition identities_advance :: "cluster_state \<Rightarrow> cluster_state \<Rightarrow> bool" where
  "identities_advance s t \<longleftrightarrow>
     set (cs_retired_racks s) \<subseteq> set (cs_retired_racks t)
     \<and> set (cs_fenced_authorities s) \<subseteq> set (cs_fenced_authorities t)
     \<and> (\<forall>k. retired_rack s k \<longrightarrow> retired_rack t k)"

definition advances :: "cluster_state \<Rightarrow> cluster_state \<Rightarrow> bool" where
  "advances s t \<longleftrightarrow>
     counters_advance s t \<and> map_advances rack_advances (cs_racks s) (cs_racks t)
     \<and> domain_maps_advance s t \<and> identities_advance s t"

lemmas advances_defs = advances_def counters_advance_def domain_maps_advance_def identities_advance_def

lemma map_advances_refl [simp]: "(\<And>v. P v v) \<Longrightarrow> map_advances P m m"
  by (simp add: map_advances_def)

lemma map_advances_trans:
  "(\<And>u v w. P u v \<Longrightarrow> P v w \<Longrightarrow> P u w) \<Longrightarrow> map_advances P m n \<Longrightarrow> map_advances P n l \<Longrightarrow> map_advances P m l"
  unfolding map_advances_def by meson

lemma map_advances_insert:
  "(\<And>v. P v v) \<Longrightarrow> (\<And>v. om_find m k = Some v \<Longrightarrow> P v w) \<Longrightarrow> map_advances P m (om_insert k w m)"
  by (auto simp: map_advances_def)

lemma map_advances_map:
  "(\<And>v. P v (f v)) \<Longrightarrow> map_advances P m (om_map (\<lambda>_. f) m)"
  by (auto simp: map_advances_def)

lemma entry_advances [simp]:
  "rack_advances r r" "domain_advances d d" "constraint_advances c c" "generations_advance g g"
  by (simp_all add: rack_advances_def domain_advances_def constraint_advances_def generations_advance_def)

lemma advances_refl [simp]: "advances s s"
  by (simp add: advances_defs)

lemma advances_trans:
  assumes "advances s t" and "advances t u"
  shows "advances s u"
proof -
  have r: "map_advances rack_advances m n \<Longrightarrow> map_advances rack_advances n l \<Longrightarrow> map_advances rack_advances m l" for m n l :: rack_map
    by (rule map_advances_trans) (auto simp: rack_advances_def)
  have d: "map_advances domain_advances m n \<Longrightarrow> map_advances domain_advances n l \<Longrightarrow> map_advances domain_advances m l"
    for m n l :: "('t, 'b) domain_map"
    by (rule map_advances_trans) (auto simp: domain_advances_def)
  have c: "map_advances constraint_advances m n \<Longrightarrow> map_advances constraint_advances n l \<Longrightarrow>
      map_advances constraint_advances m l" for m n l :: constraint_map
    by (rule map_advances_trans) (auto simp: constraint_advances_def)
  have "counters_advance s u"
    using assms unfolding advances_def counters_advance_def generations_advance_def by (meson order_trans)
  moreover have "map_advances rack_advances (cs_racks s) (cs_racks u)"
    using assms r unfolding advances_def by blast
  moreover have "domain_maps_advance s u"
    using assms unfolding advances_def domain_maps_advance_def by (auto intro: d c)
  moreover have "identities_advance s u"
    using assms unfolding advances_def identities_advance_def by (meson subset_trans)
  ultimately show ?thesis by (simp add: advances_def)
qed

lemma counter_next_le: "counter_next c = Some d \<Longrightarrow> c \<le> d"
  using counter_next_less less_imp_le by blast

lemma domain_guard_advances: "domain_guard m d \<Longrightarrow> map_advances domain_advances m (om_insert (dm_id d) d m)"
  by (rule map_advances_insert) (auto simp: domain_guard_def domain_advances_def)

lemma constraint_guard_advances:
  "constraint_guard m c \<Longrightarrow> map_advances constraint_advances m (om_insert (cn_id c) c m)"
  by (rule map_advances_insert) (auto simp: constraint_guard_def constraint_advances_def)

lemma rack_guard_advances: "rack_guard s k r \<Longrightarrow> map_advances rack_advances (cs_racks s) (om_insert k r (cs_racks s))"
  by (rule map_advances_insert) (auto simp: rack_guard_def rack_advances_def)

lemma rack_guard_retired:
  "rack_guard s k r \<Longrightarrow> retired_rack s j \<Longrightarrow> retired_rack (s\<lparr>cs_racks := om_insert k r (cs_racks s)\<rparr>) j"
  by (auto simp: rack_guard_def retired_rack_def is_rack_retired_def)

lemma elementary_advances: "elementary s t \<Longrightarrow> advances s t"
proof (induction rule: elementary.induct)
  case (E_rack s k r)
  then show ?case
    by (simp add: advances_defs rack_guard_advances rack_guard_retired)
next
  case (E_racks f s)
  then show ?case
    by (auto simp: advances_defs rack_advances_def retired_rack_def is_rack_retired_def
        intro!: map_advances_map)
next
  case (E_retired s rs)
  then show ?case
    by (auto simp: advances_defs retired_rack_def is_rack_retired_iff)
qed (simp_all add: advances_defs counter_next_le domain_guard_advances constraint_guard_advances less_imp_le
    retired_rack_def is_rack_retired_def)

interpretation monotone_change: change_contract advances
  by unfold_locales (auto intro: advances_trans elementary_advances)

text \<open>The identity, the epochs and the fences are no handler's to change.\<close>

definition same_authority :: "cluster_state \<Rightarrow> cluster_state \<Rightarrow> bool" where
  "same_authority s t \<longleftrightarrow>
     cs_id t = cs_id s \<and> cs_epoch t = cs_epoch s \<and> cs_coordinator_epoch t = cs_coordinator_epoch s
     \<and> cs_generation t = cs_generation s \<and> cs_fenced_authorities t = cs_fenced_authorities s
     \<and> cs_declared_at t = cs_declared_at s"

interpretation authority_kept: change_contract same_authority
  by unfold_locales (auto simp: same_authority_def elim!: elementary.cases)

definition keeps_keys :: "cluster_state \<Rightarrow> cluster_state \<Rightarrow> bool" where
  "keeps_keys s t \<longleftrightarrow> (keyed s \<longrightarrow> keyed t)"

lemma elementary_keyed: "elementary s t \<Longrightarrow> keyed s \<Longrightarrow> keyed t"
  by (induction rule: elementary.induct) (auto simp: keyed_def split: if_splits)

interpretation keyed_change: change_contract keeps_keys
  by unfold_locales (auto simp: keeps_keys_def elementary_keyed)

text \<open>A rack whose record says that it is retired is on the list of retired identities.\<close>

definition retired_listed :: "cluster_state \<Rightarrow> bool" where
  "retired_listed s \<longleftrightarrow>
     (\<forall>k r. om_find (cs_racks s) k = Some r \<and> rr_membership r = RM_Retired \<longrightarrow> is_rack_retired s k)"

definition keeps_retired_listed :: "cluster_state \<Rightarrow> cluster_state \<Rightarrow> bool" where
  "keeps_retired_listed s t \<longleftrightarrow> (retired_listed s \<longrightarrow> retired_listed t)"

lemma elementary_retired_listed: "elementary s t \<Longrightarrow> retired_listed s \<Longrightarrow> retired_listed t"
proof (induction rule: elementary.induct)
  case (E_retired s rs)
  then show ?case unfolding retired_listed_def is_rack_retired_iff by fastforce
qed (auto simp: retired_listed_def rack_guard_def is_rack_retired_def split: if_splits)

interpretation retired_change: change_contract keeps_retired_listed
  by unfold_locales (auto simp: keeps_retired_listed_def elementary_retired_listed)

end
