(* ===== verification/Commit_Laws.thy ===== *)
theory Commit_Laws
  imports Handler_Steps
begin

text \<open>
  What one call of \<^verbatim>\<open>apply_and_commit\<close> (src/src/coordinator_engine.cpp) guarantees. \<open>commit_cases\<close> splits
  a call into its two ends, refused with everything rolled back or committed; the laws that follow rest
  on it: a refused commit leaves the canonical state as it was, an accepted one passes the invariant
  check, advances the cluster generation and never turns a counter or an identity back.
\<close>

subsection \<open>A handler answers accepted exactly when it changed something\<close>

definition answers :: "apply_context \<Rightarrow> handler_result \<Rightarrow> bool" where
  "answers ctx h \<longleftrightarrow>
     (mr_outcome (fst h) = MO_Accepted \<longrightarrow> ax_changed (snd h))
     \<and> (ax_changed (snd h) \<longrightarrow> ax_changed ctx \<or> mr_outcome (fst h) = MO_Accepted)"

lemma changed_kept [simp]:
  "ax_changed (put_rack k r ctx) = ax_changed ctx"
  "ax_changed (put_link lk l ctx) = ax_changed ctx"
  "ax_changed (erase_link lk ctx) = ax_changed ctx"
  "ax_changed (update_links P f ctx) = ax_changed ctx"
  "ax_changed (update_racks Q g ctx) = ax_changed ctx"
  "ax_changed (upd_state h ctx) = ax_changed ctx"
  "ax_changed (journal_scalars ctx) = ax_changed ctx"
  "ax_changed (put_domain T d ctx) = ax_changed ctx"
  "ax_changed (put_constraint c ctx) = ax_changed ctx"
  "ax_changed (mirror_topology_generation ctx) = ax_changed ctx"
  by (simp_all add: put_rack_def put_link_def erase_link_def update_links_def update_racks_def
      upd_state_def journal_scalars_def put_domain_def put_constraint_def mirror_topology_generation_def)

lemma changed_bump [simp]:
  "bump_membership b = Some c \<Longrightarrow> ax_changed c = ax_changed b"
  "bump_topology b = Some c \<Longrightarrow> ax_changed c = ax_changed b"
  "bump_connectivity b = Some c \<Longrightarrow> ax_changed c = ax_changed b"
  "bump_health b = Some c \<Longrightarrow> ax_changed c = ax_changed b"
  "bump_constraint b = Some c \<Longrightarrow> ax_changed c = ax_changed b"
  "bump_snapshot b = Some c \<Longrightarrow> ax_changed c = ax_changed b"
  "bump_publication b = Some c \<Longrightarrow> ax_changed c = ax_changed b"
  by (auto simp: bump_defs)

lemma answers_reject [simp]:
  "ax_changed b = ax_changed ctx \<Longrightarrow> answers ctx (reject_with reason stage subject code b)"
  "answers ctx (accepted_change b)"
  "ax_changed b = ax_changed ctx \<Longrightarrow> answers ctx (accepted_no_change b)"
  "answers ctx (rejected reason stage subject code, ctx)"
  "answers ctx (default_result\<lparr>mr_outcome := MO_NoChange\<rparr>, ctx)"
  by (simp_all add: answers_def accepted_result_def accepted_no_change_def)

lemma answers_refused:
  "\<not> mr_accepted r \<Longrightarrow> answers ctx (r, ctx)"
  by (auto simp: answers_def mr_accepted_def)

lemma answers_register: "answers ctx (apply_register_publisher cfg q ctx)"
  by (simp add: apply_register_publisher_def Let_def split: option.split)

lemma answers_admission: "admission_answer rack r incoming ctx = Some a \<Longrightarrow> answers ctx a"
  by (auto simp: admission_answer_def Let_def split: if_splits)

lemma answers_add_rack: "answers ctx (apply_add_rack cfg now q ctx)"
  by (auto simp: apply_add_rack_def Let_def answers_refused split: option.split dest: answers_admission)

lemma answers_update_rack_generation: "answers ctx (apply_update_rack_generation q ctx)"
  by (simp add: apply_update_rack_generation_def Let_def answers_refused split: option.split)

lemma answers_membership_change: "answers ctx (apply_membership_change now q target retire ctx)"
  by (simp add: apply_membership_change_def Let_def answers_refused split: option.split)

lemma answers_recover_rack: "answers ctx (apply_recover_rack q ctx)"
  by (simp add: apply_recover_rack_def Let_def split: option.split)

lemma answers_domain: "domain_answer T d existing ctx = Some a \<Longrightarrow> answers ctx a"
  by (auto simp: domain_answer_def Let_def split: if_splits)

lemma answers_publish_domain: "answers ctx (publish_domain_record cfg T d ctx)"
  by (auto simp: publish_domain_record_def Let_def answers_refused split: prod.split option.split
      dest: answers_domain)

lemma answers_publish_constraint: "answers ctx (apply_publish_constraint cfg q ctx)"
  by (auto simp: apply_publish_constraint_def Let_def split: option.split)

lemma answers_link: "link_answer l current subject ctx = Some a \<Longrightarrow> answers ctx a"
  by (auto simp: link_answer_def Let_def split: if_splits)

lemma answers_publish_link: "answers ctx (apply_publish_link cfg q ctx)"
  by (auto simp: apply_publish_link_def Let_def split: option.split dest: answers_link)

lemma answers_withdraw_link: "answers ctx (apply_withdraw_link q ctx)"
  by (auto simp: apply_withdraw_link_def Let_def split: option.split)

lemma answers_supersede_topology: "answers ctx (apply_supersede_topology now q ctx)"
  by (auto simp: apply_supersede_topology_def Let_def split: option.split)

lemma answers_publish_health: "answers ctx (apply_publish_health q ctx)"
  by (auto simp: apply_publish_health_def Let_def answers_refused split: option.split)

lemma answers_withdraw_evidence: "answers ctx (apply_withdraw_evidence q ctx)"
  by (auto simp: apply_withdraw_evidence_def Let_def split: option.split)

lemma answers_cluster:
  "answers ctx (apply_declare_cluster now q ctx)" "answers ctx (apply_retire_cluster ctx)"
  "answers ctx (apply_publish_snapshot ctx)" "answers ctx (apply_revalidate q ctx)"
  by (auto simp: apply_declare_cluster_def apply_retire_cluster_def apply_publish_snapshot_def
      apply_revalidate_def Let_def answers_def accepted_no_change_def accepted_result_def split: option.split sum.split)

lemma validate_common_refuses: "mr_reason (validate_common s q) \<noteq> RR_None \<Longrightarrow> \<not> mr_accepted (validate_common s q)"
  by (auto simp: validate_common_def Let_def mr_accepted_def gate_ok_def accepted_result_def
      default_result_def split: if_splits)

lemma answers_apply_request: "answers ctx (apply_request cfg now q ctx)"
  by (cases "mq_kind q")
    (simp_all add: apply_request_def Let_def apply_kind_def publish_domain_option_def answers_refused
      validate_common_refuses answers_cluster answers_register answers_add_rack
      answers_update_rack_generation answers_membership_change answers_recover_rack
      answers_publish_domain answers_publish_constraint answers_publish_link answers_withdraw_link
      answers_supersede_topology answers_publish_health answers_withdraw_evidence split: option.split)


subsection \<open>The two ends of a commit\<close>

definition start_context :: "coordinator \<Rightarrow> apply_context" where
  "start_context co =
     \<lparr>ax_state = co_canonical co, ax_journal = record_scalars (co_canonical co) [], ax_changed = False\<rparr>"

definition committed_state :: "cluster_state \<Rightarrow> cluster_generation \<Rightarrow> timestamp \<Rightarrow> cluster_state" where
  "committed_state s g now =
     s\<lparr>cs_lifecycle := re_lifecycle (evaluate_readiness s), cs_generation := g, cs_last_mutation_at := now\<rparr>"

lemma start_context_simps [simp]:
  "ax_state (start_context co) = co_canonical co" "\<not> ax_changed (start_context co)"
  "has_scalars (ax_journal (start_context co))"
  "rollback (ax_journal (start_context co)) (co_canonical co) = co_canonical co"
  by (auto simp: start_context_def record_scalars_def has_scalars_def)

lemma has_scalars_request:
  assumes "has_scalars (ax_journal ctx)"
  shows "has_scalars (ax_journal (snd (apply_request cfg now q ctx)))"
proof (cases "declares q (ax_state ctx)")
  case True
  then show ?thesis
    using assms
    by (auto simp: apply_request_def Let_def apply_kind_def declares_def apply_declare_cluster_def
        upd_state_def journal_scalars_def record_scalars_def has_scalars_def)
next
  case False
  with undoes_apply_request [OF False] assms show ?thesis by (simp add: undoes_def)
qed

lemma rollback_scalars:
  assumes "has_scalars j"
  shows "rollback j (s\<lparr>cs_lifecycle := l\<rparr>) = rollback j s"
    and "rollback j (s\<lparr>cs_lifecycle := l, cs_generation := g, cs_last_mutation_at := t\<rparr>) = rollback j s"
proof -
  obtain x where "UndoScalars x \<in> set j" using assms by (auto simp: has_scalars_def)
  then show "rollback j (s\<lparr>cs_lifecycle := l\<rparr>) = rollback j s"
    "rollback j (s\<lparr>cs_lifecycle := l, cs_generation := g, cs_last_mutation_at := t\<rparr>) = rollback j s"
    by (auto intro!: rollback_cong simp: same_maps_def)
qed

lemma persist_now_simps [simp]:
  "persist_now store co result = (True, result', co') \<Longrightarrow> result' = result"
  "persist_now store co result = (b, result', co') \<Longrightarrow>
     co_canonical co' = co_canonical co \<and> co_config co' = co_config co \<and> co_indexes co' = co_indexes co
     \<and> co_indexes_valid co' = co_indexes_valid co \<and> co_state_version co' = co_state_version co
     \<and> co_indexes_version co' = co_indexes_version co"
  "persist_now store co result = (False, result', co') \<Longrightarrow> mr_outcome result' = MO_Rejected"
  by (auto simp: persist_now_def Let_def split: option.splits if_splits)

text \<open>The members of the coordinator a refused call leaves alone.\<close>

definition cache_of :: "coordinator \<Rightarrow> cluster_indexes \<times> bool \<times> u64 \<times> u64" where
  "cache_of co = (co_indexes co, co_indexes_valid co, co_state_version co, co_indexes_version co)"

lemma commit_cases:
  assumes "apply_and_commit store now q co = (r, co')"
  obtains
    (refused) "mr_outcome r \<noteq> MO_Accepted"
      "co_canonical co' = (let ctx = snd (apply_request (co_config co) now q (start_context co))
                           in rollback (ax_journal ctx) (ax_state ctx))"
      "cache_of co' = cache_of co" "co_config co' = co_config co"
  | (committed) ctx g where "mr_outcome r = MO_Accepted"
      "snd (apply_request (co_config co) now q (start_context co)) = ctx" "ax_changed ctx"
      "report_ok (check_invariants
         ((ax_state ctx)\<lparr>cs_lifecycle := re_lifecycle (evaluate_readiness (ax_state ctx))\<rparr>) None)"
      "counter_next (cs_generation (ax_state ctx)) = Some g"
      "co_canonical co' = committed_state (ax_state ctx) g now"
      "\<not> co_indexes_valid co'" "co_state_version co' = co_state_version co + 1"
      "co_indexes_version co' = co_indexes_version co" "co_config co' = co_config co"
proof -
  obtain result ctx where h: "apply_request (co_config co) now q (start_context co) = (result, ctx)"
    by fastforce
  have j: "has_scalars (ax_journal ctx)"
    using has_scalars_request [of "start_context co"] h by (metis snd_conv start_context_simps(3))
  have a: "mr_outcome result = MO_Accepted \<longleftrightarrow> ax_changed ctx"
    using answers_apply_request [of "start_context co" "co_config co" now q] h by (auto simp: answers_def)
  note unfolded = assms [unfolded apply_and_commit_def start_context_def [symmetric] h Let_def prod.case]
  show ?thesis
  proof (cases "mr_outcome r = MO_Accepted")
    case True
    obtain g where g: "counter_next (cs_generation (ax_state ctx)) = Some g"
      using True unfolded a
      by (auto simp: refuse_def fill_generations_def Let_def split: if_splits option.splits prod.splits)
    show ?thesis
      by (rule committed [of ctx g])
        (use True unfolded a j h g in \<open>auto simp: refuse_def fill_generations_def Let_def committed_state_def
           touch_state_def split: if_splits option.splits prod.splits\<close>)
  next
    case False
    show ?thesis
      by (rule refused)
        (use False unfolded a j h in \<open>auto simp: refuse_def fill_generations_def Let_def cache_of_def
           rollback_scalars touch_state_def split: if_splits option.splits prod.splits\<close>)
  qed
qed

end
