(* ===== verification/Commit_Safety.thy ===== *)
theory Commit_Safety
  imports Commit_Laws
begin

text \<open>
  The laws of one commit, read off \<open>commit_cases\<close>: atomicity of a refusal, the invariants and the
  lifecycle of what is committed, the counters that advance, and the coherence of the cached indexes.
\<close>

subsection \<open>Refusals\<close>

lemma restore_declared:
  "restore_scalars (capture_scalars s) (declared_state now q s) = s\<lparr>cs_id := mq_cluster q\<rparr>"
  by (cases s) (simp add: restore_scalars_def capture_scalars_def declared_state_def Let_def)

lemma declare_rolled_back:
  assumes "declares q (co_canonical co)"
    and "snd (apply_request cfg now q (start_context co)) = ctx"
  shows "\<exists>i. rollback (ax_journal ctx) (ax_state ctx) = (co_canonical co)\<lparr>cs_id := i\<rparr>"
proof (cases "mr_reason (validate_common (co_canonical co) q) = RR_None")
  case True
  have "restore_scalars (capture_scalars s) (s\<lparr>cs_id := i\<rparr>) = s\<lparr>cs_id := i\<rparr>" for s :: cluster_state and i
    by (cases s) (simp add: restore_scalars_def capture_scalars_def)
  then have "rollback (ax_journal ctx) (ax_state ctx) = (co_canonical co)\<lparr>cs_id := mq_cluster q\<rparr>"
    using True assms
    by (auto simp: apply_request_def Let_def apply_kind_def declares_def apply_declare_cluster_def
        upd_state_def journal_scalars_def record_scalars_def start_context_def restore_declared)
  then show ?thesis ..
next
  case False
  have "(co_canonical co)\<lparr>cs_id := cs_id (co_canonical co)\<rparr> = co_canonical co" by simp
  then show ?thesis
    using False assms by (auto simp: apply_request_def Let_def intro: exI [of _ "cs_id (co_canonical co)"])
qed

lemma refused_commit:
  assumes "apply_and_commit store now q co = (r, co')" and "mr_outcome r \<noteq> MO_Accepted"
  shows "\<not> declares q (co_canonical co) \<Longrightarrow> co_canonical co' = co_canonical co"
    and "\<exists>i. co_canonical co' = (co_canonical co)\<lparr>cs_id := i\<rparr>"
    and "cache_of co' = cache_of co"
proof -
  let ?ctx = "snd (apply_request (co_config co) now q (start_context co))"
  have c: "co_canonical co' = rollback (ax_journal ?ctx) (ax_state ?ctx)"
    and "cache_of co' = cache_of co"
    by (rule commit_cases [OF assms(1)]; use assms(2) in \<open>simp add: Let_def\<close>)+
  then show "cache_of co' = cache_of co" by simp
  show keep: "co_canonical co' = co_canonical co" if "\<not> declares q (co_canonical co)"
    using c undoes_apply_request [of q "start_context co" "co_config co" now] that
    by (simp add: undoes_def)
  show "\<exists>i. co_canonical co' = (co_canonical co)\<lparr>cs_id := i\<rparr>"
  proof (cases "declares q (co_canonical co)")
    case True
    with c declare_rolled_back [OF True refl] show ?thesis by simp
  next
    case False
    have "(co_canonical co)\<lparr>cs_id := cs_id (co_canonical co)\<rparr> = co_canonical co" by simp
    with keep [OF False] show ?thesis by metis
  qed
qed

subsection \<open>The lifecycle\<close>

lemma evaluate_fixpoint:
  assumes "readiness_view t = readiness_view s" and "cs_lifecycle t = re_lifecycle (evaluate_readiness s)"
  shows "re_lifecycle (evaluate_readiness t) = cs_lifecycle t"
proof (cases "terminal_lifecycle (cs_lifecycle s)")
  case True
  then show ?thesis using assms evaluate_terminal [of s] evaluate_terminal [of t] by auto
next
  case False
  then have "\<not> terminal_lifecycle (cs_lifecycle t)" using assms evaluate_terminal_iff [of s] by simp
  then show ?thesis using False assms evaluate_readiness_cong [of t s] by simp
qed

lemma committed_lifecycle:
  "re_lifecycle (evaluate_readiness (committed_state s g now)) = cs_lifecycle (committed_state s g now)"
  by (rule evaluate_fixpoint [of _ s]) (simp_all add: committed_state_def readiness_view_def)

subsection \<open>The invariants of what is committed\<close>

lemma state_ok_generation:
  assumes ok: "state_ok s" and g: "cs_generation s \<le> g" and v: "t = s\<lparr>cs_generation := g, cs_last_mutation_at := now\<rparr>"
    and l: "lifecycle_ok t"
  shows "state_ok t"
proof -
  note ok = ok [unfolded state_ok_def]
  have known: "counter_known g"
  proof -
    have "cvalue (cs_generation s) \<noteq> 0" "cvalue (cs_generation s) \<le> cvalue g"
      using ok g by (auto simp: counters_ok_def counter_known_def less_eq_strong_counter_def)
    then have "cvalue g \<noteq> 0" by (metis word_le_0_iff)
    then show ?thesis by (simp add: counter_known_def)
  qed
  have "counters_ok t"
    using ok g known by (auto simp: v counters_ok_def less_eq_strong_counter_def)
  moreover have "\<forall>k r. om_find (cs_racks t) k = Some r \<longrightarrow> rack_ok t k r"
    using ok by (simp add: v rack_ok_def is_boot_fenced_def is_rack_retired_def)
  moreover have "\<forall>k l. om_find (cs_links t) k = Some l \<longrightarrow> link_ok t k l"
    using ok by (simp add: v link_ok_def is_rack_member_def)
  ultimately show ?thesis
    using ok l unfolding state_ok_def
    by (simp add: v counts_ok_def all_domains_ok_def domains_ok_def all_generations_ok_def
        withdrawn_ok_def is_rack_member_def)
qed

lemma committed_report_ok:
  assumes "report_ok (check_invariants (s\<lparr>cs_lifecycle := re_lifecycle (evaluate_readiness s)\<rparr>) None)"
    and "counter_next (cs_generation s) = Some g"
  shows "report_ok (check_invariants (committed_state s g now) None)"
proof -
  let ?c = "s\<lparr>cs_lifecycle := re_lifecycle (evaluate_readiness s)\<rparr>" and ?t = "committed_state s g now"
  have t: "?t = ?c\<lparr>cs_generation := g, cs_last_mutation_at := now\<rparr>" by (simp add: committed_state_def)
  have "state_is_empty ?t = state_is_empty ?c" by (simp add: state_is_empty_def committed_state_def)
  moreover have "state_ok ?t" if "state_ok ?c"
  proof (rule state_ok_generation [OF that _ t])
    show "cs_generation ?c \<le> g" using counter_next_le [OF assms(2)] by simp
    have "lifecycle_ok ?c" using that by (simp add: state_ok_def)
    then show "lifecycle_ok ?t"
      using committed_lifecycle [of s g now] evaluate_lifecycle_Ready [of ?t]
      by (auto simp: lifecycle_ok_def committed_state_def)
  qed
  ultimately show ?thesis using assms(1) by (auto simp: check_invariants_ok_iff)
qed

subsection \<open>An accepted commit\<close>

lemma committed_advances: "counter_next (cs_generation s) = Some g \<Longrightarrow> advances s (committed_state s g now)"
  by (auto simp: advances_defs committed_state_def retired_rack_def is_rack_retired_def dest: counter_next_le)

lemma committed_kept:
  "keyed (committed_state s g now) = keyed s" "retired_listed (committed_state s g now) = retired_listed s"
  by (simp_all add: keyed_def retired_listed_def committed_state_def is_rack_retired_def)

lemma accepted_commit_ok:
  assumes "apply_and_commit store now q co = (r, co')" and "mr_outcome r = MO_Accepted"
  shows "report_ok (check_invariants (co_canonical co') None)"
    and "re_lifecycle (evaluate_readiness (co_canonical co')) = cs_lifecycle (co_canonical co')"
    and "\<not> co_indexes_valid co'"
  by (rule commit_cases [OF assms(1)];
      use assms(2) in \<open>simp add: committed_report_ok committed_lifecycle\<close>)+

lemma accepted_commit_advances:
  assumes "apply_and_commit store now q co = (r, co')" and "mr_outcome r = MO_Accepted"
    and "\<not> declares q (co_canonical co)"
  shows "advances (co_canonical co) (co_canonical co')"
    and "counter_next (cs_generation (co_canonical co)) = Some (cs_generation (co_canonical co'))"
    and "cs_id (co_canonical co') = cs_id (co_canonical co)"
    and "cs_epoch (co_canonical co') = cs_epoch (co_canonical co)"
    and "cs_coordinator_epoch (co_canonical co') = cs_coordinator_epoch (co_canonical co)"
    and "cs_fenced_authorities (co_canonical co') = cs_fenced_authorities (co_canonical co)"
    and "keyed (co_canonical co) \<Longrightarrow> keyed (co_canonical co')"
    and "retired_listed (co_canonical co) \<Longrightarrow> retired_listed (co_canonical co')"
proof -
  obtain ctx g where ctx: "snd (apply_request (co_config co) now q (start_context co)) = ctx"
    and g: "counter_next (cs_generation (ax_state ctx)) = Some g"
    and c: "co_canonical co' = committed_state (ax_state ctx) g now"
    by (rule commit_cases [OF assms(1)]) (use assms(2) in simp_all)
  have r: "\<not> declares q (ax_state (start_context co))" using assms(3) by simp
  have a: "advances (co_canonical co) (ax_state ctx)" "same_authority (co_canonical co) (ax_state ctx)"
    "keeps_keys (co_canonical co) (ax_state ctx)" "keeps_retired_listed (co_canonical co) (ax_state ctx)"
    using monotone_change.request_contract [OF r, of "co_config co" now]
      authority_kept.request_contract [OF r, of "co_config co" now]
      keyed_change.request_contract [OF r, of "co_config co" now]
      retired_change.request_contract [OF r, of "co_config co" now] ctx by simp_all
  show "advances (co_canonical co) (co_canonical co')"
    unfolding c by (rule advances_trans [OF a(1) committed_advances [OF g]])
  show "counter_next (cs_generation (co_canonical co)) = Some (cs_generation (co_canonical co'))"
    "cs_id (co_canonical co') = cs_id (co_canonical co)"
    "cs_epoch (co_canonical co') = cs_epoch (co_canonical co)"
    "cs_coordinator_epoch (co_canonical co') = cs_coordinator_epoch (co_canonical co)"
    "cs_fenced_authorities (co_canonical co') = cs_fenced_authorities (co_canonical co)"
    using a(2) g unfolding c same_authority_def by (simp_all add: committed_state_def)
  show "keyed (co_canonical co')" if "keyed (co_canonical co)"
    using a(3) that unfolding c committed_kept keeps_keys_def by (rule mp)
  show "retired_listed (co_canonical co')" if "retired_listed (co_canonical co)"
    using a(4) that unfolding c committed_kept keeps_retired_listed_def by (rule mp)
qed

end
