(* ===== verification/Fence_Laws.thy ===== *)
theory Fence_Laws
  imports Commit_Safety
begin

text \<open>
  What fencing a process incarnation guarantees (\<^verbatim>\<open>apply_fence\<close> in src/src/coordinator_engine.cpp). The
  call does not run the invariant check, so \<open>fenced_state_ok\<close> proves that it keeps the invariants by
  itself; \<open>fence_cases\<close> splits a call into its two ends, nothing changed or fenced.
\<close>

text \<open>The records under the boot, changed, and the fence added when there was none.\<close>

definition fence_records :: "boot_id \<Rightarrow> string \<Rightarrow> cluster_state \<Rightarrow> cluster_state" where
  "fence_records boot reason s = s
     \<lparr>cs_racks := om_map (\<lambda>_ r. if rack_under boot r then fenced_record reason r else r) (cs_racks s),
      cs_links := om_map (\<lambda>_ l. if link_under boot l then fenced_link l else l) (cs_links s)\<rparr>"

definition fence_added :: "timestamp \<Rightarrow> boot_id \<Rightarrow> string \<Rightarrow> cluster_state \<Rightarrow> cluster_state" where
  "fence_added fenced_at boot reason s =
     (if is_boot_fenced s boot then s
      else s\<lparr>cs_fenced_authorities :=
             sort_key fa_boot (cs_fenced_authorities s @ [new_fence s boot reason fenced_at])\<rparr>)"

definition owns_records :: "cluster_state \<Rightarrow> boot_id \<Rightarrow> bool" where
  "owns_records s boot \<longleftrightarrow>
     (\<exists>k r. om_find (cs_racks s) k = Some r \<and> rack_under boot r)
     \<or> (\<exists>k l. om_find (cs_links s) k = Some l \<and> link_under boot l)"

lemma fence_loops:
  "ax_state (update_links (link_under boot) fenced_link
     (update_racks (rack_under boot) (fenced_record reason) \<lparr>ax_state = s, ax_journal = [], ax_changed = c\<rparr>))
   = fence_records boot reason s"
  by (simp add: update_links_def update_racks_def fence_records_def)

lemma fence_loops_undone:
  "rollback (ax_journal (update_links (link_under boot) fenced_link
     (update_racks (rack_under boot) (fenced_record reason) \<lparr>ax_state = s, ax_journal = [], ax_changed = c\<rparr>)))
     (fence_records boot reason s) = s"
proof -
  let ?t = "s\<lparr>cs_racks := om_map (\<lambda>_ r. if rack_under boot r then fenced_record reason r else r) (cs_racks s)\<rparr>"
  have "rollback (record_entries UndoRack (filter (\<lambda>(k, r). rack_under boot r) (om_entries (cs_racks s))) []) ?t
      = rollback [] s"
    by (rule rack_slot.loop_undone) auto
  moreover have "rollback (record_entries UndoLink (filter (\<lambda>(k, l). link_under boot l) (om_entries (cs_links ?t))) j)
      (?t\<lparr>cs_links := om_map (\<lambda>_ l. if link_under boot l then fenced_link l else l) (cs_links ?t)\<rparr>)
      = rollback j ?t" for j
    by (rule link_slot.loop_undone) auto
  ultimately show ?thesis by (simp add: update_links_def update_racks_def fence_records_def)
qed

lemma restore_fence_scalars:
  "restore_scalars (capture_scalars s) (s\<lparr>cs_lifecycle := l, cs_generation := g\<rparr>) = s"
  "restore_scalars (capture_scalars s) (s\<lparr>cs_lifecycle := l\<rparr>) = s"
  "restore_scalars (capture_scalars s)
     (s\<lparr>cs_lifecycle := l, cs_generation := g, cs_health_generation := h, cs_last_mutation_at := t\<rparr>) = s"
  "restore_scalars (capture_scalars s) (s\<lparr>cs_fenced_authorities := fs\<rparr>) = s"
  by (cases s; simp add: restore_scalars_def capture_scalars_def)+

definition fence_base :: "timestamp \<Rightarrow> boot_id \<Rightarrow> string \<Rightarrow> cluster_state \<Rightarrow> cluster_state" where
  "fence_base fenced_at boot reason s = fence_added fenced_at boot reason (fence_records boot reason s)"

lemma fence_cases:
  obtains
    (kept) "co_canonical (apply_fence store fenced_at now boot reason co) = co_canonical co"
      "cache_of (apply_fence store fenced_at now boot reason co) = cache_of co"
  | (fenced) g h where "owns_records (co_canonical co) boot"
      "counter_next (cs_generation (co_canonical co)) = Some g"
      "counter_next (cs_health_generation (co_canonical co)) = Some h"
      "co_canonical (apply_fence store fenced_at now boot reason co)
         = (committed_state (fence_base fenced_at boot reason (co_canonical co)) g now)\<lparr>cs_health_generation := h\<rparr>"
      "\<not> co_indexes_valid (apply_fence store fenced_at now boot reason co)"
proof -
  let ?s = "co_canonical co"
  let ?changed = "list_ex (rack_under boot) (om_values (cs_racks ?s)) \<or> list_ex (link_under boot) (om_values (cs_links ?s))"
  define ctx0 where "ctx0 = update_links (link_under boot) fenced_link
     (update_racks (rack_under boot) (fenced_record reason) \<lparr>ax_state = ?s, ax_journal = [], ax_changed = ?changed\<rparr>)"
  define ctx1 where "ctx1 = (if ?changed \<and> \<not> is_boot_fenced (ax_state ctx0) boot
     then upd_state (\<lambda>s. s\<lparr>cs_fenced_authorities :=
            sort_key fa_boot (cs_fenced_authorities s @ [new_fence s boot reason fenced_at])\<rparr>) (journal_scalars ctx0)
     else ctx0)"
  have s0: "ax_state ctx0 = fence_records boot reason ?s"
    unfolding ctx0_def by (rule fence_loops)
  have r0: "rollback (ax_journal ctx0) (fence_records boot reason ?s) = ?s"
    unfolding ctx0_def by (rule fence_loops_undone)
  have owns: "?changed \<longleftrightarrow> owns_records ?s boot" by (simp add: owns_records_def om_values_ex)
  have s1: "ax_state ctx1 = fence_base fenced_at boot reason ?s" if "?changed"
    using that by (simp add: ctx1_def s0 fence_base_def fence_added_def upd_state_def)
  have r1: "rollback (ax_journal ctx1) (ax_state ctx1) = ?s"
    by (simp add: ctx1_def s0 r0 upd_state_def journal_scalars_def record_scalars_def restore_fence_scalars)
  have f: "cs_generation (fence_base fenced_at boot reason ?s) = cs_generation ?s"
    "cs_health_generation (fence_base fenced_at boot reason ?s) = cs_health_generation ?s"
    by (simp_all add: fence_base_def fence_added_def fence_records_def)
  note apply_def = apply_fence_def [of store fenced_at now boot reason co, unfolded Let_def,
      folded ctx0_def, folded ctx1_def]
  show ?thesis
  proof (cases "?changed")
    case False
    have "ctx1 = ctx0" using False by (simp add: ctx1_def)
    with False r1 have "apply_fence store fenced_at now boot reason co = co\<lparr>co_canonical := ?s\<rparr>"
      unfolding apply_def by simp
    then show ?thesis by (intro kept) (simp_all add: cache_of_def)
  next
    case True
    note r = r1 [unfolded s1 [OF True]]
    show ?thesis
    proof (cases "co_canonical (apply_fence store fenced_at now boot reason co) = ?s
        \<and> cache_of (apply_fence store fenced_at now boot reason co) = cache_of co")
      case True
      then show ?thesis by (intro kept) simp_all
    next
      case False
      then obtain g h where "counter_next (cs_generation ?s) = Some g" "counter_next (cs_health_generation ?s) = Some h"
        "co_canonical (apply_fence store fenced_at now boot reason co)
         = (committed_state (fence_base fenced_at boot reason ?s) g now)\<lparr>cs_health_generation := h\<rparr>"
        "\<not> co_indexes_valid (apply_fence store fenced_at now boot reason co)"
        unfolding apply_def using True
        by (auto simp: s1 [OF True] f r journal_scalars_def record_scalars_def upd_state_def restore_fence_scalars
            cache_of_def touch_state_def committed_state_def split: option.splits prod.splits if_splits)
      then show ?thesis using True owns by (intro fenced) simp_all
    qed
  qed
qed

subsection \<open>Fencing keeps the invariants\<close>

lemma fenced_record_fields [simp]:
  "rr_membership (fenced_record reason r) = rr_membership r"
  "rr_membership_generation (fenced_record reason r) = rr_membership_generation r"
  "rr_authoritative_current (fenced_record reason r) = False"
  "rf_rack (rr_reference (fenced_record reason r)) = rf_rack (rr_reference r)"
  "rf_boot (rr_reference (fenced_record reason r)) = rf_boot (rr_reference r)"
  "rf_generation (rr_reference (fenced_record reason r)) = rf_generation (rr_reference r)"
  "rf_endpoints (rr_reference (fenced_record reason r)) = rf_endpoints (rr_reference r)"
  "rf_failure_domain_hints (rr_reference (fenced_record reason r)) = rf_failure_domain_hints (rr_reference r)"
  "rf_currentness (rr_reference (fenced_record reason r)) = RC_RevalidationRequired"
  by (simp_all add: fenced_record_def)

lemma fenced_link_fields [simp]:
  "lk_id (fenced_link l) = lk_id l" "lk_source (fenced_link l) = lk_source l"
  "lk_destination (fenced_link l) = lk_destination l" "lk_direction (fenced_link l) = lk_direction l"
  "lk_topology_epoch (fenced_link l) = lk_topology_epoch l"
  "lk_topology_generation (fenced_link l) = lk_topology_generation l"
  "lk_failure_domains (fenced_link l) = lk_failure_domains l" "lk_boot (fenced_link l) = lk_boot l"
  "lk_reachability (fenced_link l) = RB_Unknown" "lk_health (fenced_link l) = HS_Unknown"
  "requires_revalidation (lk_evidence (fenced_link l))"
  by (simp_all add: fenced_link_def lk_evidence_def lk_set_evidence_def requires_revalidation_def
      mark_revalidation_required_def)

lemma fence_base_fields:
  "cs_racks (fence_base t b reason s) = om_map (\<lambda>_ r. if rack_under b r then fenced_record reason r else r) (cs_racks s)"
  "cs_links (fence_base t b reason s) = om_map (\<lambda>_ l. if link_under b l then fenced_link l else l) (cs_links s)"
  by (simp_all add: fence_base_def fence_added_def fence_records_def)

lemma fence_base_scalars:
  "\<exists>fs. fence_base t b reason s = (fence_records b reason s)\<lparr>cs_fenced_authorities := fs\<rparr>
     \<and> fa_boot ` set fs = insert b (fa_boot ` set (cs_fenced_authorities s))
     \<and> set (cs_fenced_authorities s) \<subseteq> set fs
     \<and> (sorted_wrt (\<lambda>a b. fa_boot a < fa_boot b) (cs_fenced_authorities s) \<longrightarrow>
          sorted_wrt (\<lambda>a b. fa_boot a < fa_boot b) fs)"
proof (cases "is_boot_fenced s b")
  case True
  then have "is_boot_fenced (fence_records b reason s) b" by (simp add: is_boot_fenced_def fence_records_def)
  then show ?thesis
    using True
    by (intro exI [of _ "cs_fenced_authorities s"])
      (auto simp: fence_base_def fence_added_def fence_records_def is_boot_fenced_iff)
next
  case False
  let ?u = "fence_records b reason s" and ?f = "new_fence (fence_records b reason s) b reason t"
  let ?fs = "sort_key fa_boot (cs_fenced_authorities s @ [?f])"
  have "\<not> is_boot_fenced ?u b" using False by (simp add: is_boot_fenced_def fence_records_def)
  then have "fence_base t b reason s = ?u\<lparr>cs_fenced_authorities := ?fs\<rparr>"
    by (simp add: fence_base_def fence_added_def) (simp add: fence_records_def)
  moreover have "sorted_wrt (\<lambda>a b. fa_boot a < fa_boot b) ?fs"
    if "sorted_wrt (\<lambda>a b. fa_boot a < fa_boot b) (cs_fenced_authorities s)"
  proof (rule sort_key_strict)
    have "sorted_wrt (<) (map fa_boot (cs_fenced_authorities s))" using that by (simp add: sorted_wrt_map)
    then show "distinct (map fa_boot (cs_fenced_authorities s @ [?f]))"
      using False by (auto simp: strict_sorted_iff is_boot_fenced_iff new_fence_def)
  qed
  ultimately show ?thesis by (intro exI [of _ ?fs]) (auto simp: new_fence_def)
qed

lemma fence_base_boots: "is_boot_fenced (fence_base t b reason s) c \<longleftrightarrow> c = b \<or> is_boot_fenced s c"
  using fence_base_scalars [of t b reason s] by (auto simp: is_boot_fenced_iff)

lemma fence_base_member: "is_rack_member (fence_base t b reason s) k \<longleftrightarrow> is_rack_member s k"
  by (auto simp: is_rack_member_def fence_base_fields split: option.splits)

lemma fence_base_retired: "is_rack_retired (fence_base t b reason s) k \<longleftrightarrow> is_rack_retired s k"
  by (simp add: is_rack_retired_def fence_base_def fence_added_def fence_records_def)

lemma fence_base_rack_ok:
  assumes "rack_ok s k r"
  shows "rack_ok (fence_base t b reason s) k (if rack_under b r then fenced_record reason r else r)"
proof -
  have "cs_membership_generation (fence_base t b reason s) = cs_membership_generation s"
    by (simp add: fence_base_def fence_added_def fence_records_def)
  then show ?thesis
    using assms by (auto simp: rack_ok_def fence_base_boots fence_base_retired rack_under_def)
qed

lemma fence_base_link_ok:
  assumes "link_ok s k l"
  shows "link_ok (fence_base t b reason s) k (if link_under b l then fenced_link l else l)"
proof -
  have "cs_topology_epoch (fence_base t b reason s) = cs_topology_epoch s"
    "cs_topology_generation (fence_base t b reason s) = cs_topology_generation s"
    "cs_failure_domains (fence_base t b reason s) = cs_failure_domains s"
    by (simp_all add: fence_base_def fence_added_def fence_records_def)
  then show ?thesis
    using assms by (auto simp: link_ok_def fence_base_member)
qed

lemma fence_base_withdrawn: "withdrawn_ok s \<Longrightarrow> withdrawn_ok (fence_base t b reason s)"
proof -
  have "(\<exists>r. om_find (cs_racks (fence_base t b reason s)) k = Some r \<and> rr_membership r = RM_Withdrawn)
      \<longleftrightarrow> (\<exists>r. om_find (cs_racks s) k = Some r \<and> rr_membership r = RM_Withdrawn)" for k
    by (cases "om_find (cs_racks s) k") (simp_all add: fence_base_fields)
  moreover have "cs_withdrawn_racks (fence_base t b reason s) = cs_withdrawn_racks s"
    by (simp add: fence_base_def fence_added_def fence_records_def)
  ultimately show "withdrawn_ok s \<Longrightarrow> ?thesis" by (simp add: withdrawn_ok_def)
qed

lemma fence_base_ok:
  assumes "state_ok s"
  shows "state_ok ((fence_base t b reason s)\<lparr>cs_lifecycle := CL_Declared\<rparr>)"
proof -
  let ?f = "fence_base t b reason s" and ?t = "(fence_base t b reason s)\<lparr>cs_lifecycle := CL_Declared\<rparr>"
  note ok = assms [unfolded state_ok_def]
  obtain fs where f: "?f = (fence_records b reason s)\<lparr>cs_fenced_authorities := fs\<rparr>"
    and sorted: "sorted_wrt (\<lambda>a b. fa_boot a < fa_boot b) fs"
    using fence_base_scalars [of t b reason s] ok by auto
  have lift: "rack_ok ?t k r = rack_ok ?f k r" "link_ok ?t j l = link_ok ?f j l"
    "is_rack_member ?t k = is_rack_member s k" for k r j l
    using fence_base_member [of t b reason s k]
    by (simp_all add: rack_ok_def link_ok_def is_rack_member_def is_boot_fenced_def is_rack_retired_def)
  have counters: "counters_ok ?t" "counts_ok ?t"
    using ok by (simp_all add: f counters_ok_def counts_ok_def fence_records_def)
  have racks: "\<forall>k r. om_find (cs_racks ?t) k = Some r \<longrightarrow> rack_ok ?t k r"
  proof (intro allI impI)
    fix k r assume "om_find (cs_racks ?t) k = Some r"
    then obtain r0 where "om_find (cs_racks s) k = Some r0"
      "r = (if rack_under b r0 then fenced_record reason r0 else r0)" by (auto simp: fence_base_fields)
    then show "rack_ok ?t k r" unfolding lift using ok fence_base_rack_ok by blast
  qed
  have links: "\<forall>k l. om_find (cs_links ?t) k = Some l \<longrightarrow> link_ok ?t k l"
  proof (intro allI impI)
    fix k l assume "om_find (cs_links ?t) k = Some l"
    then obtain l0 where "om_find (cs_links s) k = Some l0"
      "l = (if link_under b l0 then fenced_link l0 else l0)" by (auto simp: fence_base_fields)
    then show "link_ok ?t k l" unfolding lift using ok fence_base_link_ok by blast
  qed
  have domains: "all_domains_ok ?t" "all_generations_ok ?t"
    "\<forall>k c. om_find (cs_constraints ?t) k = Some c \<longrightarrow> (\<forall>rack \<in> set (cn_racks c). is_rack_member ?t rack)"
    using ok unfolding all_domains_ok_def all_generations_ok_def domains_ok_def lift
    by (simp_all add: f fence_records_def)
  have withdrawn: "withdrawn_ok ?t"
    using fence_base_withdrawn [of s t b reason] ok by (simp add: withdrawn_ok_def)
  have rest: "sorted_wrt (\<lambda>a b. fa_boot a < fa_boot b) (cs_fenced_authorities ?t)"
    "sorted_wrt (\<lambda>a b. ri_rack a < ri_rack b) (cs_retired_racks ?t)" "lifecycle_ok ?t"
    "cvalue (cs_snapshot_generation ?t) \<le> cvalue (cs_publication_generation ?t)"
    using ok sorted by (simp_all add: f fence_records_def lifecycle_ok_def)
  show ?thesis
    unfolding state_ok_def
    by (intro conjI counters racks links domains withdrawn rest)
qed

lemma fenced_state_ok:
  assumes "state_ok s" and "counter_next (cs_generation s) = Some g"
  shows "state_ok ((committed_state (fence_base t b reason s) g now)\<lparr>cs_health_generation := h\<rparr>)"
proof -
  let ?f = "fence_base t b reason s"
  let ?e = "?f\<lparr>cs_lifecycle := re_lifecycle (evaluate_readiness ?f)\<rparr>" and ?c = "committed_state ?f g now"
  have lifecycle: "cs_lifecycle ?f = cs_lifecycle s" "cs_generation ?f = cs_generation s"
    by (simp_all add: fence_base_def fence_added_def fence_records_def)
  have "lifecycle_ok ?e"
  proof (rule evaluated_lifecycle_ok)
    assume "cs_lifecycle ?f = CL_Retired"
    then show "\<forall>k r. om_find (cs_racks ?f) k = Some r \<longrightarrow> \<not> rr_authoritative_current r"
      using assms(1) unfolding lifecycle state_ok_def lifecycle_ok_def by (auto simp: fence_base_fields)
  qed
  then have e: "state_ok ?e"
    using state_ok_evaluated [OF fence_base_ok [OF assms(1), of t b reason], of "cs_lifecycle ?e"] by simp
  have "report_ok (check_invariants ?c None)"
    using assms(2) e by (intro committed_report_ok) (simp_all add: check_invariants_ok_iff lifecycle)
  moreover have "state_ok ?c"
  proof (rule state_ok_generation [OF e])
    show "cs_generation ?e \<le> g" using counter_next_le [OF assms(2)] by (simp add: lifecycle)
    show "?c = ?e\<lparr>cs_generation := g, cs_last_mutation_at := now\<rparr>" by (simp add: committed_state_def)
    show "lifecycle_ok ?c"
      using \<open>lifecycle_ok ?e\<close> committed_lifecycle [of ?f g now] evaluate_lifecycle_Ready [of ?c]
      by (auto simp: lifecycle_ok_def committed_state_def)
  qed
  moreover have "evaluate_readiness (?c\<lparr>cs_health_generation := h\<rparr>) = evaluate_readiness ?c" if "cs_lifecycle ?c = CL_Ready"
    using that by (intro evaluate_readiness_cong) (simp_all add: readiness_view_def terminal_lifecycle_def)
  ultimately show ?thesis
    by (simp add: state_ok_def counters_ok_def counts_ok_def rack_ok_def link_ok_def all_domains_ok_def
      domains_ok_def all_generations_ok_def withdrawn_ok_def is_rack_member_def is_boot_fenced_def
      is_rack_retired_def lifecycle_ok_def)
qed

subsection \<open>The laws of a fence\<close>

lemma fence_advances:
  assumes "counter_next (cs_generation s) = Some g" and "counter_next (cs_health_generation s) = Some h"
  shows "advances s ((committed_state (fence_base t b reason s) g now)\<lparr>cs_health_generation := h\<rparr>)"
proof -
  obtain fs where f: "fence_base t b reason s = (fence_records b reason s)\<lparr>cs_fenced_authorities := fs\<rparr>"
    and "set (cs_fenced_authorities s) \<subseteq> set fs"
    using fence_base_scalars [of t b reason s] by auto
  moreover have "map_advances rack_advances (cs_racks s)
      (om_map (\<lambda>_ r. if rack_under b r then fenced_record reason r else r) (cs_racks s))"
    by (rule map_advances_map) (simp add: rack_advances_def)
  moreover have "retired_rack ((committed_state (fence_base t b reason s) g now)\<lparr>cs_health_generation := h\<rparr>) k"
    if retired: "retired_rack s k" for k
  proof -
    obtain r where r: "om_find (cs_racks s) k = Some r" "rr_membership r = RM_Retired" "is_rack_retired s k"
      using retired by (auto simp: retired_rack_def)
    let ?r = "if rack_under b r then fenced_record reason r else r"
    have "om_find (cs_racks (fence_base t b reason s)) k = Some ?r" "rr_membership ?r = RM_Retired"
      using r by (simp_all add: fence_base_fields)
    then show ?thesis
      using r(3) fence_base_retired [of t b reason s k]
      by (auto simp: retired_rack_def is_rack_retired_def committed_state_def)
  qed
  ultimately show ?thesis
    using counter_next_le [OF assms(1)] counter_next_le [OF assms(2)]
    by (simp add: advances_defs f committed_state_def fence_records_def)
qed

lemma fence_keyed: "keyed s \<Longrightarrow> keyed (fence_base t b reason s)"
  by (auto simp: keyed_def fence_base_def fence_added_def fence_records_def)

lemma fence_retired_listed: "retired_listed s \<Longrightarrow> retired_listed (fence_base t b reason s)"
  unfolding retired_listed_def fence_base_retired by (auto simp: fence_base_fields)

lemma empty_owns_nothing: "state_is_empty s \<Longrightarrow> \<not> owns_records s b"
  by (simp add: state_is_empty_def owns_records_def om_entries_Nil_iff)

lemma fence_laws:
  fixes store fenced_at now boot reason co
  defines "s \<equiv> co_canonical co" and "s' \<equiv> co_canonical (apply_fence store fenced_at now boot reason co)"
  shows "advances s s'" and "cs_id s' = cs_id s" and "cs_epoch s' = cs_epoch s"
    and "cs_coordinator_epoch s' = cs_coordinator_epoch s"
    and "keyed s \<Longrightarrow> keyed s'" and "retired_listed s \<Longrightarrow> retired_listed s'"
    and "report_ok (check_invariants s None) \<Longrightarrow> report_ok (check_invariants s' None)"
    and "re_lifecycle (evaluate_readiness s) = cs_lifecycle s \<Longrightarrow>
         re_lifecycle (evaluate_readiness s') = cs_lifecycle s'"
proof -
  have "advances s s' \<and> cs_id s' = cs_id s \<and> cs_epoch s' = cs_epoch s
      \<and> cs_coordinator_epoch s' = cs_coordinator_epoch s
      \<and> (keyed s \<longrightarrow> keyed s') \<and> (retired_listed s \<longrightarrow> retired_listed s')
      \<and> (report_ok (check_invariants s None) \<longrightarrow> report_ok (check_invariants s' None))
      \<and> (re_lifecycle (evaluate_readiness s) = cs_lifecycle s \<longrightarrow>
           re_lifecycle (evaluate_readiness s') = cs_lifecycle s')"
  proof (rule fence_cases [of store fenced_at now boot reason co])
    assume "co_canonical (apply_fence store fenced_at now boot reason co) = co_canonical co"
    then have "s' = s" by (simp add: s_def s'_def)
    then show ?thesis by simp
  next
    fix g h
    let ?b = "fence_base fenced_at boot reason s"
    let ?c = "(committed_state ?b g now)\<lparr>cs_health_generation := h\<rparr>"
    assume owns: "owns_records (co_canonical co) boot"
      and g: "counter_next (cs_generation (co_canonical co)) = Some g"
      and h: "counter_next (cs_health_generation (co_canonical co)) = Some h"
      and c: "co_canonical (apply_fence store fenced_at now boot reason co)
        = (committed_state (fence_base fenced_at boot reason (co_canonical co)) g now)\<lparr>cs_health_generation := h\<rparr>"
    have s': "s' = ?c" using c by (simp add: s_def s'_def)
    have "advances s s'" unfolding s' using g h by (intro fence_advances) (simp_all add: s_def)
    moreover have "cs_id s' = cs_id s" "cs_epoch s' = cs_epoch s" "cs_coordinator_epoch s' = cs_coordinator_epoch s"
      by (simp_all add: s' committed_state_def fence_base_def fence_added_def fence_records_def)
    moreover have "keyed s'" if "keyed s"
      using fence_keyed [OF that, of fenced_at boot reason]
      by (simp add: s' keyed_def committed_state_def)
    moreover have "retired_listed s'" if "retired_listed s"
      using fence_retired_listed [OF that, of fenced_at boot reason]
      by (simp add: s' retired_listed_def committed_state_def is_rack_retired_def)
    moreover have "report_ok (check_invariants s' None)" if "report_ok (check_invariants s None)"
      using that owns empty_owns_nothing [of s boot] g fenced_state_ok [of s g]
      by (auto simp: check_invariants_ok_iff s' s_def)
    moreover have "re_lifecycle (evaluate_readiness s') = cs_lifecycle s'"
      unfolding s' by (rule evaluate_fixpoint [of _ ?b]) (simp_all add: committed_state_def readiness_view_def)
    ultimately show ?thesis by blast
  qed
  then show "advances s s'" "cs_id s' = cs_id s" "cs_epoch s' = cs_epoch s"
    "cs_coordinator_epoch s' = cs_coordinator_epoch s"
    "keyed s \<Longrightarrow> keyed s'" "retired_listed s \<Longrightarrow> retired_listed s'"
    "report_ok (check_invariants s None) \<Longrightarrow> report_ok (check_invariants s' None)"
    "re_lifecycle (evaluate_readiness s) = cs_lifecycle s \<Longrightarrow>
         re_lifecycle (evaluate_readiness s') = cs_lifecycle s'"
    by blast+
qed

lemma fence_effect:
  assumes "co_canonical (apply_fence store fenced_at now boot reason co) \<noteq> co_canonical co"
  defines "s' \<equiv> co_canonical (apply_fence store fenced_at now boot reason co)"
  shows "is_boot_fenced s' boot"
    and "om_find (cs_racks s') k = Some r \<Longrightarrow> rf_boot (rr_reference r) = boot \<Longrightarrow> \<not> rr_authoritative_current r"
    and "om_find (cs_links s') lk = Some l \<Longrightarrow> lk_boot l = Some boot \<Longrightarrow>
         lk_reachability l = RB_Unknown \<and> lk_health l = HS_Unknown \<and> requires_revalidation (lk_evidence l)"
proof -
  obtain g h where s': "s' = (committed_state (fence_base fenced_at boot reason (co_canonical co)) g now)\<lparr>cs_health_generation := h\<rparr>"
    by (rule fence_cases [of store fenced_at now boot reason co])
      (use assms(1) in \<open>simp_all add: s'_def\<close>)
  have fields: "cs_fenced_authorities s' = cs_fenced_authorities (fence_base fenced_at boot reason (co_canonical co))"
    "cs_racks s' = cs_racks (fence_base fenced_at boot reason (co_canonical co))"
    "cs_links s' = cs_links (fence_base fenced_at boot reason (co_canonical co))"
    unfolding s' by (simp_all add: committed_state_def)
  show "is_boot_fenced s' boot"
    using fence_base_boots [of fenced_at boot reason "co_canonical co" boot]
    unfolding is_boot_fenced_def fields by simp
  show "\<not> rr_authoritative_current r" if r: "om_find (cs_racks s') k = Some r" "rf_boot (rr_reference r) = boot"
  proof -
    obtain r0 where r0: "r = (if rack_under boot r0 then fenced_record reason r0 else r0)"
      using r(1) unfolding fields fence_base_fields om_find_map by blast
    then have "rack_under boot r0" using r(2) by (cases "rack_under boot r0") (simp_all add: rack_under_def)
    with r0 show ?thesis by simp
  qed
  show "lk_reachability l = RB_Unknown \<and> lk_health l = HS_Unknown \<and> requires_revalidation (lk_evidence l)"
    if l: "om_find (cs_links s') lk = Some l" "lk_boot l = Some boot"
  proof -
    obtain l0 where l0: "l = (if link_under boot l0 then fenced_link l0 else l0)"
      using l(1) unfolding fields fence_base_fields om_find_map by blast
    then have "link_under boot l0" using l(2) by (cases "link_under boot l0") (simp_all add: link_under_def)
    with l0 show ?thesis by simp
  qed
qed

end
