(* ===== verification/Coordinator.thy ===== *)
theory Coordinator
  imports Fence_Laws
begin

text \<open>
  The coordinator around the commit path (src/src/coordinator.cpp, src/src/coordinator_engine.cpp,
  src/src/coordinator_network.cpp, src/src/detail/coordinator_impl.hpp): construction, loading the
  durable state at start, the request queue and its commit thread, fencing, detaching a session, and
  stopping. A \<open>service\<close> is the coordinator with its queue; each operation below is one critical section
  of the code; \<open>Reachability\<close> interleaves them. Sockets, threads and locks are not modelled, what a
  thread does between two critical sections is.

  A request slot is a number; its result, once \<^verbatim>\<open>done\<close> is set, is an entry of \<open>sv_answers\<close>.
\<close>

definition kMaxPendingRequests :: nat where "kMaxPendingRequests = 4096"

datatype queue_item = QMutation mutation_request nat | QFence boot_id string | QStop

record service =
  sv_coordinator :: coordinator
  sv_recovery :: recovery_report
  sv_queue :: "queue_item list"
  sv_stopping :: bool
  sv_running :: bool
  sv_commit_thread :: bool
  sv_answers :: "(nat, mutation_result) omap"
  sv_next_slot :: nat

record load_outcome =
  lo_status :: persistence_status
  lo_state :: "persisted_state option"

definition load_ok :: "load_outcome \<Rightarrow> bool" where
  "load_ok lo \<longleftrightarrow> lo_status lo = PS_Ok \<and> lo_state lo \<noteq> None"

subsection \<open>Construction and start\<close>

definition new_coordinator :: "coordinator_config \<Rightarrow> coordinator" where
  "new_coordinator config =
     \<lparr>co_config = config,
      co_canonical = empty_state
        \<lparr>cs_id := cc_cluster config,
         cs_readiness_contract := cc_readiness_contract config,
         cs_coordinator_epoch := StrongCounter 1\<rparr>,
      co_indexes = rebuild empty_state, co_indexes_valid = False, co_state_version = 0,
      co_indexes_version = 0, co_mutations_accepted = 0, co_mutations_no_change = 0,
      co_mutations_rejected = 0, co_commits = 0, co_persistence_saves = 0,
      co_persistence_failures = 0, co_fence_events = 0, co_stale_replays_rejected = 0\<rparr>"

definition next_coordinator_epoch :: "coordinator_epoch \<Rightarrow> coordinator_epoch" where
  "next_coordinator_epoch previous =
     (let next = (if counter_known previous
                  then (case counter_next previous of Some e \<Rightarrow> e | None \<Rightarrow> previous)
                  else StrongCounter 1)
      in if counter_known next then next else StrongCounter 1)"

text \<open>The store's answer is an argument, \<open>None\<close> for the null pointer.\<close>

definition load_durable_state ::
  "load_outcome option \<Rightarrow> timestamp \<Rightarrow> coordinator \<Rightarrow> coordinator \<times> recovery_report" where
  "load_durable_state load started co =
     (let recovery = default_report\<lparr>rp_attempted := (load \<noteq> None)\<rparr>;
          recovery = (case load of
              None \<Rightarrow> recovery
            | Some lo \<Rightarrow> recovery\<lparr>rp_status := lo_status lo, rp_loaded := load_ok lo\<rparr>);
          persisted = (case load of
              None \<Rightarrow> None | Some lo \<Rightarrow> if load_ok lo then lo_state lo else None);
          previous = (case persisted of None \<Rightarrow> StrongCounter 1 | Some p \<Rightarrow> ps_last_coordinator_epoch p);
          next = next_coordinator_epoch previous;
          (canonical, recovery) = (case persisted of
              Some p \<Rightarrow>
                (let (s, report) = from_persisted_state p next started
                       (recovery
                          \<lparr>rp_previous_coordinator_epoch := previous,
                           rp_current_coordinator_epoch := next,
                           rp_coordinator_epoch_advanced := (next \<noteq> previous)\<rparr>)
                 in (s\<lparr>cs_coordinator_epoch := next,
                       cs_readiness_contract := ps_readiness_contract p\<rparr>, report))
            | None \<Rightarrow>
                (empty_state
                   \<lparr>cs_id := cc_cluster (co_config co),
                    cs_readiness_contract := cc_readiness_contract (co_config co),
                    cs_coordinator_epoch := next\<rparr>,
                 recovery\<lparr>rp_current_coordinator_epoch := next\<rparr>));
          recovery = (if rp_loaded recovery then recovery
                      else recovery\<lparr>rp_revalidation_required := False\<rparr>)
      in (co\<lparr>co_canonical := canonical, co_indexes_valid := False,
             co_state_version := co_state_version co + 1\<rparr>,
          recovery))"

definition new_service :: "coordinator_config \<Rightarrow> service" where
  "new_service config =
     \<lparr>sv_coordinator = new_coordinator config, sv_recovery = default_report, sv_queue = [],
      sv_stopping = False, sv_running = False, sv_commit_thread = False, sv_answers = om_empty,
      sv_next_slot = 0\<rparr>"

text \<open>\<^verbatim>\<open>start\<close> up to the opening of the listener, whose outcome decides between the two ends below.\<close>

definition start_begin :: "load_outcome option \<Rightarrow> timestamp \<Rightarrow> service \<Rightarrow> service" where
  "start_begin load started sv =
     (let (co, recovery) = load_durable_state load started (sv_coordinator sv) in
      sv\<lparr>sv_coordinator := co, sv_recovery := recovery, sv_stopping := False,
         sv_commit_thread := True, sv_running := True\<rparr>)"

definition start_listen_failed :: "service \<Rightarrow> service" where
  "start_listen_failed sv = sv\<lparr>sv_stopping := True, sv_queue := sv_queue sv @ [QStop]\<rparr>"

subsection \<open>The request queue\<close>

text \<open>A refusal, or the slot the caller waits on.\<close>

definition submit :: "mutation_request \<Rightarrow> service \<Rightarrow> (mutation_result + nat) \<times> service" where
  "submit q sv =
     (let subject = id_value (mq_cluster q) in
      if \<not> sv_running sv
      then
        if sv_stopping sv
        then (Inl (rejected RR_ShuttingDown ES_Commit subject ''shutting_down''), sv)
        else (Inl (rejected RR_NotReady ES_Commit subject ''not_running''), sv)
      else if sv_stopping sv
      then (Inl (rejected RR_ShuttingDown ES_Commit subject ''shutting_down''), sv)
      else if length (sv_queue sv) \<ge> kMaxPendingRequests
      then (Inl (rejected RR_LimitExceeded ES_Commit subject ''queue_full''), sv)
      else
        let slot = sv_next_slot sv in
        (Inr slot, sv\<lparr>sv_queue := sv_queue sv @ [QMutation q slot], sv_next_slot := slot + 1\<rparr>))"

definition fence_boot :: "boot_id \<Rightarrow> string \<Rightarrow> service \<Rightarrow> bool \<times> service" where
  "fence_boot boot reason sv =
     (if sv_stopping sv then (False, sv)
      else (True, sv\<lparr>sv_queue := sv_queue sv @ [QFence boot reason]\<rparr>))"

text \<open>\<^verbatim>\<open>with_state\<close>: what the body sees, and the coordinator with its indexes rebuilt when stale.\<close>

definition with_state :: "(cluster_state \<Rightarrow> cluster_indexes \<Rightarrow> 'a) \<Rightarrow> coordinator \<Rightarrow> 'a \<times> coordinator" where
  "with_state body co =
     (let co = (if \<not> co_indexes_valid co \<or> co_indexes_version co \<noteq> co_state_version co
                then co\<lparr>co_indexes := rebuild (co_canonical co),
                        co_indexes_version := co_state_version co, co_indexes_valid := True\<rparr>
                else co)
      in (body (co_canonical co) (co_indexes co), co))"

definition owns_evidence :: "boot_id \<Rightarrow> cluster_state \<Rightarrow> cluster_indexes \<Rightarrow> bool" where
  "owns_evidence boot s ix \<longleftrightarrow>
     list_ex (rack_under boot) (om_values (cs_racks s)) \<or> list_ex (link_under boot) (om_values (cs_links s))"

text \<open>A session that is gone, with the incarnation it had announced if any. The flag is
  \<^verbatim>\<open>fence_on_disconnect\<close>.\<close>

definition detach_session :: "bool \<Rightarrow> boot_id option \<Rightarrow> service \<Rightarrow> service" where
  "detach_session fence_on_disconnect boot sv =
     (case boot of
        None \<Rightarrow> sv
      | Some b \<Rightarrow>
          let (owns, co) = with_state (owns_evidence b) (sv_coordinator sv);
              sv = sv\<lparr>sv_coordinator := co\<rparr>
          in
          if \<not> owns \<or> sv_stopping sv then sv
          else sv\<lparr>sv_queue := sv_queue sv @
                 [QFence b (if fence_on_disconnect then ''session_closed''
                            else ''session_closed_evidence_stale'')]\<rparr>)"

text \<open>
  One round of \<^verbatim>\<open>run_commit\<close>: the front item is taken and processed. No result when the thread waits.
\<close>

definition commit_round :: "store \<Rightarrow> timestamp \<Rightarrow> timestamp \<Rightarrow> service \<Rightarrow> service option" where
  "commit_round store fenced_at now sv =
     (if \<not> sv_commit_thread sv then None
      else case sv_queue sv of
        [] \<Rightarrow> if sv_stopping sv then Some (sv\<lparr>sv_commit_thread := False\<rparr>) else None
      | item # rest \<Rightarrow>
          let sv = sv\<lparr>sv_queue := rest\<rparr> in
          (case item of
             QStop \<Rightarrow> Some (sv\<lparr>sv_commit_thread := False\<rparr>)
           | QFence boot reason \<Rightarrow>
               Some (sv\<lparr>sv_coordinator := apply_fence store fenced_at now boot reason (sv_coordinator sv)\<rparr>)
           | QMutation q slot \<Rightarrow>
               (let (result, co) = apply_and_commit store now q (sv_coordinator sv) in
                Some (sv\<lparr>sv_coordinator := co, sv_answers := om_insert slot result (sv_answers sv)\<rparr>))))"

subsection \<open>Stopping\<close>

definition stop_publish :: "service \<Rightarrow> service" where
  "stop_publish sv = sv\<lparr>sv_stopping := True, sv_running := False\<rparr>"

definition stop_request :: "service \<Rightarrow> service" where
  "stop_request sv = sv\<lparr>sv_stopping := True, sv_queue := sv_queue sv @ [QStop]\<rparr>"

fun answer_pending :: "queue_item list \<Rightarrow> (nat, mutation_result) omap \<Rightarrow> (nat, mutation_result) omap" where
  "answer_pending [] m = m"
| "answer_pending (QMutation q slot # items) m =
     answer_pending items
       (om_insert slot (rejected RR_ShuttingDown ES_Commit (id_value (mq_cluster q)) ''shutting_down'') m)"
| "answer_pending (item # items) m = answer_pending items m"

text \<open>After the commit thread has been joined.\<close>

definition stop_drain :: "service \<Rightarrow> service" where
  "stop_drain sv = sv\<lparr>sv_queue := [], sv_answers := answer_pending (sv_queue sv) (sv_answers sv)\<rparr>"

end
