(* ===== verification/Reachability.thy ===== *)
theory Reachability
  imports Coordinator
begin

text \<open>
  The coordinator over time: \<open>system_step\<close> interleaves the critical sections of the service with the
  death and the restart of its process, and what the durable store holds is carried along. \<open>well_formed\<close>
  is what every reachable canonical state satisfies, checked or not: it passes the invariant check, its
  entries lie under their own keys and its retired racks are listed.
\<close>

record system =
  sy_service :: service
  sy_durable :: "persisted_state option"

abbreviation canonical_of :: "system \<Rightarrow> cluster_state" where
  "canonical_of sy \<equiv> co_canonical (sv_coordinator (sy_service sy))"

text \<open>A save that succeeded is counted, and what it stored is the durable form of the canonical state.\<close>

definition durable_after :: "coordinator \<Rightarrow> coordinator \<Rightarrow> persisted_state option \<Rightarrow> persisted_state option" where
  "durable_after co co' durable =
     (if co_persistence_saves co' = co_persistence_saves co then durable
      else Some (to_persisted_state (co_canonical co')))"

text \<open>A store that can be read answers what it holds; it may also refuse to answer.\<close>

definition load_consistent :: "load_outcome option \<Rightarrow> persisted_state option \<Rightarrow> bool" where
  "load_consistent load durable \<longleftrightarrow>
     (case load of None \<Rightarrow> True | Some lo \<Rightarrow> load_ok lo \<longrightarrow> lo_state lo = durable)"

inductive system_step :: "coordinator_config \<Rightarrow> system \<Rightarrow> system \<Rightarrow> bool" for config where
  Submit: "submit q sv = (answer, sv') \<Longrightarrow>
    system_step config \<lparr>sy_service = sv, sy_durable = d\<rparr> \<lparr>sy_service = sv', sy_durable = d\<rparr>"
| Fence: "fence_boot boot reason sv = (queued, sv') \<Longrightarrow>
    system_step config \<lparr>sy_service = sv, sy_durable = d\<rparr> \<lparr>sy_service = sv', sy_durable = d\<rparr>"
| Detach: "system_step config \<lparr>sy_service = sv, sy_durable = d\<rparr>
    \<lparr>sy_service = detach_session fence_on_disconnect session_boot sv, sy_durable = d\<rparr>"
| Query: "system_step config \<lparr>sy_service = sv, sy_durable = d\<rparr>
    \<lparr>sy_service = sv\<lparr>sv_coordinator := snd (with_state (\<lambda>s ix. ()) (sv_coordinator sv))\<rparr>, sy_durable = d\<rparr>"
| Commit: "commit_round store fenced_at now sv = Some sv' \<Longrightarrow>
    system_step config \<lparr>sy_service = sv, sy_durable = d\<rparr>
      \<lparr>sy_service = sv', sy_durable = durable_after (sv_coordinator sv) (sv_coordinator sv') d\<rparr>"
| Start: "\<not> sv_commit_thread sv \<Longrightarrow> load_consistent load d \<Longrightarrow>
    system_step config \<lparr>sy_service = sv, sy_durable = d\<rparr>
      \<lparr>sy_service = start_begin load started sv, sy_durable = d\<rparr>"
| Listen_failed: "sv_commit_thread sv \<Longrightarrow>
    system_step config \<lparr>sy_service = sv, sy_durable = d\<rparr>
      \<lparr>sy_service = start_listen_failed sv, sy_durable = d\<rparr>"
| Stop_publish: "system_step config \<lparr>sy_service = sv, sy_durable = d\<rparr>
    \<lparr>sy_service = stop_publish sv, sy_durable = d\<rparr>"
| Stop_request: "sv_stopping sv \<Longrightarrow> system_step config \<lparr>sy_service = sv, sy_durable = d\<rparr>
    \<lparr>sy_service = stop_request sv, sy_durable = d\<rparr>"
| Stop_drain: "sv_stopping sv \<Longrightarrow> \<not> sv_commit_thread sv \<Longrightarrow>
    system_step config \<lparr>sy_service = sv, sy_durable = d\<rparr>
      \<lparr>sy_service = stop_drain sv, sy_durable = d\<rparr>"
| Process_restart: "system_step config \<lparr>sy_service = sv, sy_durable = d\<rparr>
    \<lparr>sy_service = new_service config, sy_durable = d\<rparr>"

definition initial_system :: "coordinator_config \<Rightarrow> system" where
  "initial_system config = \<lparr>sy_service = new_service config, sy_durable = None\<rparr>"

definition reachable :: "coordinator_config \<Rightarrow> system \<Rightarrow> bool" where
  "reachable config sy \<longleftrightarrow> (system_step config)\<^sup>*\<^sup>* (initial_system config) sy"

subsection \<open>Well-formed states\<close>

definition well_formed :: "cluster_state \<Rightarrow> bool" where
  "well_formed s \<longleftrightarrow>
     keyed s \<and> retired_listed s \<and> report_ok (check_invariants s None)
     \<and> (counter_known (cs_epoch s) \<longrightarrow> re_lifecycle (evaluate_readiness s) = cs_lifecycle s)"

lemma empty_maps:
  "keyed s \<and> retired_listed s \<and> report_ok (check_invariants s None)"
  if "s = empty_state\<lparr>cs_id := i, cs_readiness_contract := c, cs_coordinator_epoch := e\<rparr>"
  unfolding that
  by (simp add: keyed_def retired_listed_def check_invariants_ok_iff state_is_empty_def empty_state_def)

lemma fresh_well_formed:
  "well_formed (empty_state\<lparr>cs_id := i, cs_readiness_contract := c, cs_coordinator_epoch := e\<rparr>)"
  using empty_maps [OF refl]
  by (simp add: well_formed_def empty_state_def counter_known_def counter_zero_def)

lemma undeclared_empty:
  "well_formed s \<Longrightarrow> \<not> counter_known (cs_epoch s) \<Longrightarrow> state_is_empty s"
  by (auto simp: well_formed_def check_invariants_ok_iff state_ok_def counters_ok_def)

lemma empty_well_formed:
  "state_is_empty s \<Longrightarrow> \<not> counter_known (cs_epoch s) \<Longrightarrow> well_formed s"
  by (simp add: well_formed_def check_invariants_ok_iff keyed_def retired_listed_def state_is_empty_def
      om_entries_Nil_iff)

lemma declared_maps:
  "keyed (declared_state now q s) = keyed s" "retired_listed (declared_state now q s) = retired_listed s"
  by (simp_all add: keyed_def retired_listed_def declared_state_def is_rack_retired_def Let_def)

lemma commit_well_formed:
  assumes "well_formed (co_canonical co)" and c: "apply_and_commit store now q co = (r, co')"
  shows "well_formed (co_canonical co')"
proof (cases "mr_outcome r = MO_Accepted")
  case False
  show ?thesis
  proof (cases "declares q (co_canonical co)")
    case True
    then have u: "\<not> counter_known (cs_epoch (co_canonical co))" by (simp add: declares_def)
    obtain i where "co_canonical co' = (co_canonical co)\<lparr>cs_id := i\<rparr>"
      using refused_commit(2) [OF c False] by blast
    then show ?thesis
      using undeclared_empty [OF assms(1) u] u by (intro empty_well_formed) (simp_all add: state_is_empty_def)
  next
    case d: False
    then show ?thesis using refused_commit(1) [OF c False d] assms(1) by simp
  qed
next
  case True
  have ok: "report_ok (check_invariants (co_canonical co') None)"
    "re_lifecycle (evaluate_readiness (co_canonical co')) = cs_lifecycle (co_canonical co')"
    using accepted_commit_ok [OF c True] by simp_all
  have "keyed (co_canonical co') \<and> retired_listed (co_canonical co')"
  proof (cases "declares q (co_canonical co)")
    case d: True
    obtain ctx g where ctx: "snd (apply_request (co_config co) now q (start_context co)) = ctx" "ax_changed ctx"
      and c': "co_canonical co' = committed_state (ax_state ctx) g now"
      by (rule commit_cases [OF c]) (use True in simp_all)
    have "ax_state ctx = declared_state now q (co_canonical co)"
      using ctx d
      by (auto simp: apply_request_def Let_def apply_kind_def declares_def apply_declare_cluster_def upd_state_def
          split: if_splits)
    then show ?thesis
      using assms(1) unfolding c' committed_kept by (simp add: declared_maps well_formed_def)
  next
    case d: False
    show ?thesis
      using accepted_commit_advances(7,8) [OF c True d] assms(1) by (simp add: well_formed_def)
  qed
  then show ?thesis using ok by (simp add: well_formed_def)
qed

lemma fence_well_formed:
  assumes "well_formed (co_canonical co)"
  shows "well_formed (co_canonical (apply_fence store fenced_at now boot reason co))"
  using assms fence_laws [where store = store and co = co and fenced_at = fenced_at and now = now and boot = boot and reason = reason]
  unfolding well_formed_def by auto

subsection \<open>Restart\<close>

lemma next_epoch_known [simp]: "counter_known (next_coordinator_epoch e)"
  by (auto simp: next_coordinator_epoch_def Let_def counter_known_def)

lemma recovered_copied:
  "cs_coordinator_epoch (fst (from_persisted_state p e now report)) = e"
  "cs_readiness_contract (fst (from_persisted_state p e now report)) = ps_readiness_contract p"
proof -
  obtain t report' where loop: "foldl (recover_durable_rack p e now) (recovered_scalars p e, report) (ps_racks p)
      = (t, report')" by fastforce
  have "cs_coordinator_epoch t = e \<and> cs_readiness_contract t = ps_readiness_contract p"
    using recover_loop [of p e now "recovered_scalars p e" report "ps_racks p"] unfolding loop
    by (simp add: recovered_scalars_def)
  then show "cs_coordinator_epoch (fst (from_persisted_state p e now report)) = e"
    "cs_readiness_contract (fst (from_persisted_state p e now report)) = ps_readiness_contract p"
    by (simp_all add: from_persisted_state_def loop Let_def)
qed

lemma loaded_canonical:
  "co_canonical (fst (load_durable_state load started co)) =
     (case load of
        Some lo \<Rightarrow>
          (case (if load_ok lo then lo_state lo else None) of
             Some p \<Rightarrow>
               fst (from_persisted_state p (next_coordinator_epoch (ps_last_coordinator_epoch p)) started default_report)
           | None \<Rightarrow> empty_state
               \<lparr>cs_id := cc_cluster (co_config co),
                cs_readiness_contract := cc_readiness_contract (co_config co),
                cs_coordinator_epoch := StrongCounter 2\<rparr>)
      | None \<Rightarrow> empty_state
          \<lparr>cs_id := cc_cluster (co_config co),
           cs_readiness_contract := cc_readiness_contract (co_config co),
           cs_coordinator_epoch := StrongCounter 2\<rparr>)"
proof -
  have two: "next_coordinator_epoch (StrongCounter 1) = StrongCounter 2"
    by code_simp
  have report: "fst (from_persisted_state p e now report) = fst (from_persisted_state p e now default_report)" for p e now report
  proof -
    have "fst (foldl (recover_durable_rack p e now) (s, report) ds) = fst (foldl (recover_durable_rack p e now) (s, default_report) ds)" for s ds
      by (simp add: recover_loop)
    then show ?thesis by (simp add: from_persisted_state_def Let_def split: prod.splits) (metis fst_conv)
  qed
  have same: "s\<lparr>cs_coordinator_epoch := e, cs_readiness_contract := c\<rparr> = s"
    if "cs_coordinator_epoch s = e" "cs_readiness_contract s = c" for s :: cluster_state and e c
    using that by (cases s) simp
  show ?thesis
    by (auto simp: load_durable_state_def Let_def two load_ok_def split: option.splits prod.splits)
      (metis fst_conv recovered_copied report same)+
qed

lemma recovered_empty:
  assumes "state_is_empty s" and "keyed s"
  shows "state_is_empty (fst (from_persisted_state (to_persisted_state s) e now report))"
  using assms unfolding from_persisted_projection [OF assms(2)]
  by (simp add: state_is_empty_def recovered_base_def)

lemma recovered_retired_listed:
  assumes "retired_listed s" and "keyed s"
  shows "retired_listed (fst (from_persisted_state (to_persisted_state s) e now report))"
  using assms(1) unfolding from_persisted_projection [OF assms(2)]
  by (auto simp: retired_listed_def recovered_base_def is_rack_retired_def)

lemma recovered_lifecycle:
  assumes "keyed s"
  shows "re_lifecycle (evaluate_readiness (fst (from_persisted_state (to_persisted_state s) e now report)))
     = cs_lifecycle (fst (from_persisted_state (to_persisted_state s) e now report))"
  unfolding from_persisted_projection [OF assms(1)]
  by (rule evaluate_fixpoint [of _ "recovered_base s e now"]) (simp_all add: readiness_view_def)

lemma recovered_well_formed:
  assumes "well_formed s" and "counter_known e"
  shows "well_formed (fst (from_persisted_state (to_persisted_state s) e now report))"
  using assms recovered_keyed [of s] recovered_retired_listed [of s] recovered_lifecycle [of s]
    recovered_empty [of s] recovered_state_ok [of s e]
  unfolding well_formed_def check_invariants_ok_iff by blast

subsection \<open>The indexes a query sees\<close>

definition cache_ok :: "coordinator \<Rightarrow> bool" where
  "cache_ok co \<longleftrightarrow>
     (co_indexes_valid co \<and> co_indexes_version co = co_state_version co \<longrightarrow>
        co_indexes co = rebuild (co_canonical co))"

lemma rebuild_id: "rebuild (s\<lparr>cs_id := i\<rparr>) = rebuild s"
  by (simp add: rebuild_def)

lemma commit_cache_ok:
  assumes "cache_ok co" and c: "apply_and_commit store now q co = (r, co')"
  shows "cache_ok co'"
proof (cases "mr_outcome r = MO_Accepted")
  case True
  then show ?thesis using accepted_commit_ok(3) [OF c] by (simp add: cache_ok_def)
next
  case False
  obtain i where "co_canonical co' = (co_canonical co)\<lparr>cs_id := i\<rparr>"
    using refused_commit(2) [OF c False] by blast
  then show ?thesis
    using assms(1) refused_commit(3) [OF c False] by (simp add: cache_ok_def cache_of_def rebuild_id)
qed

lemma fence_cache_ok: "cache_ok co \<Longrightarrow> cache_ok (apply_fence store fenced_at now boot reason co)"
  by (rule fence_cases [of store fenced_at now boot reason co]) (simp_all add: cache_ok_def cache_of_def)

lemma with_state_exact:
  assumes "cache_ok co"
  shows "fst (with_state body co) = body (co_canonical co) (rebuild (co_canonical co))"
    and "cache_ok (snd (with_state body co))" and "co_canonical (snd (with_state body co)) = co_canonical co"
    and "co_persistence_saves (snd (with_state body co)) = co_persistence_saves co"
    and "co_config (snd (with_state body co)) = co_config co"
  using assms by (auto simp: with_state_def cache_ok_def Let_def)

subsection \<open>The invariant of the system\<close>

definition durable_ok :: "persisted_state option \<Rightarrow> bool" where
  "durable_ok d \<longleftrightarrow> (\<forall>p. d = Some p \<longrightarrow> (\<exists>s. p = to_persisted_state s \<and> well_formed s))"

definition system_ok :: "system \<Rightarrow> bool" where
  "system_ok sy \<longleftrightarrow>
     well_formed (canonical_of sy) \<and> cache_ok (sv_coordinator (sy_service sy)) \<and> durable_ok (sy_durable sy)"

lemma durable_after_ok:
  "well_formed (co_canonical co') \<Longrightarrow> durable_ok d \<Longrightarrow> durable_ok (durable_after co co' d)"
  by (auto simp: durable_after_def durable_ok_def)

lemma loaded_well_formed:
  assumes "load_consistent load d" and "durable_ok d"
  shows "well_formed (co_canonical (fst (load_durable_state load started co)))"
proof (cases "\<exists>lo p. load = Some lo \<and> load_ok lo \<and> lo_state lo = Some p")
  case True
  then obtain lo p where l: "load = Some lo" "load_ok lo" "lo_state lo = Some p" by blast
  then have "d = Some p" using assms(1) by (simp add: load_consistent_def)
  then obtain s where "p = to_persisted_state s" "well_formed s"
    using assms(2) unfolding durable_ok_def by blast
  then show ?thesis
    using l unfolding loaded_canonical by (simp add: recovered_well_formed)
next
  case False
  then show ?thesis
    unfolding loaded_canonical by (auto simp: fresh_well_formed load_ok_def split: option.splits)
qed

lemma loaded_cache_ok: "cache_ok (fst (load_durable_state load started co))"
  by (simp add: cache_ok_def load_durable_state_def Let_def split: prod.splits)

lemma commit_round_ok:
  assumes "commit_round store fenced_at now sv = Some sv'"
    and "well_formed (co_canonical (sv_coordinator sv))" and "cache_ok (sv_coordinator sv)"
  shows "well_formed (co_canonical (sv_coordinator sv')) \<and> cache_ok (sv_coordinator sv')"
  using assms
  by (auto simp: commit_round_def Let_def fence_well_formed fence_cache_ok commit_well_formed commit_cache_ok
      split: if_splits list.splits queue_item.splits prod.splits)

lemma coordinator_kept:
  "submit q sv = (answer, sv') \<Longrightarrow> sv_coordinator sv' = sv_coordinator sv"
  "fence_boot boot reason sv = (queued, sv') \<Longrightarrow> sv_coordinator sv' = sv_coordinator sv"
  "sv_coordinator (start_listen_failed sv) = sv_coordinator sv"
  "sv_coordinator (stop_publish sv) = sv_coordinator sv"
  "sv_coordinator (stop_request sv) = sv_coordinator sv"
  "sv_coordinator (stop_drain sv) = sv_coordinator sv"
  "sv_coordinator (start_begin load started sv) = fst (load_durable_state load started (sv_coordinator sv))"
  by (auto simp: submit_def fence_boot_def start_listen_failed_def stop_publish_def stop_request_def
      stop_drain_def start_begin_def Let_def split: if_splits prod.splits)

lemma detach_coordinator:
  "sv_coordinator (detach_session flag boot sv) \<in>
     {sv_coordinator sv, snd (with_state (owns_evidence (the boot)) (sv_coordinator sv))}"
  by (auto simp: detach_session_def Let_def split: option.splits prod.splits)

lemma new_coordinator_ok:
  "well_formed (co_canonical (new_coordinator config))" "cache_ok (new_coordinator config)"
  by (simp_all add: new_coordinator_def fresh_well_formed cache_ok_def)

lemma system_step_ok: "system_step config sy sy' \<Longrightarrow> system_ok sy \<Longrightarrow> system_ok sy'"
proof (induction rule: system_step.induct)
  case (Detach sv d flag boot)
  then show ?case
    using detach_coordinator [of flag boot sv] by (auto simp: system_ok_def with_state_exact)
next
  case (Query sv d)
  then show ?case by (simp add: system_ok_def with_state_exact)
next
  case (Commit store fenced_at now sv sv' d)
  then show ?case using commit_round_ok by (auto simp: system_ok_def durable_after_ok)
next
  case (Start sv load d started)
  then show ?case by (simp add: system_ok_def coordinator_kept loaded_well_formed loaded_cache_ok)
next
  case (Process_restart sv d)
  then show ?case by (simp add: system_ok_def new_service_def new_coordinator_ok)
qed (auto simp: system_ok_def coordinator_kept)

lemma reachable_ok:
  assumes "reachable config sy"
  shows "system_ok sy"
  using assms unfolding reachable_def
proof (induction rule: rtranclp_induct)
  case base
  show ?case by (simp add: system_ok_def initial_system_def new_service_def new_coordinator_ok durable_ok_def)
qed (rule system_step_ok)

end
