(* ===== verification/Service_Laws.thy ===== *)
theory Service_Laws
  imports Reachability
begin

text \<open>
  The request queue and its commit thread. \<open>run_commit_fifo\<close> reads the loop as a fold over the queue;
  \<open>reachable_slots\<close> and \<open>request_answered\<close> show that no request is lost: its slot is in the queue or has
  its answer, and the thread or the drain after it fills it. \<open>history\<close> collects what commits, fences and
  restarts from the last save do to the canonical state over time.
\<close>

subsection \<open>The commit thread\<close>

text \<open>\<^verbatim>\<open>run_commit\<close> for a number of rounds, with the clock readings of each; it stops when the thread waits
  or has returned.\<close>

fun run_commit :: "store \<Rightarrow> (nat \<Rightarrow> timestamp \<times> timestamp) \<Rightarrow> nat \<Rightarrow> service \<Rightarrow> service" where
  "run_commit store clock 0 sv = sv"
| "run_commit store clock (Suc n) sv =
     (case commit_round store (fst (clock n)) (snd (clock n)) sv of
        None \<Rightarrow> sv
      | Some sv' \<Rightarrow> run_commit store clock n sv')"

definition process_item ::
  "store \<Rightarrow> timestamp \<times> timestamp \<Rightarrow> queue_item
     \<Rightarrow> coordinator \<times> (nat, mutation_result) omap \<Rightarrow> coordinator \<times> (nat, mutation_result) omap" where
  "process_item store t item acc =
     (case item of
        QStop \<Rightarrow> acc
      | QFence boot reason \<Rightarrow> (apply_fence store (fst t) (snd t) boot reason (fst acc), snd acc)
      | QMutation q slot \<Rightarrow>
          (let (result, co) = apply_and_commit store (snd t) q (fst acc) in
           (co, om_insert slot result (snd acc))))"

text \<open>The items in order, each with its own clock reading.\<close>

fun process_items ::
  "store \<Rightarrow> (nat \<Rightarrow> timestamp \<times> timestamp) \<Rightarrow> nat \<Rightarrow> queue_item list
     \<Rightarrow> coordinator \<times> (nat, mutation_result) omap \<Rightarrow> coordinator \<times> (nat, mutation_result) omap" where
  "process_items store clock n [] acc = acc"
| "process_items store clock n (item # items) acc =
     process_items store clock (n - 1) items (process_item store (clock (n - 1)) item acc)"

lemma commit_round_front:
  assumes "sv_commit_thread sv" and "sv_queue sv = item # rest" and "QStop \<noteq> item"
  shows "commit_round store fenced_at now sv =
     (let (co, m) = process_item store (fenced_at, now) item (sv_coordinator sv, sv_answers sv) in
      Some (sv\<lparr>sv_queue := rest, sv_coordinator := co, sv_answers := m\<rparr>))"
  using assms
  by (cases item) (simp_all add: commit_round_def process_item_def Let_def split: prod.splits)

lemma run_commit_fifo:
  assumes "sv_commit_thread sv" and "sv_queue sv = items @ rest" and "QStop \<notin> set items"
  shows "run_commit store clock (length items) sv =
     (let (co, m) = process_items store clock (length items) items (sv_coordinator sv, sv_answers sv) in
      sv\<lparr>sv_queue := rest, sv_coordinator := co, sv_answers := m\<rparr>)"
  using assms
proof (induction items arbitrary: sv)
  case (Cons item items)
  let ?n = "length items"
  obtain co m where p: "process_item store (clock ?n) item (sv_coordinator sv, sv_answers sv) = (co, m)"
    by fastforce
  let ?sv = "sv\<lparr>sv_queue := items @ rest, sv_coordinator := co, sv_answers := m\<rparr>"
  have "commit_round store (fst (clock ?n)) (snd (clock ?n)) sv = Some ?sv"
    using Cons.prems p by (simp add: commit_round_front [of sv item "items @ rest"])
  then show ?case
    using Cons.IH [of ?sv] Cons.prems p by (simp add: Let_def split: prod.splits)
qed simp

subsection \<open>No request is lost\<close>

fun item_slots :: "queue_item list \<Rightarrow> nat list" where
  "item_slots [] = []"
| "item_slots (QMutation q slot # items) = slot # item_slots items"
| "item_slots (item # items) = item_slots items"

definition answered :: "service \<Rightarrow> nat \<Rightarrow> bool" where
  "answered sv slot \<longleftrightarrow> om_find (sv_answers sv) slot \<noteq> None"

definition slots_ok :: "service \<Rightarrow> bool" where
  "slots_ok sv \<longleftrightarrow>
     distinct (item_slots (sv_queue sv))
     \<and> (\<forall>slot. slot < sv_next_slot sv \<longleftrightarrow> slot \<in> set (item_slots (sv_queue sv)) \<or> answered sv slot)
     \<and> (\<forall>slot. slot \<in> set (item_slots (sv_queue sv)) \<longrightarrow> \<not> answered sv slot)"

lemma item_slots_append [simp]: "item_slots (xs @ ys) = item_slots xs @ item_slots ys"
  by (induction xs rule: item_slots.induct) simp_all

lemma answer_pending_dom:
  "om_find (answer_pending items m) slot \<noteq> None \<longleftrightarrow>
     slot \<in> set (item_slots items) \<or> om_find m slot \<noteq> None"
  by (induction items m rule: answer_pending.induct) auto

lemma submit_slots:
  assumes "slots_ok sv" and "submit q sv = (answer, sv')"
  shows "slots_ok sv'"
proof (cases "sv' = sv")
  case False
  then have "sv' = sv\<lparr>sv_queue := sv_queue sv @ [QMutation q (sv_next_slot sv)], sv_next_slot := sv_next_slot sv + 1\<rparr>"
    using assms(2) by (auto simp: submit_def Let_def split: if_splits)
  moreover have "sv_next_slot sv \<notin> set (item_slots (sv_queue sv))" "\<not> answered sv (sv_next_slot sv)"
    using assms(1) unfolding slots_ok_def by (metis less_irrefl)+
  ultimately show ?thesis
    using assms(1) by (auto simp: slots_ok_def answered_def less_Suc_eq)
qed (use assms in simp)

lemma queue_slots_kept:
  "slots_ok sv \<Longrightarrow> item_slots items = item_slots (sv_queue sv) \<Longrightarrow> slots_ok (sv\<lparr>sv_queue := items\<rparr>)"
  by (simp add: slots_ok_def answered_def)

lemma commit_round_slots:
  assumes "slots_ok sv" and c: "commit_round store fenced_at now sv = Some sv'"
  shows "slots_ok sv'"
proof (cases "sv_queue sv")
  case Nil
  then have "sv' = sv\<lparr>sv_commit_thread := False\<rparr>"
    using c by (auto simp: commit_round_def split: if_splits)
  then show ?thesis using assms(1) by (simp add: slots_ok_def answered_def)
next
  case (Cons item rest)
  have t: "sv_commit_thread sv" using c by (auto simp: commit_round_def split: if_splits)
  show ?thesis
  proof (cases item)
    case (QMutation q slot)
    then obtain result co where
      "sv' = sv\<lparr>sv_queue := rest, sv_coordinator := co, sv_answers := om_insert slot result (sv_answers sv)\<rparr>"
      using c t Cons by (auto simp: commit_round_def Let_def split: prod.splits)
    then show ?thesis
      using assms(1) Cons QMutation unfolding slots_ok_def answered_def by auto
  qed (use assms(1) c t Cons in \<open>auto simp: commit_round_def slots_ok_def answered_def Let_def\<close>)
qed

lemma detach_queue:
  "\<exists>items. item_slots items = [] \<and> sv_queue (detach_session flag boot sv) = sv_queue sv @ items
     \<and> sv_answers (detach_session flag boot sv) = sv_answers sv
     \<and> sv_next_slot (detach_session flag boot sv) = sv_next_slot sv"
  by (auto simp: detach_session_def Let_def split: option.splits prod.splits)

lemma system_step_slots: "system_step config sy sy' \<Longrightarrow> slots_ok (sy_service sy) \<Longrightarrow> slots_ok (sy_service sy')"
proof (induction rule: system_step.induct)
  case (Submit q sv answer sv' d)
  then show ?case using submit_slots by simp
next
  case (Fence boot reason sv queued sv' d)
  then show ?case by (auto simp: fence_boot_def slots_ok_def answered_def split: if_splits)
next
  case (Detach sv d flag boot)
  then show ?case using detach_queue [of flag boot sv] by (auto simp: slots_ok_def answered_def)
next
  case (Commit store fenced_at now sv sv' d)
  then show ?case using commit_round_slots by simp
next
  case (Start sv load d started)
  then show ?case by (simp add: start_begin_def slots_ok_def answered_def split: prod.splits)
next
  case (Stop_drain sv d)
  then show ?case
    using answer_pending_dom [of "sv_queue sv" "sv_answers sv"]
    by (auto simp: stop_drain_def slots_ok_def answered_def)
next
  case (Process_restart sv d)
  show ?case by (simp add: new_service_def slots_ok_def answered_def)
qed (simp_all add: slots_ok_def answered_def start_listen_failed_def stop_publish_def stop_request_def)

lemma reachable_slots: "reachable config sy \<Longrightarrow> slots_ok (sy_service sy)"
  unfolding reachable_def
proof (induction rule: rtranclp_induct)
  case base
  show ?case by (simp add: initial_system_def new_service_def slots_ok_def answered_def)
qed (rule system_step_slots)

subsection \<open>Every request is answered\<close>

lemma commit_round_None: "commit_round store t u sv = None \<longleftrightarrow> commit_round store t' u' sv = None"
  by (auto simp: commit_round_def Let_def split: list.splits queue_item.splits prod.splits)

lemma run_commit_add:
  "run_commit store clock (m + n) sv = run_commit store clock n (run_commit store (\<lambda>i. clock (i + n)) m sv)"
proof (induction m arbitrary: sv)
  case (Suc m)
  show ?case
  proof (cases "commit_round store (fst (clock (m + n))) (snd (clock (m + n))) sv")
    case None
    then have "commit_round store t u sv = None" for t u using commit_round_None by blast
    then have "run_commit store clock n sv = sv" by (cases n) simp_all
    with None show ?thesis by simp
  next
    case (Some sv')
    then show ?thesis using Suc.IH by simp
  qed
qed simp

lemma process_items_last:
  "process_items store clock (length items + 1) (items @ [item]) acc
     = process_item store (clock 0) item (process_items store clock (length items + 1) items acc)"
proof -
  have "process_items store clock (length items + Suc k) (items @ [item]) acc
      = process_item store (clock k) item (process_items store clock (length items + Suc k) items acc)" for k
    by (induction items arbitrary: acc) simp_all
  from this [of 0] show ?thesis by simp
qed

lemma request_served:
  assumes "sv_commit_thread sv" and "sv_queue sv = items @ QMutation q slot # rest" and "QStop \<notin> set items"
  shows "answered (run_commit store clock (length items + 1) sv) slot"
proof -
  let ?all = "items @ [QMutation q slot]"
  have "run_commit store clock (length ?all) sv =
      (let (co, m) = process_items store clock (length ?all) ?all (sv_coordinator sv, sv_answers sv) in
       sv\<lparr>sv_queue := rest, sv_coordinator := co, sv_answers := m\<rparr>)"
    using assms by (intro run_commit_fifo) simp_all
  then show ?thesis
    using process_items_last [of store clock items "QMutation q slot" "(sv_coordinator sv, sv_answers sv)"]
    by (simp add: process_item_def answered_def split: prod.splits)
qed

lemma request_answered:
  assumes "sv_commit_thread sv" and "slot \<in> set (item_slots (sv_queue sv))"
  shows "\<exists>n. answered (run_commit store clock n sv) slot
     \<or> \<not> sv_commit_thread (run_commit store clock n sv) \<and> answered (stop_drain (run_commit store clock n sv)) slot"
proof -
  have "\<exists>q. QMutation q slot \<in> set items" if "slot \<in> set (item_slots items)" for items
    using that by (induction items rule: item_slots.induct) auto
  then obtain q items rest where q: "sv_queue sv = items @ QMutation q slot # rest"
    using assms(2) by (meson split_list)
  show ?thesis
  proof (cases "QStop \<in> set items")
    case False
    then show ?thesis using request_served [OF assms(1) q] by blast
  next
    case True
    then obtain xs ys where xs: "items = xs @ QStop # ys" "QStop \<notin> set xs"
      by (meson split_list_first)
    let ?tail = "ys @ QMutation q slot # rest"
    define mid where "mid = run_commit store (\<lambda>i. clock (i + 1)) (length xs) sv"
    have mid: "sv_queue mid = QStop # ?tail" "sv_commit_thread mid"
      using run_commit_fifo [of sv xs "QStop # ?tail" store "\<lambda>i. clock (i + 1)"] assms(1) q xs
      by (simp_all add: mid_def split: prod.splits)
    have "run_commit store clock (length xs + 1) sv = mid\<lparr>sv_queue := ?tail, sv_commit_thread := False\<rparr>"
    proof -
      have "commit_round store t u mid = Some (mid\<lparr>sv_queue := ?tail, sv_commit_thread := False\<rparr>)" for t u
        using mid by (simp add: commit_round_def)
      then have "run_commit store clock 1 mid = mid\<lparr>sv_queue := ?tail, sv_commit_thread := False\<rparr>" by simp
      then show ?thesis unfolding run_commit_add mid_def .
    qed
    then show ?thesis
      using answer_pending_dom [of ?tail "sv_answers mid" slot]
      by (intro exI [of _ "length xs + 1"]) (simp add: answered_def stop_drain_def)
  qed
qed

subsection \<open>The queue is bounded\<close>

lemma length_item_slots: "length (item_slots items) \<le> length items"
  by (induction items rule: item_slots.induct) auto

lemma item_slots_Cons: "length (item_slots (item # items)) \<ge> length (item_slots items)"
  by (cases item) simp_all

lemma submit_pending:
  assumes "submit q sv = (answer, sv')" and "length (item_slots (sv_queue sv)) \<le> kMaxPendingRequests"
  shows "length (item_slots (sv_queue sv')) \<le> kMaxPendingRequests"
  using assms length_item_slots [of "sv_queue sv"]
  by (auto simp: submit_def Let_def split: if_splits)

lemma commit_round_pending:
  assumes "commit_round store fenced_at now sv = Some sv'"
  shows "length (item_slots (sv_queue sv')) \<le> length (item_slots (sv_queue sv))"
proof (cases "sv_queue sv")
  case (Cons item rest)
  then have "sv_queue sv' = rest"
    using assms by (auto simp: commit_round_def Let_def split: if_splits queue_item.splits prod.splits)
  then show ?thesis using item_slots_Cons Cons by metis
qed (use assms in \<open>auto simp: commit_round_def split: if_splits\<close>)

lemma reachable_pending:
  "reachable config sy \<Longrightarrow> length (item_slots (sv_queue (sy_service sy))) \<le> kMaxPendingRequests"
  unfolding reachable_def
proof (induction rule: rtranclp_induct)
  case base
  show ?case by (simp add: initial_system_def new_service_def)
next
  case (step y z)
  from step.hyps(2) step.IH show ?case
  proof (induction rule: system_step.induct)
    case (Submit q sv answer sv' d)
    then show ?case using submit_pending by simp
  next
    case (Fence boot reason sv queued sv' d)
    then show ?case by (auto simp: fence_boot_def split: if_splits)
  next
    case (Detach sv d flag boot)
    then show ?case using detach_queue [of flag boot sv] by auto
  next
    case (Commit store fenced_at now sv sv' d)
    then show ?case using commit_round_pending by fastforce
  next
    case (Start sv load d started)
    then show ?case by (simp add: start_begin_def split: prod.splits)
  next
    case (Process_restart sv d)
    show ?case by (simp add: new_service_def)
  qed (simp_all add: start_listen_failed_def stop_publish_def stop_request_def stop_drain_def)
qed

end
