(* ===== verification/Authority.thy ===== *)
theory Authority
  imports Service_Laws
begin

text \<open>
  Authority over time: requests that carry a stale epoch or a fenced incarnation are refused whole, and
  what the cluster has counted, retired or fenced stays so across commits, fences and restarts from the
  last save (\<open>history\<close>).
\<close>

subsection \<open>Refused authority\<close>

lemma commit_common_refused:
  assumes "mr_reason (validate_common (co_canonical co) q) \<noteq> RR_None"
  shows "mr_outcome (fst (apply_and_commit store now q co)) = MO_Rejected"
    and "mr_reason (fst (apply_and_commit store now q co)) = mr_reason (validate_common (co_canonical co) q)"
    and "co_canonical (snd (apply_and_commit store now q co)) = co_canonical co"
proof -
  have out: "mr_outcome (validate_common (co_canonical co) q) = MO_Rejected"
    using assms by (auto simp: validate_common_def Let_def gate_ok_def accepted_result_def default_result_def
        split: if_splits)
  have h: "apply_request (co_config co) now q (start_context co)
      = (validate_common (co_canonical co) q, start_context co)"
    using assms by (simp add: apply_request_def Let_def)
  then show "mr_outcome (fst (apply_and_commit store now q co)) = MO_Rejected"
    "mr_reason (fst (apply_and_commit store now q co)) = mr_reason (validate_common (co_canonical co) q)"
    "co_canonical (snd (apply_and_commit store now q co)) = co_canonical co"
    unfolding apply_and_commit_def start_context_def [symmetric] h Let_def prod.case
    using out by (simp_all add: refuse_def fill_generations_def Let_def)
qed

text \<open>The kinds whose handlers ask \<^verbatim>\<open>validate_boot\<close> or check the fence themselves.\<close>

definition boot_checked :: "mutation_kind \<Rightarrow> bool" where
  "boot_checked k \<longleftrightarrow>
     k \<in> {MK_AddRack, MK_UpdateRackGeneration, MK_MarkRackUnavailable, MK_WithdrawRack, MK_RetireRack,
           MK_RecoverRack, MK_PublishHealthCurrentness}"

lemma validate_boot_fenced:
  "ma_boot (mq_authority q) = Some b \<Longrightarrow> is_boot_fenced s b \<Longrightarrow>
   validate_boot s q rack = rejected RR_StaleRackBoot ES_ValidateAuthority (rack_subject rack) []"
  by (simp add: validate_boot_def)

lemma fenced_boot_handler:
  assumes "ma_boot (mq_authority q) = Some b" and "is_boot_fenced (ax_state ctx) b" and "boot_checked (mq_kind q)"
  shows "mr_outcome (fst (apply_request cfg now q ctx)) = MO_Rejected"
proof -
  have "mr_outcome (validate_common s q) = MO_Rejected" if "mr_reason (validate_common s q) \<noteq> RR_None" for s
    using that by (auto simp: validate_common_def Let_def gate_ok_def accepted_result_def default_result_def
        split: if_splits)
  then show ?thesis
    using assms
    by (auto simp: apply_request_def Let_def apply_kind_def boot_checked_def apply_add_rack_def
        apply_update_rack_generation_def apply_membership_change_def apply_recover_rack_def
        apply_publish_health_def validate_boot_fenced mr_accepted_def split: option.splits)
qed

lemma commit_rejected_by_handler:
  assumes "mr_outcome (fst (apply_request (co_config co) now q (start_context co))) = MO_Rejected"
  shows "mr_outcome (fst (apply_and_commit store now q co)) = MO_Rejected"
  using assms
  by (auto simp: apply_and_commit_def start_context_def [symmetric] Let_def refuse_def fill_generations_def
      split: prod.splits)

lemma fenced_boot_refused:
  assumes "ma_boot (mq_authority q) = Some b" and "is_boot_fenced (co_canonical co) b"
    and "boot_checked (mq_kind q)"
  shows "mr_outcome (fst (apply_and_commit store now q co)) = MO_Rejected"
    and "co_canonical (snd (apply_and_commit store now q co)) = co_canonical co"
proof -
  show r: "mr_outcome (fst (apply_and_commit store now q co)) = MO_Rejected"
    using assms by (intro commit_rejected_by_handler fenced_boot_handler) simp_all
  have "\<not> declares q (co_canonical co)" using assms(3) by (auto simp: declares_def boot_checked_def)
  then show "co_canonical (snd (apply_and_commit store now q co)) = co_canonical co"
    using refused_commit(1) [of store now q co] r by (metis mutation_outcome.distinct(3) prod.collapse)
qed

subsection \<open>Restart\<close>

lemma recovered_advances:
  assumes "keyed s"
  shows "advances s (fst (from_persisted_state (to_persisted_state s) e now report))"
proof -
  have d: "map_advances domain_advances m (om_map (\<lambda>_. recovered_domain now) m)" for m :: "('t, 'b) domain_map"
    by (rule map_advances_map) (simp add: domain_advances_def)
  have c: "map_advances constraint_advances m (om_map (\<lambda>_. recovered_constraint now) m)" for m
    by (rule map_advances_map)
      (simp add: constraint_advances_def recovered_constraint_def refresh_header_def)
  have r: "map_advances rack_advances m (om_map (\<lambda>k r. durable_record p e now (to_durable_rack k r)) m)" for m p
    by (auto simp: map_advances_def rack_advances_def)
  have f: "set (cs_fenced_authorities s) \<subseteq> set (fold (add_fence now) ds (cs_fenced_authorities s))" for ds
    by (rule add_fence_keeps)
  have "retired_rack (recovered_base s e now) k" if "retired_rack s k" for k
    using that by (auto simp: retired_rack_def recovered_base_def is_rack_retired_def)
  then show ?thesis
    unfolding from_persisted_projection [OF assms]
    using f by (simp add: advances_defs recovered_base_def retired_rack_def is_rack_retired_def d c r)
qed

lemma next_epoch_advances:
  "counter_known e \<Longrightarrow> e \<le> next_coordinator_epoch e"
  "counter_known e \<Longrightarrow> e \<noteq> StrongCounter counter_max \<Longrightarrow> e < next_coordinator_epoch e"
proof -
  have s: "e < d" if "counter_next e = Some d" for d using that by (rule counter_next_less)
  show "e \<le> next_coordinator_epoch e" if "counter_known e"
    using that s by (auto simp: next_coordinator_epoch_def Let_def counter_next_known less_imp_le split: option.splits)
  show "e < next_coordinator_epoch e" if "counter_known e" "e \<noteq> StrongCounter counter_max"
  proof (cases "counter_next e")
    case None
    then have "StrongCounter counter_max \<le> e" using counter_next_None_iff by blast
    then have "e = StrongCounter counter_max"
      by (cases e) (simp add: less_eq_strong_counter_def counter_max_eq word_order.extremum_unique)
    with that(2) show ?thesis by simp
  next
    case (Some d)
    then show ?thesis using that(1) s by (simp add: next_coordinator_epoch_def Let_def counter_next_known)
  qed
qed

subsection \<open>History\<close>

inductive history :: "cluster_state \<Rightarrow> cluster_state \<Rightarrow> bool" for s where
  H_now: "history s s"
| H_commit: "history s (co_canonical co) \<Longrightarrow> apply_and_commit store now q co = (r, co') \<Longrightarrow>
    history s (co_canonical co')"
| H_fence: "history s (co_canonical co) \<Longrightarrow>
    history s (co_canonical (apply_fence store fenced_at now boot reason co))"
| H_restart: "history s t \<Longrightarrow>
    history s (fst (from_persisted_state (to_persisted_state t)
      (next_coordinator_epoch (cs_coordinator_epoch t)) now default_report))"

lemma recovered_epoch:
  "keyed s \<Longrightarrow> cs_epoch (fst (from_persisted_state (to_persisted_state s) e now report)) = cs_epoch s
     \<and> cs_id (fst (from_persisted_state (to_persisted_state s) e now report)) = cs_id s"
  by (simp add: from_persisted_projection) (simp add: recovered_base_def)

lemma commit_declared_laws:
  assumes "apply_and_commit store now q co = (r, co')" and "counter_known (cs_epoch (co_canonical co))"
  shows "advances (co_canonical co) (co_canonical co')"
    and "cs_epoch (co_canonical co') = cs_epoch (co_canonical co)"
    and "cs_id (co_canonical co') = cs_id (co_canonical co)"
    and "cs_coordinator_epoch (co_canonical co') = cs_coordinator_epoch (co_canonical co)"
proof -
  have d: "\<not> declares q (co_canonical co)" using assms(2) by (simp add: declares_def)
  have "advances (co_canonical co) (co_canonical co') \<and> cs_epoch (co_canonical co') = cs_epoch (co_canonical co)
      \<and> cs_id (co_canonical co') = cs_id (co_canonical co)
      \<and> cs_coordinator_epoch (co_canonical co') = cs_coordinator_epoch (co_canonical co)"
  proof (cases "mr_outcome r = MO_Accepted")
    case True
    then show ?thesis using accepted_commit_advances [OF assms(1) True d] by simp
  next
    case False
    then show ?thesis using refused_commit(1) [OF assms(1) False d] by simp
  qed
  then show "advances (co_canonical co) (co_canonical co')"
    "cs_epoch (co_canonical co') = cs_epoch (co_canonical co)"
    "cs_id (co_canonical co') = cs_id (co_canonical co)"
    "cs_coordinator_epoch (co_canonical co') = cs_coordinator_epoch (co_canonical co)" by simp_all
qed

lemma well_formed_epoch_known:
  "well_formed s \<Longrightarrow> \<not> state_is_empty s \<Longrightarrow> counter_known (cs_coordinator_epoch s)"
  by (auto simp: well_formed_def check_invariants_ok_iff state_ok_def counters_ok_def)

lemma history_laws:
  assumes "history s t" and "well_formed s" and "counter_known (cs_epoch s)"
  shows "well_formed t \<and> advances s t \<and> cs_epoch t = cs_epoch s \<and> cs_id t = cs_id s
     \<and> (counter_known (cs_coordinator_epoch s) \<longrightarrow>
          counter_known (cs_coordinator_epoch t) \<and> cs_coordinator_epoch s \<le> cs_coordinator_epoch t)"
  using assms
proof (induction rule: history.induct)
  case H_now
  then show ?case by simp
next
  case (H_commit co store now q r co')
  then have k: "counter_known (cs_epoch (co_canonical co))" by simp
  show ?case
    using H_commit commit_well_formed [OF _ H_commit.hyps(2)] commit_declared_laws [OF H_commit.hyps(2) k]
    by (auto intro: advances_trans)
next
  case (H_fence co store fenced_at now boot reason)
  show ?case
    using H_fence fence_well_formed [of co store fenced_at now boot reason]
      fence_laws(1-4) [where co = co and store = store and fenced_at = fenced_at and now = now
        and boot = boot and reason = reason]
    by (auto intro: advances_trans)
next
  case (H_restart t now)
  let ?e = "next_coordinator_epoch (cs_coordinator_epoch t)"
  have k: "keyed t" "well_formed t" using H_restart by (auto simp: well_formed_def)
  show ?case
    using H_restart recovered_well_formed [OF k(2), of ?e now default_report]
      recovered_advances [OF k(1), of ?e now default_report] recovered_epoch [OF k(1), of ?e now default_report]
      next_epoch_advances(1) [of "cs_coordinator_epoch t"] recovered_copied(1) [of "to_persisted_state t" ?e now default_report]
    by (auto intro: advances_trans order_trans)
qed

text \<open>What an identity that was given up means from then on.\<close>

lemma advances_retired: "advances s t \<Longrightarrow> is_rack_retired s k \<Longrightarrow> is_rack_retired t k"
  unfolding advances_defs is_rack_retired_iff by blast

lemma advances_fenced: "advances s t \<Longrightarrow> is_boot_fenced s b \<Longrightarrow> is_boot_fenced t b"
  unfolding advances_defs is_boot_fenced_iff by blast

lemma well_formed_authoritative:
  assumes "well_formed s" and "om_find (cs_racks s) k = Some r" and "rr_authoritative_current r"
  shows "\<not> is_boot_fenced s (rf_boot (rr_reference r))" and "\<not> is_rack_retired s k"
    and "es_provenance (rf_evidence (rr_reference r)) \<notin> {EP_Unknown, EP_Reconstructed}"
    and "rr_membership r \<noteq> RM_Unknown" and "cs_lifecycle s \<noteq> CL_Retired"
proof -
  have "\<not> state_is_empty s" using assms(2) by (auto simp: state_is_empty_def om_entries_Nil_iff)
  then have ok: "state_ok s" using assms(1) by (simp add: well_formed_def check_invariants_ok_iff)
  then have "rack_ok s k r" "lifecycle_ok s" using assms(2) by (simp_all add: state_ok_def)
  then show "\<not> is_boot_fenced s (rf_boot (rr_reference r))" "\<not> is_rack_retired s k"
    "es_provenance (rf_evidence (rr_reference r)) \<notin> {EP_Unknown, EP_Reconstructed}"
    "rr_membership r \<noteq> RM_Unknown" "cs_lifecycle s \<noteq> CL_Retired"
    using assms(2,3) by (auto simp: rack_ok_def lifecycle_ok_def)
qed

subsection \<open>What a result reports and a store holds\<close>

lemma fill_generations_idem [simp]: "fill_generations s (fill_generations s r) = fill_generations s r"
  by (simp add: fill_generations_def)

lemma fill_generations_outcome [simp]:
  "fill_generations s ((fill_generations s r)\<lparr>mr_outcome := out, mr_error := e\<rparr>)
     = (fill_generations s r)\<lparr>mr_outcome := out, mr_error := e\<rparr>"
  by (simp add: fill_generations_def)

lemma commit_fills_generations:
  assumes "apply_and_commit store now q co = (r, co')"
  shows "fill_generations (co_canonical co') r = r"
  using assms
  by (auto simp: apply_and_commit_def Let_def refuse_def touch_state_def
      split: prod.splits if_splits option.splits)

lemma commit_saved:
  assumes "apply_and_commit (Some save) now q co = (r, co')" and "cc_persist_on_commit (co_config co)"
    and "mr_outcome r = MO_Accepted"
  shows "so_ok (save (to_persisted_state (co_canonical co')))
     \<and> co_persistence_saves co' = co_persistence_saves co + 1"
proof -
  obtain result ctx where h: "apply_request (co_config co) now q (start_context co) = (result, ctx)"
    by fastforce
  have a: "mr_outcome result = MO_Accepted \<longleftrightarrow> ax_changed ctx"
    using answers_apply_request [of "start_context co" "co_config co" now q] h by (auto simp: answers_def)
  show ?thesis
    using assms a
    unfolding apply_and_commit_def start_context_def [symmetric] h Let_def prod.case persist_now_def
    by (auto simp: refuse_def fill_generations_def touch_state_def Let_def
        split: if_splits option.splits prod.splits)
qed

subsection \<open>What a restart trusts\<close>

lemma durable_boot: "du_last_boot (to_durable_rack k r) = rf_boot (rr_reference r)"
  by (simp add: to_durable_rack_def Let_def)

lemma recovered_racks_revoked:
  assumes "keyed s"
    and "om_find (cs_racks (fst (from_persisted_state (to_persisted_state s) e now report))) k = Some r"
  shows "\<not> rr_authoritative_current r"
    and "is_boot_fenced (fst (from_persisted_state (to_persisted_state s) e now report)) (rf_boot (rr_reference r))"
proof -
  obtain r0 where r0: "om_find (cs_racks s) k = Some r0"
    "r = durable_record (to_persisted_state s) e now (to_durable_rack k r0)"
    using assms(2) unfolding from_persisted_projection [OF assms(1)] by (auto simp: recovered_base_def)
  show "\<not> rr_authoritative_current r" by (simp add: r0)
  have "(k, r0) \<in> set (om_entries (cs_racks s))" using r0(1) by (simp add: om_entries_iff)
  then have "to_durable_rack k r0 \<in> set (map (\<lambda>(k, r). to_durable_rack k r) (om_entries (cs_racks s)))"
    unfolding set_map by (rule rev_image_eqI) simp
  then have "du_last_boot (to_durable_rack k r0) \<in> fa_boot ` set (fold (add_fence now)
      (map (\<lambda>(k, r). to_durable_rack k r) (om_entries (cs_racks s))) (cs_fenced_authorities s))"
    unfolding add_fence_boots by blast
  then show "is_boot_fenced (fst (from_persisted_state (to_persisted_state s) e now report)) (rf_boot (rr_reference r))"
    unfolding from_persisted_projection [OF assms(1)] r0(2) durable_record_fields
    by (simp add: is_boot_fenced_iff recovered_base_def durable_boot)
qed

lemma recovered_racks_kept:
  assumes "keyed s"
  shows "map_option (\<lambda>r. (rf_generation (rr_reference r), rr_membership r))
       (om_find (cs_racks (fst (from_persisted_state (to_persisted_state s) e now report))) k)
     = map_option (\<lambda>r. (rf_generation (rr_reference r), rr_membership r)) (om_find (cs_racks s) k)"
  unfolding from_persisted_projection [OF assms] by (cases "om_find (cs_racks s) k") (simp_all add: recovered_base_def)

lemma recovered_not_consumable:
  assumes "keyed s"
  shows "\<not> is_consumable_lifecycle (cs_lifecycle (fst (from_persisted_state (to_persisted_state s) e now report)))"
proof
  let ?t = "fst (from_persisted_state (to_persisted_state s) e now report)"
  assume "is_consumable_lifecycle (cs_lifecycle ?t)"
  then have c: "is_consumable_lifecycle (re_lifecycle (evaluate_readiness ?t))"
    using recovered_lifecycle [OF assms] by simp
  have no: "\<not> is_current_active r" if "om_find (cs_racks ?t) k = Some r" for k r
    using recovered_racks_revoked(1) [OF assms that] by (simp add: is_current_active_def)
  then have n: "current_rack_count ?t = 0" using current_rack_count_pos [of ?t] by auto
  show False
  proof (cases "re_satisfied (evaluate_readiness ?t)")
    case True
    then have h: "contract_holds ?t" by (simp add: evaluate_satisfied_Nil readiness_blockers_Nil)
    then obtain k r where r: "om_find (cs_racks ?t) k = Some r" "is_active r" "\<not> needs_revalidation r"
      unfolding contract_holds_def Let_def by blast
    have "rf_currentness (rr_reference r) = RC_RevalidationRequired"
      using r(1) unfolding from_persisted_projection [OF assms] by (auto simp: recovered_base_def)
    with r(2,3) show False by (simp add: needs_revalidation_def)
  next
    case False
    with c n show False
      by (auto simp: evaluate_readiness_def is_consumable_lifecycle_def Let_def split: if_splits)
  qed
qed

end
