(* ===== verification/Snapshot.thy ===== *)
theory Snapshot
  imports Invariants
begin

text \<open>
  Immutable snapshots and their validation against current authority (src/src/snapshot.cpp), the
  compact view a client holds (\<^verbatim>\<open>SnapshotView\<close> in src/include/cluster_fabric/protocol.hpp) and the
  coordinator's validation of such a view (\<^verbatim>\<open>validate_view\<close> in src/src/coordinator_network.cpp).

  A validation is its verdicts and the list of (reason, subject) pairs in the order they are added; the
  explanation and the semantic digest are left out. \<open>validate_current_iff\<close> and
  \<open>validate_view_current_iff\<close> read the two validations declaratively.
\<close>

datatype snapshot_stale_reason =
  SR_None | SR_ClusterEpochAdvanced | SR_CoordinatorEpochAdvanced | SR_ClusterGenerationAdvanced
  | SR_MembershipChanged | SR_TopologyEpochSuperseded | SR_TopologyGenerationAdvanced
  | SR_RackGenerationSuperseded | SR_RackWithdrawn | SR_RackRetired | SR_RackBootFenced
  | SR_RackRevalidationRequired | SR_PlacementDomainSuperseded | SR_CapacityDomainSuperseded
  | SR_FailureDomainSuperseded | SR_NetworkDomainSuperseded | SR_StorageDomainSuperseded
  | SR_PowerDomainSuperseded | SR_CoolingDomainSuperseded | SR_LinkDomainSuperseded
  | SR_ConnectivitySuperseded | SR_HealthSuperseded | SR_LifecycleNotConsumable | SR_WrongCluster

record rack_generation_binding =
  rg_rack :: rack_id
  rg_generation :: rack_generation
  rg_membership :: rack_membership_state
  rg_currentness :: rack_currentness
  rg_authoritative_current :: bool
  rg_boot :: boot_id

record snapshot_validation =
  sv_current :: bool
  sv_consumable :: bool
  sv_reasons :: "(snapshot_stale_reason \<times> string) list"

record cluster_snapshot =
  sn_state :: "cluster_state option"
  sn_bindings :: "rack_generation_binding list"

definition binding_of :: "rack_id \<Rightarrow> rack_record \<Rightarrow> rack_generation_binding" where
  "binding_of k r =
     \<lparr>rg_rack = k, rg_generation = rf_generation (rr_reference r), rg_membership = rr_membership r,
      rg_currentness = rf_currentness (rr_reference r),
      rg_authoritative_current = rr_authoritative_current r, rg_boot = rf_boot (rr_reference r)\<rparr>"

definition rebuild_bindings :: "cluster_state option \<Rightarrow> rack_generation_binding list" where
  "rebuild_bindings st =
     (case st of None \<Rightarrow> [] | Some s \<Rightarrow> map (\<lambda>(k, r). binding_of k r) (om_entries (cs_racks s)))"

definition capture :: "cluster_state \<Rightarrow> cluster_snapshot" where
  "capture s = \<lparr>sn_state = Some s, sn_bindings = rebuild_bindings (Some s)\<rparr>"

definition snapshot_rack_generation :: "cluster_snapshot \<Rightarrow> rack_id \<Rightarrow> rack_generation option" where
  "snapshot_rack_generation sn rack =
     (case sn_state sn of
        None \<Rightarrow> None
      | Some s \<Rightarrow> map_option (\<lambda>r. rf_generation (rr_reference r)) (om_find (cs_racks s) rack))"

definition validation_requires_revalidation :: "snapshot_validation \<Rightarrow> bool" where
  "validation_requires_revalidation v \<longleftrightarrow>
     list_ex (\<lambda>(reason, subject). reason \<in> {SR_ClusterEpochAdvanced, SR_CoordinatorEpochAdvanced,
       SR_RackBootFenced, SR_RackRevalidationRequired, SR_LifecycleNotConsumable}) (sv_reasons v)"

definition counter_str :: "'tag strong_counter \<Rightarrow> string" where
  "counter_str c = rev (decimal_loop (cvalue c))"

definition add_reason :: "bool \<Rightarrow> snapshot_stale_reason \<Rightarrow> string \<Rightarrow> (snapshot_stale_reason \<times> string) list" where
  "add_reason b reason subject = (if b then [(reason, subject)] else [])"

definition bound_current :: "'tag strong_counter \<Rightarrow> 'tag strong_counter \<Rightarrow> string" where
  "bound_current a b = ''bound='' @ counter_str a @ '' current='' @ counter_str b"

text \<open>The per-class domain generations, compared in the order of the source.\<close>

definition domain_generation_reasons ::
  "domain_generations \<Rightarrow> domain_generations \<Rightarrow> (snapshot_stale_reason \<times> string) list" where
  "domain_generation_reasons b c =
     add_reason (dg_placement b \<noteq> dg_placement c) SR_PlacementDomainSuperseded ''placement_domain'' @
     add_reason (dg_capacity b \<noteq> dg_capacity c) SR_CapacityDomainSuperseded ''capacity_domain'' @
     add_reason (dg_failure b \<noteq> dg_failure c) SR_FailureDomainSuperseded ''failure_domain'' @
     add_reason (dg_network b \<noteq> dg_network c) SR_NetworkDomainSuperseded ''network_domain'' @
     add_reason (dg_storage b \<noteq> dg_storage c) SR_StorageDomainSuperseded ''storage_domain'' @
     add_reason (dg_power b \<noteq> dg_power c) SR_PowerDomainSuperseded ''power_domain'' @
     add_reason (dg_cooling b \<noteq> dg_cooling c) SR_CoolingDomainSuperseded ''cooling_domain'' @
     add_reason (dg_link b \<noteq> dg_link c) SR_LinkDomainSuperseded ''link_domain''"

definition rack_stale :: "rack_record \<Rightarrow> bool" where
  "rack_stale r \<longleftrightarrow>
     rf_currentness (rr_reference r) = RC_RevalidationRequired
     \<or> requires_revalidation (rf_evidence (rr_reference r))"

subsection \<open>Validation of a snapshot\<close>

definition binding_reasons ::
  "cluster_state \<Rightarrow> rack_generation_binding \<Rightarrow> (snapshot_stale_reason \<times> string) list" where
  "binding_reasons s b =
     (let subject = rack_subject (rg_rack b) in
      case om_find (cs_racks s) (rg_rack b) of
        None \<Rightarrow> [(SR_RackWithdrawn, subject @ '' is no longer a member'')]
      | Some r \<Rightarrow>
          if is_rack_retired s (rg_rack b) then [(SR_RackRetired, subject)]
          else
            add_reason (rf_generation (rr_reference r) \<noteq> rg_generation b) SR_RackGenerationSuperseded
              (subject @ '' '' @ bound_current (rg_generation b) (rf_generation (rr_reference r))) @
            add_reason (rr_membership r \<noteq> rg_membership b) SR_RackWithdrawn
              (subject @ '' membership='' @ rack_membership_state_to_string (rr_membership r)) @
            add_reason (is_boot_fenced s (rg_boot b)) SR_RackBootFenced
              (subject @ '' boot='' @ id_value (rg_boot b)) @
            add_reason (rack_stale r) SR_RackRevalidationRequired subject)"

definition snapshot_reasons ::
  "cluster_state \<Rightarrow> rack_generation_binding list \<Rightarrow> cluster_state \<Rightarrow> (snapshot_stale_reason \<times> string) list" where
  "snapshot_reasons bound bindings s =
     add_reason (cs_id bound \<noteq> cs_id s) SR_WrongCluster
       (''snapshot/'' @ id_value (cs_id bound) @ '' current/'' @ id_value (cs_id s)) @
     add_reason (cs_epoch bound \<noteq> cs_epoch s) SR_ClusterEpochAdvanced
       (bound_current (cs_epoch bound) (cs_epoch s)) @
     add_reason (cs_coordinator_epoch bound \<noteq> cs_coordinator_epoch s) SR_CoordinatorEpochAdvanced
       (bound_current (cs_coordinator_epoch bound) (cs_coordinator_epoch s)) @
     add_reason (cs_generation bound \<noteq> cs_generation s) SR_ClusterGenerationAdvanced
       (bound_current (cs_generation bound) (cs_generation s)) @
     add_reason (cs_membership_generation bound \<noteq> cs_membership_generation s
         \<or> om_size (cs_racks bound) \<noteq> om_size (cs_racks s)) SR_MembershipChanged
       (bound_current (cs_membership_generation bound) (cs_membership_generation s)) @
     (if cs_topology_epoch bound \<noteq> cs_topology_epoch s
      then [(SR_TopologyEpochSuperseded, bound_current (cs_topology_epoch bound) (cs_topology_epoch s))]
      else add_reason (cs_topology_generation bound \<noteq> cs_topology_generation s)
             SR_TopologyGenerationAdvanced
             (bound_current (cs_topology_generation bound) (cs_topology_generation s))) @
     domain_generation_reasons (cs_domain_generations bound) (cs_domain_generations s) @
     add_reason (cs_connectivity_generation bound \<noteq> cs_connectivity_generation s)
       SR_ConnectivitySuperseded
       (bound_current (cs_connectivity_generation bound) (cs_connectivity_generation s)) @
     add_reason (cs_health_generation bound \<noteq> cs_health_generation s) SR_HealthSuperseded
       (bound_current (cs_health_generation bound) (cs_health_generation s)) @
     concat (map (binding_reasons s) bindings) @
     concat (map (\<lambda>k. add_reason (\<not> list_ex (\<lambda>b. rg_rack b = k) bindings) SR_MembershipChanged
       (rack_subject k @ '' was added after the snapshot'')) (om_keys (cs_racks s)))"

definition invalid_snapshot :: snapshot_validation where
  "invalid_snapshot = \<lparr>sv_current = False, sv_consumable = False, sv_reasons = []\<rparr>"

definition validate :: "cluster_snapshot \<Rightarrow> cluster_state \<Rightarrow> snapshot_validation" where
  "validate sn s =
     (case sn_state sn of
        None \<Rightarrow> invalid_snapshot
      | Some bound \<Rightarrow>
          let reasons = snapshot_reasons bound (sn_bindings sn) s;
              current = (reasons = []);
              usable = is_consumable_lifecycle (cs_lifecycle s)
          in \<lparr>sv_current = current, sv_consumable = current \<and> usable,
              sv_reasons = reasons @ add_reason (\<not> usable) SR_LifecycleNotConsumable
                (cluster_lifecycle_to_string (cs_lifecycle s))\<rparr>)"

definition validate_against :: "cluster_snapshot \<Rightarrow> cluster_snapshot \<Rightarrow> snapshot_validation" where
  "validate_against sn current =
     (case sn_state current of None \<Rightarrow> invalid_snapshot | Some s \<Rightarrow> validate sn s)"

subsection \<open>Views\<close>

record snapshot_view =
  vw_cluster :: cluster_id
  vw_cluster_epoch :: cluster_epoch
  vw_coordinator_epoch :: coordinator_epoch
  vw_cluster_generation :: cluster_generation
  vw_membership_generation :: membership_generation
  vw_topology_epoch :: topology_epoch
  vw_topology_generation :: topology_generation
  vw_connectivity_generation :: connectivity_generation
  vw_health_generation :: health_generation
  vw_constraint_generation :: constraint_generation
  vw_domain_generations :: domain_generations
  vw_snapshot_generation :: snapshot_generation
  vw_publication_generation :: publication_generation
  vw_lifecycle :: cluster_lifecycle
  vw_rack_bindings :: "rack_generation_binding list"
  vw_rack_count :: nat
  vw_link_count :: nat
  vw_domain_count :: nat

definition empty_view :: snapshot_view where
  "empty_view =
     \<lparr>vw_cluster = id_unknown, vw_cluster_epoch = counter_zero, vw_coordinator_epoch = counter_zero,
      vw_cluster_generation = counter_zero, vw_membership_generation = counter_zero,
      vw_topology_epoch = counter_zero, vw_topology_generation = counter_zero,
      vw_connectivity_generation = counter_zero, vw_health_generation = counter_zero,
      vw_constraint_generation = counter_zero,
      vw_domain_generations = domain_generations_of counter_zero,
      vw_snapshot_generation = counter_zero, vw_publication_generation = counter_zero,
      vw_lifecycle = CL_Declared, vw_rack_bindings = [], vw_rack_count = 0, vw_link_count = 0,
      vw_domain_count = 0\<rparr>"

definition from_snapshot :: "cluster_snapshot \<Rightarrow> snapshot_view" where
  "from_snapshot sn =
     (case sn_state sn of
        None \<Rightarrow> empty_view
      | Some s \<Rightarrow>
          \<lparr>vw_cluster = cs_id s, vw_cluster_epoch = cs_epoch s,
           vw_coordinator_epoch = cs_coordinator_epoch s, vw_cluster_generation = cs_generation s,
           vw_membership_generation = cs_membership_generation s,
           vw_topology_epoch = cs_topology_epoch s,
           vw_topology_generation = cs_topology_generation s,
           vw_connectivity_generation = cs_connectivity_generation s,
           vw_health_generation = cs_health_generation s,
           vw_constraint_generation = cs_constraint_generation s,
           vw_domain_generations = cs_domain_generations s,
           vw_snapshot_generation = cs_snapshot_generation s,
           vw_publication_generation = cs_publication_generation s,
           vw_lifecycle = cs_lifecycle s, vw_rack_bindings = sn_bindings sn,
           vw_rack_count = om_size (cs_racks s), vw_link_count = om_size (cs_links s),
           vw_domain_count =
             om_size (cs_placement_domains s) + om_size (cs_capacity_domains s) +
             om_size (cs_failure_domains s) + om_size (cs_network_domains s) +
             om_size (cs_storage_domains s) + om_size (cs_power_domains s) +
             om_size (cs_cooling_domains s) + om_size (cs_link_domains s)\<rparr>)"

definition view_binding_reasons ::
  "cluster_state \<Rightarrow> rack_generation_binding \<Rightarrow> (snapshot_stale_reason \<times> string) list" where
  "view_binding_reasons s b =
     (let subject = rack_subject (rg_rack b) in
      case om_find (cs_racks s) (rg_rack b) of
        None \<Rightarrow> [(SR_RackWithdrawn, subject)]
      | Some r \<Rightarrow>
          if is_rack_retired s (rg_rack b) then [(SR_RackRetired, subject)]
          else
            add_reason (rf_generation (rr_reference r) \<noteq> rg_generation b) SR_RackGenerationSuperseded
              (subject @ '' '' @ bound_current (rg_generation b) (rf_generation (rr_reference r))) @
            add_reason (rr_membership r \<noteq> rg_membership b) SR_RackWithdrawn subject @
            add_reason (is_boot_fenced s (rg_boot b)) SR_RackBootFenced subject @
            add_reason (rack_stale r) SR_RackRevalidationRequired subject)"

definition view_reasons :: "snapshot_view \<Rightarrow> cluster_state \<Rightarrow> (snapshot_stale_reason \<times> string) list" where
  "view_reasons v s =
     add_reason (vw_cluster v \<noteq> cs_id s) SR_WrongCluster (''snapshot/'' @ id_value (vw_cluster v)) @
     add_reason (vw_cluster_epoch v \<noteq> cs_epoch s) SR_ClusterEpochAdvanced
       (bound_current (vw_cluster_epoch v) (cs_epoch s)) @
     add_reason (vw_coordinator_epoch v \<noteq> cs_coordinator_epoch s) SR_CoordinatorEpochAdvanced
       (bound_current (vw_coordinator_epoch v) (cs_coordinator_epoch s)) @
     add_reason (vw_cluster_generation v \<noteq> cs_generation s) SR_ClusterGenerationAdvanced
       (bound_current (vw_cluster_generation v) (cs_generation s)) @
     add_reason (vw_membership_generation v \<noteq> cs_membership_generation s) SR_MembershipChanged
       (bound_current (vw_membership_generation v) (cs_membership_generation s)) @
     (if vw_topology_epoch v \<noteq> cs_topology_epoch s
      then [(SR_TopologyEpochSuperseded, bound_current (vw_topology_epoch v) (cs_topology_epoch s))]
      else add_reason (vw_topology_generation v \<noteq> cs_topology_generation s)
             SR_TopologyGenerationAdvanced
             (bound_current (vw_topology_generation v) (cs_topology_generation s))) @
     domain_generation_reasons (vw_domain_generations v) (cs_domain_generations s) @
     add_reason (vw_connectivity_generation v \<noteq> cs_connectivity_generation s)
       SR_ConnectivitySuperseded
       (bound_current (vw_connectivity_generation v) (cs_connectivity_generation s)) @
     add_reason (vw_health_generation v \<noteq> cs_health_generation s) SR_HealthSuperseded
       (bound_current (vw_health_generation v) (cs_health_generation s)) @
     concat (map (view_binding_reasons s) (vw_rack_bindings v)) @
     concat (map (\<lambda>k. add_reason (\<not> list_ex (\<lambda>b. rg_rack b = k) (vw_rack_bindings v))
       SR_MembershipChanged (rack_subject k)) (om_keys (cs_racks s))) @
     add_reason (\<not> is_consumable_lifecycle (cs_lifecycle s)) SR_LifecycleNotConsumable
       (cluster_lifecycle_to_string (cs_lifecycle s))"

definition validate_view :: "snapshot_view \<Rightarrow> cluster_state \<Rightarrow> snapshot_validation" where
  "validate_view v s =
     (let reasons = view_reasons v s; current = (reasons = []) in
      \<lparr>sv_current = current,
       sv_consumable = current \<and> is_consumable_lifecycle (cs_lifecycle s),
       sv_reasons = reasons\<rparr>)"

subsection \<open>What the validations decide\<close>

text \<open>The generations two states must agree on.\<close>

definition same_generations :: "cluster_state \<Rightarrow> cluster_state \<Rightarrow> bool" where
  "same_generations b s \<longleftrightarrow>
     cs_id b = cs_id s \<and> cs_epoch b = cs_epoch s \<and> cs_coordinator_epoch b = cs_coordinator_epoch s
     \<and> cs_generation b = cs_generation s \<and> cs_membership_generation b = cs_membership_generation s
     \<and> cs_topology_epoch b = cs_topology_epoch s \<and> cs_topology_generation b = cs_topology_generation s
     \<and> cs_domain_generations b = cs_domain_generations s
     \<and> cs_connectivity_generation b = cs_connectivity_generation s
     \<and> cs_health_generation b = cs_health_generation s"

text \<open>A rack bound in a snapshot is still what the snapshot says, and its evidence may be relied on.\<close>

definition binding_holds :: "cluster_state \<Rightarrow> rack_id \<Rightarrow> rack_record \<Rightarrow> rack_record \<Rightarrow> bool" where
  "binding_holds s k b r \<longleftrightarrow>
     \<not> is_rack_retired s k \<and> rf_generation (rr_reference r) = rf_generation (rr_reference b)
     \<and> rr_membership r = rr_membership b \<and> \<not> is_boot_fenced s (rf_boot (rr_reference b))
     \<and> \<not> rack_stale r"

definition bindings_hold :: "cluster_state \<Rightarrow> cluster_state \<Rightarrow> bool" where
  "bindings_hold b s \<longleftrightarrow>
     (\<forall>k. case om_find (cs_racks b) k of
        None \<Rightarrow> om_find (cs_racks s) k = None
      | Some rb \<Rightarrow> (\<exists>r. om_find (cs_racks s) k = Some r \<and> binding_holds s k rb r))"

lemma add_reason_Nil [simp]: "add_reason b reason subject = [] \<longleftrightarrow> \<not> b"
  by (simp add: add_reason_def)

lemma domain_generation_reasons_Nil: "domain_generation_reasons b c = [] \<longleftrightarrow> b = c"
  by (cases b; cases c) (auto simp: domain_generation_reasons_def)

lemma binding_reasons_Nil:
  "binding_reasons s (binding_of k b) = [] \<longleftrightarrow>
     (\<exists>r. om_find (cs_racks s) k = Some r \<and> binding_holds s k b r)"
  "view_binding_reasons s (binding_of k b) = [] \<longleftrightarrow>
     (\<exists>r. om_find (cs_racks s) k = Some r \<and> binding_holds s k b r)"
  by (auto simp: binding_reasons_def view_binding_reasons_def binding_of_def binding_holds_def Let_def
      split: option.splits)

lemma bound_in_bindings:
  "list_ex (\<lambda>x. rg_rack x = k) (rebuild_bindings (Some b)) \<longleftrightarrow> om_find (cs_racks b) k \<noteq> None"
  using om.ents_ex [of "cs_racks b" "\<lambda>j _. j = k"]
  by (auto simp: list_ex_iff rebuild_bindings_def binding_of_def split_beta)

lemma bindings_hold_iff:
  "bindings_hold b s \<longleftrightarrow>
     (\<forall>k rb. om_find (cs_racks b) k = Some rb \<longrightarrow>
        (\<exists>r. om_find (cs_racks s) k = Some r \<and> binding_holds s k rb r))
     \<and> (\<forall>k. om_find (cs_racks s) k \<noteq> None \<longrightarrow> om_find (cs_racks b) k \<noteq> None)"
  unfolding bindings_hold_def by (rule iffI) (auto split: option.splits)

lemma bindings_hold_size: "bindings_hold b s \<Longrightarrow> om_size (cs_racks b) = om_size (cs_racks s)"
proof -
  assume "bindings_hold b s"
  then have "set (om_keys (cs_racks b)) = set (om_keys (cs_racks s))"
    by (fastforce simp: bindings_hold_iff set_om_keys)
  then have "om_keys (cs_racks b) = om_keys (cs_racks s)"
    by (simp add: strict_sorted_equal)
  then show ?thesis by (metis om_keys_def om_size_def length_map)
qed

lemma binding_lists_Nil:
  "concat (map (binding_reasons s) (rebuild_bindings (Some b))) = []
   \<and> concat (map (\<lambda>k. add_reason (\<not> list_ex (\<lambda>x. rg_rack x = k) (rebuild_bindings (Some b))) reason
        (f k)) (om_keys (cs_racks s))) = [] \<longleftrightarrow> bindings_hold b s"
  "concat (map (view_binding_reasons s) (rebuild_bindings (Some b))) = []
   \<and> concat (map (\<lambda>k. add_reason (\<not> list_ex (\<lambda>x. rg_rack x = k) (rebuild_bindings (Some b))) reason
        (f k)) (om_keys (cs_racks s))) = [] \<longleftrightarrow> bindings_hold b s"
  unfolding bound_in_bindings bindings_hold_iff
  by (auto simp: rebuild_bindings_def om_entries_all binding_reasons_Nil set_om_keys)

lemma validate_current_iff:
  "sv_current (validate (capture b) s) \<longleftrightarrow> same_generations b s \<and> bindings_hold b s"
proof -
  have "snapshot_reasons b (rebuild_bindings (Some b)) s = [] \<longleftrightarrow>
      same_generations b s \<and> om_size (cs_racks b) = om_size (cs_racks s) \<and> bindings_hold b s"
    unfolding snapshot_reasons_def append_is_Nil_conv binding_lists_Nil(1) domain_generation_reasons_Nil
    by (auto simp: same_generations_def)
  then show ?thesis
    using bindings_hold_size by (auto simp: validate_def capture_def Let_def)
qed

lemma validate_view_current_iff:
  "sv_current (validate_view (from_snapshot (capture b)) s) \<longleftrightarrow>
     same_generations b s \<and> bindings_hold b s \<and> is_consumable_lifecycle (cs_lifecycle s)"
proof -
  let ?v = "from_snapshot (capture b)"
  have "view_reasons ?v s = [] \<longleftrightarrow>
      same_generations b s \<and> bindings_hold b s \<and> is_consumable_lifecycle (cs_lifecycle s)"
    using binding_lists_Nil(2) [of s b]
    unfolding view_reasons_def append_is_Nil_conv domain_generation_reasons_Nil
    by (auto simp: same_generations_def from_snapshot_def capture_def)
  then show ?thesis by (simp add: validate_view_def Let_def)
qed

subsection \<open>Where views differ from their documentation\<close>

text \<open>docs/protocol.md (lines 232 to 235) says that \<^verbatim>\<open>LIFECYCLE_NOT_CONSUMABLE\<close> does not by itself make a generationally
  correct view stale. That holds of \<^verbatim>\<open>ClusterSnapshot::validate\<close>; \<^verbatim>\<open>validate_view\<close> counts it among the reasons, and a view
  that was captured a moment ago is stale while the cluster is not consumable.\<close>

lemma view_stale_by_lifecycle:
  assumes "same_generations b s" and "bindings_hold b s" and "\<not> is_consumable_lifecycle (cs_lifecycle s)"
  shows "sv_current (validate (capture b) s) \<and> \<not> sv_current (validate_view (from_snapshot (capture b)) s)"
  using assms by (simp add: validate_current_iff validate_view_current_iff)

lemma fresh_view_stale:
  "sv_current (validate (capture empty_state) empty_state)
   \<and> \<not> sv_current (validate_view (from_snapshot (capture empty_state)) empty_state)"
  by (rule view_stale_by_lifecycle)
    (simp_all add: same_generations_def bindings_hold_def empty_state_def is_consumable_lifecycle_def)

subsection \<open>Properties\<close>

text \<open>
  C31. A snapshot is current exactly when the cluster's identity, epochs and generations are those it was
  captured at and every rack it binds is still there, not retired, at the same generation and membership,
  not published by a fenced incarnation and not in need of revalidation, with no rack added. The compact
  view sent over the network is current under the same conditions and, in addition, only while the
  cluster is consumable. The documentation has the first reading for views too; \<open>view_stale_by_lifecycle\<close>
  has the states where the two disagree.
\<close>

theorem snapshot_validation_exact:
  "(sv_current (validate (capture b) s) \<longleftrightarrow> same_generations b s \<and> bindings_hold b s)
   \<and> (sv_current (validate_view (from_snapshot (capture b)) s) \<longleftrightarrow>
        same_generations b s \<and> bindings_hold b s \<and> is_consumable_lifecycle (cs_lifecycle s))"
  using validate_current_iff validate_view_current_iff by blast

end
