(* ===== verification/Scenario.thy ===== *)
theory Scenario
  imports Authority Snapshot
begin

text \<open>
  Concrete requests and the states they lead to, for evaluating the definitions: a cluster is declared,
  a rack is admitted, a second rack is admitted and retired.
\<close>

definition demo_cluster :: cluster_id where "demo_cluster = StrongId ''c1''"

definition demo_config :: coordinator_config where "demo_config = default_config demo_cluster"

definition demo_declare :: mutation_request where
  "demo_declare = default_request\<lparr>mq_kind := MK_DeclareCluster, mq_cluster := demo_cluster\<rparr>"

definition demo_declared :: coordinator where
  "demo_declared = snd (apply_and_commit None 1000 demo_declare (new_coordinator demo_config))"

definition demo_authority :: "boot_id \<Rightarrow> mutation_authority" where
  "demo_authority boot = default_authority
     \<lparr>ma_cluster_epoch := StrongCounter 1, ma_coordinator_epoch := StrongCounter 1,
      ma_boot := Some boot, ma_publication := StrongCounter 1\<rparr>"

definition demo_add :: "rack_id \<Rightarrow> boot_id \<Rightarrow> mutation_request" where
  "demo_add rack boot = default_request
     \<lparr>mq_kind := MK_AddRack, mq_cluster := demo_cluster, mq_authority := demo_authority boot,
      mq_rack_reference := default_reference
        \<lparr>rf_rack := rack, rf_generation := StrongCounter 1, rf_publisher := Some (StrongId ''p1''),
         rf_publication := StrongCounter 1, rf_boot := boot, rf_rack_lifecycle := RL_Ready,
         rf_evidence := stamp_make EP_Measured 1000 0\<rparr>\<rparr>"

definition demo_rack :: rack_id where "demo_rack = StrongId ''r1''"

definition demo_boot :: boot_id where "demo_boot = StrongId ''b1''"

definition demo_one :: coordinator where
  "demo_one = snd (apply_and_commit None 1000 (demo_add demo_rack demo_boot) demo_declared)"

definition demo_fenced :: coordinator where
  "demo_fenced = apply_fence None 2000 2000 demo_boot ''lost'' demo_one"

definition demo_retire :: mutation_request where
  "demo_retire = default_request
     \<lparr>mq_kind := MK_RetireRack, mq_cluster := demo_cluster,
      mq_authority := (demo_authority demo_boot)\<lparr>ma_rack := Some demo_rack, ma_publication := StrongCounter 2\<rparr>\<rparr>"

definition demo_retired :: coordinator where
  "demo_retired = snd (apply_and_commit None 3000 demo_retire demo_one)"

text \<open>A store that refuses every save.\<close>

definition failing_store :: store where
  "failing_store = Some (\<lambda>_. \<lparr>so_ok = False, so_status = PS_IoError\<rparr>)"

text \<open>A started service that has committed the declaration.\<close>

definition demo_started :: service where
  "demo_started = start_begin None 500 (new_service demo_config)"

definition demo_submitted :: service where
  "demo_submitted = snd (submit demo_declare demo_started)"

definition demo_served :: service where
  "demo_served = run_commit None (\<lambda>_. (1000, 1000)) 1 demo_submitted"

definition demo_system :: system where
  "demo_system = \<lparr>sy_service = demo_served, sy_durable = None\<rparr>"

lemma demo_well_formed:
  "well_formed (co_canonical demo_declared)" "well_formed (co_canonical demo_one)"
  "well_formed (co_canonical demo_fenced)" "well_formed (co_canonical demo_retired)"
proof -
  have "well_formed (co_canonical (new_coordinator demo_config))" by (rule new_coordinator_ok)
  then show d: "well_formed (co_canonical demo_declared)"
    unfolding demo_declared_def by (rule commit_well_formed) (rule prod.collapse [symmetric])
  then show o: "well_formed (co_canonical demo_one)"
    unfolding demo_one_def by (rule commit_well_formed) (rule prod.collapse [symmetric])
  then show "well_formed (co_canonical demo_fenced)"
    unfolding demo_fenced_def by (rule fence_well_formed)
  from o show "well_formed (co_canonical demo_retired)"
    unfolding demo_retired_def by (rule commit_well_formed) (rule prod.collapse [symmetric])
qed

text \<open>docs/protocol.md (line 214) says that every request carrying a fenced boot identity is refused. Only the mutations of
  racks look at it: a domain published by the fenced incarnation is accepted.\<close>

definition demo_fenced_domain :: mutation_request where
  "demo_fenced_domain = default_request
     \<lparr>mq_kind := MK_PublishFailureDomain, mq_cluster := demo_cluster,
      mq_authority := (demo_authority demo_boot)\<lparr>ma_publication := StrongCounter 2\<rparr>,
      mq_failure_domain := Some
        \<lparr>dm_id = StrongId ''feed-1'', dm_body = FDC_PowerFeed, dm_racks = [demo_rack],
         dm_header = default_header\<lparr>dh_evidence := stamp_make EP_Measured 3000 0, dh_generation := StrongCounter 1\<rparr>\<rparr>\<rparr>"

lemma fenced_domain_accepted:
  "is_boot_fenced (co_canonical demo_fenced) demo_boot
   \<and> mr_outcome (fst (apply_and_commit None 3000 demo_fenced_domain demo_fenced)) = MO_Accepted"
  by (intro conjI; code_simp)

lemma demo_reachable: "reachable demo_config demo_system"
proof -
  have "system_step demo_config (initial_system demo_config) \<lparr>sy_service = demo_started, sy_durable = None\<rparr>"
    unfolding initial_system_def demo_started_def
    by (rule Start) (simp_all add: new_service_def load_consistent_def)
  moreover have "system_step demo_config \<lparr>sy_service = demo_started, sy_durable = None\<rparr>
      \<lparr>sy_service = demo_submitted, sy_durable = None\<rparr>"
    unfolding demo_submitted_def by (rule Submit) (rule prod.collapse [symmetric])
  moreover have "system_step demo_config \<lparr>sy_service = demo_submitted, sy_durable = None\<rparr> demo_system"
  proof -
    have "commit_round None 1000 1000 demo_submitted = Some demo_served"
      by (simp add: demo_served_def demo_submitted_def demo_started_def submit_def start_begin_def
          new_service_def kMaxPendingRequests_def commit_round_def Let_def split: prod.splits)
    moreover have "co_persistence_saves (sv_coordinator demo_served) = co_persistence_saves (sv_coordinator demo_submitted)"
      by code_simp
    ultimately show ?thesis
      using Commit [of None 1000 1000 demo_submitted demo_served demo_config None]
      by (simp add: demo_system_def durable_after_def)
  qed
  ultimately show ?thesis
    unfolding reachable_def by (meson rtranclp.rtrancl_refl rtranclp.rtrancl_into_rtrancl)
qed

end
