(* ===== verification/Byte_Codec.thy ===== *)
theory Byte_Codec
  imports Mutation
begin

text \<open>
  The bounded little-endian writer and reader every encoding goes through (\<^verbatim>\<open>ByteWriter\<close> and
  \<^verbatim>\<open>ByteReader\<close>, src/include/cluster_fabric/protocol.hpp and src/src/protocol.cpp).

  A writer carries its bytes and its first failure; writing functions map writers to writers and are
  put in the order of the code by \<open>seq\<close>. A reader is the list of the bytes not yet read: \<^verbatim>\<open>remaining\<close> is
  its length and \<^verbatim>\<open>exhausted\<close> is emptiness. A read gives a value and the rest, or the failure it
  records. A failed reader answers every later read with nothing, and every caller tests for failure
  after a group of reads, so a group of reads is their sequence under \<open>sum_bind\<close>, which stops at the
  first failure.

  \<open>emits\<close> relates the two sides: whenever a chain of writes succeeds, it has appended bytes from which the
  reader returns the value, whatever follows them. Its rules compose along \<open>seq\<close> and \<open>sum_bind\<close>.
\<close>

unbundle bit_operations_syntax

type_synonym u8 = "8 word"
type_synonym u16 = "16 word"

datatype protocol_status =
  PR_Ok | PR_BadMagic | PR_UnsupportedVersion | PR_TruncatedHeader | PR_TruncatedPayload
  | PR_OversizedFrame | PR_ChecksumMismatch | PR_UnknownMessage | PR_MalformedPayload | PR_AbsurdLength
  | PR_TrailingGarbage | PR_InvalidEnum | PR_InvalidIdentity | PR_ConnectionClosed | PR_IoError
  | PR_NotConnected | PR_AlreadyRunning | PR_NotRunning | PR_ShutdownInProgress | PR_Rejected

definition kMaxPersistenceBytes :: nat where "kMaxPersistenceBytes = 268435456"

definition kMaxWriterBytes :: nat where "kMaxWriterBytes = kMaxPersistenceBytes"

subsection \<open>Bytes\<close>

definition byte_char :: "u8 \<Rightarrow> char" where
  "byte_char b = char_of (unat b)"

definition char_byte :: "char \<Rightarrow> u8" where
  "char_byte c = of_nat (of_char c)"

lemma char_byte_char [simp]: "char_byte (byte_char b) = b"
proof -
  have "unat b < 256" using unsigned_less [of b] by simp
  then show ?thesis by (simp add: char_byte_def byte_char_def)
qed

lemma byte_char_byte [simp]: "byte_char (char_byte c) = c"
proof -
  have "of_char c < (256 :: nat)" by simp
  then have "unat (of_nat (of_char c) :: u8) = of_char c" by (simp add: unat_of_nat)
  then show ?thesis by (simp add: char_byte_def byte_char_def)
qed

subsection \<open>The writer\<close>

record writer =
  wr_data :: string
  wr_status :: protocol_status

definition new_writer :: writer where
  "new_writer = \<lparr>wr_data = [], wr_status = PR_Ok\<rparr>"

definition wr_ok :: "writer \<Rightarrow> bool" where
  "wr_ok w \<longleftrightarrow> wr_status w = PR_Ok"

definition wr_fail :: "protocol_status \<Rightarrow> writer \<Rightarrow> writer" where
  "wr_fail status w = (if wr_status w = PR_Ok then w\<lparr>wr_status := status\<rparr> else w)"

definition w_u8 :: "u8 \<Rightarrow> writer \<Rightarrow> writer" where
  "w_u8 v w =
     (if \<not> wr_ok w then w
      else if length (wr_data w) + 1 > kMaxWriterBytes then wr_fail PR_AbsurdLength w
      else w\<lparr>wr_data := wr_data w @ [byte_char v]\<rparr>)"

definition w_boolean :: "bool \<Rightarrow> writer \<Rightarrow> writer" where
  "w_boolean v = w_u8 (if v then 1 else 0)"

text \<open>Writes one after the other.\<close>

fun seq :: "(writer \<Rightarrow> writer) list \<Rightarrow> writer \<Rightarrow> writer" where
  "seq [] = (\<lambda>w. w)"
| "seq [g] = g"
| "seq (g # h # gs) = fcomp g (seq (h # gs))"

lemmas seq_steps = seq.simps fcomp_assoc

text \<open>The loop of \<^verbatim>\<open>u16\<close>, \<^verbatim>\<open>u32\<close> and \<^verbatim>\<open>u64\<close>: the number of bytes left, the index and the value.\<close>

fun write_le :: "nat \<Rightarrow> nat \<Rightarrow> u64 \<Rightarrow> writer \<Rightarrow> writer" where
  "write_le 0 index v = (\<lambda>w. w)"
| "write_le (Suc n) index v = seq [w_u8 (ucast (drop_bit (index * 8) v)), write_le n (Suc index) v]"

definition w_u16 :: "u16 \<Rightarrow> writer \<Rightarrow> writer" where "w_u16 v = write_le 2 0 (ucast v)"
definition w_u32 :: "u32 \<Rightarrow> writer \<Rightarrow> writer" where "w_u32 v = write_le 4 0 (ucast v)"
definition w_u64 :: "u64 \<Rightarrow> writer \<Rightarrow> writer" where "w_u64 v = write_le 8 0 v"
definition w_i64 :: "int \<Rightarrow> writer \<Rightarrow> writer" where "w_i64 v = w_u64 (of_int v)"
definition w_f64 :: "double \<Rightarrow> writer \<Rightarrow> writer" where "w_f64 v = w_u64 (double_bits v)"

definition w_bytes :: "string \<Rightarrow> writer \<Rightarrow> writer" where
  "w_bytes v w =
     (if \<not> wr_ok w then w
      else if length v > kMaxEncodedStringBytes then wr_fail PR_AbsurdLength w
      else
        let w = w_u32 (of_nat (length v)) w in
        if \<not> wr_ok w \<or> v = [] then w
        else if length (wr_data w) + length v > kMaxWriterBytes then wr_fail PR_AbsurdLength w
        else w\<lparr>wr_data := wr_data w @ v\<rparr>)"

definition w_text :: "string \<Rightarrow> writer \<Rightarrow> writer" where "w_text v = w_bytes v"

definition w_optional_present :: "bool \<Rightarrow> writer \<Rightarrow> writer" where
  "w_optional_present v = w_u8 (if v then 1 else 0)"

subsection \<open>The reader\<close>

definition sum_bind :: "'e + 'a \<Rightarrow> ('a \<Rightarrow> 'e + 'b) \<Rightarrow> 'e + 'b" where
  "sum_bind m f = (case m of Inl e \<Rightarrow> Inl e | Inr x \<Rightarrow> f x)"

lemma sum_bind_simps [simp]: "sum_bind (Inl e) f = Inl e" "sum_bind (Inr x) f = f x"
  by (simp_all add: sum_bind_def)

lemma sum_bind_Inr: "sum_bind m f = Inr y \<longleftrightarrow> (\<exists>x. m = Inr x \<and> f x = Inr y)"
  by (cases m) simp_all

fun r_u8 :: "string \<Rightarrow> protocol_status + u8 \<times> string" where
  "r_u8 [] = Inl PR_TruncatedPayload"
| "r_u8 (c # cs) = Inr (char_byte c, cs)"

definition r_boolean :: "string \<Rightarrow> protocol_status + bool \<times> string" where
  "r_boolean s =
     sum_bind (r_u8 s) (\<lambda>(v, s). if v > 1 then Inl PR_MalformedPayload else Inr (v = 1, s))"

fun read_le :: "nat \<Rightarrow> nat \<Rightarrow> u64 \<Rightarrow> string \<Rightarrow> protocol_status + u64 \<times> string" where
  "read_le 0 index v s = Inr (v, s)"
| "read_le (Suc n) index v s =
     sum_bind (r_u8 s) (\<lambda>(b, s). read_le n (Suc index) (v OR push_bit (index * 8) (ucast b)) s)"

definition r_u16 :: "string \<Rightarrow> protocol_status + u16 \<times> string" where
  "r_u16 s = sum_bind (read_le 2 0 0 s) (\<lambda>(v, s). Inr (ucast v, s))"

definition r_u32 :: "string \<Rightarrow> protocol_status + u32 \<times> string" where
  "r_u32 s = sum_bind (read_le 4 0 0 s) (\<lambda>(v, s). Inr (ucast v, s))"

definition r_u64 :: "string \<Rightarrow> protocol_status + u64 \<times> string" where
  "r_u64 s = read_le 8 0 0 s"

definition r_i64 :: "string \<Rightarrow> protocol_status + int \<times> string" where
  "r_i64 s = sum_bind (r_u64 s) (\<lambda>(v, s). Inr (sint v, s))"

definition r_f64 :: "string \<Rightarrow> protocol_status + double \<times> string" where
  "r_f64 s = sum_bind (r_u64 s) (\<lambda>(v, s). Inr (Double v, s))"

definition r_bytes :: "string \<Rightarrow> protocol_status + string \<times> string" where
  "r_bytes s =
     sum_bind (r_u32 s) (\<lambda>(size, s).
       if unat size > kMaxEncodedStringBytes then Inl PR_AbsurdLength
       else if unat size > length s then Inl PR_TruncatedPayload
       else Inr (take (unat size) s, drop (unat size) s))"

definition r_text :: "string \<Rightarrow> protocol_status + string \<times> string" where
  "r_text s = r_bytes s"

text \<open>The counted loops: so many entries, one after the other.\<close>

fun read_list :: "(string \<Rightarrow> 'e + 'a \<times> string) \<Rightarrow> nat \<Rightarrow> string \<Rightarrow> 'e + 'a list \<times> string" where
  "read_list rd 0 s = Inr ([], s)"
| "read_list rd (Suc n) s =
     sum_bind (rd s) (\<lambda>(x, s). sum_bind (read_list rd n s) (\<lambda>(xs, s). Inr (x # xs, s)))"

definition write_list :: "('a \<Rightarrow> writer \<Rightarrow> writer) \<Rightarrow> 'a list \<Rightarrow> writer \<Rightarrow> writer" where
  "write_list write xs w = foldl (\<lambda>w x. write x w) w xs"

text \<open>A failure reported under the status of the place that tests for it.\<close>

definition or_status :: "'f \<Rightarrow> 'e + 'a \<Rightarrow> 'f + 'a" where
  "or_status status m = (case m of Inl e \<Rightarrow> Inl status | Inr x \<Rightarrow> Inr x)"

lemma or_status_simps [simp]: "or_status status (Inl e) = Inl status" "or_status status (Inr x) = Inr x"
  by (simp_all add: or_status_def)

subsection \<open>The contract of a write and a read\<close>

definition emits :: "(writer \<Rightarrow> writer) \<Rightarrow> (string \<Rightarrow> 'e + 'a \<times> string) \<Rightarrow> 'a \<Rightarrow> bool" where
  "emits g rd x \<longleftrightarrow>
     (\<forall>w. wr_ok (g w) \<longrightarrow> wr_ok w
        \<and> (\<exists>bs. wr_data (g w) = wr_data w @ bs \<and> (\<forall>rest. rd (bs @ rest) = Inr (x, rest))))"

lemma emits_return: "emits (\<lambda>w. w) (\<lambda>s. Inr (x, s)) x"
  by (simp add: emits_def)

lemma emits_bind:
  assumes "emits g rd x" and "emits h (k x) y"
  shows "emits (fcomp g h) (\<lambda>s. sum_bind (rd s) (\<lambda>(x, s). k x s)) y"
proof -
  have "wr_ok w \<and> (\<exists>bs. wr_data (h (g w)) = wr_data w @ bs
      \<and> (\<forall>rest. sum_bind (rd (bs @ rest)) (\<lambda>(x, s). k x s) = Inr (y, rest)))" if ok: "wr_ok (h (g w))" for w
  proof -
    obtain bs2 where 2: "wr_ok (g w)" "wr_data (h (g w)) = wr_data (g w) @ bs2"
      "\<And>rest. k x (bs2 @ rest) = Inr (y, rest)"
      using assms(2) ok unfolding emits_def by blast
    obtain bs1 where 1: "wr_ok w" "wr_data (g w) = wr_data w @ bs1" "\<And>rest. rd (bs1 @ rest) = Inr (x, rest)"
      using assms(1) 2(1) unfolding emits_def by blast
    show ?thesis
      using 1 2 by (intro conjI exI [of _ "bs1 @ bs2"]) simp_all
  qed
  then show ?thesis by (simp add: emits_def)
qed

lemma emits_last:
  assumes "emits g rd x" and "\<And>s. k x s = Inr (y, s)"
  shows "emits g (\<lambda>s. sum_bind (rd s) (\<lambda>(x, s). k x s)) y"
  using assms unfolding emits_def by fastforce

lemma emits_or_status:
  assumes "emits g rd x"
  shows "emits g (\<lambda>s. or_status status (rd s)) x"
  using assms unfolding emits_def by fastforce

lemma emits_nonempty:
  assumes "emits g rd x" and "\<And>y. rd [] \<noteq> Inr y" and "wr_ok (g w)"
  shows "length (wr_data w) < length (wr_data (g w))"
proof -
  obtain bs where bs: "wr_data (g w) = wr_data w @ bs" "\<And>rest. rd (bs @ rest) = Inr (x, rest)"
    using assms(1,3) unfolding emits_def by blast
  have "bs \<noteq> []" using assms(2) bs(2) [of "[]"] by auto
  then show ?thesis using bs(1) by simp
qed

lemma emits_result:
  assumes "emits g rd x" and "wr_ok (g new_writer)"
  shows "rd (wr_data (g new_writer)) = Inr (x, [])"
proof -
  obtain bs where "wr_data (g new_writer) = wr_data new_writer @ bs" "\<And>rest. rd (bs @ rest) = Inr (x, rest)"
    using assms unfolding emits_def by blast
  then show ?thesis by (metis append.left_neutral append_Nil2 new_writer_def writer.select_convs(1))
qed

lemma write_list_simps [simp]:
  "write_list write [] = (\<lambda>w. w)" "write_list write (x # xs) = fcomp (write x) (write_list write xs)"
  by (simp_all add: write_list_def fun_eq_iff)

lemma emits_list:
  assumes "\<And>x. x \<in> set xs \<Longrightarrow> emits (write x) rd x"
  shows "emits (write_list write xs) (read_list rd (length xs)) xs"
  using assms
proof (induction xs)
  case Nil
  show ?case using emits_return [of "[]"] by (simp add: emits_def)
next
  case (Cons x xs)
  have "emits (fcomp (write x) (write_list write xs))
      (\<lambda>s. sum_bind (rd s) (\<lambda>(x, s). sum_bind (read_list rd (length xs) s) (\<lambda>(xs, s). Inr (x # xs, s))))
      (x # xs)"
    using Cons by (intro emits_bind [of "write x" rd x] emits_last [of _ _ xs]) simp_all
  then show ?case by (simp add: fun_eq_iff emits_def)
qed

subsection \<open>The primitives keep the contract\<close>

lemma emits_u8: "emits (w_u8 v) r_u8 v"
  by (auto simp: emits_def w_u8_def wr_ok_def wr_fail_def)

lemma emits_boolean: "emits (w_boolean v) r_boolean v" "emits (w_optional_present v) r_boolean v"
  unfolding w_boolean_def w_optional_present_def r_boolean_def [abs_def]
  by (rule emits_last [OF emits_u8], simp)+

lemma segment_step:
  fixes v :: u64
  shows "(u OR push_bit (index * 8) (ucast (ucast (drop_bit (index * 8) v) :: u8)))
           OR push_bit (Suc index * 8) (take_bit (n * 8) (drop_bit (Suc index * 8) v))
     = u OR push_bit (index * 8) (take_bit (Suc n * 8) (drop_bit (index * 8) v))"
proof (rule bit_eqI)
  fix m
  consider "m < index * 8" | j where "m = index * 8 + j" "j < 8" | j where "m = index * 8 + (8 + j)"
  proof -
    assume a: "m < index * 8 \<Longrightarrow> thesis" "\<And>j. m = index * 8 + j \<Longrightarrow> j < 8 \<Longrightarrow> thesis"
      "\<And>j. m = index * 8 + (8 + j) \<Longrightarrow> thesis"
    show thesis
    proof (cases "m < index * 8")
      case False
      then obtain j where j: "m = index * 8 + j" using le_Suc_ex by (metis not_le)
      show thesis
      proof (cases "j < 8")
        case False
        then obtain i where "j = 8 + i" using le_Suc_ex by (metis not_le)
        with j a(3) show thesis by simp
      qed (use j a(2) in blast)
    qed (rule a(1))
  qed
  then show "bit ((u OR push_bit (index * 8) (ucast (ucast (drop_bit (index * 8) v) :: u8)))
      OR push_bit (Suc index * 8) (take_bit (n * 8) (drop_bit (Suc index * 8) v))) m
    = bit (u OR push_bit (index * 8) (take_bit (Suc n * 8) (drop_bit (index * 8) v))) m"
    by cases (auto simp: bit_simps ac_simps)
qed

lemma ucast_take:
  "ucast (take_bit 32 (ucast v :: u64)) = (v :: u32)" "ucast (take_bit 16 (ucast v' :: u64)) = (v' :: u16)"
  by (rule bit_eqI, auto simp: bit_simps dest: bit_imp_le_length)+

lemma emits_le:
  "emits (write_le n index v) (read_le n index u)
     (u OR push_bit (index * 8) (take_bit (n * 8) (drop_bit (index * 8) v)))"
proof (induction n arbitrary: index u)
  case 0
  show ?case using emits_return by (simp add: emits_def)
next
  case (Suc n)
  have "emits (write_le (Suc n) index v)
      (\<lambda>s. sum_bind (r_u8 s) (\<lambda>(b, s). read_le n (Suc index) (u OR push_bit (index * 8) (ucast b)) s))
      (u OR push_bit (index * 8) (take_bit (Suc n * 8) (drop_bit (index * 8) v)))"
    unfolding write_le.simps seq.simps segment_step [symmetric] by (rule emits_bind [OF emits_u8 Suc.IH])
  then show ?case by (simp add: emits_def)
qed

lemma emits_u64: "emits (w_u64 v) r_u64 v"
  using emits_le [of 8 0 v 0] by (simp add: w_u64_def r_u64_def [abs_def] take_bit_word_eq_self)

lemma emits_u32: "emits (w_u32 v) r_u32 v"
  unfolding w_u32_def r_u32_def [abs_def]
  by (rule emits_last [OF emits_le]) (simp add: ucast_take)

lemma emits_u16: "emits (w_u16 v) r_u16 v"
  unfolding w_u16_def r_u16_def [abs_def]
  by (rule emits_last [OF emits_le]) (simp add: ucast_take)

lemma emits_i64: "i64_range v \<Longrightarrow> emits (w_i64 v) r_i64 v"
  unfolding w_i64_def r_i64_def [abs_def]
  by (rule emits_last [OF emits_u64])
    (simp add: signed_of_int signed_take_bit_int_eq_self i64_range_def i64_min_def i64_max_def)

lemma emits_f64: "emits (w_f64 v) r_f64 v"
  unfolding w_f64_def r_f64_def [abs_def] by (rule emits_last [OF emits_u64]) simp

lemma emits_text: "emits (w_text v) r_text v"
proof -
  have "wr_ok w \<and> (\<exists>bs. wr_data (w_bytes v w) = wr_data w @ bs \<and> (\<forall>rest. r_bytes (bs @ rest) = Inr (v, rest)))"
    if "wr_ok (w_bytes v w)" for w
  proof -
    let ?w = "w_u32 (of_nat (length v)) w"
    have len: "length v \<le> kMaxEncodedStringBytes" and ok: "wr_ok ?w" and data: "wr_data (w_bytes v w) = wr_data ?w @ v"
      using that by (auto simp: w_bytes_def Let_def wr_ok_def wr_fail_def split: if_splits)
    obtain bs where bs: "wr_ok w" "wr_data ?w = wr_data w @ bs"
      "\<And>rest. r_u32 (bs @ rest) = Inr (of_nat (length v), rest)"
      using emits_u32 [of "of_nat (length v)"] ok unfolding emits_def by blast
    have "unat (of_nat (length v) :: u32) = length v"
      using len by (simp add: unat_of_nat kMaxEncodedStringBytes_def)
    then have "r_bytes ((bs @ v) @ rest) = Inr (v, rest)" for rest
      using len by (simp add: r_bytes_def bs(3))
    then show ?thesis using bs(1,2) data by (intro conjI exI [of _ "bs @ v"]) simp_all
  qed
  then show ?thesis by (simp add: emits_def w_text_def r_text_def [abs_def])
qed

lemmas emits_prims = emits_u8 emits_boolean emits_u16 emits_u32 emits_u64 emits_i64 emits_f64 emits_text

subsection \<open>Integers in memory\<close>

text \<open>\<^verbatim>\<open>memcpy\<close> of an integer into bytes, and of bytes into an integer.\<close>

fun store_le :: "nat \<Rightarrow> u64 \<Rightarrow> string" where
  "store_le 0 v = []"
| "store_le (Suc n) v = byte_char (ucast v) # store_le n (drop_bit 8 v)"

fun load_le :: "nat \<Rightarrow> string \<Rightarrow> u64" where
  "load_le 0 s = 0"
| "load_le (Suc n) s = ucast (char_byte (hd s)) OR push_bit 8 (load_le n (tl s))"

lemma length_store_le [simp]: "length (store_le n v) = n"
  by (induction n arbitrary: v) simp_all

lemma load_store_le: "load_le n (store_le n v @ rest) = take_bit (n * 8) v"
proof (induction n arbitrary: v)
  case (Suc n)
  have "ucast (ucast v :: u8) OR push_bit 8 (take_bit (n * 8) (drop_bit 8 v)) = take_bit (Suc n * 8) v"
  proof (rule bit_eqI)
    fix m :: nat
    consider "m < 8" | j where "m = 8 + j" using le_Suc_ex [of 8 m] not_le by blast
    then show "bit (ucast (ucast v :: u8) OR push_bit 8 (take_bit (n * 8) (drop_bit 8 v))) m
        = bit (take_bit (Suc n * 8) v) m"
      by cases (auto simp: bit_simps dest: bit_imp_le_length)
  qed
  then show ?case by (simp add: Suc)
qed simp

lemma store_load_le: "n * 8 \<le> 64 \<Longrightarrow> n \<le> length s \<Longrightarrow> store_le n (load_le n s) = take n s"
proof (induction n arbitrary: s)
  case (Suc n)
  obtain c cs where s: "s = c # cs" using Suc.prems(2) by (cases s) simp_all
  have small: "take_bit (n * 8) (load_le n cs) = load_le n cs"
    using Suc s load_store_le [of n "load_le n cs" "drop n cs"] by simp
  have "ucast (ucast (char_byte c) OR push_bit 8 (load_le n cs)) = char_byte c"
    by (rule bit_eqI) (auto simp: bit_simps dest: bit_imp_le_length)
  moreover have "drop_bit 8 (ucast (char_byte c) OR push_bit 8 (load_le n cs)) = load_le n cs"
  proof (rule bit_eqI)
    fix m :: nat
    have "\<not> bit (char_byte c) (8 + m)" using bit_imp_le_length [of "char_byte c" "8 + m"] by auto
    moreover have "8 + m < 64 \<or> \<not> bit (load_le n cs) m"
      using Suc.prems(1) arg_cong [OF small, of "\<lambda>v. bit v m"] by (auto simp: bit_simps)
    ultimately show "bit (drop_bit 8 (ucast (char_byte c) OR push_bit 8 (load_le n cs))) m = bit (load_le n cs) m"
      using bit_imp_le_length [of "load_le n cs" m] by (auto simp: bit_simps)
  qed
  ultimately show ?case using Suc s by simp
qed simp

lemma load_le_iff:
  assumes "n * 8 \<le> 64" and "length a = n" and "take_bit (n * 8) v = v"
  shows "load_le n (a @ rest) = v \<longleftrightarrow> a = store_le n v"
proof
  assume "load_le n (a @ rest) = v"
  then show "a = store_le n v" using store_load_le [of n "a @ rest"] assms(1,2) by simp
qed (use assms(3) load_store_le [of n v rest] in simp)

lemma ucast_fits: "take_bit 32 (ucast (v :: u32) :: u64) = ucast v" "take_bit 16 (ucast (v' :: u16) :: u64) = ucast v'"
  by (rule bit_eqI, auto simp: bit_simps dest: bit_imp_le_length)+

end
