(* ===== verification/Enum_Codes.thy ===== *)
theory Enum_Codes
  imports Byte_Codec
begin

text \<open>
  Enumerations as bytes: \<^verbatim>\<open>static_cast\<close> from and to the underlying \<^verbatim>\<open>std::uint8_t\<close>, by the list of the
  enumerators in the order of their declaration, which is the order of their values. Decoders compare
  the byte with the value of the last enumerator before they convert it; \<open>raw_enum\<close> is the contract that
  makes this comparison sound, with one interpretation per enumeration.
\<close>

definition raw_of :: "'a list \<Rightarrow> 'a \<Rightarrow> u8" where
  "raw_of vals v = of_nat (length (takeWhile (\<lambda>x. x \<noteq> v) vals))"

definition of_raw :: "'a list \<Rightarrow> u8 \<Rightarrow> 'a" where
  "of_raw vals b = vals ! unat b"

definition w_enum :: "'a list \<Rightarrow> 'a \<Rightarrow> writer \<Rightarrow> writer" where
  "w_enum vals v = w_u8 (raw_of vals v)"

definition to_enum :: "'a list \<Rightarrow> 'a \<Rightarrow> u8 \<Rightarrow> protocol_status + 'a" where
  "to_enum vals max_value b = (if b > raw_of vals max_value then Inl PR_InvalidEnum else Inr (of_raw vals b))"

definition r_enum :: "'a list \<Rightarrow> 'a \<Rightarrow> string \<Rightarrow> protocol_status + 'a \<times> string" where
  "r_enum vals max_value s =
     sum_bind (r_u8 s) (\<lambda>(b, s). sum_bind (to_enum vals max_value b) (\<lambda>v. Inr (v, s)))"

locale raw_enum =
  fixes vals :: "'a list" and last_value :: 'a
  assumes listed: "v \<in> set vals" and once: "distinct vals" and few: "length vals \<le> 256"
    and ends: "last vals = last_value"
begin

lemma raw_index: "length (takeWhile (\<lambda>x. x \<noteq> v) vals) < length vals"
    and raw_nth: "vals ! length (takeWhile (\<lambda>x. x \<noteq> v) vals) = v"
proof -
  let ?n = "length (takeWhile (\<lambda>x. x \<noteq> v) vals)"
  show lt: "?n < length vals"
  proof (rule ccontr)
    assume "\<not> ?n < length vals"
    then have "takeWhile (\<lambda>x. x \<noteq> v) vals = vals"
      by (metis length_takeWhile_le linorder_not_less order_antisym takeWhile_eq_take take_all)
    then show False using listed by (metis (mono_tags) set_takeWhileD)
  qed
  then show "vals ! ?n = v" using nth_length_takeWhile [OF lt] by simp
qed

lemma unat_raw: "unat (raw_of vals v) = length (takeWhile (\<lambda>x. x \<noteq> v) vals)"
  using raw_index [of v] few by (simp add: raw_of_def unat_of_nat)

lemma of_raw_of: "of_raw vals (raw_of vals v) = v"
  by (simp add: of_raw_def unat_raw raw_nth)

lemma raw_last: "unat (raw_of vals last_value) = length vals - 1"
proof -
  have "vals \<noteq> []" using listed by auto
  then have "vals ! (length vals - 1) = last_value" using ends by (simp add: last_conv_nth)
  moreover have "length vals - 1 < length vals" using \<open>vals \<noteq> []\<close> by simp
  ultimately show ?thesis
    unfolding unat_raw using raw_index raw_nth once by (metis nth_eq_iff_index_eq)
qed

lemma raw_le: "raw_of vals v \<le> raw_of vals last_value"
  using raw_index [of v] unfolding word_le_nat_alt raw_last by (simp add: unat_raw)

lemma to_enum_raw: "to_enum vals last_value (raw_of vals v) = Inr v"
  by (simp add: to_enum_def of_raw_of leD [OF raw_le])

lemma emits_enum: "emits (w_enum vals v) (r_enum vals last_value) v"
  unfolding w_enum_def r_enum_def [abs_def]
  by (rule emits_last [OF emits_u8]) (simp add: to_enum_raw)

end

text \<open>The enumerators of each enumeration that is stored or sent, in the order of the declaration.\<close>

definition evidence_provenance_values :: "evidence_provenance list" where
  "evidence_provenance_values =
     [EP_Unknown, EP_Measured, EP_Reported, EP_Derived, EP_Estimated, EP_Synthetic,
     EP_Reconstructed]"

definition freshness_values :: "freshness list" where
  "freshness_values =
     [FR_Unknown, FR_Fresh, FR_Stale, FR_RevalidationRequired]"

definition failure_domain_class_values :: "failure_domain_class list" where
  "failure_domain_class_values =
     [FDC_Unknown, FDC_Rack, FDC_Row, FDC_SwitchPlane, FDC_PowerFeed, FDC_NetworkPlane,
     FDC_AvailabilityZone, FDC_StorageDomain, FDC_CoolingLoop, FDC_ControlPlane]"

definition placement_domain_class_values :: "placement_domain_class list" where
  "placement_domain_class_values =
     [PDC_Unknown, PDC_LowLatencyFabric, PDC_AvailabilityDomain, PDC_NetworkTier, PDC_PowerBoundary,
     PDC_StorageLocality, PDC_FailureDomain, PDC_PolicyClass]"

definition capacity_domain_class_values :: "capacity_domain_class list" where
  "capacity_domain_class_values =
     [CDC_Unknown, CDC_RackGroup, CDC_AcceleratorPool, CDC_CpuPool, CDC_NetworkDomain,
     CDC_StorageDomain]"

definition connectivity_class_values :: "connectivity_class list" where
  "connectivity_class_values =
     [CC_Unknown, CC_DirectFabric, CC_SwitchedFabric, CC_RoutedPath, CC_Overlay, CC_ManagementOnly]"

definition link_direction_values :: "link_direction list" where
  "link_direction_values =
     [LD_Unknown, LD_Unidirectional, LD_Bidirectional]"

definition reachability_values :: "reachability list" where
  "reachability_values =
     [RB_Unknown, RB_Reachable, RB_Unreachable, RB_RevalidationRequired]"

definition bandwidth_class_values :: "bandwidth_class list" where
  "bandwidth_class_values =
     [BW_Unknown, BW_Low, BW_Moderate, BW_High, BW_VeryHigh]"

definition latency_class_values :: "latency_class list" where
  "latency_class_values =
     [LT_Unknown, LT_VeryLow, LT_Low, LT_Moderate, LT_High]"

definition accelerator_vendor_values :: "accelerator_vendor list" where
  "accelerator_vendor_values =
     [AV_Unknown, AV_Nvidia, AV_Amd, AV_Intel, AV_Other]"

definition health_state_values :: "health_state list" where
  "health_state_values =
     [HS_Unknown, HS_Healthy, HS_Degraded, HS_Unhealthy]"

definition constraint_kind_values :: "constraint_kind list" where
  "constraint_kind_values =
     [CK_Unknown, CK_PlacementScope, CK_ConnectivityRequirement, CK_FailureDomainIndependence,
     CK_CapacityFloor, CK_MaintenanceWindow]"

definition cluster_lifecycle_values :: "cluster_lifecycle list" where
  "cluster_lifecycle_values =
     [CL_Declared, CL_Forming, CL_Partial, CL_Ready, CL_Degraded, CL_RevalidationRequired,
     CL_Retiring, CL_Retired]"

definition rack_membership_state_values :: "rack_membership_state list" where
  "rack_membership_state_values =
     [RM_Unknown, RM_Active, RM_Unavailable, RM_Withdrawn, RM_Retired]"

definition rack_lifecycle_state_values :: "rack_lifecycle_state list" where
  "rack_lifecycle_state_values =
     [RL_Unknown, RL_Declared, RL_Forming, RL_Ready, RL_Degraded, RL_Retiring, RL_Retired]"

definition rack_currentness_values :: "rack_currentness list" where
  "rack_currentness_values =
     [RC_Unknown, RC_Current, RC_Superseded, RC_RevalidationRequired]"

lemma evidence_provenance_listed: "v \<in> set evidence_provenance_values"
  by (cases v) (simp_all add: evidence_provenance_values_def)

lemma freshness_listed: "v \<in> set freshness_values"
  by (cases v) (simp_all add: freshness_values_def)

lemma failure_domain_class_listed: "v \<in> set failure_domain_class_values"
  by (cases v) (simp_all add: failure_domain_class_values_def)

lemma placement_domain_class_listed: "v \<in> set placement_domain_class_values"
  by (cases v) (simp_all add: placement_domain_class_values_def)

lemma capacity_domain_class_listed: "v \<in> set capacity_domain_class_values"
  by (cases v) (simp_all add: capacity_domain_class_values_def)

lemma connectivity_class_listed: "v \<in> set connectivity_class_values"
  by (cases v) (simp_all add: connectivity_class_values_def)

lemma link_direction_listed: "v \<in> set link_direction_values"
  by (cases v) (simp_all add: link_direction_values_def)

lemma reachability_listed: "v \<in> set reachability_values"
  by (cases v) (simp_all add: reachability_values_def)

lemma bandwidth_class_listed: "v \<in> set bandwidth_class_values"
  by (cases v) (simp_all add: bandwidth_class_values_def)

lemma latency_class_listed: "v \<in> set latency_class_values"
  by (cases v) (simp_all add: latency_class_values_def)

lemma accelerator_vendor_listed: "v \<in> set accelerator_vendor_values"
  by (cases v) (simp_all add: accelerator_vendor_values_def)

lemma health_state_listed: "v \<in> set health_state_values"
  by (cases v) (simp_all add: health_state_values_def)

lemma constraint_kind_listed: "v \<in> set constraint_kind_values"
  by (cases v) (simp_all add: constraint_kind_values_def)

lemma cluster_lifecycle_listed: "v \<in> set cluster_lifecycle_values"
  by (cases v) (simp_all add: cluster_lifecycle_values_def)

lemma rack_membership_state_listed: "v \<in> set rack_membership_state_values"
  by (cases v) (simp_all add: rack_membership_state_values_def)

lemma rack_lifecycle_state_listed: "v \<in> set rack_lifecycle_state_values"
  by (cases v) (simp_all add: rack_lifecycle_state_values_def)

lemma rack_currentness_listed: "v \<in> set rack_currentness_values"
  by (cases v) (simp_all add: rack_currentness_values_def)

lemma mutation_kind_listed: "v \<in> set mutation_kind_values"
  by (cases v) (simp_all add: mutation_kind_values_def)

interpretation evidence_provenance_raw: raw_enum evidence_provenance_values EP_Reconstructed
  by (rule raw_enum.intro, rule evidence_provenance_listed)
    (simp_all add: evidence_provenance_values_def)

interpretation freshness_raw: raw_enum freshness_values FR_RevalidationRequired
  by (rule raw_enum.intro, rule freshness_listed)
    (simp_all add: freshness_values_def)

interpretation failure_domain_class_raw: raw_enum failure_domain_class_values FDC_ControlPlane
  by (rule raw_enum.intro, rule failure_domain_class_listed)
    (simp_all add: failure_domain_class_values_def)

interpretation placement_domain_class_raw: raw_enum placement_domain_class_values PDC_PolicyClass
  by (rule raw_enum.intro, rule placement_domain_class_listed)
    (simp_all add: placement_domain_class_values_def)

interpretation capacity_domain_class_raw: raw_enum capacity_domain_class_values CDC_StorageDomain
  by (rule raw_enum.intro, rule capacity_domain_class_listed)
    (simp_all add: capacity_domain_class_values_def)

interpretation connectivity_class_raw: raw_enum connectivity_class_values CC_ManagementOnly
  by (rule raw_enum.intro, rule connectivity_class_listed)
    (simp_all add: connectivity_class_values_def)

interpretation link_direction_raw: raw_enum link_direction_values LD_Bidirectional
  by (rule raw_enum.intro, rule link_direction_listed)
    (simp_all add: link_direction_values_def)

interpretation reachability_raw: raw_enum reachability_values RB_RevalidationRequired
  by (rule raw_enum.intro, rule reachability_listed)
    (simp_all add: reachability_values_def)

interpretation bandwidth_class_raw: raw_enum bandwidth_class_values BW_VeryHigh
  by (rule raw_enum.intro, rule bandwidth_class_listed)
    (simp_all add: bandwidth_class_values_def)

interpretation latency_class_raw: raw_enum latency_class_values LT_High
  by (rule raw_enum.intro, rule latency_class_listed)
    (simp_all add: latency_class_values_def)

interpretation accelerator_vendor_raw: raw_enum accelerator_vendor_values AV_Other
  by (rule raw_enum.intro, rule accelerator_vendor_listed)
    (simp_all add: accelerator_vendor_values_def)

interpretation health_state_raw: raw_enum health_state_values HS_Unhealthy
  by (rule raw_enum.intro, rule health_state_listed)
    (simp_all add: health_state_values_def)

interpretation constraint_kind_raw: raw_enum constraint_kind_values CK_MaintenanceWindow
  by (rule raw_enum.intro, rule constraint_kind_listed)
    (simp_all add: constraint_kind_values_def)

interpretation cluster_lifecycle_raw: raw_enum cluster_lifecycle_values CL_Retired
  by (rule raw_enum.intro, rule cluster_lifecycle_listed)
    (simp_all add: cluster_lifecycle_values_def)

interpretation rack_membership_state_raw: raw_enum rack_membership_state_values RM_Retired
  by (rule raw_enum.intro, rule rack_membership_state_listed)
    (simp_all add: rack_membership_state_values_def)

interpretation rack_lifecycle_state_raw: raw_enum rack_lifecycle_state_values RL_Retired
  by (rule raw_enum.intro, rule rack_lifecycle_state_listed)
    (simp_all add: rack_lifecycle_state_values_def)

interpretation rack_currentness_raw: raw_enum rack_currentness_values RC_RevalidationRequired
  by (rule raw_enum.intro, rule rack_currentness_listed)
    (simp_all add: rack_currentness_values_def)

interpretation mutation_kind_raw: raw_enum mutation_kind_values MK_RetireCluster
  by (rule raw_enum.intro, rule mutation_kind_listed)
    (simp_all add: mutation_kind_values_def)

lemmas emits_enums =
  evidence_provenance_raw.emits_enum
  freshness_raw.emits_enum
  failure_domain_class_raw.emits_enum
  placement_domain_class_raw.emits_enum
  capacity_domain_class_raw.emits_enum
  connectivity_class_raw.emits_enum
  link_direction_raw.emits_enum
  reachability_raw.emits_enum
  bandwidth_class_raw.emits_enum
  latency_class_raw.emits_enum
  accelerator_vendor_raw.emits_enum
  health_state_raw.emits_enum
  constraint_kind_raw.emits_enum
  cluster_lifecycle_raw.emits_enum
  rack_membership_state_raw.emits_enum
  rack_lifecycle_state_raw.emits_enum
  rack_currentness_raw.emits_enum
  mutation_kind_raw.emits_enum

lemmas to_enums =
  evidence_provenance_raw.to_enum_raw
  freshness_raw.to_enum_raw
  failure_domain_class_raw.to_enum_raw
  placement_domain_class_raw.to_enum_raw
  capacity_domain_class_raw.to_enum_raw
  connectivity_class_raw.to_enum_raw
  link_direction_raw.to_enum_raw
  reachability_raw.to_enum_raw
  bandwidth_class_raw.to_enum_raw
  latency_class_raw.to_enum_raw
  accelerator_vendor_raw.to_enum_raw
  health_state_raw.to_enum_raw
  constraint_kind_raw.to_enum_raw
  cluster_lifecycle_raw.to_enum_raw
  rack_membership_state_raw.to_enum_raw
  rack_lifecycle_state_raw.to_enum_raw
  rack_currentness_raw.to_enum_raw
  mutation_kind_raw.to_enum_raw


subsection \<open>Identities, optional fields and counts\<close>

text \<open>\<^verbatim>\<open>StrongId::parse\<close> on a decoded text; a refused text marks the reader invalid.\<close>

definition parse_id :: "string \<Rightarrow> protocol_status + 't strong_id" where
  "parse_id t = (case id_parse t of None \<Rightarrow> Inl PR_InvalidEnum | Some i \<Rightarrow> Inr i)"

definition w_id :: "'t strong_id \<Rightarrow> writer \<Rightarrow> writer" where
  "w_id i = w_text (id_value i)"

definition r_id :: "string \<Rightarrow> protocol_status + 't strong_id \<times> string" where
  "r_id s = sum_bind (r_text s) (\<lambda>(t, s). sum_bind (parse_id t) (\<lambda>i. Inr (i, s)))"

text \<open>An optional field whose value is written only when it is present, and one whose value is always
  written, zero when it is absent.\<close>

definition w_optional :: "('a \<Rightarrow> writer \<Rightarrow> writer) \<Rightarrow> 'a option \<Rightarrow> writer \<Rightarrow> writer" where
  "w_optional write opt =
     seq
      [w_optional_present (opt \<noteq> None),
       (case opt of None \<Rightarrow> (\<lambda>w. w) | Some x \<Rightarrow> write x)]"

definition r_optional :: "(string \<Rightarrow> protocol_status + 'a \<times> string) \<Rightarrow> string \<Rightarrow> protocol_status + 'a option \<times> string" where
  "r_optional rd s =
     sum_bind (r_boolean s) (\<lambda>(present, s).
       if present then sum_bind (rd s) (\<lambda>(x, s). Inr (Some x, s)) else Inr (None, s))"

definition w_filled :: "('a \<Rightarrow> writer \<Rightarrow> writer) \<Rightarrow> 'a \<Rightarrow> 'a option \<Rightarrow> writer \<Rightarrow> writer" where
  "w_filled write zero opt =
     seq
      [w_optional_present (opt \<noteq> None),
       write (case opt of None \<Rightarrow> zero | Some x \<Rightarrow> x)]"

definition r_filled :: "(string \<Rightarrow> protocol_status + 'a \<times> string) \<Rightarrow> string \<Rightarrow> protocol_status + 'a option \<times> string" where
  "r_filled rd s =
     sum_bind (r_boolean s) (\<lambda>(present, s).
     sum_bind (rd s) (\<lambda>(x, s). Inr (if present then Some x else None, s)))"

text \<open>A counted list with its bound.\<close>

definition w_counted :: "('a \<Rightarrow> writer \<Rightarrow> writer) \<Rightarrow> 'a list \<Rightarrow> writer \<Rightarrow> writer" where
  "w_counted write xs = seq [w_u32 (of_nat (length xs)), write_list write xs]"

definition r_counted ::
  "nat \<Rightarrow> (string \<Rightarrow> protocol_status + 'a \<times> string) \<Rightarrow> string \<Rightarrow> protocol_status + 'a list \<times> string" where
  "r_counted bound rd s =
     sum_bind (r_u32 s) (\<lambda>(count, s).
       if unat count > bound then Inl PR_InvalidEnum else read_list rd (unat count) s)"

definition valid_id :: "'t strong_id \<Rightarrow> bool" where
  "valid_id i \<longleftrightarrow> id_known i \<and> iv_ok (validate_identity (id_value i))"

lemma parse_id_valid: "valid_id i \<Longrightarrow> parse_id (id_value i) = Inr i"
  by (simp add: parse_id_def id_parse_def valid_id_def)

lemma emits_pure:
  assumes "m = Inr x" and "emits g (k x) y"
  shows "emits g (\<lambda>s. sum_bind m (\<lambda>x. k x s)) y"
  using assms by simp

lemma emits_if:
  assumes "\<not> c" and "emits g k y"
  shows "emits g (\<lambda>s. if c then Inl e else k s) y"
  using assms by simp

lemma emits_id: "valid_id i \<Longrightarrow> emits (w_id i) r_id i"
  unfolding w_id_def r_id_def [abs_def] by (rule emits_last [OF emits_text]) (simp add: parse_id_valid)

lemma emits_optional:
  assumes "\<And>x. opt = Some x \<Longrightarrow> emits (write x) rd x"
  shows "emits (w_optional write opt) (r_optional rd) opt"
proof (cases opt)
  case None
  show ?thesis
    unfolding w_optional_def seq_steps r_optional_def [abs_def] None
    by (rule emits_bind [OF emits_boolean(2)]) (simp add: emits_return)
next
  case (Some x)
  show ?thesis
    unfolding w_optional_def seq_steps r_optional_def [abs_def]
    by (rule emits_bind [OF emits_boolean(2)]) (simp add: Some emits_last [OF assms [OF Some]])
qed

lemma emits_filled:
  assumes "\<And>x. emits (write x) rd x"
  shows "emits (w_filled write zero opt) (r_filled rd) opt"
  unfolding w_filled_def seq_steps r_filled_def [abs_def]
  by (rule emits_bind [OF emits_boolean(2)], rule emits_last [OF assms]) (cases opt, simp_all)

lemma emits_counted:
  assumes "length xs \<le> bound" and "bound < 2 ^ 32" and "\<And>x. x \<in> set xs \<Longrightarrow> emits (write x) rd x"
  shows "emits (w_counted write xs) (r_counted bound rd) xs"
proof -
  have "unat (of_nat (length xs) :: u32) = length xs" using assms(1,2) by (simp add: unat_of_nat)
  then show ?thesis
    unfolding w_counted_def seq_steps r_counted_def [abs_def]
    by (intro emits_bind [OF emits_u32]) (simp add: emits_list assms leD)
qed

subsection \<open>What a successful read guarantees\<close>

definition yields :: "(string \<Rightarrow> 'e + 'a \<times> string) \<Rightarrow> ('a \<Rightarrow> bool) \<Rightarrow> bool" where
  "yields rd P \<longleftrightarrow> (\<forall>s x s'. rd s = Inr (x, s') \<longrightarrow> P x)"

lemma yieldsD: "yields rd P \<Longrightarrow> rd s = Inr (x, s') \<Longrightarrow> P x"
  by (auto simp: yields_def)

lemma yields_any: "yields rd (\<lambda>x. True)"
  by (simp add: yields_def)

lemma yields_return: "P x \<Longrightarrow> yields (\<lambda>s. Inr (x, s)) P"
  by (simp add: yields_def)

lemma yields_bind:
  assumes "yields rd P" and "\<And>x. P x \<Longrightarrow> yields (k x) Q"
  shows "yields (\<lambda>s. sum_bind (rd s) (\<lambda>(x, s). k x s)) Q"
  using assms by (fastforce simp: yields_def sum_bind_Inr)

lemma yields_pure:
  assumes "\<And>x. m = Inr x \<Longrightarrow> yields (k x) Q"
  shows "yields (\<lambda>s. sum_bind m (\<lambda>x. k x s)) Q"
  using assms by (cases m) (simp_all add: yields_def)

lemma yields_if:
  assumes "\<not> c \<Longrightarrow> yields k Q"
  shows "yields (\<lambda>s. if c then Inl e else k s) Q"
  using assms by (simp add: yields_def)

lemma yields_or_status: "yields rd P \<Longrightarrow> yields (\<lambda>s. or_status status (rd s)) P"
  by (auto simp: yields_def or_status_def split: sum.splits)

lemma yields_list:
  assumes "yields rd P"
  shows "yields (read_list rd n) (\<lambda>xs. length xs = n \<and> (\<forall>x \<in> set xs. P x))"
proof -
  have "length xs = n \<and> (\<forall>x \<in> set xs. P x)" if "read_list rd n s = Inr (xs, s')" for s xs s'
    using that
  proof (induction n arbitrary: s xs)
    case (Suc n)
    then obtain x s1 ys where "rd s = Inr (x, s1)" "read_list rd n s1 = Inr (ys, s')" "xs = x # ys"
      by (auto simp: sum_bind_Inr)
    with Suc.IH [of s1 ys] assms show ?case by (auto simp: yields_def)
  qed simp
  then show ?thesis by (auto simp: yields_def)
qed

lemma yields_counted:
  assumes "yields rd P"
  shows "yields (r_counted bound rd) (\<lambda>xs. length xs \<le> bound \<and> (\<forall>x \<in> set xs. P x))"
  unfolding r_counted_def [abs_def]
  by (rule yields_bind [OF yields_any], rule yields_if)
    (use yields_list [OF assms] in \<open>auto simp: yields_def not_less\<close>)

lemma yields_i64: "yields r_i64 i64_range"
proof -
  have "i64_range (sint (v :: u64))" for v
    using sint_ge [of v] sint_lt [of v] by (simp add: i64_range_def i64_min_def i64_max_def)
  then show ?thesis by (auto simp: yields_def r_i64_def sum_bind_Inr)
qed

lemma parse_id_Inr: "parse_id t = Inr i \<longleftrightarrow> i = StrongId t \<and> valid_id i"
proof -
  have "id_known i" if "iv_ok (validate_identity (id_value i))" for i :: "'a strong_id"
    using that by (cases i) (auto simp: id_known_def validate_identity_def iv_ok_def)
  then show ?thesis
    by (auto simp: parse_id_def id_parse_def valid_id_def split: option.splits if_splits)
qed

lemma yields_id: "yields r_id valid_id"
  unfolding r_id_def [abs_def]
  by (rule yields_bind [OF yields_any], rule yields_pure, rule yields_return) (simp add: parse_id_Inr)

lemma yields_text: "yields r_text (\<lambda>t. length t \<le> kMaxEncodedStringBytes)"
  by (auto simp: yields_def r_text_def r_bytes_def sum_bind_Inr split: if_splits)

lemma yields_optional:
  assumes "yields rd P"
  shows "yields (r_optional rd) (\<lambda>opt. \<forall>x. opt = Some x \<longrightarrow> P x)"
  using assms by (auto simp: yields_def r_optional_def sum_bind_Inr split: if_splits)

subsection \<open>When writing succeeds\<close>

text \<open>With so many bytes left under the bound of the writer, the write succeeds and uses at most those.\<close>

definition costs :: "(writer \<Rightarrow> writer) \<Rightarrow> nat \<Rightarrow> bool" where
  "costs g k \<longleftrightarrow>
     (\<forall>w. wr_ok w \<and> length (wr_data w) + k \<le> kMaxWriterBytes \<longrightarrow>
        wr_ok (g w) \<and> length (wr_data (g w)) \<le> length (wr_data w) + k)"

lemma costs_id: "costs (\<lambda>w. w) 0"
  by (simp add: costs_def)

lemma costs_mono: "costs g a \<Longrightarrow> a \<le> b \<Longrightarrow> costs g b"
  unfolding costs_def by (meson add_left_mono le_trans)

lemma costs_bind:
  assumes "costs g a" and "costs h b"
  shows "costs (fcomp g h) (a + b)"
  unfolding costs_def
proof (intro allI impI)
  fix w assume w: "wr_ok w \<and> length (wr_data w) + (a + b) \<le> kMaxWriterBytes"
  then have 1: "wr_ok (g w)" "length (wr_data (g w)) \<le> length (wr_data w) + a"
    using assms(1) unfolding costs_def by auto
  then have "wr_ok (h (g w)) \<and> length (wr_data (h (g w))) \<le> length (wr_data (g w)) + b"
    using assms(2) w unfolding costs_def by auto
  then show "wr_ok ((fcomp g h) w) \<and> length (wr_data ((fcomp g h) w)) \<le> length (wr_data w) + (a + b)"
    using 1 by auto
qed

lemma costs_u8: "costs (w_u8 v) 1"
  by (simp add: costs_def w_u8_def wr_ok_def)

lemma costs_le: "costs (write_le n index v) n"
proof (induction n arbitrary: index)
  case (Suc n)
  show ?case
    unfolding write_le.simps seq_steps using costs_bind [OF costs_u8 Suc.IH] by (simp only: plus_1_eq_Suc)
qed (simp add: costs_id)

lemma costs_prims:
  "costs (w_boolean b) 1" "costs (w_optional_present b) 1" "costs (w_enum vals v) 1"
  "costs (w_u16 x16) 2" "costs (w_u32 x32) 4" "costs (w_u64 x64) 8" "costs (w_i64 i) 8" "costs (w_f64 d) 8"
  unfolding w_boolean_def w_optional_present_def w_enum_def w_u16_def w_u32_def w_u64_def w_i64_def w_f64_def
  by (rule costs_u8 costs_le)+

lemma costs_text: "length v \<le> kMaxEncodedStringBytes \<Longrightarrow> costs (w_text v) (4 + length v)"
  unfolding costs_def
proof (intro allI impI)
  fix w assume len: "length v \<le> kMaxEncodedStringBytes"
    and w: "wr_ok w \<and> length (wr_data w) + (4 + length v) \<le> kMaxWriterBytes"
  let ?w = "w_u32 (of_nat (length v)) w"
  have "wr_ok ?w \<and> length (wr_data ?w) \<le> length (wr_data w) + 4"
    using costs_prims(5) [of "of_nat (length v)"] w unfolding costs_def by auto
  then show "wr_ok (w_text v w) \<and> length (wr_data (w_text v w)) \<le> length (wr_data w) + (4 + length v)"
    using len w by (cases "v = []") (auto simp: w_text_def w_bytes_def Let_def wr_ok_def)
qed

lemma costs_identity: "length (id_value i) \<le> kMaxEncodedStringBytes \<Longrightarrow> costs (w_id i) (4 + length (id_value i))"
  by (simp add: w_id_def costs_text)

lemma costs_optional:
  "costs (w_optional write None) 1" "costs (write x) k \<Longrightarrow> costs (w_optional write (Some x)) (1 + k)"
  using costs_bind [OF costs_prims(2) costs_id, of False] costs_bind [OF costs_prims(2), of "write x" k True]
  by (simp_all add: w_optional_def)

lemma costs_filled: "(\<And>x. costs (write x) k) \<Longrightarrow> costs (w_filled write zero opt) (1 + k)"
  unfolding w_filled_def seq_steps by (rule costs_bind [OF costs_prims(2)])

lemma costs_list_Cons:
  "costs (write x) k \<Longrightarrow> costs (write_list write xs) l \<Longrightarrow> costs (write_list write (x # xs)) (k + l)"
  by (simp add: costs_bind)

lemma costs_list_Nil: "costs (write_list write []) 0"
  by (simp add: costs_id)

lemma costs_counted: "costs (write_list write xs) k \<Longrightarrow> costs (w_counted write xs) (4 + k)"
  unfolding w_counted_def seq_steps by (rule costs_bind [OF costs_prims(5)])

lemmas costs_rules =
  costs_bind costs_u8 costs_prims costs_text costs_identity costs_optional costs_filled costs_counted
  costs_list_Cons costs_list_Nil

end
