(* ===== verification/Durable_Validation.thy ===== *)
theory Durable_Validation
  imports Durable_State Invariants Enum_Codes
begin

text \<open>
  The structural validation every decoded container goes through (\<^verbatim>\<open>validate_persisted_state\<close> in
  src/src/persistence.cpp), with the status of its first failing check, and its declarative reading
  \<open>durable_valid\<close>. The texts of \<^verbatim>\<open>detail\<close> are left out.
\<close>

text \<open>Checks in sequence, and the loops that look at each element and its predecessor.\<close>

definition status_then :: "persistence_status \<Rightarrow> persistence_status \<Rightarrow> persistence_status" where
  "status_then a b = (if a \<noteq> PS_Ok then a else b)"

fun check_each :: "('a option \<Rightarrow> 'a \<Rightarrow> persistence_status) \<Rightarrow> 'a option \<Rightarrow> 'a list \<Rightarrow> persistence_status" where
  "check_each f prev [] = PS_Ok"
| "check_each f prev (x # xs) = status_then (f prev x) (check_each f (Some x) xs)"

definition above :: "('a \<Rightarrow> 'k::linorder) \<Rightarrow> 'a option \<Rightarrow> 'a \<Rightarrow> bool" where
  "above key prev x \<longleftrightarrow> (case prev of None \<Rightarrow> True | Some p \<Rightarrow> key p < key x)"

definition check_endpoint :: "rack_endpoint option \<Rightarrow> rack_endpoint \<Rightarrow> persistence_status" where
  "check_endpoint prev e =
     (if \<not> valid_id (ep_id e) then PS_InvalidIdentity
      else if \<not> above ep_id prev e then PS_InvalidState
      else PS_Ok)"

definition check_hint :: "rack_failure_domain_hint option \<Rightarrow> rack_failure_domain_hint \<Rightarrow> persistence_status" where
  "check_hint prev h =
     (if fh_klass h = FDC_Unknown then PS_InvalidEnum
      else if \<not> valid_id (fh_id h) then PS_InvalidIdentity
      else if \<not> above (\<lambda>h. (fh_klass h, fh_id h)) prev h then PS_InvalidState
      else PS_Ok)"

definition check_rack :: "durable_rack option \<Rightarrow> durable_rack \<Rightarrow> persistence_status" where
  "check_rack prev d =
     (if \<not> valid_id (du_rack d) then PS_InvalidIdentity
      else if \<not> counter_known (du_generation d) then PS_InvalidGeneration
      else if \<not> valid_id (du_publisher d) then PS_InvalidIdentity
      else if \<not> above du_rack prev d then PS_DuplicateRackIdentity
      else if length (du_endpoints d) > kMaxRackEndpoints then PS_BoundsExceeded
      else status_then (check_each check_endpoint None (du_endpoints d))
        (if length (du_failure_domain_hints d) > kMaxFailureDomainRefs then PS_BoundsExceeded
         else check_each check_hint None (du_failure_domain_hints d)))"

definition member_list_ok :: "rack_id list \<Rightarrow> rack_id list \<Rightarrow> bool" where
  "member_list_ok rack_ids members \<longleftrightarrow>
     length members \<le> kMaxDomainMembers
     \<and> list_all (\<lambda>m. valid_id m \<and> binary_search rack_ids m) members
     \<and> adjacent_increasing (\<lambda>m. m) members"

definition check_domain_record ::
  "rack_id list \<Rightarrow> ('t, 'b) domain option \<Rightarrow> ('t, 'b) domain \<Rightarrow> persistence_status" where
  "check_domain_record rack_ids prev d =
     (if \<not> valid_id (dm_id d) then PS_InvalidIdentity
      else if \<not> counter_known (dh_generation (dm_header d)) then PS_InvalidGeneration
      else if \<not> above dm_id prev d then PS_InvalidState
      else if \<not> member_list_ok rack_ids (dm_racks d) then PS_DanglingReference
      else PS_Ok)"

definition check_domain_list :: "rack_id list \<Rightarrow> ('t, 'b) domain list \<Rightarrow> persistence_status" where
  "check_domain_list rack_ids ds =
     (if length ds > kMaxDomainsPerClass then PS_AbsurdCount
      else check_each (check_domain_record rack_ids) None ds)"

definition quantity_order :: "capacity_quantity \<Rightarrow> string \<times> nat" where
  "quantity_order q = (cq_unit q, evidence_provenance_code (cq_provenance q))"

definition check_quantity :: "capacity_quantity option \<Rightarrow> capacity_quantity \<Rightarrow> persistence_status" where
  "check_quantity prev q =
     (if cq_unit q = [] \<or> length (cq_unit q) > kMaxEncodedStringBytes then PS_InvalidState
      else if (case cq_value q of None \<Rightarrow> False | Some v \<Rightarrow> \<not> is_finite v) then PS_InvalidState
      else if \<not> above quantity_order prev q then PS_InvalidState
      else PS_Ok)"

definition check_capacity :: "capacity_domain option \<Rightarrow> capacity_domain \<Rightarrow> persistence_status" where
  "check_capacity prev d =
     (if length (cb_quantities (dm_body d)) > kMaxCapacityQuantities then PS_BoundsExceeded
      else check_each check_quantity None (cb_quantities (dm_body d)))"

definition check_link ::
  "rack_id list \<Rightarrow> network_domain_id list \<Rightarrow> link_domain_id list \<Rightarrow> inter_rack_link option \<Rightarrow> inter_rack_link
     \<Rightarrow> persistence_status" where
  "check_link rack_ids network_ids link_ids prev l =
     (if \<not> valid_id (lk_id l) then PS_InvalidIdentity
      else if \<not> id_known (lk_source l) \<or> \<not> id_known (lk_destination l) \<or> lk_source l = lk_destination l
        then PS_InvalidState
      else if \<not> binary_search rack_ids (lk_source l) \<or> \<not> binary_search rack_ids (lk_destination l)
        then PS_DanglingReference
      else if \<not> counter_known (dh_generation (lk_header l)) \<or> \<not> counter_known (lk_topology_epoch l)
        then PS_InvalidGeneration
      else if (case lk_network_domain l of None \<Rightarrow> False | Some k \<Rightarrow> \<not> binary_search network_ids k)
        then PS_DanglingReference
      else if (case lk_link_domain l of None \<Rightarrow> False | Some k \<Rightarrow> \<not> binary_search link_ids k)
        then PS_DanglingReference
      else if \<not> above lk_id prev l then PS_InvalidState
      else PS_Ok)"

definition check_constraint ::
  "rack_id list \<Rightarrow> cluster_constraint option \<Rightarrow> cluster_constraint \<Rightarrow> persistence_status" where
  "check_constraint rack_ids prev c =
     (if \<not> valid_id (cn_id c) then PS_InvalidIdentity
      else if cn_kind c = CK_Unknown then PS_InvalidEnum
      else if \<not> counter_known (dh_generation (cn_header c)) then PS_InvalidGeneration
      else if \<not> member_list_ok rack_ids (cn_racks c) then PS_DanglingReference
      else if \<not> above cn_id prev c then PS_InvalidState
      else PS_Ok)"

definition check_retired :: "retired_identity option \<Rightarrow> retired_identity \<Rightarrow> persistence_status" where
  "check_retired prev r =
     (if \<not> valid_id (ri_rack r) then PS_InvalidIdentity
      else if \<not> counter_known (ri_last_generation r) then PS_InvalidGeneration
      else if \<not> above ri_rack prev r then PS_InvalidState
      else PS_Ok)"

definition check_withdrawn :: "retired_identity list \<Rightarrow> rack_id option \<Rightarrow> rack_id \<Rightarrow> persistence_status" where
  "check_withdrawn retired prev rack =
     (if \<not> valid_id rack then PS_InvalidIdentity
      else if \<not> above (\<lambda>k. k) prev rack then PS_InvalidState
      else if list_ex (\<lambda>r. ri_rack r = rack) retired then PS_InvalidState
      else PS_Ok)"

definition check_fenced :: "fenced_authority option \<Rightarrow> fenced_authority \<Rightarrow> persistence_status" where
  "check_fenced prev f =
     (if \<not> valid_id (fa_boot f) then PS_InvalidIdentity
      else if \<not> valid_id (fa_rack f) then PS_InvalidIdentity
      else if fa_reason f = [] \<or> length (fa_reason f) > kMaxEncodedStringBytes then PS_InvalidState
      else PS_Ok)"

definition check_scalars :: "persisted_state \<Rightarrow> persistence_status" where
  "check_scalars p =
     (if \<not> valid_id (ps_id p) then PS_InvalidIdentity
      else if \<not> counter_known (ps_epoch p) then PS_InvalidEpoch
      else if \<not> counter_known (ps_last_coordinator_epoch p) then PS_InvalidEpoch
      else if \<not> counter_known (ps_generation p) \<or> \<not> counter_known (ps_membership_generation p)
          \<or> \<not> counter_known (ps_topology_generation p) \<or> \<not> counter_known (ps_connectivity_generation p)
          \<or> \<not> counter_known (ps_health_generation p) \<or> \<not> counter_known (ps_constraint_generation p)
          \<or> \<not> counter_known (ps_snapshot_generation p) \<or> \<not> counter_known (ps_publication_generation p)
        then PS_InvalidGeneration
      else if \<not> counter_known (ps_topology_epoch p) \<and> \<not> counter_known (te_epoch (ps_topology_record p))
        then PS_InvalidEpoch
      else if length (ps_racks p) > kMaxRacksPerCluster then PS_AbsurdCount
      else if length (ps_links p) > kMaxInterRackLinks then PS_AbsurdCount
      else if length (ps_constraints p) > kMaxConstraints then PS_AbsurdCount
      else PS_Ok)"

definition validate_persisted_state :: "persisted_state \<Rightarrow> persistence_status" where
  "validate_persisted_state p =
     status_then (check_scalars p)
     (status_then (check_each check_rack None (ps_racks p))
     (let rack_ids = map du_rack (ps_racks p) in
      status_then (check_domain_list rack_ids (ps_placement_domains p))
     (status_then (check_domain_list rack_ids (ps_capacity_domains p))
     (status_then (check_domain_list rack_ids (ps_failure_domains p))
     (status_then (check_domain_list rack_ids (ps_network_domains p))
     (status_then (check_domain_list rack_ids (ps_storage_domains p))
     (status_then (check_domain_list rack_ids (ps_power_domains p))
     (status_then (check_domain_list rack_ids (ps_cooling_domains p))
     (status_then (check_domain_list rack_ids (ps_link_domains p))
     (status_then (check_each check_capacity None (ps_capacity_domains p))
     (status_then (check_each (check_link rack_ids (map dm_id (ps_network_domains p)) (map dm_id (ps_link_domains p)))
        None (ps_links p))
     (status_then (check_each (check_constraint rack_ids) None (ps_constraints p))
     (status_then (check_each check_retired None (ps_retired_racks p))
     (status_then (check_each (check_withdrawn (ps_retired_racks p)) None (ps_withdrawn_racks p))
        (check_each check_fenced None (ps_fenced_authorities p))))))))))))))))"

subsection \<open>The declarative reading\<close>

text \<open>Entries strictly sorted by their keys, each of them sound.\<close>

definition listed_ok :: "('a \<Rightarrow> bool) \<Rightarrow> ('a \<Rightarrow> 'k::linorder) \<Rightarrow> 'a list \<Rightarrow> bool" where
  "listed_ok ok key xs \<longleftrightarrow> (\<forall>x \<in> set xs. ok x) \<and> sorted_wrt (\<lambda>a b. key a < key b) xs"

definition durable_rack_ok :: "durable_rack \<Rightarrow> bool" where
  "durable_rack_ok d \<longleftrightarrow>
     valid_id (du_rack d) \<and> counter_known (du_generation d) \<and> valid_id (du_publisher d)
     \<and> length (du_endpoints d) \<le> kMaxRackEndpoints
     \<and> listed_ok (\<lambda>e. valid_id (ep_id e)) ep_id (du_endpoints d)
     \<and> length (du_failure_domain_hints d) \<le> kMaxFailureDomainRefs
     \<and> listed_ok (\<lambda>h. fh_klass h \<noteq> FDC_Unknown \<and> valid_id (fh_id h)) (\<lambda>h. (fh_klass h, fh_id h))
          (du_failure_domain_hints d)"

definition members_ok :: "rack_id set \<Rightarrow> rack_id list \<Rightarrow> bool" where
  "members_ok racks ms \<longleftrightarrow>
     length ms \<le> kMaxDomainMembers \<and> listed_ok (\<lambda>m. valid_id m \<and> m \<in> racks) (\<lambda>m. m) ms"

definition durable_domains_ok :: "rack_id set \<Rightarrow> ('t, 'b) domain list \<Rightarrow> bool" where
  "durable_domains_ok racks ds \<longleftrightarrow>
     length ds \<le> kMaxDomainsPerClass
     \<and> listed_ok (\<lambda>d. valid_id (dm_id d) \<and> counter_known (dh_generation (dm_header d)) \<and> members_ok racks (dm_racks d))
          dm_id ds"

definition quantities_ok :: "capacity_domain \<Rightarrow> bool" where
  "quantities_ok d \<longleftrightarrow>
     length (cb_quantities (dm_body d)) \<le> kMaxCapacityQuantities
     \<and> listed_ok (\<lambda>q. cq_unit q \<noteq> [] \<and> length (cq_unit q) \<le> kMaxEncodedStringBytes
          \<and> (\<forall>v. cq_value q = Some v \<longrightarrow> is_finite v)) quantity_order (cb_quantities (dm_body d))"

definition durable_link_ok ::
  "rack_id set \<Rightarrow> network_domain_id set \<Rightarrow> link_domain_id set \<Rightarrow> inter_rack_link \<Rightarrow> bool" where
  "durable_link_ok racks networks links l \<longleftrightarrow>
     valid_id (lk_id l) \<and> id_known (lk_source l) \<and> id_known (lk_destination l) \<and> lk_source l \<noteq> lk_destination l
     \<and> lk_source l \<in> racks \<and> lk_destination l \<in> racks
     \<and> counter_known (dh_generation (lk_header l)) \<and> counter_known (lk_topology_epoch l)
     \<and> (\<forall>k. lk_network_domain l = Some k \<longrightarrow> k \<in> networks)
     \<and> (\<forall>k. lk_link_domain l = Some k \<longrightarrow> k \<in> links)"

definition scalars_ok :: "persisted_state \<Rightarrow> bool" where
  "scalars_ok p \<longleftrightarrow>
     valid_id (ps_id p) \<and> counter_known (ps_epoch p) \<and> counter_known (ps_last_coordinator_epoch p)
     \<and> counter_known (ps_generation p) \<and> counter_known (ps_membership_generation p)
     \<and> counter_known (ps_topology_generation p) \<and> counter_known (ps_connectivity_generation p)
     \<and> counter_known (ps_health_generation p) \<and> counter_known (ps_constraint_generation p)
     \<and> counter_known (ps_snapshot_generation p) \<and> counter_known (ps_publication_generation p)
     \<and> (counter_known (ps_topology_epoch p) \<or> counter_known (te_epoch (ps_topology_record p)))
     \<and> length (ps_racks p) \<le> kMaxRacksPerCluster \<and> length (ps_links p) \<le> kMaxInterRackLinks
     \<and> length (ps_constraints p) \<le> kMaxConstraints"

definition durable_valid :: "persisted_state \<Rightarrow> bool" where
  "durable_valid p \<longleftrightarrow>
     (let racks = du_rack ` set (ps_racks p) in
      scalars_ok p \<and> listed_ok durable_rack_ok du_rack (ps_racks p)
      \<and> durable_domains_ok racks (ps_placement_domains p) \<and> durable_domains_ok racks (ps_capacity_domains p)
      \<and> durable_domains_ok racks (ps_failure_domains p) \<and> durable_domains_ok racks (ps_network_domains p)
      \<and> durable_domains_ok racks (ps_storage_domains p) \<and> durable_domains_ok racks (ps_power_domains p)
      \<and> durable_domains_ok racks (ps_cooling_domains p) \<and> durable_domains_ok racks (ps_link_domains p)
      \<and> (\<forall>d \<in> set (ps_capacity_domains p). quantities_ok d)
      \<and> listed_ok (durable_link_ok racks (dm_id ` set (ps_network_domains p)) (dm_id ` set (ps_link_domains p)))
           lk_id (ps_links p)
      \<and> listed_ok (\<lambda>c. valid_id (cn_id c) \<and> cn_kind c \<noteq> CK_Unknown \<and> counter_known (dh_generation (cn_header c))
           \<and> members_ok racks (cn_racks c)) cn_id (ps_constraints p)
      \<and> listed_ok (\<lambda>r. valid_id (ri_rack r) \<and> counter_known (ri_last_generation r)) ri_rack (ps_retired_racks p)
      \<and> listed_ok (\<lambda>k. valid_id k \<and> k \<notin> ri_rack ` set (ps_retired_racks p)) (\<lambda>k. k) (ps_withdrawn_racks p)
      \<and> (\<forall>f \<in> set (ps_fenced_authorities p). valid_id (fa_boot f) \<and> valid_id (fa_rack f)
           \<and> fa_reason f \<noteq> [] \<and> length (fa_reason f) \<le> kMaxEncodedStringBytes))"

subsection \<open>The validation decides the reading\<close>

lemma status_then_Ok [simp]: "status_then a b = PS_Ok \<longleftrightarrow> a = PS_Ok \<and> b = PS_Ok"
  by (simp add: status_then_def)

lemma check_each_sorted:
  assumes "\<And>prev x. f prev x = PS_Ok \<longleftrightarrow> ok x \<and> above key prev x"
  shows "check_each f None xs = PS_Ok \<longleftrightarrow> listed_ok ok key xs"
proof -
  have "check_each f prev xs = PS_Ok \<longleftrightarrow> listed_ok ok key xs
      \<and> (case prev of None \<Rightarrow> True | Some p \<Rightarrow> (\<forall>x \<in> set xs. key p < key x))" for prev
  proof (induction xs arbitrary: prev)
    case (Cons x xs)
    show ?case
      unfolding check_each.simps status_then_Ok assms Cons.IH
      by (cases prev) (auto simp: listed_ok_def above_def intro: less_trans)
  qed (simp add: listed_ok_def split: option.splits)
  from this [of None] show ?thesis by simp
qed

lemma check_each_all:
  assumes "\<And>prev x. f prev x = PS_Ok \<longleftrightarrow> ok x"
  shows "check_each f prev xs = PS_Ok \<longleftrightarrow> (\<forall>x \<in> set xs. ok x)"
  by (induction xs arbitrary: prev) (simp_all add: assms)

lemma check_endpoints_Ok:
  "check_each check_endpoint None es = PS_Ok \<longleftrightarrow> listed_ok (\<lambda>e. valid_id (ep_id e)) ep_id es"
  by (rule check_each_sorted) (simp add: check_endpoint_def)

lemma check_hints_Ok:
  "check_each check_hint None hs = PS_Ok \<longleftrightarrow>
     listed_ok (\<lambda>h. fh_klass h \<noteq> FDC_Unknown \<and> valid_id (fh_id h)) (\<lambda>h. (fh_klass h, fh_id h)) hs"
  by (rule check_each_sorted) (simp add: check_hint_def)

lemma check_racks_Ok:
  "check_each check_rack None ds = PS_Ok \<longleftrightarrow> listed_ok durable_rack_ok du_rack ds"
  by (rule check_each_sorted)
    (auto simp: check_rack_def durable_rack_ok_def check_endpoints_Ok check_hints_Ok)

lemma member_list_ok_iff:
  "sorted_wrt (<) rack_ids \<Longrightarrow> member_list_ok rack_ids ms \<longleftrightarrow> members_ok (set rack_ids) ms"
  by (auto simp: member_list_ok_def members_ok_def listed_ok_def list_all_iff adjacent_increasing_iff)

lemma check_domain_list_Ok:
  assumes "sorted_wrt (<) rack_ids"
  shows "check_domain_list rack_ids ds = PS_Ok \<longleftrightarrow> durable_domains_ok (set rack_ids) ds"
proof -
  have "check_each (check_domain_record rack_ids) None ds = PS_Ok \<longleftrightarrow>
      listed_ok (\<lambda>d. valid_id (dm_id d) \<and> counter_known (dh_generation (dm_header d))
        \<and> members_ok (set rack_ids) (dm_racks d)) dm_id ds"
    by (rule check_each_sorted)
      (auto simp: check_domain_record_def member_list_ok_iff [OF assms])
  then show ?thesis by (simp add: check_domain_list_def durable_domains_ok_def not_less)
qed

lemma check_quantities_Ok: "check_each check_capacity None ds = PS_Ok \<longleftrightarrow> (\<forall>d \<in> set ds. quantities_ok d)"
proof (rule check_each_all)
  fix prev d
  have "check_each check_quantity None qs = PS_Ok \<longleftrightarrow>
      listed_ok (\<lambda>q. cq_unit q \<noteq> [] \<and> length (cq_unit q) \<le> kMaxEncodedStringBytes
        \<and> (\<forall>v. cq_value q = Some v \<longrightarrow> is_finite v)) quantity_order qs" for qs
    by (rule check_each_sorted) (auto simp: check_quantity_def not_less split: option.splits)
  then show "check_capacity prev d = PS_Ok \<longleftrightarrow> quantities_ok d"
    by (simp add: check_capacity_def quantities_ok_def not_less)
qed

lemma check_links_Ok:
  assumes "sorted_wrt (<) racks" and "sorted_wrt (<) networks" and "sorted_wrt (<) links"
  shows "check_each (check_link racks networks links) None ls = PS_Ok \<longleftrightarrow>
     listed_ok (durable_link_ok (set racks) (set networks) (set links)) lk_id ls"
  by (rule check_each_sorted)
    (auto simp: check_link_def durable_link_ok_def assms split: option.splits)

lemma check_constraints_Ok:
  assumes "sorted_wrt (<) racks"
  shows "check_each (check_constraint racks) None cs = PS_Ok \<longleftrightarrow>
     listed_ok (\<lambda>c. valid_id (cn_id c) \<and> cn_kind c \<noteq> CK_Unknown \<and> counter_known (dh_generation (cn_header c))
        \<and> members_ok (set racks) (cn_racks c)) cn_id cs"
  by (rule check_each_sorted) (auto simp: check_constraint_def member_list_ok_iff [OF assms])

lemma check_retired_Ok:
  "check_each check_retired None rs = PS_Ok \<longleftrightarrow>
     listed_ok (\<lambda>r. valid_id (ri_rack r) \<and> counter_known (ri_last_generation r)) ri_rack rs"
  by (rule check_each_sorted) (simp add: check_retired_def)

lemma check_withdrawn_Ok:
  "check_each (check_withdrawn rs) None ks = PS_Ok \<longleftrightarrow>
     listed_ok (\<lambda>k. valid_id k \<and> k \<notin> ri_rack ` set rs) (\<lambda>k. k) ks"
  by (rule check_each_sorted) (auto simp: check_withdrawn_def list_ex_iff)

lemma check_fenced_Ok:
  "check_each check_fenced None fs = PS_Ok \<longleftrightarrow>
     (\<forall>f \<in> set fs. valid_id (fa_boot f) \<and> valid_id (fa_rack f) \<and> fa_reason f \<noteq> []
        \<and> length (fa_reason f) \<le> kMaxEncodedStringBytes)"
  by (rule check_each_all) (simp add: check_fenced_def not_less)

lemma check_scalars_Ok: "check_scalars p = PS_Ok \<longleftrightarrow> scalars_ok p"
  by (auto simp: check_scalars_def scalars_ok_def not_less)

lemma listed_sorted: "listed_ok ok key xs \<Longrightarrow> sorted_wrt (<) (map key xs)"
  by (simp add: listed_ok_def sorted_wrt_map)

lemma validation_decides: "validate_persisted_state p = PS_Ok \<longleftrightarrow> durable_valid p"
proof (cases "listed_ok durable_rack_ok du_rack (ps_racks p)
    \<and> durable_domains_ok (du_rack ` set (ps_racks p)) (ps_network_domains p)
    \<and> durable_domains_ok (du_rack ` set (ps_racks p)) (ps_link_domains p)")
  case True
  then have s: "sorted_wrt (<) (map du_rack (ps_racks p))" "sorted_wrt (<) (map dm_id (ps_network_domains p))"
    "sorted_wrt (<) (map dm_id (ps_link_domains p))"
    by (auto simp: durable_domains_ok_def dest: listed_sorted)
  show ?thesis
    unfolding validate_persisted_state_def durable_valid_def Let_def status_then_Ok check_scalars_Ok check_racks_Ok
      check_domain_list_Ok [OF s(1)] check_quantities_Ok check_links_Ok [OF s] check_constraints_Ok [OF s(1)]
      check_retired_Ok check_withdrawn_Ok check_fenced_Ok set_map
    by (simp only:)
next
  case False
  show ?thesis
  proof (cases "listed_ok durable_rack_ok du_rack (ps_racks p)")
    case True
    then have "sorted_wrt (<) (map du_rack (ps_racks p))" by (rule listed_sorted)
    note d = check_domain_list_Ok [OF this, unfolded set_map]
    show ?thesis
      using False True unfolding validate_persisted_state_def durable_valid_def Let_def status_then_Ok d by blast
  qed (simp add: validate_persisted_state_def durable_valid_def check_racks_Ok Let_def)
qed

subsection \<open>Where validation differs from its documentation\<close>

text \<open>docs/persistence.md says of decoding that references to absent domains, a link direction of UNKNOWN and unsorted lists
  are refused (lines 236 and 239). Validation does not look at the failure domains and the direction of a
  link, at the domain a constraint refers to, or at the order of the fenced authorities.\<close>

lemma listed_ok_map:
  assumes "\<And>x. key (f x) = key x" and "\<And>x. ok (f x) = ok x"
  shows "listed_ok ok key (map f xs) = listed_ok ok key xs"
  using assms by (simp add: listed_ok_def sorted_wrt_map)

lemma unchecked_records:
  "validate_persisted_state (p
      \<lparr>ps_links := map (\<lambda>l. l\<lparr>lk_failure_domains := domains l, lk_direction := direction l\<rparr>) (ps_links p),
       ps_constraints := map (\<lambda>c. c\<lparr>cn_domain_ref := ref c\<rparr>) (ps_constraints p),
       ps_fenced_authorities := rev (ps_fenced_authorities p)\<rparr>) = PS_Ok
     \<longleftrightarrow> validate_persisted_state p = PS_Ok"
  unfolding validation_decides durable_valid_def
  by (simp add: listed_ok_map scalars_ok_def durable_link_ok_def)

text \<open>It also says that a recorded topology epoch of zero is refused (line 237). The epoch of the topology record is looked
  at only when the topology epoch of the state is zero.\<close>

lemma unchecked_topology_record:
  assumes "validate_persisted_state p = PS_Ok" and "counter_known (ps_topology_epoch p)"
  shows "validate_persisted_state (p\<lparr>ps_topology_record := t\<rparr>) = PS_Ok"
  using assms unfolding validation_decides durable_valid_def by (simp add: scalars_ok_def)

subsection \<open>Properties\<close>

text \<open>
  C27. A decoded state passes validation exactly when its counters are set (of the two topology epochs one),
  its rack, domain, link, constraint, retired, withdrawn and fenced identities are well formed, every list
  but that of fenced authorities is strictly sorted by its keys and within its bound, every quantity is
  finite and bounded, every member, link end, network domain and link domain reference resolves, every fence
  has a bounded reason, and no rack is both withdrawn and retired. The binary searches over the collected
  identities are exact because those were checked to be sorted first. Failure domains and directions of
  links, the domains of constraints and the order of fences are not looked at, although the documentation
  says so (\<open>unchecked_records\<close>, \<open>unchecked_topology_record\<close>).
\<close>

theorem validate_persisted_exact: "validate_persisted_state p = PS_Ok \<longleftrightarrow> durable_valid p"
  by (rule validation_decides)

end
