(* ===== verification/Durable_Fields.thy ===== *)
theory Durable_Fields
  imports Durable_Validation Enum_Codes
begin

text \<open>
  The fields of the durable container: the \<^verbatim>\<open>write_*\<close> and \<^verbatim>\<open>read_*\<close> helpers of src/src/persistence.cpp, in
  their order. A reader answers \<^verbatim>\<open>false\<close> as a failure; which failure is immaterial, because every caller
  reports a status of its own. \<open>storable\<close> predicates say what a reader demands of a value beyond its type:
  texts that parse as identities, bounded lists, bounded contract minima, instants in the 64-bit range.
  For each field the write emits what the read takes back (\<open>emits\<close>), and a read yields storable values
  only (\<open>yields\<close>).
\<close>

abbreviation w_counter :: "'t strong_counter \<Rightarrow> writer \<Rightarrow> writer" where
  "w_counter c \<equiv> w_u64 (cvalue c)"

definition write_stamp :: "evidence_stamp \<Rightarrow> writer \<Rightarrow> writer" where
  "write_stamp e =
     seq
      [w_u8 (raw_of evidence_provenance_values (es_provenance e)),
       w_i64 (es_observed_at e),
       w_u8 (raw_of freshness_values (es_freshness e)),
       w_i64 (es_ttl_millis e)]"

definition read_stamp :: "string \<Rightarrow> protocol_status + evidence_stamp \<times> string" where
  "read_stamp s =
     sum_bind (r_u8 s) (\<lambda>(provenance, s).
     sum_bind (r_i64 s) (\<lambda>(observed, s).
     sum_bind (r_u8 s) (\<lambda>(freshness, s).
     sum_bind (r_i64 s) (\<lambda>(ttl, s).
     sum_bind (to_enum evidence_provenance_values EP_Reconstructed provenance) (\<lambda>provenance.
     sum_bind (to_enum freshness_values FR_RevalidationRequired freshness) (\<lambda>freshness.
       Inr (\<lparr>es_provenance = provenance, es_observed_at = observed, es_freshness = freshness,
             es_ttl_millis = ttl\<rparr>, s)))))))"

definition write_header :: "domain_header \<Rightarrow> writer \<Rightarrow> writer" where
  "write_header h =
     seq
      [write_stamp (dh_evidence h),
       w_counter (dh_generation h),
       w_optional w_id (dh_publisher h),
       w_counter (dh_cluster_epoch h),
       w_counter (dh_coordinator_epoch h),
       w_text (dh_label h)]"

definition read_header :: "string \<Rightarrow> protocol_status + domain_header \<times> string" where
  "read_header s =
     sum_bind (read_stamp s) (\<lambda>(evidence, s).
     sum_bind (r_u64 s) (\<lambda>(generation, s).
     sum_bind (r_optional r_id s) (\<lambda>(publisher, s).
     sum_bind (r_u64 s) (\<lambda>(cluster_epoch, s).
     sum_bind (r_u64 s) (\<lambda>(coordinator_epoch, s).
     sum_bind (r_text s) (\<lambda>(label, s).
       Inr (\<lparr>dh_evidence = evidence, dh_generation = StrongCounter generation, dh_publisher = publisher,
             dh_cluster_epoch = StrongCounter cluster_epoch,
             dh_coordinator_epoch = StrongCounter coordinator_epoch, dh_label = label\<rparr>, s)))))))"

definition write_rack_ids :: "rack_id list \<Rightarrow> writer \<Rightarrow> writer" where
  "write_rack_ids racks = w_counted w_id racks"

definition read_rack_ids :: "nat \<Rightarrow> string \<Rightarrow> protocol_status + rack_id list \<times> string" where
  "read_rack_ids bound s = r_counted bound r_id s"

definition write_accelerator :: "accelerator_class_summary \<Rightarrow> writer \<Rightarrow> writer" where
  "write_accelerator a =
     seq
      [w_u8 (raw_of accelerator_vendor_values (ac_vendor a)),
       w_text (ac_family a),
       w_filled w_u32 0 (ac_device_count a),
       w_filled w_u64 0 (ac_device_memory_bytes a)]"

definition write_composition :: "rack_composition_summary \<Rightarrow> writer \<Rightarrow> writer" where
  "write_composition c =
     seq
      [w_u8 (raw_of evidence_provenance_values (cm_provenance c)),
       w_counted write_accelerator (cm_accelerators c),
       w_filled w_u32 0 (cm_cpu_sockets c),
       w_filled w_u32 0 (cm_cpu_cores c),
       w_filled w_u64 0 (cm_host_memory_bytes c),
       w_filled w_u32 0 (cm_nic_count c),
       w_filled w_u32 0 (cm_switch_count c),
       w_text (cm_composition_label c)]"

definition read_accelerator :: "string \<Rightarrow> protocol_status + accelerator_class_summary \<times> string" where
  "read_accelerator s =
     sum_bind (r_u8 s) (\<lambda>(vendor, s).
     sum_bind (r_text s) (\<lambda>(family, s).
     sum_bind (r_filled r_u32 s) (\<lambda>(device_count, s).
     sum_bind (r_filled r_u64 s) (\<lambda>(device_memory, s).
     sum_bind (to_enum accelerator_vendor_values AV_Other vendor) (\<lambda>vendor.
       Inr (\<lparr>ac_vendor = vendor, ac_family = family, ac_device_count = device_count,
             ac_device_memory_bytes = device_memory\<rparr>, s))))))"

definition read_composition :: "string \<Rightarrow> protocol_status + rack_composition_summary \<times> string" where
  "read_composition s =
     sum_bind (r_u8 s) (\<lambda>(provenance, s).
     sum_bind (r_u32 s) (\<lambda>(count, s).
     sum_bind (to_enum evidence_provenance_values EP_Reconstructed provenance) (\<lambda>provenance.
     if unat count > kMaxCapacityQuantities then Inl PR_InvalidEnum else
     sum_bind (read_list read_accelerator (unat count) s) (\<lambda>(accelerators, s).
     sum_bind (r_filled r_u32 s) (\<lambda>(cpu_sockets, s).
     sum_bind (r_filled r_u32 s) (\<lambda>(cpu_cores, s).
     sum_bind (r_filled r_u64 s) (\<lambda>(host_memory, s).
     sum_bind (r_filled r_u32 s) (\<lambda>(nic_count, s).
     sum_bind (r_filled r_u32 s) (\<lambda>(switch_count, s).
     sum_bind (r_text s) (\<lambda>(label, s).
       Inr (\<lparr>cm_accelerators = accelerators, cm_cpu_sockets = cpu_sockets, cm_cpu_cores = cpu_cores,
             cm_host_memory_bytes = host_memory, cm_nic_count = nic_count, cm_switch_count = switch_count,
             cm_composition_label = label, cm_provenance = provenance\<rparr>, s)))))))))))"

definition write_endpoint :: "rack_endpoint \<Rightarrow> writer \<Rightarrow> writer" where
  "write_endpoint e =
     seq
      [w_id (ep_id e),
       w_optional w_id (ep_network_domain e),
       w_optional w_id (ep_link_domain e),
       w_enum connectivity_class_values (ep_connectivity e),
       write_stamp (ep_evidence e)]"

definition write_endpoints :: "rack_endpoint list \<Rightarrow> writer \<Rightarrow> writer" where
  "write_endpoints es = w_counted write_endpoint es"

definition read_endpoint :: "string \<Rightarrow> protocol_status + rack_endpoint \<times> string" where
  "read_endpoint s =
     sum_bind (r_id s) (\<lambda>(i, s).
     sum_bind (r_optional r_id s) (\<lambda>(network_domain, s).
     sum_bind (r_optional r_id s) (\<lambda>(link_domain, s).
     sum_bind (r_enum connectivity_class_values CC_ManagementOnly s) (\<lambda>(connectivity, s).
     sum_bind (read_stamp s) (\<lambda>(evidence, s).
       Inr (\<lparr>ep_id = i, ep_network_domain = network_domain, ep_link_domain = link_domain,
             ep_connectivity = connectivity, ep_evidence = evidence\<rparr>, s))))))"

definition read_endpoints :: "string \<Rightarrow> protocol_status + rack_endpoint list \<times> string" where
  "read_endpoints s = r_counted kMaxRackEndpoints read_endpoint s"

definition write_hint :: "rack_failure_domain_hint \<Rightarrow> writer \<Rightarrow> writer" where
  "write_hint h =
     seq
      [w_u8 (raw_of failure_domain_class_values (fh_klass h)),
       w_text (id_value (fh_id h)),
       write_stamp (fh_evidence h)]"

definition write_hints :: "rack_failure_domain_hint list \<Rightarrow> writer \<Rightarrow> writer" where
  "write_hints hs = w_counted write_hint hs"

definition read_hint :: "string \<Rightarrow> protocol_status + rack_failure_domain_hint \<times> string" where
  "read_hint s =
     sum_bind (r_u8 s) (\<lambda>(klass, s).
     sum_bind (r_text s) (\<lambda>(t, s).
     sum_bind (to_enum failure_domain_class_values FDC_ControlPlane klass) (\<lambda>klass.
     sum_bind (parse_id t) (\<lambda>i.
     sum_bind (read_stamp s) (\<lambda>(evidence, s).
       Inr (\<lparr>fh_klass = klass, fh_id = i, fh_evidence = evidence\<rparr>, s))))))"

definition read_hints :: "string \<Rightarrow> protocol_status + rack_failure_domain_hint list \<times> string" where
  "read_hints s = r_counted kMaxFailureDomainRefs read_hint s"

definition write_readiness :: "readiness_contract \<Rightarrow> writer \<Rightarrow> writer" where
  "write_readiness c =
     seq
      [w_u64 (of_nat (rc_minimum_current_racks c)),
       write_rack_ids (rc_mandatory_racks c),
       w_boolean (rc_require_all_active_racks_current c),
       w_boolean (rc_require_connectivity_evidence c),
       w_u64 (of_nat (rc_minimum_current_links c)),
       w_counted (w_enum placement_domain_class_values) (rc_required_placement_domain_classes c),
       w_counted (w_enum failure_domain_class_values) (rc_required_failure_domain_classes c),
       w_boolean (rc_allow_partial c),
       w_boolean (rc_allow_degraded c),
       w_boolean (rc_require_no_conflicts c)]"

definition read_readiness :: "string \<Rightarrow> protocol_status + readiness_contract \<times> string" where
  "read_readiness s =
     sum_bind (r_u64 s) (\<lambda>(minimum, s).
     if unat minimum > kMaxRacksPerCluster then Inl PR_InvalidEnum else
     sum_bind (read_rack_ids kMaxRacksPerCluster s) (\<lambda>(mandatory, s).
     sum_bind (r_boolean s) (\<lambda>(all_current, s).
     sum_bind (r_boolean s) (\<lambda>(connectivity, s).
     sum_bind (r_u64 s) (\<lambda>(minimum_links, s).
     if unat minimum_links > kMaxInterRackLinks then Inl PR_InvalidEnum else
     sum_bind (r_counted kMaxDomainsPerClass (r_enum placement_domain_class_values PDC_PolicyClass) s)
       (\<lambda>(placement, s).
     sum_bind (r_counted kMaxDomainsPerClass (r_enum failure_domain_class_values FDC_ControlPlane) s)
       (\<lambda>(failure, s).
     sum_bind (r_boolean s) (\<lambda>(partial, s).
     sum_bind (r_boolean s) (\<lambda>(degraded, s).
     sum_bind (r_boolean s) (\<lambda>(conflicts, s).
       Inr (\<lparr>rc_minimum_current_racks = unat minimum, rc_mandatory_racks = mandatory,
             rc_require_all_active_racks_current = all_current, rc_require_connectivity_evidence = connectivity,
             rc_minimum_current_links = unat minimum_links, rc_required_placement_domain_classes = placement,
             rc_required_failure_domain_classes = failure, rc_allow_partial = partial,
             rc_allow_degraded = degraded, rc_require_no_conflicts = conflicts\<rparr>, s)))))))))))"

definition write_domain_generations :: "domain_generations \<Rightarrow> writer \<Rightarrow> writer" where
  "write_domain_generations g =
     seq
      [w_counter (dg_placement g),
       w_counter (dg_capacity g),
       w_counter (dg_failure g),
       w_counter (dg_network g),
       w_counter (dg_storage g),
       w_counter (dg_power g),
       w_counter (dg_cooling g),
       w_counter (dg_link g)]"

definition read_domain_generations :: "string \<Rightarrow> protocol_status + domain_generations \<times> string" where
  "read_domain_generations s =
     sum_bind (r_u64 s) (\<lambda>(placement, s). sum_bind (r_u64 s) (\<lambda>(capacity, s).
     sum_bind (r_u64 s) (\<lambda>(failure, s). sum_bind (r_u64 s) (\<lambda>(network, s).
     sum_bind (r_u64 s) (\<lambda>(storage, s). sum_bind (r_u64 s) (\<lambda>(power, s).
     sum_bind (r_u64 s) (\<lambda>(cooling, s). sum_bind (r_u64 s) (\<lambda>(link, s).
       Inr (\<lparr>dg_placement = StrongCounter placement, dg_capacity = StrongCounter capacity,
             dg_failure = StrongCounter failure, dg_network = StrongCounter network,
             dg_storage = StrongCounter storage, dg_power = StrongCounter power,
             dg_cooling = StrongCounter cooling, dg_link = StrongCounter link\<rparr>, s)))))))))"

subsection \<open>What the readers demand\<close>

definition stamp_storable :: "evidence_stamp \<Rightarrow> bool" where
  "stamp_storable e \<longleftrightarrow> i64_range (es_observed_at e) \<and> i64_range (es_ttl_millis e)"

definition header_storable :: "domain_header \<Rightarrow> bool" where
  "header_storable h \<longleftrightarrow> stamp_storable (dh_evidence h) \<and> (\<forall>p. dh_publisher h = Some p \<longrightarrow> valid_id p)"

definition composition_storable :: "rack_composition_summary \<Rightarrow> bool" where
  "composition_storable c \<longleftrightarrow> length (cm_accelerators c) \<le> kMaxCapacityQuantities"

definition endpoint_storable :: "rack_endpoint \<Rightarrow> bool" where
  "endpoint_storable e \<longleftrightarrow> valid_id (ep_id e) \<and> (\<forall>d. ep_network_domain e = Some d \<longrightarrow> valid_id d)
     \<and> (\<forall>d. ep_link_domain e = Some d \<longrightarrow> valid_id d) \<and> stamp_storable (ep_evidence e)"

definition hint_storable :: "rack_failure_domain_hint \<Rightarrow> bool" where
  "hint_storable h \<longleftrightarrow> valid_id (fh_id h) \<and> stamp_storable (fh_evidence h)"

definition contract_storable :: "readiness_contract \<Rightarrow> bool" where
  "contract_storable c \<longleftrightarrow>
     rc_minimum_current_racks c \<le> kMaxRacksPerCluster \<and> rc_minimum_current_links c \<le> kMaxInterRackLinks
     \<and> length (rc_mandatory_racks c) \<le> kMaxRacksPerCluster \<and> (\<forall>r \<in> set (rc_mandatory_racks c). valid_id r)
     \<and> length (rc_required_placement_domain_classes c) \<le> kMaxDomainsPerClass
     \<and> length (rc_required_failure_domain_classes c) \<le> kMaxDomainsPerClass"

subsection \<open>Each field is read back\<close>

lemmas codec_bounds =
  kMaxRacksPerCluster_def kMaxInterRackLinks_def kMaxDomainsPerClass_def kMaxDomainMembers_def
  kMaxConstraints_def kMaxRackEndpoints_def kMaxFailureDomainRefs_def kMaxCapacityQuantities_def

lemmas emits_rules =
  emits_u8 emits_boolean emits_u16 emits_u32 emits_u64 emits_i64 emits_f64 emits_text emits_enums
  emits_optional emits_filled emits_id

lemma emits_stamp: "stamp_storable e \<Longrightarrow> emits (write_stamp e) read_stamp e"
  unfolding write_stamp_def read_stamp_def [abs_def] seq_steps stamp_storable_def
  by ((rule emits_bind emits_rules)+ | elim conjE | assumption | rule emits_last | simp add: to_enums)+

lemma emits_header: "header_storable h \<Longrightarrow> emits (write_header h) read_header h"
  unfolding write_header_def read_header_def [abs_def] seq_steps header_storable_def
  by ((rule emits_bind emits_rules emits_stamp)+ | elim conjE | assumption | rule emits_last | simp)+

lemma emits_rack_ids:
  "length ks \<le> bound \<Longrightarrow> bound < 2 ^ 32 \<Longrightarrow> \<forall>k \<in> set ks. valid_id k \<Longrightarrow>
     emits (write_rack_ids ks) (read_rack_ids bound) ks"
  unfolding write_rack_ids_def read_rack_ids_def [abs_def] by (rule emits_counted) (auto intro: emits_id)

lemma emits_accelerator: "emits (write_accelerator a) read_accelerator a"
  unfolding write_accelerator_def read_accelerator_def [abs_def] seq_steps
  by ((rule emits_bind emits_rules)+ | rule emits_last | simp add: to_enums)+

lemma emits_composition: "composition_storable c \<Longrightarrow> emits (write_composition c) read_composition c"
  unfolding write_composition_def read_composition_def [abs_def] seq_steps composition_storable_def w_counted_def
  by ((rule emits_bind emits_rules emits_accelerator emits_list)+ | rule emits_last
      | simp add: to_enums unat_of_nat codec_bounds)+

lemma emits_endpoint: "endpoint_storable e \<Longrightarrow> emits (write_endpoint e) read_endpoint e"
  unfolding write_endpoint_def read_endpoint_def [abs_def] seq_steps endpoint_storable_def
  by ((rule emits_bind emits_rules emits_stamp)+ | elim conjE | assumption | rule emits_last | simp)+

lemma emits_endpoints:
  "length es \<le> kMaxRackEndpoints \<Longrightarrow> \<forall>e \<in> set es. endpoint_storable e \<Longrightarrow>
     emits (write_endpoints es) read_endpoints es"
  unfolding write_endpoints_def read_endpoints_def [abs_def]
  by (rule emits_counted) (auto intro: emits_endpoint simp: codec_bounds)

lemma emits_hint: "hint_storable h \<Longrightarrow> emits (write_hint h) read_hint h"
  unfolding write_hint_def read_hint_def [abs_def] seq_steps hint_storable_def
  by ((rule emits_bind emits_rules emits_stamp)+ | elim conjE | assumption | rule emits_last
      | simp add: to_enums parse_id_valid)+

lemma emits_hints:
  "length hs \<le> kMaxFailureDomainRefs \<Longrightarrow> \<forall>h \<in> set hs. hint_storable h \<Longrightarrow>
     emits (write_hints hs) read_hints hs"
  unfolding write_hints_def read_hints_def [abs_def]
  by (rule emits_counted) (auto intro: emits_hint simp: codec_bounds)

lemma emits_domain_generations: "emits (write_domain_generations g) read_domain_generations g"
  unfolding write_domain_generations_def read_domain_generations_def [abs_def] seq_steps
  by ((rule emits_bind emits_rules)+ | rule emits_last | simp)+

lemma contract_minima:
  "n \<le> kMaxRacksPerCluster \<Longrightarrow> unat (of_nat n :: u64) = n"
  "n \<le> kMaxInterRackLinks \<Longrightarrow> unat (of_nat n :: u64) = n"
  "kMaxRacksPerCluster < 2 ^ 32" "kMaxDomainsPerClass < 2 ^ 32"
  by (simp_all add: unat_of_nat codec_bounds)

lemma emits_contract: "contract_storable c \<Longrightarrow> emits (write_readiness c) read_readiness c"
  unfolding write_readiness_def read_readiness_def [abs_def] seq_steps contract_storable_def
  by ((rule emits_bind emits_rules emits_if emits_rack_ids emits_counted contract_minima)+ | elim conjE | assumption
      | rule emits_last | simp add: contract_minima)+

subsection \<open>Each read yields storable values\<close>

lemmas yields_steps =
  yields_bind [OF yields_i64] yields_bind [OF yields_id] yields_bind [OF yields_optional [OF yields_id]]
  yields_if yields_pure

lemmas yields_rest = yields_bind [OF yields_any] yields_return

lemma yields_stamp: "yields read_stamp stamp_storable"
  unfolding read_stamp_def [abs_def] stamp_storable_def by (rule yields_steps yields_rest | simp)+

lemma yields_header: "yields read_header header_storable"
  unfolding read_header_def [abs_def] header_storable_def
  by (rule yields_bind [OF yields_stamp] yields_steps yields_rest | simp)+

lemma yields_rack_ids: "yields (read_rack_ids bound) (\<lambda>ks. length ks \<le> bound \<and> (\<forall>k \<in> set ks. valid_id k))"
  unfolding read_rack_ids_def [abs_def] by (rule yields_counted [OF yields_id])

lemma yields_composition: "yields read_composition composition_storable"
  unfolding read_composition_def [abs_def] composition_storable_def
  by (rule yields_bind [OF yields_list [OF yields_any]] yields_steps yields_rest | simp)+

lemma yields_endpoint: "yields read_endpoint endpoint_storable"
  unfolding read_endpoint_def [abs_def] endpoint_storable_def
  by (rule yields_bind [OF yields_stamp] yields_steps yields_rest | simp)+

lemma yields_endpoints:
  "yields read_endpoints (\<lambda>es. length es \<le> kMaxRackEndpoints \<and> (\<forall>e \<in> set es. endpoint_storable e))"
  unfolding read_endpoints_def [abs_def] by (rule yields_counted [OF yields_endpoint])

lemma yields_hint: "yields read_hint hint_storable"
  unfolding read_hint_def [abs_def] hint_storable_def
  by (rule yields_bind [OF yields_stamp] yields_steps yields_rest | simp add: parse_id_Inr)+

lemma yields_hints:
  "yields read_hints (\<lambda>hs. length hs \<le> kMaxFailureDomainRefs \<and> (\<forall>h \<in> set hs. hint_storable h))"
  unfolding read_hints_def [abs_def] by (rule yields_counted [OF yields_hint])

lemma yields_contract: "yields read_readiness contract_storable"
  unfolding read_readiness_def [abs_def] contract_storable_def
  by (rule yields_bind [OF yields_rack_ids] yields_bind [OF yields_counted [OF yields_any]] yields_steps yields_rest
      | simp)+

end
