(* ===== verification/Durable_Codec.thy ===== *)
theory Durable_Codec
  imports Durable_Fields
begin

text \<open>
  The records of the durable container and its payload: the body of \<^verbatim>\<open>encode_persisted_state\<close> and of
  \<^verbatim>\<open>decode_persisted_state\<close> in src/src/persistence.cpp between the container header and the final
  validation. \<open>or_status\<close> gives the status of the place that tests for a failure. \<open>state_storable\<close> collects
  what the decoder demands of a state beyond its validation.
\<close>

subsection \<open>Writing\<close>

definition write_durable_rack :: "durable_rack \<Rightarrow> writer \<Rightarrow> writer" where
  "write_durable_rack d =
     seq
      [w_id (du_rack d),
       w_counter (du_generation d),
       w_enum rack_membership_state_values (du_membership d),
       w_id (du_publisher d),
       w_counter (du_last_accepted_publication d),
       w_id (du_last_boot d),
       write_composition (du_composition d),
       write_endpoints (du_endpoints d),
       write_hints (du_failure_domain_hints d),
       w_enum rack_lifecycle_state_values (du_rack_lifecycle d),
       w_counter (du_membership_generation d),
       w_text (du_origin_label d),
       w_i64 (du_declared_at d)]"

definition write_placement_domain :: "placement_domain \<Rightarrow> writer \<Rightarrow> writer" where
  "write_placement_domain d =
     seq
      [w_id (dm_id d),
       w_enum placement_domain_class_values (dm_body d),
       write_rack_ids (dm_racks d),
       write_header (dm_header d)]"

definition write_quantity :: "capacity_quantity \<Rightarrow> writer \<Rightarrow> writer" where
  "write_quantity q =
     seq
      [w_text (cq_unit q),
       w_filled w_f64 double_zero (cq_value q),
       w_enum evidence_provenance_values (cq_provenance q),
       w_boolean (cq_aggregated q)]"

definition write_capacity_domain :: "capacity_domain \<Rightarrow> writer \<Rightarrow> writer" where
  "write_capacity_domain d =
     seq
      [w_id (dm_id d),
       w_enum capacity_domain_class_values (cb_klass (dm_body d)),
       write_rack_ids (dm_racks d),
       w_counted write_quantity (cb_quantities (dm_body d)),
       write_header (dm_header d)]"

definition write_failure_domain :: "failure_domain \<Rightarrow> writer \<Rightarrow> writer" where
  "write_failure_domain d =
     seq
      [w_id (dm_id d),
       w_enum failure_domain_class_values (dm_body d),
       write_rack_ids (dm_racks d),
       write_header (dm_header d)]"

definition write_network_domain :: "network_domain \<Rightarrow> writer \<Rightarrow> writer" where
  "write_network_domain d =
     seq
      [w_id (dm_id d),
       w_enum connectivity_class_values (dm_body d),
       write_rack_ids (dm_racks d),
       write_header (dm_header d)]"

text \<open>Storage and link domains; power and cooling domains, with their optional parent.\<close>

definition write_plain_domain :: "('t, unit) domain \<Rightarrow> writer \<Rightarrow> writer" where
  "write_plain_domain d = seq [w_id (dm_id d), write_rack_ids (dm_racks d), write_header (dm_header d)]"

definition write_child_domain :: "('t, 't strong_id option) domain \<Rightarrow> writer \<Rightarrow> writer" where
  "write_child_domain d =
     seq
      [w_id (dm_id d),
       write_rack_ids (dm_racks d),
       w_optional w_id (dm_body d),
       write_header (dm_header d)]"

definition write_link :: "inter_rack_link \<Rightarrow> writer \<Rightarrow> writer" where
  "write_link l =
     seq
      [w_id (lk_id l),
       w_id (lk_source l),
       w_id (lk_destination l),
       w_enum link_direction_values (lk_direction l),
       w_enum connectivity_class_values (lk_connectivity l),
       w_optional w_id (lk_network_domain l),
       w_optional w_id (lk_link_domain l),
       w_optional w_id (lk_source_endpoint l),
       w_optional w_id (lk_destination_endpoint l),
       w_enum bandwidth_class_values (lk_bandwidth_class l),
       w_filled w_u64 0 (lk_nominal_bandwidth_bps l),
       w_enum latency_class_values (lk_latency_class l),
       w_filled w_u64 0 (lk_nominal_latency_nanos l),
       w_filled w_u32 0 (lk_hop_count l),
       w_enum reachability_values (lk_reachability l),
       w_enum health_state_values (lk_health l),
       w_counted w_id (lk_failure_domains l),
       write_header (lk_header l),
       w_counter (lk_topology_epoch l),
       w_counter (lk_topology_generation l),
       w_counter (lk_publication l),
       w_optional w_id (lk_boot l)]"

definition write_constraint :: "cluster_constraint \<Rightarrow> writer \<Rightarrow> writer" where
  "write_constraint c =
     seq
      [w_id (cn_id c),
       w_enum constraint_kind_values (cn_kind c),
       write_rack_ids (cn_racks c),
       w_text (cn_domain_ref c),
       w_text (cn_statement c),
       write_header (cn_header c)]"

definition write_retired :: "retired_identity \<Rightarrow> writer \<Rightarrow> writer" where
  "write_retired r =
     seq
      [w_id (ri_rack r),
       w_counter (ri_last_generation r),
       w_i64 (ri_retired_at r),
       w_text (ri_reason r)]"

definition write_fenced :: "fenced_authority \<Rightarrow> writer \<Rightarrow> writer" where
  "write_fenced f = seq [w_id (fa_boot f), w_id (fa_rack f), w_text (fa_reason f), w_i64 (fa_fenced_at f)]"

definition write_scalars :: "persisted_state \<Rightarrow> writer \<Rightarrow> writer" where
  "write_scalars p =
     seq
      [w_id (ps_id p),
       w_counter (ps_epoch p),
       w_counter (ps_last_coordinator_epoch p),
       w_counter (ps_generation p),
       w_counter (ps_membership_generation p),
       w_counter (ps_topology_epoch p),
       w_counter (ps_topology_generation p),
       w_counter (ps_connectivity_generation p),
       w_counter (ps_health_generation p),
       w_counter (ps_constraint_generation p),
       write_domain_generations (ps_domain_generations p),
       w_counter (ps_snapshot_generation p),
       w_counter (ps_publication_generation p),
       w_enum cluster_lifecycle_values (ps_lifecycle p),
       write_readiness (ps_readiness_contract p),
       w_counter (te_epoch (ps_topology_record p)),
       w_counter (te_generation (ps_topology_record p)),
       w_i64 (te_established_at (ps_topology_record p)),
       write_stamp (te_evidence (ps_topology_record p)),
       w_text (te_reason (ps_topology_record p)),
       w_i64 (ps_declared_at p),
       w_i64 (ps_last_mutation_at p)]"

definition write_persisted_state :: "persisted_state \<Rightarrow> writer \<Rightarrow> writer" where
  "write_persisted_state p =
     seq
      [write_scalars p,
       w_counted write_durable_rack (ps_racks p),
       w_counted write_placement_domain (ps_placement_domains p),
       w_counted write_capacity_domain (ps_capacity_domains p),
       w_counted write_failure_domain (ps_failure_domains p),
       w_counted write_network_domain (ps_network_domains p),
       w_counted write_plain_domain (ps_storage_domains p),
       w_counted write_child_domain (ps_power_domains p),
       w_counted write_child_domain (ps_cooling_domains p),
       w_counted write_plain_domain (ps_link_domains p),
       w_counted write_link (ps_links p),
       w_counted write_constraint (ps_constraints p),
       w_counted write_retired (ps_retired_racks p),
       write_rack_ids (ps_withdrawn_racks p),
       w_counted write_fenced (ps_fenced_authorities p)]"

subsection \<open>Reading\<close>

abbreviation body :: "'e + 'a \<Rightarrow> persistence_status + 'a" where "body \<equiv> or_status PS_TruncatedBody"
abbreviation identity :: "'e + 'a \<Rightarrow> persistence_status + 'a" where "identity \<equiv> or_status PS_InvalidIdentity"
abbreviation enumeral :: "'e + 'a \<Rightarrow> persistence_status + 'a" where "enumeral \<equiv> or_status PS_InvalidEnum"

text \<open>A counted block: a missing count is a truncated body, a count above the bound is absurd.\<close>

definition read_block ::
  "nat \<Rightarrow> (string \<Rightarrow> persistence_status + 'a \<times> string) \<Rightarrow> string \<Rightarrow> persistence_status + 'a list \<times> string" where
  "read_block bound rd s =
     sum_bind (body (r_u32 s)) (\<lambda>(count, s).
       if unat count > bound then Inl PS_AbsurdCount else read_list rd (unat count) s)"

definition read_durable_rack :: "string \<Rightarrow> persistence_status + durable_rack \<times> string" where
  "read_durable_rack s =
     sum_bind (body (r_text s)) (\<lambda>(rack, s).
     sum_bind (body (r_u64 s)) (\<lambda>(generation, s).
     sum_bind (body (r_u8 s)) (\<lambda>(membership, s).
     sum_bind (body (r_text s)) (\<lambda>(publisher, s).
     sum_bind (body (r_u64 s)) (\<lambda>(publication, s).
     sum_bind (body (r_text s)) (\<lambda>(last_boot, s).
     sum_bind (identity (parse_id rack)) (\<lambda>rack.
     sum_bind (identity (parse_id publisher)) (\<lambda>publisher.
     sum_bind (identity (parse_id last_boot)) (\<lambda>last_boot.
     sum_bind (enumeral (to_enum rack_membership_state_values RM_Retired membership)) (\<lambda>membership.
     sum_bind (body (read_composition s)) (\<lambda>(composition, s).
     sum_bind (body (read_endpoints s)) (\<lambda>(endpoints, s).
     sum_bind (body (read_hints s)) (\<lambda>(hints, s).
     sum_bind (body (r_u8 s)) (\<lambda>(lifecycle, s).
     sum_bind (body (r_u64 s)) (\<lambda>(membership_generation, s).
     sum_bind (body (r_text s)) (\<lambda>(origin, s).
     sum_bind (body (r_i64 s)) (\<lambda>(declared, s).
     sum_bind (enumeral (to_enum rack_lifecycle_state_values RL_Retired lifecycle)) (\<lambda>lifecycle.
       Inr (\<lparr>du_rack = rack, du_generation = StrongCounter generation, du_membership = membership,
             du_publisher = publisher, du_last_accepted_publication = StrongCounter publication,
             du_last_boot = last_boot, du_composition = composition, du_endpoints = endpoints,
             du_failure_domain_hints = hints, du_rack_lifecycle = lifecycle,
             du_membership_generation = StrongCounter membership_generation, du_origin_label = origin,
             du_declared_at = declared\<rparr>, s)))))))))))))))))))"

definition read_placement_domain :: "string \<Rightarrow> persistence_status + placement_domain \<times> string" where
  "read_placement_domain s =
     sum_bind (body (r_text s)) (\<lambda>(i, s).
     sum_bind (body (r_u8 s)) (\<lambda>(klass, s).
     sum_bind (identity (parse_id i)) (\<lambda>i.
     sum_bind (enumeral (to_enum placement_domain_class_values PDC_PolicyClass klass)) (\<lambda>klass.
     sum_bind (body (read_rack_ids kMaxDomainMembers s)) (\<lambda>(racks, s).
     sum_bind (body (read_header s)) (\<lambda>(header, s).
       Inr (\<lparr>dm_id = i, dm_body = klass, dm_racks = racks, dm_header = header\<rparr>, s)))))))"

definition read_quantity :: "string \<Rightarrow> persistence_status + capacity_quantity \<times> string" where
  "read_quantity s =
     sum_bind (body (r_text s)) (\<lambda>(unit, s).
     sum_bind (body (r_filled r_f64 s)) (\<lambda>(v, s).
     sum_bind (body (r_u8 s)) (\<lambda>(provenance, s).
     sum_bind (body (r_boolean s)) (\<lambda>(aggregated, s).
     sum_bind (enumeral (to_enum evidence_provenance_values EP_Reconstructed provenance)) (\<lambda>provenance.
       Inr (\<lparr>cq_unit = unit, cq_value = v, cq_provenance = provenance, cq_aggregated = aggregated\<rparr>, s))))))"

definition read_capacity_domain :: "string \<Rightarrow> persistence_status + capacity_domain \<times> string" where
  "read_capacity_domain s =
     sum_bind (body (r_text s)) (\<lambda>(i, s).
     sum_bind (body (r_u8 s)) (\<lambda>(klass, s).
     sum_bind (identity (parse_id i)) (\<lambda>i.
     sum_bind (enumeral (to_enum capacity_domain_class_values CDC_StorageDomain klass)) (\<lambda>klass.
     sum_bind (body (read_rack_ids kMaxDomainMembers s)) (\<lambda>(racks, s).
     sum_bind (read_block kMaxCapacityQuantities read_quantity s) (\<lambda>(quantities, s).
     sum_bind (body (read_header s)) (\<lambda>(header, s).
       Inr (\<lparr>dm_id = i, dm_body = \<lparr>cb_klass = klass, cb_quantities = quantities\<rparr>, dm_racks = racks,
             dm_header = header\<rparr>, s))))))))"

text \<open>Failure and network domains: a missing text is a truncated body, a refused text or class an invalid
  identity.\<close>

definition read_classed_domain :: "'b list \<Rightarrow> 'b \<Rightarrow> string \<Rightarrow> persistence_status + ('t, 'b) domain \<times> string" where
  "read_classed_domain vals max_value s =
     sum_bind (body (r_text s)) (\<lambda>(i, s).
     sum_bind (identity (parse_id i)) (\<lambda>i.
     sum_bind (identity (r_enum vals max_value s)) (\<lambda>(klass, s).
     sum_bind (body (read_rack_ids kMaxDomainMembers s)) (\<lambda>(racks, s).
     sum_bind (body (read_header s)) (\<lambda>(header, s).
       Inr (\<lparr>dm_id = i, dm_body = klass, dm_racks = racks, dm_header = header\<rparr>, s))))))"

definition read_failure_domain :: "string \<Rightarrow> persistence_status + failure_domain \<times> string" where
  "read_failure_domain s = read_classed_domain failure_domain_class_values FDC_ControlPlane s"

definition read_network_domain :: "string \<Rightarrow> persistence_status + network_domain \<times> string" where
  "read_network_domain s = read_classed_domain connectivity_class_values CC_ManagementOnly s"

definition read_plain_domain :: "string \<Rightarrow> persistence_status + ('t, unit) domain \<times> string" where
  "read_plain_domain s =
     sum_bind (identity (r_id s)) (\<lambda>(i, s).
     sum_bind (body (read_rack_ids kMaxDomainMembers s)) (\<lambda>(racks, s).
     sum_bind (body (read_header s)) (\<lambda>(header, s).
       Inr (\<lparr>dm_id = i, dm_body = (), dm_racks = racks, dm_header = header\<rparr>, s))))"

definition read_storage_domain :: "string \<Rightarrow> persistence_status + storage_domain \<times> string" where
  "read_storage_domain s = read_plain_domain s"

definition read_link_domain :: "string \<Rightarrow> persistence_status + link_domain \<times> string" where
  "read_link_domain s = read_plain_domain s"

definition read_child_domain :: "string \<Rightarrow> persistence_status + ('t, 't strong_id option) domain \<times> string" where
  "read_child_domain s =
     sum_bind (identity (r_id s)) (\<lambda>(i, s).
     sum_bind (body (read_rack_ids kMaxDomainMembers s)) (\<lambda>(racks, s).
     sum_bind (identity (r_optional r_id s)) (\<lambda>(parent, s).
     sum_bind (body (read_header s)) (\<lambda>(header, s).
       Inr (\<lparr>dm_id = i, dm_body = parent, dm_racks = racks, dm_header = header\<rparr>, s)))))"

definition read_power_domain :: "string \<Rightarrow> persistence_status + power_domain \<times> string" where
  "read_power_domain s = read_child_domain s"

definition read_cooling_domain :: "string \<Rightarrow> persistence_status + cooling_domain \<times> string" where
  "read_cooling_domain s = read_child_domain s"

text \<open>The four references of a link are read first and parsed afterwards.\<close>

definition parse_optional :: "string option \<Rightarrow> protocol_status + 't strong_id option" where
  "parse_optional opt = (case opt of None \<Rightarrow> Inr None | Some t \<Rightarrow> sum_bind (parse_id t) (\<lambda>i. Inr (Some i)))"

definition read_link :: "string \<Rightarrow> persistence_status + inter_rack_link \<times> string" where
  "read_link s =
     sum_bind (identity (r_text s)) (\<lambda>(i, s).
     sum_bind (identity (r_text s)) (\<lambda>(source, s).
     sum_bind (identity (r_text s)) (\<lambda>(destination, s).
     sum_bind (identity (parse_id i)) (\<lambda>i.
     sum_bind (identity (parse_id source)) (\<lambda>source.
     sum_bind (identity (parse_id destination)) (\<lambda>destination.
     sum_bind (identity (r_enum link_direction_values LD_Bidirectional s)) (\<lambda>(direction, s).
     sum_bind (identity (r_enum connectivity_class_values CC_ManagementOnly s)) (\<lambda>(connectivity, s).
     sum_bind (body (r_optional r_text s)) (\<lambda>(network_domain, s).
     sum_bind (body (r_optional r_text s)) (\<lambda>(link_domain, s).
     sum_bind (body (r_optional r_text s)) (\<lambda>(source_endpoint, s).
     sum_bind (body (r_optional r_text s)) (\<lambda>(destination_endpoint, s).
     sum_bind (identity (parse_optional network_domain)) (\<lambda>network_domain.
     sum_bind (identity (parse_optional link_domain)) (\<lambda>link_domain.
     sum_bind (identity (parse_optional source_endpoint)) (\<lambda>source_endpoint.
     sum_bind (identity (parse_optional destination_endpoint)) (\<lambda>destination_endpoint.
     sum_bind (enumeral (r_enum bandwidth_class_values BW_VeryHigh s)) (\<lambda>(bandwidth_class, s).
     sum_bind (body (r_filled r_u64 s)) (\<lambda>(bandwidth, s).
     sum_bind (enumeral (r_enum latency_class_values LT_High s)) (\<lambda>(latency_class, s).
     sum_bind (body (r_filled r_u64 s)) (\<lambda>(latency, s).
     sum_bind (body (r_filled r_u32 s)) (\<lambda>(hops, s).
     sum_bind (enumeral (r_enum reachability_values RB_RevalidationRequired s)) (\<lambda>(reach, s).
     sum_bind (enumeral (r_enum health_state_values HS_Unhealthy s)) (\<lambda>(health, s).
     sum_bind (or_status PS_AbsurdCount (r_u32 s)) (\<lambda>(count, s).
     if unat count > kMaxFailureDomainRefs then Inl PS_AbsurdCount else
     sum_bind (identity (read_list r_id (unat count) s)) (\<lambda>(failure_domains, s).
     sum_bind (body (read_header s)) (\<lambda>(header, s).
     sum_bind (body (r_u64 s)) (\<lambda>(topology_epoch, s).
     sum_bind (body (r_u64 s)) (\<lambda>(topology_generation, s).
     sum_bind (body (r_u64 s)) (\<lambda>(publication, s).
     sum_bind (body (r_optional r_text s)) (\<lambda>(boot, s).
     sum_bind (identity (parse_optional boot)) (\<lambda>boot.
       Inr (\<lparr>lk_id = i, lk_source = source, lk_destination = destination, lk_direction = direction,
             lk_connectivity = connectivity, lk_network_domain = network_domain, lk_link_domain = link_domain,
             lk_source_endpoint = source_endpoint, lk_destination_endpoint = destination_endpoint,
             lk_bandwidth_class = bandwidth_class, lk_nominal_bandwidth_bps = bandwidth,
             lk_latency_class = latency_class, lk_nominal_latency_nanos = latency, lk_hop_count = hops,
             lk_reachability = reach, lk_health = health, lk_failure_domains = failure_domains,
             lk_header = header, lk_topology_epoch = StrongCounter topology_epoch,
             lk_topology_generation = StrongCounter topology_generation,
             lk_publication = StrongCounter publication, lk_boot = boot\<rparr>, s))))))))))))))))))))))))))))))))"

definition read_constraint :: "string \<Rightarrow> persistence_status + cluster_constraint \<times> string" where
  "read_constraint s =
     sum_bind (identity (r_id s)) (\<lambda>(i, s).
     sum_bind (identity (r_enum constraint_kind_values CK_MaintenanceWindow s)) (\<lambda>(kind, s).
     sum_bind (identity (read_rack_ids kMaxDomainMembers s)) (\<lambda>(racks, s).
     sum_bind (body (r_text s)) (\<lambda>(domain_ref, s).
     sum_bind (body (r_text s)) (\<lambda>(stmt, s).
     sum_bind (body (read_header s)) (\<lambda>(header, s).
       Inr (\<lparr>cn_id = i, cn_kind = kind, cn_racks = racks, cn_domain_ref = domain_ref, cn_statement = stmt,
             cn_header = header\<rparr>, s)))))))"

definition read_retired :: "string \<Rightarrow> persistence_status + retired_identity \<times> string" where
  "read_retired s =
     sum_bind (identity (r_id s)) (\<lambda>(rack, s).
     sum_bind (identity (r_u64 s)) (\<lambda>(last_generation, s).
     sum_bind (identity (r_i64 s)) (\<lambda>(retired_at, s).
     sum_bind (identity (r_text s)) (\<lambda>(reason, s).
       Inr (\<lparr>ri_rack = rack, ri_last_generation = StrongCounter last_generation, ri_retired_at = retired_at,
             ri_reason = reason\<rparr>, s)))))"

definition read_fenced :: "string \<Rightarrow> persistence_status + fenced_authority \<times> string" where
  "read_fenced s =
     sum_bind (identity (r_id s)) (\<lambda>(boot, s).
     sum_bind (identity (r_id s)) (\<lambda>(rack, s).
     sum_bind (identity (r_text s)) (\<lambda>(reason, s).
     sum_bind (identity (r_i64 s)) (\<lambda>(fenced_at, s).
       Inr (\<lparr>fa_boot = boot, fa_rack = rack, fa_reason = reason, fa_fenced_at = fenced_at\<rparr>, s)))))"

text \<open>The scalar part of the state; the lists are added by the blocks that follow it.\<close>

definition read_scalars :: "string \<Rightarrow> persistence_status + persisted_state \<times> string" where
  "read_scalars s =
     sum_bind (body (r_text s)) (\<lambda>(cluster, s).
     sum_bind (identity (parse_id cluster)) (\<lambda>cluster.
     sum_bind (body (r_u64 s)) (\<lambda>(epoch, s).
     sum_bind (body (r_u64 s)) (\<lambda>(coordinator_epoch, s).
     sum_bind (body (r_u64 s)) (\<lambda>(generation, s).
     sum_bind (body (r_u64 s)) (\<lambda>(membership_generation, s).
     sum_bind (body (r_u64 s)) (\<lambda>(topology_epoch, s).
     sum_bind (body (r_u64 s)) (\<lambda>(topology_generation, s).
     sum_bind (body (r_u64 s)) (\<lambda>(connectivity_generation, s).
     sum_bind (body (r_u64 s)) (\<lambda>(health_generation, s).
     sum_bind (body (r_u64 s)) (\<lambda>(constraint_generation, s).
     sum_bind (body (read_domain_generations s)) (\<lambda>(domain_generations, s).
     sum_bind (body (r_u64 s)) (\<lambda>(snapshot_generation, s).
     sum_bind (body (r_u64 s)) (\<lambda>(publication_generation, s).
     sum_bind (enumeral (r_enum cluster_lifecycle_values CL_Retired s)) (\<lambda>(lifecycle, s).
     sum_bind (body (read_readiness s)) (\<lambda>(contract, s).
     sum_bind (body (r_u64 s)) (\<lambda>(record_epoch, s).
     sum_bind (body (r_u64 s)) (\<lambda>(record_generation, s).
     sum_bind (body (r_i64 s)) (\<lambda>(record_at, s).
     sum_bind (body (read_stamp s)) (\<lambda>(record_evidence, s).
     sum_bind (body (r_text s)) (\<lambda>(record_reason, s).
     sum_bind (body (r_i64 s)) (\<lambda>(declared_at, s).
     sum_bind (body (r_i64 s)) (\<lambda>(last_mutation_at, s).
       Inr (\<lparr>ps_id = cluster, ps_epoch = StrongCounter epoch,
             ps_last_coordinator_epoch = StrongCounter coordinator_epoch,
             ps_generation = StrongCounter generation,
             ps_membership_generation = StrongCounter membership_generation,
             ps_topology_epoch = StrongCounter topology_epoch,
             ps_topology_generation = StrongCounter topology_generation,
             ps_connectivity_generation = StrongCounter connectivity_generation,
             ps_health_generation = StrongCounter health_generation,
             ps_constraint_generation = StrongCounter constraint_generation,
             ps_domain_generations = domain_generations,
             ps_snapshot_generation = StrongCounter snapshot_generation,
             ps_publication_generation = StrongCounter publication_generation,
             ps_lifecycle = lifecycle, ps_readiness_contract = contract,
             ps_topology_record =
               \<lparr>te_epoch = StrongCounter record_epoch, te_generation = StrongCounter record_generation,
                te_established_at = record_at, te_evidence = record_evidence, te_reason = record_reason\<rparr>,
             ps_declared_at = declared_at, ps_last_mutation_at = last_mutation_at,
             ps_racks = [], ps_placement_domains = [], ps_capacity_domains = [], ps_failure_domains = [],
             ps_network_domains = [], ps_storage_domains = [], ps_power_domains = [], ps_cooling_domains = [],
             ps_link_domains = [], ps_links = [], ps_constraints = [], ps_retired_racks = [],
             ps_withdrawn_racks = [], ps_fenced_authorities = []\<rparr>, s))))))))))))))))))))))))"

definition read_persisted_state :: "string \<Rightarrow> persistence_status + persisted_state \<times> string" where
  "read_persisted_state s =
     sum_bind (read_scalars s) (\<lambda>(p, s).
     sum_bind (read_block kMaxRacksPerCluster read_durable_rack s) (\<lambda>(racks, s).
     sum_bind (read_block kMaxDomainsPerClass read_placement_domain s) (\<lambda>(placement, s).
     sum_bind (read_block kMaxDomainsPerClass read_capacity_domain s) (\<lambda>(capacity, s).
     sum_bind (read_block kMaxDomainsPerClass read_failure_domain s) (\<lambda>(failure, s).
     sum_bind (read_block kMaxDomainsPerClass read_network_domain s) (\<lambda>(network, s).
     sum_bind (read_block kMaxDomainsPerClass read_storage_domain s) (\<lambda>(storage, s).
     sum_bind (read_block kMaxDomainsPerClass read_power_domain s) (\<lambda>(power, s).
     sum_bind (read_block kMaxDomainsPerClass read_cooling_domain s) (\<lambda>(cooling, s).
     sum_bind (read_block kMaxDomainsPerClass read_link_domain s) (\<lambda>(link_domains, s).
     sum_bind (read_block kMaxInterRackLinks read_link s) (\<lambda>(links, s).
     sum_bind (read_block kMaxConstraints read_constraint s) (\<lambda>(constraints, s).
     sum_bind (read_block kMaxRacksPerCluster read_retired s) (\<lambda>(retired, s).
     sum_bind (body (read_rack_ids kMaxRacksPerCluster s)) (\<lambda>(withdrawn, s).
     sum_bind (read_block kMaxRacksPerCluster read_fenced s) (\<lambda>(fenced, s).
       Inr (p\<lparr>ps_racks := racks, ps_placement_domains := placement, ps_capacity_domains := capacity,
              ps_failure_domains := failure, ps_network_domains := network, ps_storage_domains := storage,
              ps_power_domains := power, ps_cooling_domains := cooling, ps_link_domains := link_domains,
              ps_links := links, ps_constraints := constraints, ps_retired_racks := retired,
              ps_withdrawn_racks := withdrawn, ps_fenced_authorities := fenced\<rparr>, s))))))))))))))))"

subsection \<open>What the decoder demands of a state\<close>

definition durable_rack_storable :: "durable_rack \<Rightarrow> bool" where
  "durable_rack_storable d \<longleftrightarrow>
     valid_id (du_rack d) \<and> valid_id (du_publisher d) \<and> valid_id (du_last_boot d)
     \<and> composition_storable (du_composition d)
     \<and> length (du_endpoints d) \<le> kMaxRackEndpoints \<and> (\<forall>e \<in> set (du_endpoints d). endpoint_storable e)
     \<and> length (du_failure_domain_hints d) \<le> kMaxFailureDomainRefs
     \<and> (\<forall>h \<in> set (du_failure_domain_hints d). hint_storable h) \<and> i64_range (du_declared_at d)"

definition domain_storable :: "('t, 'b) domain \<Rightarrow> bool" where
  "domain_storable d \<longleftrightarrow>
     valid_id (dm_id d) \<and> length (dm_racks d) \<le> kMaxDomainMembers \<and> (\<forall>k \<in> set (dm_racks d). valid_id k)
     \<and> header_storable (dm_header d)"

definition capacity_storable :: "capacity_domain \<Rightarrow> bool" where
  "capacity_storable d \<longleftrightarrow> domain_storable d \<and> length (cb_quantities (dm_body d)) \<le> kMaxCapacityQuantities"

definition child_storable :: "('t, 't strong_id option) domain \<Rightarrow> bool" where
  "child_storable d \<longleftrightarrow> domain_storable d \<and> (\<forall>k. dm_body d = Some k \<longrightarrow> valid_id k)"

definition link_storable :: "inter_rack_link \<Rightarrow> bool" where
  "link_storable l \<longleftrightarrow>
     valid_id (lk_id l) \<and> valid_id (lk_source l) \<and> valid_id (lk_destination l)
     \<and> (\<forall>k. lk_network_domain l = Some k \<longrightarrow> valid_id k) \<and> (\<forall>k. lk_link_domain l = Some k \<longrightarrow> valid_id k)
     \<and> (\<forall>k. lk_source_endpoint l = Some k \<longrightarrow> valid_id k) \<and> (\<forall>k. lk_destination_endpoint l = Some k \<longrightarrow> valid_id k)
     \<and> length (lk_failure_domains l) \<le> kMaxFailureDomainRefs \<and> (\<forall>k \<in> set (lk_failure_domains l). valid_id k)
     \<and> header_storable (lk_header l) \<and> (\<forall>k. lk_boot l = Some k \<longrightarrow> valid_id k)"

definition constraint_storable :: "cluster_constraint \<Rightarrow> bool" where
  "constraint_storable c \<longleftrightarrow>
     valid_id (cn_id c) \<and> length (cn_racks c) \<le> kMaxDomainMembers \<and> (\<forall>k \<in> set (cn_racks c). valid_id k)
     \<and> header_storable (cn_header c)"

definition retired_storable :: "retired_identity \<Rightarrow> bool" where
  "retired_storable r \<longleftrightarrow> valid_id (ri_rack r) \<and> i64_range (ri_retired_at r)"

definition fenced_storable :: "fenced_authority \<Rightarrow> bool" where
  "fenced_storable f \<longleftrightarrow> valid_id (fa_boot f) \<and> valid_id (fa_rack f) \<and> i64_range (fa_fenced_at f)"

definition scalars_storable :: "persisted_state \<Rightarrow> bool" where
  "scalars_storable p \<longleftrightarrow>
     valid_id (ps_id p) \<and> contract_storable (ps_readiness_contract p)
     \<and> i64_range (te_established_at (ps_topology_record p)) \<and> stamp_storable (te_evidence (ps_topology_record p))
     \<and> i64_range (ps_declared_at p) \<and> i64_range (ps_last_mutation_at p)"

definition within :: "nat \<Rightarrow> ('a \<Rightarrow> bool) \<Rightarrow> 'a list \<Rightarrow> bool" where
  "within bound P xs \<longleftrightarrow> length xs \<le> bound \<and> (\<forall>x \<in> set xs. P x)"

definition state_storable :: "persisted_state \<Rightarrow> bool" where
  "state_storable p \<longleftrightarrow>
     scalars_storable p
     \<and> within kMaxRacksPerCluster durable_rack_storable (ps_racks p)
     \<and> within kMaxDomainsPerClass domain_storable (ps_placement_domains p)
     \<and> within kMaxDomainsPerClass capacity_storable (ps_capacity_domains p)
     \<and> within kMaxDomainsPerClass domain_storable (ps_failure_domains p)
     \<and> within kMaxDomainsPerClass domain_storable (ps_network_domains p)
     \<and> within kMaxDomainsPerClass domain_storable (ps_storage_domains p)
     \<and> within kMaxDomainsPerClass child_storable (ps_power_domains p)
     \<and> within kMaxDomainsPerClass child_storable (ps_cooling_domains p)
     \<and> within kMaxDomainsPerClass domain_storable (ps_link_domains p)
     \<and> within kMaxInterRackLinks link_storable (ps_links p)
     \<and> within kMaxConstraints constraint_storable (ps_constraints p)
     \<and> within kMaxRacksPerCluster retired_storable (ps_retired_racks p)
     \<and> within kMaxRacksPerCluster valid_id (ps_withdrawn_racks p)
     \<and> within kMaxRacksPerCluster fenced_storable (ps_fenced_authorities p)"

subsection \<open>Each record is read back\<close>

lemma emits_members:
  "length ks \<le> kMaxDomainMembers \<Longrightarrow> \<forall>k \<in> set ks. valid_id k \<Longrightarrow>
     emits (write_rack_ids ks) (read_rack_ids kMaxDomainMembers) ks"
  by (rule emits_rack_ids) (simp_all add: codec_bounds)

lemma parse_optional_ids: "\<forall>k. opt = Some k \<longrightarrow> valid_id k \<Longrightarrow> parse_optional (map_option id_value opt) = Inr opt"
  by (cases opt) (simp_all add: parse_optional_def parse_id_valid)

lemma emits_optional_text: "emits (w_optional w_id opt) (r_optional r_text) (map_option id_value opt)"
proof -
  have "w_optional w_id opt = w_optional w_text (map_option id_value opt)"
    by (cases opt) (simp_all add: w_optional_def w_id_def)
  then show ?thesis by (simp add: emits_optional emits_text)
qed

lemma emits_id_text: "emits (w_id i) r_text (id_value i)"
  by (simp add: w_id_def emits_text)

lemma emits_enum_raw: "emits (w_enum vals v) r_u8 (raw_of vals v)"
  by (simp add: w_enum_def emits_u8)

lemmas emits_fields =
  emits_u64 emits_i64 emits_text emits_boolean emits_filled emits_u32 emits_f64
  emits_stamp emits_header emits_members emits_composition emits_endpoints emits_hints emits_contract
  emits_domain_generations emits_list

lemma emits_durable_rack: "durable_rack_storable d \<Longrightarrow> emits (write_durable_rack d) read_durable_rack d"
  unfolding write_durable_rack_def read_durable_rack_def [abs_def] seq_steps durable_rack_storable_def
  by ((rule emits_bind emits_or_status emits_fields emits_id_text emits_enum_raw)+ | elim conjE | assumption
      | rule emits_last | simp add: parse_id_valid to_enums)+

lemma emits_placement_domain: "domain_storable d \<Longrightarrow> emits (write_placement_domain d) read_placement_domain d"
  unfolding write_placement_domain_def read_placement_domain_def [abs_def] domain_storable_def seq_steps
  by ((rule emits_bind emits_or_status emits_fields emits_id_text emits_enum_raw)+ | elim conjE | assumption
      | rule emits_last | simp add: parse_id_valid to_enums)+

lemma emits_quantity: "emits (write_quantity q) read_quantity q"
  unfolding write_quantity_def read_quantity_def [abs_def] seq_steps
  by ((rule emits_bind emits_or_status emits_fields emits_id_text emits_enum_raw)+ | elim conjE | assumption
      | rule emits_last | simp add: parse_id_valid to_enums)+

lemma emits_block:
  assumes "within bound P xs" and "bound < 2 ^ 32" and "\<And>x. P x \<Longrightarrow> emits (write x) rd x"
  shows "emits (w_counted write xs) (read_block bound rd) xs"
proof -
  have "unat (of_nat (length xs) :: u32) = length xs" using assms(1,2) by (simp add: unat_of_nat within_def)
  then show ?thesis
    using assms(1) unfolding w_counted_def seq_steps read_block_def [abs_def] within_def
    by (intro emits_bind [OF emits_or_status [OF emits_u32]]) (simp add: emits_list assms(3) leD)
qed

lemma emits_quantities:
  "length qs \<le> kMaxCapacityQuantities \<Longrightarrow>
     emits (w_counted write_quantity qs) (read_block kMaxCapacityQuantities read_quantity) qs"
  by (rule emits_block [where P = "\<lambda>q. True"]) (simp_all add: within_def codec_bounds emits_quantity)

lemma emits_capacity_domain: "capacity_storable d \<Longrightarrow> emits (write_capacity_domain d) read_capacity_domain d"
  unfolding write_capacity_domain_def read_capacity_domain_def [abs_def] capacity_storable_def domain_storable_def seq_steps
  by ((rule emits_bind emits_or_status emits_fields emits_id_text emits_enum_raw emits_quantities)+ | elim conjE | assumption
      | rule emits_last | simp add: parse_id_valid to_enums)+

lemma emits_failure_domain: "domain_storable d \<Longrightarrow> emits (write_failure_domain d) read_failure_domain d"
  unfolding write_failure_domain_def read_failure_domain_def [abs_def] read_classed_domain_def domain_storable_def seq_steps
  by ((rule emits_bind emits_or_status emits_fields emits_id_text emits_enums)+ | elim conjE | assumption
      | rule emits_last | simp add: parse_id_valid to_enums)+

lemma emits_network_domain: "domain_storable d \<Longrightarrow> emits (write_network_domain d) read_network_domain d"
  unfolding write_network_domain_def read_network_domain_def [abs_def] read_classed_domain_def domain_storable_def seq_steps
  by ((rule emits_bind emits_or_status emits_fields emits_id_text emits_enums)+ | elim conjE | assumption
      | rule emits_last | simp add: parse_id_valid to_enums)+

lemma emits_plain_domain: "domain_storable d \<Longrightarrow> emits (write_plain_domain d) read_plain_domain d"
  unfolding write_plain_domain_def read_plain_domain_def [abs_def] domain_storable_def seq_steps
  by ((rule emits_bind emits_or_status emits_fields emits_id)+ | elim conjE | assumption
      | rule emits_last | simp add: parse_id_valid)+

lemma emits_child_domain: "child_storable d \<Longrightarrow> emits (write_child_domain d) read_child_domain d"
  unfolding write_child_domain_def read_child_domain_def [abs_def] child_storable_def domain_storable_def seq_steps
  by ((rule emits_bind emits_or_status emits_fields emits_id emits_optional)+ | elim conjE | assumption
      | rule emits_last | simp add: parse_id_valid)+

lemma emits_link: "link_storable l \<Longrightarrow> emits (write_link l) read_link l"
  unfolding write_link_def read_link_def [abs_def] link_storable_def w_counted_def seq_steps
  by ((rule emits_bind emits_or_status emits_fields emits_id_text emits_enums emits_optional_text emits_id)+ | elim conjE | assumption
      | rule emits_last | simp add: parse_id_valid parse_optional_ids unat_of_nat codec_bounds)+

lemma emits_constraint: "constraint_storable c \<Longrightarrow> emits (write_constraint c) read_constraint c"
  unfolding write_constraint_def read_constraint_def [abs_def] constraint_storable_def seq_steps
  by ((rule emits_bind emits_or_status emits_fields emits_id emits_enums)+ | elim conjE | assumption
      | rule emits_last | simp add: parse_id_valid)+

lemma emits_retired: "retired_storable r \<Longrightarrow> emits (write_retired r) read_retired r"
  unfolding write_retired_def read_retired_def [abs_def] retired_storable_def seq_steps
  by ((rule emits_bind emits_or_status emits_fields emits_id)+ | elim conjE | assumption
      | rule emits_last | simp add: parse_id_valid)+

lemma emits_fenced: "fenced_storable f \<Longrightarrow> emits (write_fenced f) read_fenced f"
  unfolding write_fenced_def read_fenced_def [abs_def] fenced_storable_def seq_steps
  by ((rule emits_bind emits_or_status emits_fields emits_id)+ | elim conjE | assumption
      | rule emits_last | simp add: parse_id_valid)+

definition without_lists :: "persisted_state \<Rightarrow> persisted_state" where
  "without_lists p = p\<lparr>ps_racks := [], ps_placement_domains := [], ps_capacity_domains := [],
     ps_failure_domains := [], ps_network_domains := [], ps_storage_domains := [], ps_power_domains := [],
     ps_cooling_domains := [], ps_link_domains := [], ps_links := [], ps_constraints := [],
     ps_retired_racks := [], ps_withdrawn_racks := [], ps_fenced_authorities := []\<rparr>"

lemma emits_scalars: "scalars_storable p \<Longrightarrow> emits (write_scalars p) read_scalars (without_lists p)"
  unfolding write_scalars_def read_scalars_def [abs_def] scalars_storable_def seq_steps
  by ((rule emits_bind emits_or_status emits_fields emits_id_text emits_enums)+ | elim conjE | assumption
      | rule emits_last | simp add: parse_id_valid without_lists_def)+

lemma block_bounds:
  "kMaxRacksPerCluster < 2 ^ 32" "kMaxDomainsPerClass < 2 ^ 32" "kMaxInterRackLinks < 2 ^ 32"
  "kMaxConstraints < 2 ^ 32"
  by (simp_all add: codec_bounds)

lemma emits_withdrawn:
  "within kMaxRacksPerCluster valid_id ks \<Longrightarrow> emits (write_rack_ids ks) (read_rack_ids kMaxRacksPerCluster) ks"
  by (rule emits_rack_ids) (simp_all add: within_def codec_bounds)

lemmas emits_blocks =
  emits_block [OF _ block_bounds(1) emits_durable_rack]
  emits_block [OF _ block_bounds(2) emits_placement_domain]
  emits_block [OF _ block_bounds(2) emits_capacity_domain]
  emits_block [OF _ block_bounds(2) emits_failure_domain]
  emits_block [OF _ block_bounds(2) emits_network_domain]
  emits_block [OF _ block_bounds(2) emits_plain_domain]
  emits_block [OF _ block_bounds(2) emits_child_domain]
  emits_block [OF _ block_bounds(3) emits_link]
  emits_block [OF _ block_bounds(4) emits_constraint]
  emits_block [OF _ block_bounds(1) emits_retired]
  emits_block [OF _ block_bounds(1) emits_fenced]

lemmas read_instances =
  read_storage_domain_def [abs_def] read_link_domain_def [abs_def] read_power_domain_def [abs_def]
  read_cooling_domain_def [abs_def]

lemma emits_persisted_state: "state_storable p \<Longrightarrow> emits (write_persisted_state p) read_persisted_state p"
  unfolding write_persisted_state_def read_persisted_state_def [abs_def] read_instances state_storable_def seq_steps
  by ((rule emits_bind emits_scalars emits_blocks emits_or_status emits_withdrawn)+ | elim conjE | assumption
      | rule emits_last | simp add: without_lists_def)+

subsection \<open>Each read yields storable records\<close>

lemma yields_block:
  assumes "yields rd P"
  shows "yields (read_block bound rd) (within bound P)"
  unfolding read_block_def [abs_def] within_def
  by (rule yields_bind [OF yields_any], rule yields_if)
    (use yields_list [OF assms] in \<open>auto simp: yields_def not_less\<close>)

lemma parse_optional_Inr: "parse_optional opt = Inr i \<Longrightarrow> i = Some k \<Longrightarrow> valid_id k"
  by (auto simp: parse_optional_def parse_id_Inr sum_bind_Inr split: option.splits)

lemma or_status_Inr: "or_status status m = Inr x \<longleftrightarrow> m = Inr x"
  by (cases m) simp_all

lemmas yields_fields =
  yields_bind [OF yields_or_status [OF yields_i64]]
  yields_bind [OF yields_or_status [OF yields_id]]
  yields_bind [OF yields_or_status [OF yields_optional [OF yields_id]]]
  yields_bind [OF yields_or_status [OF yields_stamp]]
  yields_bind [OF yields_or_status [OF yields_header]]
  yields_bind [OF yields_or_status [OF yields_rack_ids]]
  yields_bind [OF yields_or_status [OF yields_composition]]
  yields_bind [OF yields_or_status [OF yields_endpoints]]
  yields_bind [OF yields_or_status [OF yields_hints]]
  yields_bind [OF yields_or_status [OF yields_contract]]
  yields_bind [OF yields_or_status [OF yields_list [OF yields_id]]]
  yields_if yields_pure yields_bind [OF yields_any] yields_return

lemma yields_durable_rack: "yields read_durable_rack durable_rack_storable"
  unfolding read_durable_rack_def [abs_def] durable_rack_storable_def
  by (rule yields_fields | simp add: or_status_Inr parse_id_Inr)+

lemma yields_placement_domain: "yields read_placement_domain domain_storable"
  unfolding read_placement_domain_def [abs_def] domain_storable_def
  by (rule yields_fields | simp add: or_status_Inr parse_id_Inr)+

lemma yields_capacity_domain: "yields read_capacity_domain capacity_storable"
  unfolding read_capacity_domain_def [abs_def] capacity_storable_def domain_storable_def
  by (rule yields_bind [OF yields_block [OF yields_any]] yields_fields | simp add: or_status_Inr parse_id_Inr within_def)+

lemma yields_classed_domain: "yields (read_classed_domain vals v) domain_storable"
  unfolding read_classed_domain_def [abs_def] domain_storable_def
  by (rule yields_fields | simp add: or_status_Inr parse_id_Inr)+

lemma yields_plain_domain: "yields read_plain_domain domain_storable"
  unfolding read_plain_domain_def [abs_def] domain_storable_def
  by (rule yields_fields | simp add: or_status_Inr)+

lemma yields_child_domain: "yields read_child_domain child_storable"
  unfolding read_child_domain_def [abs_def] child_storable_def domain_storable_def
  by (rule yields_fields | simp add: or_status_Inr)+

lemma yields_link: "yields read_link link_storable"
  unfolding read_link_def [abs_def] link_storable_def
  by (rule yields_fields | simp add: or_status_Inr parse_id_Inr parse_optional_Inr)+

lemma yields_constraint: "yields read_constraint constraint_storable"
  unfolding read_constraint_def [abs_def] constraint_storable_def
  by (rule yields_fields | simp add: or_status_Inr)+

lemma yields_retired: "yields read_retired retired_storable"
  unfolding read_retired_def [abs_def] retired_storable_def
  by (rule yields_fields | simp add: or_status_Inr)+

lemma yields_fenced: "yields read_fenced fenced_storable"
  unfolding read_fenced_def [abs_def] fenced_storable_def
  by (rule yields_fields | simp add: or_status_Inr)+

lemma yields_scalars: "yields read_scalars scalars_storable"
  unfolding read_scalars_def [abs_def] scalars_storable_def
  by (rule yields_fields | simp add: or_status_Inr parse_id_Inr)+

lemmas yields_records =
  yields_bind [OF yields_scalars]
  yields_bind [OF yields_block [OF yields_durable_rack]]
  yields_bind [OF yields_block [OF yields_placement_domain]]
  yields_bind [OF yields_block [OF yields_capacity_domain]]
  yields_bind [OF yields_block [OF yields_classed_domain]]
  yields_bind [OF yields_block [OF yields_plain_domain]]
  yields_bind [OF yields_block [OF yields_child_domain]]
  yields_bind [OF yields_block [OF yields_link]]
  yields_bind [OF yields_block [OF yields_constraint]]
  yields_bind [OF yields_block [OF yields_retired]]
  yields_bind [OF yields_block [OF yields_fenced]]
  yields_bind [OF yields_or_status [OF yields_rack_ids]] yields_return

lemma yields_persisted_state: "yields read_persisted_state state_storable"
  unfolding read_persisted_state_def [abs_def] read_instances read_failure_domain_def [abs_def]
    read_network_domain_def [abs_def] state_storable_def
  by (rule yields_records | simp add: scalars_storable_def within_def)+

end
