(* ===== verification/Crc32.thy ===== *)
theory Crc32
  imports Byte_Codec
begin

text \<open>
  The CRC-32 of src/src/protocol.cpp, which protects frames and durable containers: the table, the
  table-driven step, and that it computes the bit-by-bit division by the reflected IEEE polynomial.
  The step is injective in the register and in the byte, so a change of one byte changes the checksum.
\<close>

definition kCrc32Polynomial :: u32 where "kCrc32Polynomial = 0xEDB88320"

text \<open>One round of the inner loop of \<^verbatim>\<open>make_crc32_table\<close>.\<close>

definition crc_bit :: "u32 \<Rightarrow> u32" where
  "crc_bit crc = (if crc AND 1 \<noteq> 0 then drop_bit 1 crc XOR kCrc32Polynomial else drop_bit 1 crc)"

definition kCrc32Table :: "u32 list" where
  "kCrc32Table = map (\<lambda>index. (crc_bit ^^ 8) (of_nat index)) [0..<256]"

definition crc32_step :: "u32 \<Rightarrow> char \<Rightarrow> u32" where
  "crc32_step crc c =
     (let index = (crc XOR ucast (char_byte c)) AND 0xFF in
      drop_bit 8 crc XOR kCrc32Table ! unat index)"

definition crc32_extend :: "u32 \<Rightarrow> string \<Rightarrow> u32" where
  "crc32_extend crc bytes = foldl crc32_step crc bytes"

definition crc32 :: "string \<Rightarrow> u32" where
  "crc32 bytes = crc32_extend 0xFFFFFFFF bytes XOR 0xFFFFFFFF"

subsection \<open>The bitwise reading\<close>

text \<open>The register divided bit by bit, without a table.\<close>

definition crc32_bitwise :: "string \<Rightarrow> u32" where
  "crc32_bitwise bytes =
     foldl (\<lambda>crc c. (crc_bit ^^ 8) (crc XOR ucast (char_byte c))) 0xFFFFFFFF bytes XOR 0xFFFFFFFF"

lemma crc_bit_odd: "crc_bit x = (if odd x then drop_bit 1 x XOR kCrc32Polynomial else drop_bit 1 x)"
  by (simp add: crc_bit_def and_one_eq odd_iff_mod_2_eq_one)

lemma xor_cancel: "(a XOR p) XOR (b XOR p) = a XOR b" for a b p :: u32
  by (rule bit_eqI) (auto simp: bit_simps)

lemma xor_zero: "a XOR b = 0 \<longleftrightarrow> a = b" for a b :: u32
proof
  assume z: "a XOR b = 0"
  have "a = (a XOR b) XOR b" by (rule bit_eqI) (auto simp: bit_simps)
  then show "a = b" by (simp add: z)
qed simp

lemma xor_left_cancel: "a XOR b = a XOR c \<longleftrightarrow> b = c" for a b c :: u32
  by (metis xor_cancel xor.commute xor_zero)

lemma crc_bit_linear: "crc_bit (x XOR y) = crc_bit x XOR crc_bit y"
  by (auto simp: crc_bit_odd even_xor_iff drop_bit_xor xor_cancel ac_simps)

lemma crc_bits_linear: "(crc_bit ^^ n) (x XOR y) = (crc_bit ^^ n) x XOR (crc_bit ^^ n) y"
  by (induction n) (simp_all add: crc_bit_linear)

lemma crc_bits_shift: "take_bit n x = 0 \<Longrightarrow> (crc_bit ^^ n) x = drop_bit n x"
proof (induction n arbitrary: x)
  case (Suc n)
  have "even x" using Suc.prems by (metis even_take_bit_eq even_zero nat.simps(3))
  then have "crc_bit x = drop_bit 1 x" by (simp add: crc_bit_odd)
  moreover have "take_bit n (drop_bit 1 x) = 0"
    using Suc.prems by (metis drop_bit_of_0 drop_bit_take_bit diff_Suc_1 plus_1_eq_Suc take_bit_drop_bit add.commute)
  ultimately show ?case
    using Suc.IH [of "drop_bit 1 x"] by (simp add: funpow_Suc_right del: funpow.simps)
qed simp

lemma crc32_step_eq: "crc32_step crc c = (crc_bit ^^ 8) (crc XOR ucast (char_byte c))"
proof -
  let ?y = "crc XOR ucast (char_byte c)"
  let ?lo = "?y AND 0xFF" and ?hi = "?y AND NOT 0xFF"
  have mask: "(0xFF :: u32) = mask 8" by (simp add: mask_eq_exp_minus_1)
  have split: "?y = ?lo XOR ?hi"
    by (rule bit_eqI) (auto simp: bit_simps)
  have "unat (z AND mask 8) < 256" for z :: u32
    using take_bit_nat_less_exp [of 8 "unat z"] by (simp only: take_bit_eq_mask [symmetric] unsigned_take_bit_eq) simp
  then have lo: "unat ?lo < 256" unfolding mask .
  then have table: "kCrc32Table ! unat ?lo = (crc_bit ^^ 8) ?lo"
    by (simp add: kCrc32Table_def)
  have "take_bit 8 ?hi = 0" unfolding mask by (rule bit_eqI) (auto simp: bit_simps)
  then have "(crc_bit ^^ 8) ?hi = drop_bit 8 ?hi" by (rule crc_bits_shift)
  also have "\<dots> = drop_bit 8 crc"
    unfolding mask by (rule bit_eqI) (auto simp: bit_simps dest: bit_imp_le_length)
  finally have "(crc_bit ^^ 8) ?y = kCrc32Table ! unat ?lo XOR drop_bit 8 crc"
    unfolding table by (metis split crc_bits_linear)
  then show ?thesis by (simp add: crc32_step_def xor.commute)
qed

subsection \<open>Injectivity\<close>

lemma crc_bit_zero: "crc_bit z = 0 \<Longrightarrow> z = 0"
proof (cases "odd z")
  case True
  assume "crc_bit z = 0"
  then have "drop_bit 1 z = kCrc32Polynomial"
    using True by (simp add: crc_bit_odd xor_zero)
  then have "bit (drop_bit 1 z) 31 = bit kCrc32Polynomial 31" by simp
  moreover have "\<not> bit (drop_bit 1 z) 31" by (auto simp: bit_simps dest: bit_imp_le_length)
  moreover have "bit kCrc32Polynomial 31" by code_simp
  ultimately show ?thesis by simp
next
  case False
  assume "crc_bit z = 0"
  then have "drop_bit 1 z = 0" using False by (simp add: crc_bit_odd)
  then have "z = take_bit 1 z" by (metis bits_ident push_bit_of_0 add_0)
  then show ?thesis using False by (simp add: take_bit_eq_mod) (metis even_iff_mod_2_eq_zero)
qed

lemma crc_bits_inject: "(crc_bit ^^ n) x = (crc_bit ^^ n) y \<longleftrightarrow> x = y"
proof -
  have "z = 0" if "(crc_bit ^^ n) z = 0" for z
    using that by (induction n) (auto dest: crc_bit_zero)
  from this [of "x XOR y"] show ?thesis
    by (auto simp: crc_bits_linear xor_zero)
qed

lemma ucast_char_byte_inject: "(ucast (char_byte c) :: u32) = ucast (char_byte d) \<longleftrightarrow> c = d"
proof -
  have "ucast (ucast b :: u32) = b" for b :: u8
    by (rule bit_eqI) (auto simp: bit_simps dest: bit_imp_le_length)
  then show ?thesis by (metis byte_char_byte)
qed

lemma crc32_step_inject:
  "crc32_step a c = crc32_step b c \<longleftrightarrow> a = b" "crc32_step a c = crc32_step a d \<longleftrightarrow> c = d"
  unfolding crc32_step_eq crc_bits_inject xor_left_cancel ucast_char_byte_inject
  by (metis xor.commute xor_left_cancel) simp

lemma crc32_extend_inject: "crc32_extend a bytes = crc32_extend b bytes \<longleftrightarrow> a = b"
  by (induction bytes arbitrary: a b) (simp_all add: crc32_extend_def crc32_step_inject)

lemma crc32_extend_append: "crc32_extend crc (xs @ ys) = crc32_extend (crc32_extend crc xs) ys"
  by (simp add: crc32_extend_def)

lemma crc32_extend_byte: "crc32_extend crc (xs @ c # ys) = crc32_extend crc (xs @ d # ys) \<longleftrightarrow> c = d"
proof -
  have "crc32_extend crc (xs @ e # ys) = crc32_extend (crc32_step (crc32_extend crc xs) e) ys" for e
    by (simp add: crc32_extend_def)
  then show ?thesis by (simp add: crc32_extend_inject crc32_step_inject)
qed

lemma crc32_byte: "crc32 (xs @ c # ys) = crc32 (xs @ d # ys) \<longleftrightarrow> c = d"
  unfolding crc32_def by (metis crc32_extend_byte xor.commute xor_left_cancel)

subsection \<open>Properties\<close>

text \<open>
  C28. The table-driven checksum is the bit-by-bit CRC-32 with the reflected IEEE polynomial.
\<close>

theorem crc32_exact: "crc32 bytes = crc32_bitwise bytes"
  unfolding crc32_def crc32_extend_def crc32_bitwise_def crc32_step_eq [abs_def] ..

end
