(* ===== verification/Durable_Container.thy ===== *)
theory Durable_Container
  imports Durable_Codec Crc32
begin

text \<open>
  The container around the encoded state (\<^verbatim>\<open>encode_persisted_state\<close> and \<^verbatim>\<open>decode_persisted_state\<close> in
  src/src/persistence.cpp): magic, version, flags, payload length and checksum in sixteen bytes, then the
  payload. The header fields are copied with \<^verbatim>\<open>memcpy\<close>; the model is that of a little-endian machine.
  An outcome is the container, or the state, or the failure status; \<^verbatim>\<open>consumed\<close> is the length of the input
  whenever decoding succeeds.
\<close>

definition kContainerHeaderBytes :: nat where "kContainerHeaderBytes = 16"
definition kPersistenceMagic :: u32 where "kPersistenceMagic = 0x31534643"
definition kPersistenceFormatVersion :: u16 where "kPersistenceFormatVersion = 1"

definition container_prefix :: "nat \<Rightarrow> string" where
  "container_prefix payload_size =
     store_le 4 (ucast kPersistenceMagic) @ store_le 2 (ucast kPersistenceFormatVersion) @ store_le 2 0 @
     store_le 4 (ucast (of_nat payload_size :: u32))"

definition combined_checksum :: "string \<Rightarrow> string \<Rightarrow> u32" where
  "combined_checksum prefix payload = crc32 prefix XOR crc32 payload"

definition seal :: "string \<Rightarrow> string" where
  "seal payload =
     (let prefix = container_prefix (length payload) in
      prefix @ store_le 4 (ucast (combined_checksum prefix payload)) @ payload)"

definition encode_persisted_state :: "persisted_state \<Rightarrow> persistence_status + string" where
  "encode_persisted_state p =
     (let w = write_persisted_state p new_writer in
      if \<not> wr_ok w then Inl (if wr_status w = PR_Ok then PS_InvalidState else PS_BoundsExceeded)
      else if length (wr_data w) > kMaxPersistenceBytes - kContainerHeaderBytes then Inl PS_PayloadTooLarge
      else Inr (seal (wr_data w)))"

text \<open>The checks of the header; the result is the payload.\<close>

definition unseal :: "string \<Rightarrow> persistence_status + string" where
  "unseal bytes =
     (if bytes = [] then Inl PS_EmptyInput
      else if length bytes < kContainerHeaderBytes then Inl PS_TruncatedHeader
      else
        let magic = load_le 4 bytes; version = load_le 2 (drop 4 bytes); flags = load_le 2 (drop 6 bytes);
            declared = unat (load_le 4 (drop 8 bytes)); checksum = load_le 4 (drop 12 bytes);
            available = length bytes - kContainerHeaderBytes
        in
        if magic \<noteq> ucast kPersistenceMagic then Inl PS_BadMagic
        else if version \<noteq> ucast kPersistenceFormatVersion then Inl PS_UnsupportedVersion
        else if flags \<noteq> 0 then Inl PS_InvalidState
        else if declared > kMaxPersistenceBytes then Inl PS_PayloadTooLarge
        else if declared > available then Inl PS_TruncatedBody
        else if declared < available then Inl PS_TrailingGarbage
        else
          let payload = take declared (drop kContainerHeaderBytes bytes) in
          if ucast (combined_checksum (take 12 bytes) payload) \<noteq> checksum then Inl PS_ChecksumMismatch
          else Inr payload)"

definition decode_persisted_state :: "string \<Rightarrow> persistence_status + persisted_state" where
  "decode_persisted_state bytes =
     sum_bind (unseal bytes) (\<lambda>payload.
     sum_bind (read_persisted_state payload) (\<lambda>(p, rest).
       if rest \<noteq> [] then Inl PS_TrailingGarbage
       else if validate_persisted_state p \<noteq> PS_Ok then Inl (validate_persisted_state p)
       else Inr p))"

subsection \<open>The container is exact\<close>

lemma take_prefix [simp]: "length (container_prefix n) = 12"
  by (simp add: container_prefix_def)

lemma length_seal: "length (seal payload) = 16 + length payload"
  by (simp add: seal_def Let_def)

lemma split_at: "n \<le> length s \<Longrightarrow> \<exists>a r. s = a @ r \<and> length a = n"
  by (rule exI [of _ "take n s"], rule exI [of _ "drop n s"]) simp

lemma split_container:
  assumes "16 \<le> length bytes"
  obtains a b c d e f where "bytes = a @ b @ c @ d @ e @ f" "length a = 4" "length b = 2" "length c = 2"
    "length d = 4" "length e = 4"
proof -
  obtain a r1 where 1: "bytes = a @ r1" "length a = 4" using split_at [of 4 bytes] assms by auto
  obtain b r2 where 2: "r1 = b @ r2" "length b = 2" using split_at [of 2 r1] assms 1 by auto
  obtain c r3 where 3: "r2 = c @ r3" "length c = 2" using split_at [of 2 r2] assms 1 2 by auto
  obtain d r4 where 4: "r3 = d @ r4" "length d = 4" using split_at [of 4 r3] assms 1 2 3 by auto
  obtain e f where 5: "r4 = e @ f" "length e = 4" using split_at [of 4 r4] assms 1 2 3 4 by auto
  show thesis using that 1 2 3 4 5 by blast
qed

lemma unat_declared: "unat (ucast (v :: u32) :: u64) = unat v"
  using unsigned_less [of v, where ?'a = nat] by (simp add: unsigned_ucast_eq take_bit_nat_eq_self)

lemma unseal_fields:
  assumes "length a = 4" "length b = 2" "length c = 2" "length d = 4" "length e = 4"
  shows "unseal (a @ b @ c @ d @ e @ f) = Inr payload \<longleftrightarrow>
     a @ b @ c @ d @ e @ f = seal payload \<and> length payload \<le> kMaxPersistenceBytes"
proof -
  have big: "(2::nat) ^ 32 > kMaxPersistenceBytes" by (simp add: kMaxPersistenceBytes_def)
  have len: "load_le 4 (d @ r) = ucast (of_nat n :: u32) \<longleftrightarrow> d = store_le 4 (ucast (of_nat n :: u32))" for n r
    by (rule load_le_iff) (simp_all add: assms ucast_fits)
  have declared: "unat (load_le 4 (d @ r)) = n \<and> n \<le> kMaxPersistenceBytes \<longleftrightarrow>
      d = store_le 4 (ucast (of_nat n :: u32)) \<and> n \<le> kMaxPersistenceBytes" for n r
  proof -
    have "load_le 4 (d @ r) = ucast (of_nat n :: u32)" if "unat (load_le 4 (d @ r)) = n" "n \<le> kMaxPersistenceBytes"
    proof (rule word_unat_eq_iff [THEN iffD2])
      show "unat (load_le 4 (d @ r)) = unat (ucast (of_nat n :: u32) :: u64)"
        using that big unfolding unat_declared by (simp add: unat_of_nat)
    qed
    moreover have "unat (load_le 4 (d @ r)) = n" if "load_le 4 (d @ r) = ucast (of_nat n :: u32)" "n \<le> kMaxPersistenceBytes"
      using that big by (simp add: unat_declared unat_of_nat)
    ultimately show ?thesis using len by blast
  qed
  have fixed: "load_le 4 (a @ r) = ucast kPersistenceMagic \<longleftrightarrow> a = store_le 4 (ucast kPersistenceMagic)"
    "load_le 2 (b @ r) = ucast kPersistenceFormatVersion \<longleftrightarrow> b = store_le 2 (ucast kPersistenceFormatVersion)"
    "load_le 2 (c @ r) = 0 \<longleftrightarrow> c = store_le 2 0" for r
    by (rule load_le_iff; simp add: assms ucast_fits)+
  have sum: "ucast (x :: u32) = load_le 4 (e @ r) \<longleftrightarrow> e = store_le 4 (ucast x)" for r x
    by (subst eq_commute, rule load_le_iff) (simp_all add: assms ucast_fits)
  let ?bytes = "a @ b @ c @ d @ e @ f"
  have parts: "drop 4 ?bytes = b @ c @ d @ e @ f" "drop 6 ?bytes = c @ d @ e @ f" "drop 8 ?bytes = d @ e @ f"
    "drop 12 ?bytes = e @ f" "drop 16 ?bytes = f" "take 12 ?bytes = a @ b @ c @ d" "length ?bytes = 16 + length f"
    "?bytes \<noteq> []"
    using assms by auto
  have "unseal ?bytes = Inr payload \<longleftrightarrow>
      a = store_le 4 (ucast kPersistenceMagic) \<and> b = store_le 2 (ucast kPersistenceFormatVersion) \<and> c = store_le 2 0
      \<and> (unat (load_le 4 (d @ e @ f)) = length f \<and> length f \<le> kMaxPersistenceBytes)
      \<and> e = store_le 4 (ucast (combined_checksum (a @ b @ c @ d) f)) \<and> payload = f"
    using assms(1) unfolding unseal_def Let_def parts kContainerHeaderBytes_def fixed sum by auto
  also have "\<dots> \<longleftrightarrow> ?bytes = seal payload \<and> length payload \<le> kMaxPersistenceBytes"
    unfolding declared seal_def Let_def container_prefix_def append_assoc
    using assms by (auto simp: append_eq_append_conv)
  finally show ?thesis .
qed

text \<open>The header checks accept exactly the sealed payloads.\<close>

lemma unseal_iff: "unseal bytes = Inr payload \<longleftrightarrow> bytes = seal payload \<and> length payload \<le> kMaxPersistenceBytes"
proof (cases "16 \<le> length bytes")
  case True
  then show ?thesis by (rule split_container) (simp add: unseal_fields)
next
  case False
  then show ?thesis using length_seal [of payload] by (auto simp: unseal_def kContainerHeaderBytes_def)
qed

lemma decode_iff:
  "decode_persisted_state bytes = Inr p \<longleftrightarrow>
     (\<exists>payload. bytes = seal payload \<and> length payload \<le> kMaxPersistenceBytes
        \<and> read_persisted_state payload = Inr (p, []) \<and> durable_valid p)"
  unfolding decode_persisted_state_def sum_bind_Inr unseal_iff
  by (auto simp: validation_decides split: if_splits)

subsection \<open>Damage is detected\<close>

text \<open>A sealed container determines its payload, no sealed container is a proper prefix of another, and two
  that differ in one byte are the same: the first twelve bytes depend on the length alone, and the
  checksum separates payloads that differ in one byte.\<close>

lemma store_le_inject: "store_le 4 (ucast (x :: u32)) = store_le 4 (ucast y) \<longleftrightarrow> x = y"
proof
  assume "store_le 4 (ucast x) = store_le 4 (ucast y)"
  then have "(ucast x :: u64) = ucast y"
    using load_store_le [of 4 "ucast x" "[]"] load_store_le [of 4 "ucast y" "[]"] by (simp add: ucast_fits)
  then have "unat (ucast x :: u64) = unat (ucast y :: u64)" by simp
  then show "x = y" unfolding unat_declared by (simp add: word_unat_eq_iff)
qed simp

lemma container_prefix_inject:
  assumes "n \<le> kMaxPersistenceBytes" "m \<le> kMaxPersistenceBytes"
  shows "container_prefix n = container_prefix m \<longleftrightarrow> n = m"
proof -
  have "unat (of_nat k :: u32) = k" if "k \<le> kMaxPersistenceBytes" for k
    using that by (simp add: unat_of_nat kMaxPersistenceBytes_def)
  then have "(of_nat n :: u32) = of_nat m \<longleftrightarrow> n = m" using assms by (metis word_unat_eq_iff)
  then show ?thesis by (simp add: container_prefix_def store_le_inject)
qed

lemma seal_parts:
  "take 12 (seal p) = container_prefix (length p)" "drop 16 (seal p) = p"
  "take 4 (drop 12 (seal p)) = store_le 4 (ucast (combined_checksum (container_prefix (length p)) p))"
  by (simp_all add: seal_def Let_def)

lemma seal_prefix:
  assumes "seal p @ rest = seal q" "length p \<le> kMaxPersistenceBytes" "length q \<le> kMaxPersistenceBytes"
  shows "rest = []"
proof -
  have "take 12 (seal p @ rest) = take 12 (seal p)" by (simp add: length_seal)
  then have "container_prefix (length p) = container_prefix (length q)" using assms(1) by (simp add: seal_parts)
  then have "length p = length q" using assms(2,3) by (simp add: container_prefix_inject)
  then show ?thesis using arg_cong [OF assms(1), of length] by (simp add: length_seal)
qed

lemma seal_byte:
  assumes p: "seal p = xs @ c # ys" and q: "seal q = xs @ d # ys"
  shows "c = d"
proof -
  have "length (seal p) = length (seal q)" using p q by simp
  then have len: "length p = length q" by (simp add: length_seal)
  let ?n = "length xs"
  consider "?n < 12" | "12 \<le> ?n" "?n < 16" | "16 \<le> ?n" by linarith
  then show ?thesis
  proof cases
    case 1
    have "take 12 (seal p) ! ?n = take 12 (seal q) ! ?n" by (simp add: seal_parts len)
    then show ?thesis using 1 p q by (simp del: take_append)
  next
    case 2
    then have "drop 16 (seal p) = drop 16 (seal q)" using p q by (simp add: drop_Cons')
    then have "p = q" unfolding seal_parts .
    then show ?thesis using p q by simp
  next
    case 3
    then have "p = drop 16 xs @ c # ys" "q = drop 16 xs @ d # ys"
      using arg_cong [OF p, of "drop 16"] arg_cong [OF q, of "drop 16"] by (simp_all add: seal_parts)
    moreover have "take 4 (drop 12 (seal p)) = take 4 (drop 12 (seal q))" using 3 p q by simp
    then have "crc32 p = crc32 q"
      by (simp add: seal_parts store_le_inject len combined_checksum_def xor_left_cancel)
    ultimately show ?thesis by (simp add: crc32_byte)
  qed
qed

subsection \<open>Round trip\<close>

lemma storable_roundtrip:
  assumes "durable_valid p" and "state_storable p" and "encode_persisted_state p = Inr bytes"
  shows "decode_persisted_state bytes = Inr p"
proof -
  let ?w = "write_persisted_state p new_writer"
  have ok: "wr_ok ?w" and small: "length (wr_data ?w) \<le> kMaxPersistenceBytes" and bytes: "bytes = seal (wr_data ?w)"
    using assms(3) by (auto simp: encode_persisted_state_def Let_def split: if_splits)
  have "read_persisted_state (wr_data ?w) = Inr (p, [])"
    by (rule emits_result [OF emits_persisted_state [OF assms(2)] ok])
  then show ?thesis unfolding decode_iff using assms(1) small bytes by blast
qed

lemma encoded_size:
  assumes "encode_persisted_state p = Inr bytes"
  shows "16 \<le> length bytes \<and> length bytes \<le> kMaxPersistenceBytes"
  using assms
  by (auto simp: encode_persisted_state_def Let_def length_seal kContainerHeaderBytes_def kMaxPersistenceBytes_def
      split: if_splits)

lemma decoded_sealed:
  assumes "decode_persisted_state bytes = Inr p"
  obtains payload where "bytes = seal payload" "length payload \<le> kMaxPersistenceBytes"
  using assms unfolding decode_iff by blast

text \<open>A small state to evaluate on: two racks, one link between them and a fenced incarnation.\<close>

definition sample_stamp :: evidence_stamp where
  "sample_stamp =
     \<lparr>es_provenance = EP_Reported, es_observed_at = 1700000000000, es_freshness = FR_Fresh, es_ttl_millis = 60000\<rparr>"

definition sample_header :: domain_header where
  "sample_header =
     \<lparr>dh_evidence = sample_stamp, dh_generation = StrongCounter 1, dh_publisher = Some (StrongId ''publisher-a''),
      dh_cluster_epoch = StrongCounter 1, dh_coordinator_epoch = StrongCounter 1, dh_label = ''label''\<rparr>"

definition sample_rack :: "string \<Rightarrow> durable_rack" where
  "sample_rack name =
     \<lparr>du_rack = StrongId name, du_generation = StrongCounter 3, du_membership = RM_Active,
      du_publisher = StrongId ''publisher-a'', du_last_accepted_publication = StrongCounter 7,
      du_last_boot = StrongId ''boot-1'',
      du_composition =
        \<lparr>cm_accelerators = [\<lparr>ac_vendor = AV_Nvidia, ac_family = ''h100'', ac_device_count = Some 8,
             ac_device_memory_bytes = None\<rparr>],
         cm_cpu_sockets = Some 2, cm_cpu_cores = None, cm_host_memory_bytes = Some 1024, cm_nic_count = None,
         cm_switch_count = None, cm_composition_label = ''label'', cm_provenance = EP_Reported\<rparr>,
      du_endpoints = [\<lparr>ep_id = StrongId ''ep-1'', ep_network_domain = Some (StrongId ''net''), ep_link_domain = None,
          ep_connectivity = CC_SwitchedFabric, ep_evidence = sample_stamp\<rparr>],
      du_failure_domain_hints =
        [\<lparr>fh_klass = FDC_Row, fh_id = StrongId ''row-1'', fh_evidence = sample_stamp\<rparr>],
      du_rack_lifecycle = RL_Ready, du_membership_generation = StrongCounter 2, du_origin_label = [],
      du_declared_at = 1700000000000\<rparr>"

definition sample_link :: inter_rack_link where
  "sample_link =
     \<lparr>lk_id = StrongId ''link-1'', lk_source = StrongId ''rack-1'', lk_destination = StrongId ''rack-2'',
      lk_direction = LD_Bidirectional, lk_connectivity = CC_SwitchedFabric, lk_network_domain = None,
      lk_link_domain = None, lk_source_endpoint = Some (StrongId ''ep-1''), lk_destination_endpoint = None,
      lk_bandwidth_class = BW_High, lk_nominal_bandwidth_bps = Some 400, lk_latency_class = LT_Low,
      lk_nominal_latency_nanos = None, lk_hop_count = Some 1, lk_reachability = RB_Reachable,
      lk_health = HS_Healthy, lk_failure_domains = [StrongId ''row-1''], lk_header = sample_header,
      lk_topology_epoch = StrongCounter 1, lk_topology_generation = StrongCounter 1,
      lk_publication = StrongCounter 1, lk_boot = Some (StrongId ''boot-1'')\<rparr>"

definition sample_state :: persisted_state where
  "sample_state =
     \<lparr>ps_id = StrongId ''cluster-1'', ps_epoch = StrongCounter 1, ps_last_coordinator_epoch = StrongCounter 2,
      ps_generation = StrongCounter 9, ps_membership_generation = StrongCounter 3,
      ps_topology_epoch = StrongCounter 1, ps_topology_generation = StrongCounter 2,
      ps_connectivity_generation = StrongCounter 2, ps_health_generation = StrongCounter 1,
      ps_constraint_generation = StrongCounter 1, ps_domain_generations = domain_generations_of (StrongCounter 1),
      ps_snapshot_generation = StrongCounter 9, ps_publication_generation = StrongCounter 9,
      ps_lifecycle = CL_Ready, ps_readiness_contract = default_contract,
      ps_topology_record = \<lparr>te_epoch = StrongCounter 1, te_generation = StrongCounter 1,
        te_established_at = 1700000000000, te_evidence = sample_stamp, te_reason = ''declared''\<rparr>,
      ps_declared_at = 1700000000000, ps_last_mutation_at = 1700000000001,
      ps_racks = [sample_rack ''rack-1'', sample_rack ''rack-2''],
      ps_placement_domains = [], ps_capacity_domains = [], ps_failure_domains = [], ps_network_domains = [],
      ps_storage_domains = [\<lparr>dm_id = StrongId ''storage-1'', dm_body = (), dm_racks = [StrongId ''rack-1''],
        dm_header = sample_header\<rparr>],
      ps_power_domains = [], ps_cooling_domains = [], ps_link_domains = [], ps_links = [sample_link],
      ps_constraints = [], ps_retired_racks = [], ps_withdrawn_racks = [],
      ps_fenced_authorities = [\<lparr>fa_boot = StrongId ''boot-0'', fa_rack = StrongId ''rack-1'',
        fa_reason = ''superseded'', fa_fenced_at = 1700000000000\<rparr>]\<rparr>"

lemma sample_valid: "durable_valid sample_state"
proof -
  have "validate_persisted_state sample_state = PS_Ok" by code_simp
  then show ?thesis by (simp only: validation_decides)
qed

text \<open>It fits: what each of its records costs.\<close>

lemmas text_bounds = kMaxEncodedStringBytes_def

lemma sample_stamp_costs: "costs (write_stamp e) 18"
  unfolding write_stamp_def seq_steps by (rule costs_mono, (rule costs_rules)+) simp

lemma sample_header_costs: "costs (write_header sample_header) 67"
  unfolding write_header_def seq_steps sample_header_def domain_header.simps
  by (rule costs_mono, (rule costs_rules sample_stamp_costs | simp add: text_bounds)+)

lemma costs_none: "costs (w_counted write []) 4"
  by (rule costs_mono, rule costs_counted, rule costs_list_Nil) simp

lemma costs_single: "costs (write x) k \<Longrightarrow> costs (w_counted write [x]) (4 + k)"
  using costs_counted [OF costs_list_Cons [OF _ costs_list_Nil]] by fastforce

lemmas sample_steps = costs_single costs_none costs_rules sample_stamp_costs sample_header_costs

lemma sample_parts_costs:
  "costs (write_accelerator \<lparr>ac_vendor = AV_Nvidia, ac_family = ''h100'', ac_device_count = Some 8,
     ac_device_memory_bytes = None\<rparr>) 23"
  "costs (write_endpoint \<lparr>ep_id = StrongId ''ep-1'', ep_network_domain = Some (StrongId ''net''),
     ep_link_domain = None, ep_connectivity = CC_SwitchedFabric, ep_evidence = sample_stamp\<rparr>) 36"
  "costs (write_hint \<lparr>fh_klass = FDC_Row, fh_id = StrongId ''row-1'', fh_evidence = sample_stamp\<rparr>) 28"
  "costs (write_domain_generations g) 64" "costs (write_readiness default_contract) 33"
  unfolding write_accelerator_def seq_steps write_endpoint_def write_hint_def write_domain_generations_def write_readiness_def
    write_rack_ids_def default_contract_def
    accelerator_class_summary.simps rack_endpoint.simps rack_failure_domain_hint.simps readiness_contract.simps
  by (rule costs_mono, (rule sample_steps | simp add: text_bounds)+)+

lemma sample_rack_costs:
  assumes "length name = 6"
  shows "costs (write_durable_rack (sample_rack name)) 300"
  unfolding write_durable_rack_def seq_steps sample_rack_def durable_rack.simps write_composition_def
    rack_composition_summary.simps write_endpoints_def write_hints_def
  by (rule costs_mono, (rule sample_parts_costs sample_steps | simp add: text_bounds assms)+)

lemma sample_link_costs: "costs (write_link sample_link) 300"
  unfolding write_link_def seq_steps sample_link_def inter_rack_link.simps
  by (rule costs_mono, (rule sample_steps | simp add: text_bounds)+)

lemma sample_scalars_costs: "costs (write_scalars sample_state) 400"
  unfolding write_scalars_def seq_steps sample_state_def persisted_state.simps topology_epoch_record.simps
  by (rule costs_mono, (rule sample_parts_costs sample_steps | simp add: text_bounds)+)

lemma sample_rest_costs:
  "costs (write_plain_domain \<lparr>dm_id = StrongId ''storage-1'', dm_body = (), dm_racks = [StrongId ''rack-1''],
     dm_header = sample_header\<rparr>) 100"
  "costs (write_fenced \<lparr>fa_boot = StrongId ''boot-0'', fa_rack = StrongId ''rack-1'', fa_reason = ''superseded'',
     fa_fenced_at = 1700000000000\<rparr>) 50"
  unfolding write_plain_domain_def seq_steps write_fenced_def write_rack_ids_def domain.simps fenced_authority.simps
  by (rule costs_mono, (rule sample_steps | simp add: text_bounds)+)+

lemma sample_racks_costs: "costs (w_counted write_durable_rack (ps_racks sample_state)) 604"
  unfolding sample_state_def persisted_state.simps
  by (rule costs_mono, (rule sample_rack_costs costs_rules | simp)+)

lemma sample_costs: "costs (write_persisted_state sample_state) 2000"
  unfolding write_persisted_state_def seq_steps write_rack_ids_def
  by (rule costs_mono, (rule costs_bind sample_scalars_costs sample_racks_costs)+,
      unfold sample_state_def persisted_state.simps,
      (rule costs_bind costs_none costs_single sample_link_costs sample_rest_costs)+) simp

lemma sample_encodes: "encode_persisted_state sample_state = Inr (seal (wr_data (write_persisted_state sample_state new_writer)))"
proof -
  let ?w = "write_persisted_state sample_state new_writer"
  have "wr_ok ?w \<and> length (wr_data ?w) \<le> 2000"
    using sample_costs [unfolded costs_def, rule_format, of new_writer]
    by (simp add: new_writer_def wr_ok_def kMaxWriterBytes_def kMaxPersistenceBytes_def)
  then show ?thesis
    by (simp add: encode_persisted_state_def Let_def kMaxPersistenceBytes_def kContainerHeaderBytes_def)
qed

lemma sample_storable: "state_storable sample_state"
proof -
  have "valid_id (StrongId ''cluster-1'' :: cluster_id)" "valid_id (StrongId ''boot-0'' :: boot_id)"
    "valid_id (StrongId ''boot-1'' :: boot_id)" "valid_id (StrongId ''rack-1'' :: rack_id)"
    "valid_id (StrongId ''rack-2'' :: rack_id)" "valid_id (StrongId ''publisher-a'' :: publisher_id)"
    "valid_id (StrongId ''ep-1'' :: endpoint_id)" "valid_id (StrongId ''net'' :: network_domain_id)"
    "valid_id (StrongId ''row-1'' :: failure_domain_id)" "valid_id (StrongId ''link-1'' :: link_id)"
    "valid_id (StrongId ''storage-1'' :: storage_domain_id)"
    by code_simp+
  then show ?thesis
    by (simp add: sample_state_def sample_rack_def sample_link_def sample_header_def sample_stamp_def
        default_contract_def state_storable_def within_def scalars_storable_def durable_rack_storable_def
        domain_storable_def link_storable_def fenced_storable_def stamp_storable_def header_storable_def
        composition_storable_def endpoint_storable_def hint_storable_def contract_storable_def i64_range_def
        i64_min_def i64_max_def codec_bounds)
qed

lemmas sample_decodes = storable_roundtrip [OF sample_valid sample_storable sample_encodes]

subsection \<open>Properties\<close>

text \<open>
  C16. Whenever a valid state is encoded, decoding the container gives exactly that state back. The other
  demands of the decoder are in \<open>state_storable\<close>: optional references and the last boot are well formed,
  lists without an own invariant are bounded, instants fit 64 bits.
\<close>

theorem durable_roundtrip:
  assumes "durable_valid p" and "state_storable p" and "encode_persisted_state p = Inr bytes"
  shows "decode_persisted_state bytes = Inr p"
  using assms by (rule storable_roundtrip)

theorem durable_roundtrip_witness:
  "decode_persisted_state (seal (wr_data (write_persisted_state sample_state new_writer))) = Inr sample_state"
  by (rule durable_roundtrip [OF sample_valid sample_storable sample_encodes])

text \<open>
  C17. Every state the decoder accepts, from whatever bytes, is valid and storable: identities parse,
  lists are bounded and sorted, references resolve, instants fit 64 bits. So when it is encoded again it
  is decoded to itself.
\<close>

theorem decoded_state_valid:
  assumes "decode_persisted_state bytes = Inr p"
  shows "durable_valid p \<and> state_storable p
     \<and> (\<forall>bytes'. encode_persisted_state p = Inr bytes' \<longrightarrow> decode_persisted_state bytes' = Inr p)"
proof -
  obtain payload where "read_persisted_state payload = Inr (p, [])" "durable_valid p"
    using assms unfolding decode_iff by blast
  then show ?thesis using yieldsD [OF yields_persisted_state] storable_roundtrip by blast
qed

theorem decoded_state_valid_witness:
  "durable_valid sample_state \<and> state_storable sample_state
     \<and> (\<exists>bytes. encode_persisted_state sample_state = Inr bytes \<and> decode_persisted_state bytes = Inr sample_state)"
  using decoded_state_valid [OF sample_decodes] sample_encodes by blast

text \<open>
  C18. A container the decoder accepts is no longer accepted when one of its bytes is replaced by another,
  when it is cut off anywhere, or when bytes are appended to it.
\<close>

theorem damage_detected:
  assumes "decode_persisted_state (xs @ c # ys) = Inr p" and "d \<noteq> c" and "zs \<noteq> []"
  shows "\<not> (\<exists>q. decode_persisted_state (xs @ d # ys) = Inr q \<or> decode_persisted_state xs = Inr q
     \<or> decode_persisted_state (xs @ c # ys @ zs) = Inr q)"
proof -
  obtain m where m: "xs @ c # ys = seal m" "length m \<le> kMaxPersistenceBytes"
    using assms(1) by (rule decoded_sealed)
  have False if "decode_persisted_state (xs @ d # ys) = Inr q" for q
    using that by (rule decoded_sealed) (use m(1) seal_byte [of _ xs] assms(2) in metis)
  moreover have False if "decode_persisted_state xs = Inr q" for q
    using that by (rule decoded_sealed) (use m seal_prefix [of _ "c # ys" m] in auto)
  moreover have "xs @ c # ys @ zs = seal m @ zs" using m(1) [symmetric] by simp
  then have False if "decode_persisted_state (xs @ c # ys @ zs) = Inr q" for q
    using that by (metis decoded_sealed seal_prefix m(2) assms(3))
  ultimately show ?thesis by blast
qed

theorem damage_detected_witness:
  "\<exists>c ys. \<not> (\<exists>q. decode_persisted_state (CHR ''x'' # ys) = Inr q \<or> decode_persisted_state [] = Inr q
     \<or> decode_persisted_state (c # ys @ ''tail'') = Inr q)"
proof -
  let ?b = "seal (wr_data (write_persisted_state sample_state new_writer))"
  have magic: "store_le 4 (ucast kPersistenceMagic) = ''CFS1''" by code_simp
  obtain ys where "?b = CHR ''C'' # ys"
    unfolding seal_def [of "wr_data _"] container_prefix_def Let_def magic by simp
  then have "decode_persisted_state ([] @ CHR ''C'' # ys) = Inr sample_state" using sample_decodes by simp
  from damage_detected [OF this, of "CHR ''x''" "''tail''"] show ?thesis by auto
qed

end
