(* ===== verification/Durable_Store.thy ===== *)
theory Durable_Store
  imports Durable_Container Coordinator
begin

text \<open>
  The two durable stores of src/src/persistence.cpp: \<^verbatim>\<open>FilePersistenceStore\<close>, which writes a temporary
  container and renames it over the committed one, and \<^verbatim>\<open>MemoryPersistenceStore\<close>.

  The disk maps paths to contents. What the operating system answers to one call is an argument: whether
  the temporary file opens, how much of it is written when writing fails, whether the rename and the
  removal succeed. A save returns the disks it passes through, one per effect on the disk, so that the
  process may be taken to die between any two of them. \<open>persistence_store\<close> is the contract both stores
  keep with the coordinator.
\<close>

type_synonym disk = "string \<rightharpoonup> string"

record file_store =
  fs_path :: string
  fs_temporary :: string
  fs_counter :: u64

record save_io =
  io_opens :: bool
  io_written :: "nat option"
  io_renames :: bool
  io_removes :: bool

definition new_file_store :: "string \<Rightarrow> file_store" where
  "new_file_store path = \<lparr>fs_path = path, fs_temporary = [], fs_counter = 0\<rparr>"

definition saved :: save_outcome where "saved = \<lparr>so_ok = True, so_status = PS_Ok\<rparr>"

definition not_saved :: "persistence_status \<Rightarrow> save_outcome" where
  "not_saved status = \<lparr>so_ok = False, so_status = status\<rparr>"

definition discard_temporary :: "bool \<Rightarrow> file_store \<Rightarrow> disk \<Rightarrow> file_store \<times> disk" where
  "discard_temporary removes st d =
     (if fs_temporary st = [] then (st, d)
      else (st\<lparr>fs_temporary := []\<rparr>, if removes then d(fs_temporary st := None) else d))"

definition temporary_path :: "u64 \<Rightarrow> file_store \<Rightarrow> string" where
  "temporary_path pid st = append_decimal (append_decimal (fs_path st @ ''.tmp-'') pid @ ''-'') (fs_counter st)"

definition file_save ::
  "u64 \<Rightarrow> save_io \<Rightarrow> persisted_state \<Rightarrow> file_store \<Rightarrow> disk \<Rightarrow> save_outcome \<times> file_store \<times> disk list" where
  "file_save pid io p st d =
     (if fs_path st = [] then (not_saved PS_IoError, st, [d])
      else case encode_persisted_state p of
        Inl status \<Rightarrow> (not_saved status, st, [d])
      | Inr bytes \<Rightarrow>
          let (st1, d1) = discard_temporary (io_removes io) st d;
              st2 = st1\<lparr>fs_counter := fs_counter st1 + 1\<rparr>;
              temporary = temporary_path pid st2;
              st3 = st2\<lparr>fs_temporary := temporary\<rparr>
          in
          if \<not> io_opens io then
            let (st4, d4) = discard_temporary (io_removes io) st3 d1 in (not_saved PS_TempFileUnavailable, st4, [d, d1, d4])
          else
            let d2 = d1(temporary \<mapsto> []) in
            case io_written io of
              Some n \<Rightarrow>
                let d3 = d2(temporary \<mapsto> take n bytes); (st4, d4) = discard_temporary (io_removes io) st3 d3
                in (not_saved PS_IoError, st4, [d, d1, d2, d3, d4])
            | None \<Rightarrow>
                let d3 = d2(temporary \<mapsto> bytes) in
                if \<not> io_renames io then
                  let (st4, d4) = discard_temporary (io_removes io) st3 d3
                  in (not_saved PS_AtomicReplaceFailed, st4, [d, d1, d2, d3, d4])
                else
                  (saved, st3\<lparr>fs_temporary := []\<rparr>,
                   [d, d1, d2, d3, d3(temporary := None, fs_path st \<mapsto> bytes)]))"

text \<open>The loop of \<^verbatim>\<open>load\<close>: buffers of 64 KiB, and the size checked before each is appended.\<close>

function read_buffers :: "string \<Rightarrow> string \<Rightarrow> string option" where
  "read_buffers bytes rest =
     (if rest = [] then Some bytes
      else if length bytes + length (take 65536 rest) > kMaxPersistenceBytes then None
      else read_buffers (bytes @ take 65536 rest) (drop 65536 rest))"
  by pat_completeness auto
termination
  by (relation "measure (\<lambda>(bytes, rest). length rest)") auto

declare read_buffers.simps [simp del]

definition not_loaded :: "persistence_status \<Rightarrow> load_outcome" where
  "not_loaded status = \<lparr>lo_status = status, lo_state = None\<rparr>"

definition load_decoded :: "string \<Rightarrow> load_outcome" where
  "load_decoded bytes =
     (case decode_persisted_state bytes of
        Inl status \<Rightarrow> not_loaded status | Inr p \<Rightarrow> \<lparr>lo_status = PS_Ok, lo_state = Some p\<rparr>)"

text \<open>How much is read when reading fails is an argument.\<close>

definition file_load :: "nat option \<Rightarrow> file_store \<Rightarrow> disk \<Rightarrow> load_outcome" where
  "file_load stops st d =
     (if fs_path st = [] then not_loaded PS_IoError
      else case d (fs_path st) of
        None \<Rightarrow> not_loaded PS_MissingFile
      | Some content \<Rightarrow>
          case read_buffers [] (case stops of None \<Rightarrow> content | Some n \<Rightarrow> take n content) of
            None \<Rightarrow> not_loaded PS_PayloadTooLarge
          | Some bytes \<Rightarrow> if stops \<noteq> None then not_loaded PS_IoError else load_decoded bytes)"

record memory_store =
  ms_bytes :: string
  ms_save_count :: u64

definition memory_save :: "persisted_state \<Rightarrow> memory_store \<Rightarrow> save_outcome \<times> memory_store" where
  "memory_save p st =
     (case encode_persisted_state p of
        Inl status \<Rightarrow> (not_saved status, st)
      | Inr bytes \<Rightarrow> (saved, st\<lparr>ms_bytes := bytes, ms_save_count := ms_save_count st + 1\<rparr>))"

definition memory_load :: "memory_store \<Rightarrow> load_outcome" where
  "memory_load st = (if ms_bytes st = [] then not_loaded PS_MissingFile else load_decoded (ms_bytes st))"

definition set_raw_bytes :: "string \<Rightarrow> memory_store \<Rightarrow> memory_store" where
  "set_raw_bytes bytes st = st\<lparr>ms_bytes := bytes\<rparr>"

subsection \<open>The contract of a store\<close>

text \<open>A sequence of saves, with the state of the last one that reported success.\<close>

fun saves ::
  "('io \<Rightarrow> persisted_state \<Rightarrow> 's \<Rightarrow> save_outcome \<times> 's) \<Rightarrow> ('io \<times> persisted_state) list
     \<Rightarrow> persisted_state option \<Rightarrow> 's \<Rightarrow> persisted_state option \<times> 's" where
  "saves save [] latest st = (latest, st)"
| "saves save ((io, p) # ps) latest st =
     (let (outcome, st) = save io p st in saves save ps (if so_ok outcome then Some p else latest) st)"

text \<open>A save that reports success makes the encoded state the stored one; a save that does not leaves the
  stored one as it was; a load decodes what is stored.\<close>

locale persistence_store =
  fixes save :: "'io \<Rightarrow> persisted_state \<Rightarrow> 's \<Rightarrow> save_outcome \<times> 's"
    and stored :: "'s \<Rightarrow> string option"
    and load :: "'s \<Rightarrow> load_outcome"
    and ok :: "'s \<Rightarrow> bool"
  assumes save_ok: "ok st \<Longrightarrow> save io p st = (outcome, st') \<Longrightarrow> ok st'"
    and save_stores: "ok st \<Longrightarrow> save io p st = (outcome, st') \<Longrightarrow> so_ok outcome \<Longrightarrow>
      \<exists>bytes. encode_persisted_state p = Inr bytes \<and> stored st' = Some bytes"
    and save_keeps: "ok st \<Longrightarrow> save io p st = (outcome, st') \<Longrightarrow> \<not> so_ok outcome \<Longrightarrow> stored st' = stored st"
    and load_stored: "ok st \<Longrightarrow> stored st = Some bytes \<Longrightarrow> 16 \<le> length bytes \<Longrightarrow>
      length bytes \<le> kMaxPersistenceBytes \<Longrightarrow> load st = load_decoded bytes"
    and load_missing: "ok st \<Longrightarrow> stored st = None \<Longrightarrow> load st = not_loaded PS_MissingFile"
begin

definition holds :: "persisted_state option \<Rightarrow> 's \<Rightarrow> bool" where
  "holds latest st \<longleftrightarrow>
     ok st \<and> (case latest of None \<Rightarrow> stored st = None
       | Some p \<Rightarrow> (\<exists>bytes. encode_persisted_state p = Inr bytes \<and> stored st = Some bytes))"

lemma saves_hold: "holds latest st \<Longrightarrow> saves save ps latest st = (latest', st') \<Longrightarrow> holds latest' st'"
proof (induction ps arbitrary: latest st)
  case (Cons x ps)
  obtain io p where x: "x = (io, p)" by (cases x)
  obtain outcome st1 where 1: "save io p st = (outcome, st1)" by (cases "save io p st")
  have "holds (if so_ok outcome then Some p else latest) st1"
    using Cons.prems(1) save_ok [OF _ 1] save_stores [OF _ 1] save_keeps [OF _ 1]
    by (cases "so_ok outcome") (auto simp: holds_def split: option.splits)
  with Cons x 1 show ?case by (auto simp: Let_def)
qed simp

lemma load_after_saves:
  assumes "ok st" and "stored st = None" and "saves save ps None st = (latest, st')"
    and "\<And>p. latest = Some p \<Longrightarrow> durable_valid p \<and> state_storable p"
  shows "load st' = (case latest of None \<Rightarrow> not_loaded PS_MissingFile | Some p \<Rightarrow> \<lparr>lo_status = PS_Ok, lo_state = Some p\<rparr>)"
proof -
  have "holds latest st'" by (rule saves_hold [OF _ assms(3)]) (simp add: holds_def assms(1,2))
  then show ?thesis
    using load_missing load_stored encoded_size storable_roundtrip assms(4)
    by (fastforce simp: holds_def load_decoded_def split: option.splits)
qed

end

subsection \<open>The stores keep the contract\<close>

lemma read_buffers_eq:
  "length bytes \<le> kMaxPersistenceBytes \<Longrightarrow>
     read_buffers bytes rest = (if length bytes + length rest \<le> kMaxPersistenceBytes then Some (bytes @ rest) else None)"
proof (induction bytes rest rule: read_buffers.induct)
  case (1 bytes rest)
  show ?case
  proof (cases "rest = [] \<or> length bytes + length (take 65536 rest) > kMaxPersistenceBytes")
    case True
    then show ?thesis using 1 by (subst read_buffers.simps) auto
  next
    case False
    then show ?thesis using 1(1) by (subst read_buffers.simps) (auto simp: not_less)
  qed
qed

definition temporary_ok :: "file_store \<Rightarrow> bool" where
  "temporary_ok st \<longleftrightarrow> fs_path st \<noteq> [] \<and> fs_temporary st \<noteq> fs_path st"

lemma temporary_path_fresh:
  "temporary_path pid st' \<noteq> fs_path st" "fs_path st \<noteq> temporary_path pid st'" if "fs_path st' = fs_path st"
  using that by (simp_all add: temporary_path_def append_decimal_def)

lemma temporary_path_nonempty: "temporary_path pid st \<noteq> []"
  by (simp add: temporary_path_def append_decimal_def)

lemma discard_path:
  "temporary_ok st \<Longrightarrow> discard_temporary removes st d = (st', d') \<Longrightarrow>
     d' (fs_path st) = d (fs_path st) \<and> fs_path st' = fs_path st \<and> fs_temporary st' = []"
  by (auto simp: discard_temporary_def temporary_ok_def split: if_splits)

text \<open>What a save leaves at the committed path, at every disk it passes through.\<close>

lemma file_save_path:
  assumes "temporary_ok st" and s: "file_save pid io p st d = (outcome, st', ds)"
  shows "temporary_ok st' \<and> fs_path st' = fs_path st \<and> ds \<noteq> []"
    and "\<not> so_ok outcome \<Longrightarrow> \<forall>e \<in> set ds. e (fs_path st) = d (fs_path st)"
    and "so_ok outcome \<Longrightarrow> \<exists>bytes. encode_persisted_state p = Inr bytes \<and> last ds (fs_path st) = Some bytes
      \<and> (\<forall>e \<in> set (butlast ds). e (fs_path st) = d (fs_path st))"
proof -
  have path: "fs_path st \<noteq> []" using assms(1) by (simp add: temporary_ok_def)
  show "temporary_ok st' \<and> fs_path st' = fs_path st \<and> ds \<noteq> []"
    "\<not> so_ok outcome \<Longrightarrow> \<forall>e \<in> set ds. e (fs_path st) = d (fs_path st)"
    "so_ok outcome \<Longrightarrow> \<exists>bytes. encode_persisted_state p = Inr bytes \<and> last ds (fs_path st) = Some bytes
      \<and> (\<forall>e \<in> set (butlast ds). e (fs_path st) = d (fs_path st))"
    using s path assms(1)
    by (auto simp: file_save_def Let_def discard_temporary_def temporary_ok_def temporary_path_fresh
        temporary_path_nonempty saved_def not_saved_def split: sum.splits option.splits if_splits prod.splits)
qed

text \<open>The file store as the coordinator sees it, with the disk in its state: a call ends at the last disk.\<close>

definition file_store_save ::
  "u64 \<times> save_io \<Rightarrow> persisted_state \<Rightarrow> file_store \<times> disk \<Rightarrow> save_outcome \<times> file_store \<times> disk" where
  "file_store_save = (\<lambda>(pid, io) p (st, d). let (outcome, st', ds) = file_save pid io p st d in (outcome, st', last ds))"

interpretation on_file: persistence_store file_store_save "\<lambda>(st, d). d (fs_path st)" "\<lambda>(st, d). file_load None st d"
  "\<lambda>(st, d). temporary_ok st"
proof (unfold_locales, goal_cases)
  case (1 sd io p outcome sd')
  then show ?case using file_save_path(1) by (auto simp: file_store_save_def split: prod.splits)
next
  case (2 sd io p outcome sd')
  then show ?case using file_save_path(1,3) by (fastforce simp: file_store_save_def split: prod.splits)
next
  case (3 sd io p outcome sd')
  then show ?case using file_save_path(1,2) by (fastforce simp: file_store_save_def split: prod.splits)
next
  case (4 sd bytes)
  then show ?case by (auto simp: file_load_def temporary_ok_def read_buffers_eq)
next
  case (5 sd)
  then show ?case by (auto simp: file_load_def temporary_ok_def)
qed

interpretation in_memory: persistence_store "\<lambda>io. memory_save" "\<lambda>st. if ms_bytes st = [] then None else Some (ms_bytes st)"
  memory_load "\<lambda>st. True"
  by unfold_locales
    (auto simp: memory_save_def memory_load_def saved_def not_saved_def split: sum.splits if_splits dest: encoded_size)

lemma memory_load_after_saves:
  assumes "saves (\<lambda>io. memory_save) ps None \<lparr>ms_bytes = [], ms_save_count = 0\<rparr> = (Some p, st)"
    and "durable_valid p" and "state_storable p"
  shows "memory_load st = \<lparr>lo_status = PS_Ok, lo_state = Some p\<rparr>"
  using in_memory.load_after_saves [OF _ _ assms(1)] assms(2,3) by simp

lemma new_temporary_ok: "path \<noteq> [] \<Longrightarrow> temporary_ok (new_file_store path)"
  by (simp add: temporary_ok_def new_file_store_def)

lemma load_new_store: "file_load stops (new_file_store (fs_path st)) d = file_load stops st d"
  by (simp add: file_load_def new_file_store_def)

definition sample_io :: save_io where
  "sample_io = \<lparr>io_opens = True, io_written = None, io_renames = True, io_removes = True\<rparr>"

subsection \<open>Stray files\<close>

text \<open>docs/persistence.md (lines 62 to 64) says that the next save removes a temporary file left behind by a crash. The store
  of the next process does not know its name: a save touches the container and its own temporary file only.\<close>

lemma stray_temporary_kept:
  assumes "q \<noteq> path" and "q \<noteq> temporary_path pid ((new_file_store path)\<lparr>fs_counter := 1\<rparr>)"
    and "file_save pid io p (new_file_store path) d = (outcome, st, disks)" and "e \<in> set disks"
  shows "e q = d q"
  using assms
  by (auto simp: file_save_def new_file_store_def discard_temporary_def Let_def temporary_path_def
      split: if_splits sum.splits option.splits)

subsection \<open>Properties\<close>

text \<open>
  C11. Saving is atomic under faults and process death. Let a save run on a disk with whatever answers of
  the operating system, and let the process die after any of its effects: a store opened on the same path
  then loads either what would have been loaded before the save, or the state being saved. When the save
  reports success the latter is loaded, when it reports failure the former.
\<close>

theorem save_crash_safe:
  assumes "temporary_ok st" and "file_save pid io p st d = (outcome, st', ds)"
    and "durable_valid p" and "state_storable p" and "e \<in> set ds"
  shows "file_load None (new_file_store (fs_path st)) e
      \<in> {file_load None st d, \<lparr>lo_status = PS_Ok, lo_state = Some p\<rparr>}
    \<and> file_load None st' (last ds)
      = (if so_ok outcome then \<lparr>lo_status = PS_Ok, lo_state = Some p\<rparr> else file_load None st d)"
proof -
  have path: "fs_path st \<noteq> []" "fs_path st' = fs_path st" "ds \<noteq> []"
    using assms(1) file_save_path(1) [OF assms(1,2)] by (simp_all add: temporary_ok_def)
  have same: "file_load None x f = file_load None st d" if "f (fs_path st) = d (fs_path st)" "fs_path x = fs_path st" for f x
    using that by (simp add: file_load_def)
  have new: "file_load None x f = \<lparr>lo_status = PS_Ok, lo_state = Some p\<rparr>"
    if "encode_persisted_state p = Inr bytes" "f (fs_path st) = Some bytes" "fs_path x = fs_path st" for bytes f x
    using that path(1) encoded_size [OF that(1)] storable_roundtrip [OF assms(3,4) that(1)]
    by (simp add: file_load_def read_buffers_eq load_decoded_def)
  have opened: "fs_path (new_file_store (fs_path st)) = fs_path st" by (simp add: new_file_store_def)
  show ?thesis
  proof (cases "so_ok outcome")
    case False
    then have "e (fs_path st) = d (fs_path st)" "last ds (fs_path st) = d (fs_path st)"
      using file_save_path(2) [OF assms(1,2) False] assms(5) last_in_set [OF path(3)] by blast+
    then show ?thesis
      using same [OF _ opened] same [OF _ path(2)] False by simp
  next
    case True
    obtain bytes where b: "encode_persisted_state p = Inr bytes" "last ds (fs_path st) = Some bytes"
      "\<forall>e \<in> set (butlast ds). e (fs_path st) = d (fs_path st)"
      using file_save_path(3) [OF assms(1,2) True] by blast
    have "set ds = insert (last ds) (set (butlast ds))"
      using arg_cong [OF append_butlast_last_id [OF path(3)], of set] by simp
    then have "e \<in> set (butlast ds) \<or> e = last ds" using assms(5) by blast
    then have "file_load None (new_file_store (fs_path st)) e
        \<in> {file_load None st d, \<lparr>lo_status = PS_Ok, lo_state = Some p\<rparr>}"
      using b(3) same [OF _ opened] new [of _ "last ds", OF b(1,2) opened] by blast
    then show ?thesis using new [of _ "last ds", OF b(1,2) path(2)] True by simp
  qed
qed

theorem save_crash_safe_witness:
  "\<exists>st' ds. file_save 7 sample_io sample_state (new_file_store ''state'') Map.empty = (saved, st', ds)
     \<and> length ds = 5 \<and> file_load None (new_file_store ''state'') (ds ! 2)
        \<in> {not_loaded PS_MissingFile, \<lparr>lo_status = PS_Ok, lo_state = Some sample_state\<rparr>}
     \<and> file_load None st' (last ds) = \<lparr>lo_status = PS_Ok, lo_state = Some sample_state\<rparr>"
proof -
  obtain st' ds where s: "file_save 7 sample_io sample_state (new_file_store ''state'') Map.empty = (saved, st', ds)"
    "length ds = 5"
    by (simp add: file_save_def sample_encodes new_file_store_def sample_io_def discard_temporary_def Let_def)
  have ok: "temporary_ok (new_file_store ''state'')" by (simp add: new_temporary_ok)
  have "ds ! 2 \<in> set ds" using s(2) by simp
  from save_crash_safe [OF ok s(1) sample_valid sample_storable this] show ?thesis
    using s by (simp add: new_file_store_def saved_def file_load_def [of None _ Map.empty])
qed

text \<open>
  C26. The file store refines a cell that holds the last saved state. Start from a path without a file and
  run any sequence of saves, some of which may fail in any way: a load then answers the state of the last
  save that reported success, or that no file exists when none did.
\<close>

theorem load_last_saved:
  assumes "path \<noteq> []" and "d path = None"
    and "saves file_store_save ps None (new_file_store path, d) = (latest, st, d')"
    and "\<And>p. latest = Some p \<Longrightarrow> durable_valid p \<and> state_storable p"
  shows "file_load None st d' =
     (case latest of None \<Rightarrow> not_loaded PS_MissingFile | Some p \<Rightarrow> \<lparr>lo_status = PS_Ok, lo_state = Some p\<rparr>)"
proof -
  have "temporary_ok (new_file_store path)" using assms(1) by (rule new_temporary_ok)
  then show ?thesis
    using on_file.load_after_saves [of "(new_file_store path, d)" ps latest "(st, d')"] assms(2-4)
    by (simp add: new_file_store_def)
qed

theorem load_last_saved_witness:
  "\<exists>st d'. saves file_store_save [((7, sample_io), sample_state), ((7, sample_io\<lparr>io_renames := False\<rparr>), sample_state)]
      None (new_file_store ''state'', Map.empty) = (Some sample_state, st, d')
    \<and> file_load None st d' = \<lparr>lo_status = PS_Ok, lo_state = Some sample_state\<rparr>"
proof -
  let ?ps = "[((7, sample_io), sample_state), ((7, sample_io\<lparr>io_renames := False\<rparr>), sample_state)]"
  obtain st d' where s: "saves file_store_save ?ps None (new_file_store ''state'', Map.empty) = (Some sample_state, st, d')"
    by (simp add: file_store_save_def file_save_def sample_encodes new_file_store_def sample_io_def saved_def
        not_saved_def discard_temporary_def Let_def temporary_path_nonempty split: prod.splits)
  have "''state'' \<noteq> []" and "Map.empty ''state'' = None" by simp_all
  from load_last_saved [OF this s] show ?thesis using s sample_valid sample_storable by auto
qed

end
