(* ===== verification/Wire_Codec.thy ===== *)
theory Wire_Codec
  imports Enum_Codes Snapshot
begin

text \<open>
  The bounded helpers of the wire protocol (\<^verbatim>\<open>WireWriter\<close>, \<^verbatim>\<open>WireReader\<close> and the \<^verbatim>\<open>read_*\<close> and \<^verbatim>\<open>write_*\<close>
  templates of src/src/protocol.cpp). A read gives a value and the rest of the payload, or the status
  \<^verbatim>\<open>fail_field\<close> records; the first failure ends the read of the message. The flag of \<^verbatim>\<open>WireWriter\<close> that a count
  above its bound clears is kept in the status of the writer: a rejected message has no encoding either
  way. The name of the rejected field, which only the text of an error shows, is left out.

  The wire format is canonical: a read takes exactly the bytes that writing its value would append. \<open>takes\<close>
  states this for one reader and writer, with what the reader guarantees of the value, and composes along
  the reads of a record. Together with \<open>emits\<close> it makes decoding the exact inverse of encoding.
\<close>

subsection \<open>Writing\<close>

definition kProtocolVersion :: u16 where "kProtocolVersion = 1"

definition write_version_tag :: "writer \<Rightarrow> writer" where
  "write_version_tag = w_u16 kProtocolVersion"

definition write_count :: "nat \<Rightarrow> nat \<Rightarrow> writer \<Rightarrow> writer" where
  "write_count n bound w =
     (if \<not> wr_ok w then w
      else if n > bound then wr_fail PR_Rejected w
      else w_u32 (of_nat n) w)"

definition write_vector :: "nat \<Rightarrow> ('a \<Rightarrow> writer \<Rightarrow> writer) \<Rightarrow> 'a list \<Rightarrow> writer \<Rightarrow> writer" where
  "write_vector bound write xs = seq [write_count (length xs) bound, write_list write xs]"

definition write_size :: "nat \<Rightarrow> writer \<Rightarrow> writer" where
  "write_size n = w_u64 (of_nat n)"

definition write_counter :: "'t strong_counter \<Rightarrow> writer \<Rightarrow> writer" where
  "write_counter c = w_u64 (cvalue c)"

subsection \<open>Reading\<close>

definition read_version_tag :: "string \<Rightarrow> protocol_status + u16 \<times> string" where
  "read_version_tag s =
     sum_bind (r_u16 s) (\<lambda>(version, s).
       if version \<noteq> kProtocolVersion then Inl PR_UnsupportedVersion else Inr (version, s))"

definition u64_fits_size_t :: "u64 \<Rightarrow> bool" where
  "u64_fits_size_t v \<longleftrightarrow> unat v \<le> 2 ^ 64 - 1"

definition read_size :: "string \<Rightarrow> protocol_status + nat \<times> string" where
  "read_size s =
     sum_bind (r_u64 s) (\<lambda>(v, s). if \<not> u64_fits_size_t v then Inl PR_AbsurdLength else Inr (unat v, s))"

definition read_identity_value :: "string \<Rightarrow> protocol_status + 't strong_id \<times> string" where
  "read_identity_value s =
     sum_bind (r_text s) (\<lambda>(t, s).
       case id_parse t of None \<Rightarrow> Inl PR_InvalidIdentity | Some i \<Rightarrow> Inr (i, s))"

definition read_counter :: "string \<Rightarrow> protocol_status + 't strong_counter \<times> string" where
  "read_counter s = sum_bind (r_u64 s) (\<lambda>(v, s). Inr (StrongCounter v, s))"

definition read_count :: "nat \<Rightarrow> string \<Rightarrow> protocol_status + nat \<times> string" where
  "read_count bound s =
     sum_bind (r_u32 s) (\<lambda>(n, s).
       if unat n > bound then Inl PR_AbsurdLength
       else if unat n > length s then Inl PR_AbsurdLength
       else Inr (unat n, s))"

definition read_vector ::
  "nat \<Rightarrow> (string \<Rightarrow> protocol_status + 'a \<times> string) \<Rightarrow> string \<Rightarrow> protocol_status + 'a list \<times> string" where
  "read_vector bound rd s = sum_bind (read_count bound s) (\<lambda>(n, s). read_list rd n s)"

subsection \<open>What is written is read back\<close>

text \<open>A reader that needs a byte: the condition under which a count never exceeds the bytes that follow it.\<close>

definition hungry :: "(string \<Rightarrow> 'e + 'a \<times> string) \<Rightarrow> bool" where
  "hungry rd \<longleftrightarrow> (\<forall>y. rd [] \<noteq> Inr y)"

lemma hungry_bind: "hungry rd \<Longrightarrow> hungry (\<lambda>s. sum_bind (rd s) k)"
  by (cases "rd []") (auto simp: hungry_def)

lemma hungry_u8: "hungry r_u8"
  by (simp add: hungry_def)

lemma hungry_le: "0 < n \<Longrightarrow> hungry (read_le n index v)"
  by (cases n) (simp_all add: hungry_def)

lemma hungry_prims: "hungry r_text" "hungry read_identity_value" "hungry (r_enum vals v)"
proof -
  have "hungry r_u32" unfolding r_u32_def [abs_def] by (rule hungry_bind) (simp add: hungry_le)
  then show 1: "hungry r_text"
    unfolding r_text_def [abs_def] r_bytes_def [abs_def] by (rule hungry_bind)
  show "hungry read_identity_value" "hungry (r_enum vals v)"
    unfolding read_identity_value_def [abs_def] r_enum_def [abs_def] by (rule hungry_bind, rule 1 hungry_u8)+
qed

lemma emits_identity: "valid_id i \<Longrightarrow> emits (w_id i) read_identity_value i"
  unfolding w_id_def read_identity_value_def [abs_def]
  by (rule emits_last [OF emits_text]) (simp add: id_parse_def valid_id_def)

lemma emits_counter: "emits (write_counter c) read_counter c"
  unfolding write_counter_def read_counter_def [abs_def] by (rule emits_last [OF emits_u64]) simp

lemma emits_size: "n < 2 ^ 64 \<Longrightarrow> emits (write_size n) read_size n"
  unfolding write_size_def read_size_def [abs_def]
  by (rule emits_last [OF emits_u64]) (simp add: unat_of_nat u64_fits_size_t_def)

lemma emits_version: "emits write_version_tag read_version_tag kProtocolVersion"
  unfolding write_version_tag_def read_version_tag_def [abs_def] by (rule emits_last [OF emits_u16]) simp

lemma emits_list_length:
  assumes "\<And>x. x \<in> set xs \<Longrightarrow> emits (write x) rd x" and "hungry rd" and "wr_ok (write_list write xs w)"
  shows "wr_ok w \<and> length (wr_data w) + length xs \<le> length (wr_data (write_list write xs w))"
  using assms(1,3)
proof (induction xs arbitrary: w)
  case (Cons x xs)
  have 1: "wr_ok (write x w)" "length (wr_data (write x w)) + length xs \<le> length (wr_data (write_list write (x # xs) w))"
    using Cons.IH [of "write x w"] Cons.prems by simp_all
  have "length (wr_data w) < length (wr_data (write x w))" "wr_ok w"
    using emits_nonempty [of "write x" rd x w] Cons.prems(1) [of x] assms(2) 1(1) by (auto simp: hungry_def emits_def)
  then show ?case using 1 by simp
qed simp

lemma emits_vector:
  assumes "hungry rd" and "bound < 2 ^ 32" and "\<And>x. x \<in> set xs \<Longrightarrow> emits (write x) rd x"
  shows "emits (write_vector bound write xs) (read_vector bound rd) xs"
  unfolding emits_def
proof (intro allI impI)
  fix w assume ok: "wr_ok (write_vector bound write xs w)"
  let ?v = "write_count (length xs) bound w"
  have out: "write_vector bound write xs w = write_list write xs ?v" by (simp add: write_vector_def)
  have v: "wr_ok ?v" and long: "length (wr_data ?v) + length xs \<le> length (wr_data (write_list write xs ?v))"
    using emits_list_length [OF assms(3,1), of xs ?v] ok out by auto
  have w: "wr_ok w" and len: "length xs \<le> bound" and v32: "?v = w_u32 (of_nat (length xs)) w"
    using v by (auto simp: write_count_def wr_fail_def wr_ok_def split: if_splits)
  obtain a where a: "wr_data ?v = wr_data w @ a" "\<And>rest. r_u32 (a @ rest) = Inr (of_nat (length xs), rest)"
    using emits_u32 [of "of_nat (length xs)"] v unfolding v32 emits_def by blast
  obtain b where b: "wr_data (write_list write xs ?v) = wr_data ?v @ b"
    "\<And>rest. read_list rd (length xs) (b @ rest) = Inr (xs, rest)"
    using emits_list [of xs "write" rd] assms(3) ok unfolding out emits_def by blast
  have "unat (of_nat (length xs) :: u32) = length xs" using len assms(2) by (simp add: unat_of_nat)
  moreover have "length xs \<le> length b" using long b(1) by simp
  ultimately have "read_vector bound rd ((a @ b) @ rest) = Inr (xs, rest)" for rest
    using len by (simp add: read_vector_def read_count_def a(2) b(2))
  then show "wr_ok w \<and> (\<exists>bs. wr_data (write_vector bound write xs w) = wr_data w @ bs
      \<and> (\<forall>rest. read_vector bound rd (bs @ rest) = Inr (xs, rest)))"
    using w a(1) b(1) unfolding out by (intro conjI exI [of _ "a @ b"]) simp_all
qed

subsection \<open>A read takes what a write appends\<close>

definition appends :: "(writer \<Rightarrow> writer) \<Rightarrow> string \<Rightarrow> bool" where
  "appends g bs \<longleftrightarrow>
     (\<forall>w. wr_ok w \<and> length (wr_data w) + length bs \<le> kMaxWriterBytes \<longrightarrow> g w = w\<lparr>wr_data := wr_data w @ bs\<rparr>)"

definition takes :: "(string \<Rightarrow> 'e + 'a \<times> string) \<Rightarrow> ('a \<Rightarrow> writer \<Rightarrow> writer) \<Rightarrow> ('a \<Rightarrow> bool) \<Rightarrow> bool" where
  "takes rd g P \<longleftrightarrow>
     (\<forall>s x s'. rd s = Inr (x, s') \<longrightarrow> P x \<and> (\<exists>bs. s = bs @ s' \<and> appends (g x) bs))"

text \<open>The same after the writes \<open>acc\<close> of the fields already read.\<close>

definition takes_after ::
  "(string \<Rightarrow> 'e + 'a \<times> string) \<Rightarrow> (writer \<Rightarrow> writer) \<Rightarrow> ('a \<Rightarrow> writer \<Rightarrow> writer) \<Rightarrow> ('a \<Rightarrow> bool) \<Rightarrow> bool" where
  "takes_after rd acc g P \<longleftrightarrow>
     (\<forall>s x s'. rd s = Inr (x, s') \<longrightarrow>
        P x \<and> (\<exists>bs. s = bs @ s' \<and> (\<forall>pre. appends acc pre \<longrightarrow> appends (g x) (pre @ bs))))"

lemma appends_nil: "appends (\<lambda>w. w) []"
  by (simp add: appends_def)

lemma appends_fcomp:
  assumes "appends g a" and "appends h b"
  shows "appends (fcomp g h) (a @ b)"
  using assms by (simp add: appends_def wr_ok_def)

lemma takesD: "takes rd g P \<Longrightarrow> rd s = Inr (x, s') \<Longrightarrow> P x \<and> (\<exists>bs. s = bs @ s' \<and> appends (g x) bs)"
  by (simp add: takes_def)

lemma takes_start:
  assumes "takes_after rd (\<lambda>w. w) g P"
  shows "takes rd g P"
  using assms appends_nil unfolding takes_def takes_after_def by (metis append_Nil)

lemma takes_step:
  assumes "takes rd g P" and "\<And>x. P x \<Longrightarrow> takes_after (k x) (fcomp acc (g x)) h Q"
  shows "takes_after (\<lambda>s. sum_bind (rd s) (\<lambda>(x, s). k x s)) acc h Q"
  unfolding takes_after_def
proof (intro allI impI)
  fix s y s' assume "sum_bind (rd s) (\<lambda>(x, s). k x s) = Inr (y, s')"
  then obtain x s1 where 1: "rd s = Inr (x, s1)" "k x s1 = Inr (y, s')" by (auto simp: sum_bind_Inr)
  then obtain a where a: "P x" "s = a @ s1" "appends (g x) a" using takesD [OF assms(1)] by blast
  then obtain b where b: "Q y" "s1 = b @ s'"
    "\<And>pre. appends (fcomp acc (g x)) pre \<Longrightarrow> appends (h y) (pre @ b)"
    using assms(2) [of x] 1(2) unfolding takes_after_def by blast
  have "appends (h y) (pre @ (a @ b))" if "appends acc pre" for pre
    using b(3) [OF appends_fcomp [OF that a(3)]] by simp
  then show "Q y \<and> (\<exists>bs. s = bs @ s' \<and> (\<forall>pre. appends acc pre \<longrightarrow> appends (h y) (pre @ bs)))"
    using a(2) b(1,2) by (intro conjI exI [of _ "a @ b"]) simp_all
qed

lemma takes_end: "acc = g y \<Longrightarrow> P y \<Longrightarrow> takes_after (\<lambda>s. Inr (y, s)) acc g P"
  by (simp add: takes_after_def)

lemma takes_weaken: "takes rd g P \<Longrightarrow> (\<And>x. P x \<Longrightarrow> Q x) \<Longrightarrow> takes rd g Q"
  by (auto simp: takes_def)

subsection \<open>Integers\<close>

lemma appends_u8: "appends (w_u8 b) [byte_char b]"
  by (simp add: appends_def w_u8_def)

lemma appends_le: "appends (write_le n index v) (store_le n (drop_bit (index * 8) v))"
proof (induction n arbitrary: index)
  case (Suc n)
  have bytes: "store_le (Suc n) (drop_bit (index * 8) v)
      = [byte_char (ucast (drop_bit (index * 8) v))] @ store_le n (drop_bit (Suc index * 8) v)"
    by (simp add: add.commute)
  show ?case unfolding write_le.simps seq.simps bytes by (rule appends_fcomp [OF appends_u8 Suc.IH])
qed (simp add: appends_nil)

lemma read_le_load:
  "read_le n index u s = Inr (v, s') \<longleftrightarrow>
     n \<le> length s \<and> v = u OR push_bit (index * 8) (load_le n s) \<and> s' = drop n s"
proof (induction n arbitrary: index u s)
  case (Suc n)
  show ?case
  proof (cases s)
    case (Cons c cs)
    have "(u OR push_bit (index * 8) b) OR push_bit (Suc index * 8) l = u OR push_bit (index * 8) (b OR push_bit 8 l)"
      for b l :: u64
      by (simp add: push_bit_or or.assoc add.commute)
    then show ?thesis using Suc.IH [of "Suc index" _ cs] by (simp add: Cons)
  qed simp
qed auto

lemma load_le_small: "n * 8 \<le> 64 \<Longrightarrow> n \<le> length s \<Longrightarrow> take_bit (n * 8) (load_le n s) = load_le n s"
  using load_store_le [of n "load_le n s" "drop n s"] store_load_le [of n s] by simp

lemma takes_le:
  assumes "n \<le> 8"
  shows "takes (read_le n 0 0) (write_le n 0) (\<lambda>v. take_bit (n * 8) v = v)"
  unfolding takes_def read_le_load
proof (intro allI impI, elim conjE)
  fix s v s' assume len: "n \<le> length s" and v: "v = 0 OR push_bit (0 * 8) (load_le n s)" and s': "s' = drop n s"
  have eq: "v = load_le n s" using v by simp
  have "store_le n (load_le n s) = take n s" using store_load_le [of n s] assms len by simp
  then have "appends (write_le n 0 v) (take n s)" using appends_le [of n 0 v] by (simp add: eq)
  moreover have "take_bit (n * 8) v = v" using load_le_small [of n s] assms len by (simp add: eq)
  ultimately show "take_bit (n * 8) v = v \<and> (\<exists>bs. s = bs @ s' \<and> appends (write_le n 0 v) bs)"
    unfolding s' by (intro conjI exI [of _ "take n s"]) simp_all
qed

text \<open>A read followed by a conversion that the write undoes.\<close>

lemma takes_convert:
  assumes "takes rd g P" and "\<And>x y s s'. P x \<Longrightarrow> k x s = Inr (y, s') \<Longrightarrow> s' = s \<and> h y = g x \<and> Q y"
  shows "takes (\<lambda>s. sum_bind (rd s) (\<lambda>(x, s). k x s)) h Q"
  unfolding takes_def
proof (intro allI impI)
  fix s y s' assume "sum_bind (rd s) (\<lambda>(x, s). k x s) = Inr (y, s')"
  then obtain x s1 where 1: "rd s = Inr (x, s1)" "k x s1 = Inr (y, s')" by (auto simp: sum_bind_Inr)
  then have 2: "P x \<and> (\<exists>bs. s = bs @ s1 \<and> appends (g x) bs)" using takesD [OF assms(1)] by blast
  then have "s' = s1 \<and> h y = g x \<and> Q y" using assms(2) 1(2) by blast
  with 2 show "Q y \<and> (\<exists>bs. s = bs @ s' \<and> appends (h y) bs)" by auto
qed

lemma ucast_take_id:
  "take_bit 32 v = v \<Longrightarrow> ucast (ucast v :: u32) = v" "take_bit 16 v = v \<Longrightarrow> ucast (ucast v :: u16) = v" for v :: u64
  by (rule bit_eqI, drule arg_cong [where f = "\<lambda>v. bit v _"], auto simp: bit_simps)+

lemma takes_u8: "takes r_u8 w_u8 (\<lambda>v. True)"
  unfolding takes_def
proof (intro allI impI)
  fix s v s' assume "r_u8 s = Inr (v, s')"
  then obtain c where "s = [c] @ s'" "v = char_byte c" by (cases s) auto
  then show "True \<and> (\<exists>bs. s = bs @ s' \<and> appends (w_u8 v) bs)" using appends_u8 [of v] by auto
qed

lemma takes_u64: "takes r_u64 w_u64 (\<lambda>v. True)"
  unfolding r_u64_def [abs_def] w_u64_def [abs_def] by (rule takes_weaken [OF takes_le]) simp_all

lemma takes_u32: "takes r_u32 w_u32 (\<lambda>v. True)"
  unfolding r_u32_def [abs_def] w_u32_def [abs_def] by (rule takes_convert [OF takes_le]) (auto simp: ucast_take_id)

lemma takes_u16: "takes r_u16 w_u16 (\<lambda>v. True)"
  unfolding r_u16_def [abs_def] w_u16_def [abs_def] by (rule takes_convert [OF takes_le]) (auto simp: ucast_take_id)

lemma takes_i64: "takes r_i64 w_i64 i64_range"
proof -
  have "i64_range (sint (v :: u64))" for v
    using sint_ge [of v] sint_lt [of v] by (simp add: i64_range_def i64_min_def i64_max_def)
  then show ?thesis
    unfolding r_i64_def [abs_def] w_i64_def [abs_def] by (intro takes_convert [OF takes_u64]) auto
qed

lemma takes_f64: "takes r_f64 w_f64 (\<lambda>v. True)"
  unfolding r_f64_def [abs_def] w_f64_def [abs_def] by (rule takes_convert [OF takes_u64]) auto

lemma byte_le_one: "\<not> 1 < (b :: u8) \<Longrightarrow> b = 0 \<or> b = 1"
  using word_le_nat_alt [of b 1] by (auto simp: not_less le_Suc_eq word_unat_eq_iff)

lemma takes_boolean: "takes r_boolean w_boolean (\<lambda>v. True)" "takes r_boolean w_optional_present (\<lambda>v. True)"
  unfolding r_boolean_def [abs_def] w_boolean_def [abs_def] w_optional_present_def [abs_def]
  by (rule takes_convert [OF takes_u8]; auto split: if_splits dest: byte_le_one)+

subsection \<open>Texts, identities, counters and sizes\<close>

lemma appends_text:
  assumes "length v \<le> kMaxEncodedStringBytes" and "appends (w_u32 (of_nat (length v))) a"
  shows "appends (w_text v) (a @ v)"
  unfolding appends_def
proof (intro allI impI)
  fix w assume w: "wr_ok w \<and> length (wr_data w) + length (a @ v) \<le> kMaxWriterBytes"
  then have "w_u32 (of_nat (length v)) w = w\<lparr>wr_data := wr_data w @ a\<rparr>"
    using assms(2) unfolding appends_def by auto
  then show "w_text v w = w\<lparr>wr_data := wr_data w @ a @ v\<rparr>"
    using w assms(1) by (auto simp: w_text_def w_bytes_def Let_def wr_ok_def)
qed

lemma takes_text: "takes r_text w_text (\<lambda>v. True)"
  unfolding takes_def r_text_def r_bytes_def
proof (intro allI impI)
  fix s v s' assume "sum_bind (r_u32 s) (\<lambda>(size, s).
      if unat size > kMaxEncodedStringBytes then Inl PR_AbsurdLength
      else if unat size > length s then Inl PR_TruncatedPayload
      else Inr (take (unat size) s, drop (unat size) s)) = Inr (v, s')"
  then obtain n s1 where n: "r_u32 s = Inr (n, s1)" "unat n \<le> kMaxEncodedStringBytes" "unat n \<le> length s1"
    and v: "v = take (unat n) s1" "s' = drop (unat n) s1"
    by (auto simp: sum_bind_Inr not_less split: if_splits)
  then obtain a where a: "s = a @ s1" "appends (w_u32 n) a" using takesD [OF takes_u32] by blast
  have "length v = unat n" using n(3) v(1) by simp
  then have "appends (w_text v) (a @ v)" using appends_text [of v a] n(2) a(2) by simp
  moreover have "s = (a @ v) @ s'" using a(1) v by simp
  ultimately show "True \<and> (\<exists>bs. s = bs @ s' \<and> appends (w_text v) bs)" by blast
qed

lemma takes_identity: "takes read_identity_value w_id valid_id"
proof -
  have valid: "valid_id i \<and> id_value i = t" if "id_parse t = Some i" for i :: "'a strong_id" and t
    using that parse_id_Inr [of t i] by (auto simp: parse_id_def)
  show ?thesis
    unfolding read_identity_value_def [abs_def] w_id_def [abs_def]
    by (rule takes_convert [OF takes_text]) (auto split: option.splits dest: valid)
qed

lemma takes_counter: "takes read_counter write_counter (\<lambda>c. True)"
  unfolding read_counter_def [abs_def] write_counter_def [abs_def] by (rule takes_convert [OF takes_u64]) auto

lemma takes_size: "takes read_size write_size (\<lambda>n. n < 2 ^ 64)"
proof -
  have "unat v < 2 ^ 64" for v :: u64 using unsigned_less [of v] by simp
  then show ?thesis
    unfolding read_size_def [abs_def] write_size_def [abs_def]
    by (intro takes_convert [OF takes_u64]) (auto split: if_splits)
qed

lemma takes_version: "takes read_version_tag w_u16 (\<lambda>v. v = kProtocolVersion)"
  unfolding read_version_tag_def [abs_def] by (rule takes_convert [OF takes_u16]) (auto split: if_splits)

subsection \<open>Enumerations, optional fields and lists\<close>

context raw_enum
begin

lemma raw_of_raw: "unat b < length vals \<Longrightarrow> raw_of vals (of_raw vals b) = b"
  using unat_raw [of "of_raw vals b"] raw_index [of "of_raw vals b"] raw_nth [of "of_raw vals b"] once
  by (simp add: of_raw_def nth_eq_iff_index_eq word_unat_eq_iff)

lemma takes_enum: "takes (r_enum vals last_value) (w_enum vals) (\<lambda>v. True)"
proof -
  have "vals \<noteq> []" using listed by auto
  then have "unat b < length vals" if "\<not> raw_of vals last_value < b" for b
    using that raw_last by (simp add: word_less_nat_alt) (metis Suc_pred leI le_imp_less_Suc length_greater_0_conv not_less)
  then show ?thesis
    unfolding r_enum_def [abs_def] w_enum_def [abs_def]
    by (intro takes_convert [OF takes_u8]) (auto simp: to_enum_def raw_of_raw split: if_splits)
qed

end

lemma takes_optional:
  assumes "takes rd g P"
  shows "takes (r_optional rd) (w_optional g) (\<lambda>opt. \<forall>x. opt = Some x \<longrightarrow> P x)"
  unfolding takes_def
proof (intro allI impI)
  fix s opt s' assume "r_optional rd s = Inr (opt, s')"
  then obtain present s1 where 1: "r_boolean s = Inr (present, s1)"
    and 2: "(if present then sum_bind (rd s1) (\<lambda>(x, s). Inr (Some x, s)) else Inr (None, s1)) = Inr (opt, s')"
    by (auto simp: r_optional_def sum_bind_Inr)
  obtain a where a: "s = a @ s1" "appends (w_optional_present present) a"
    using takesD [OF takes_boolean(2) 1] by blast
  show "(\<forall>x. opt = Some x \<longrightarrow> P x) \<and> (\<exists>bs. s = bs @ s' \<and> appends (w_optional g opt) bs)"
  proof (cases present)
    case True
    then obtain x where x: "rd s1 = Inr (x, s')" "opt = Some x" using 2 by (auto simp: sum_bind_Inr)
    obtain b where b: "P x" "s1 = b @ s'" "appends (g x) b" using takesD [OF assms x(1)] by blast
    have "w_optional g opt = fcomp (w_optional_present True) (g x)" by (simp add: w_optional_def x(2))
    then show ?thesis using appends_fcomp [of "w_optional_present True" a "g x" b] a b True x(2) by auto
  next
    case False
    then have "w_optional g opt = fcomp (w_optional_present False) (\<lambda>w. w)" "s' = s1" "opt = None"
      using 2 by (auto simp: w_optional_def)
    then show ?thesis
      using appends_fcomp [OF _ appends_nil, of "w_optional_present False" a] a False by auto
  qed
qed

lemma takes_list:
  assumes "takes rd g P"
  shows "read_list rd n s = Inr (xs, s') \<Longrightarrow>
    length xs = n \<and> (\<forall>x \<in> set xs. P x) \<and> (\<exists>bs. s = bs @ s' \<and> appends (write_list g xs) bs)"
proof (induction n arbitrary: s xs)
  case 0
  then show ?case using appends_nil by auto
next
  case (Suc n)
  then obtain x s1 ys where x: "rd s = Inr (x, s1)" and ys: "read_list rd n s1 = Inr (ys, s')" "xs = x # ys"
    by (auto simp: sum_bind_Inr)
  obtain a where a: "P x" "s = a @ s1" "appends (g x) a" using takesD [OF assms x] by blast
  obtain b where b: "length ys = n" "\<forall>x \<in> set ys. P x" "s1 = b @ s'" "appends (write_list g ys) b"
    using Suc.IH [OF ys(1)] by blast
  have "appends (write_list g xs) (a @ b)" unfolding ys(2) write_list_simps by (rule appends_fcomp [OF a(3) b(4)])
  moreover have "s = (a @ b) @ s'" using a(2) b(3) by simp
  ultimately have "\<exists>bs. s = bs @ s' \<and> appends (write_list g xs) bs" by blast
  moreover have "length xs = Suc n" "\<forall>x \<in> set xs. P x" using a(1) b(1,2) ys(2) by simp_all
  ultimately show ?case by blast
qed

lemma appends_count: "n \<le> bound \<Longrightarrow> appends (w_u32 (of_nat n)) bs \<Longrightarrow> appends (write_count n bound) bs"
  by (simp add: appends_def write_count_def)

lemma takes_vector:
  assumes "takes rd g P"
  shows "takes (read_vector bound rd) (write_vector bound g) (\<lambda>xs. \<forall>x \<in> set xs. P x)"
  unfolding takes_def
proof (intro allI impI)
  fix s xs s' assume "read_vector bound rd s = Inr (xs, s')"
  then obtain n s1 where n: "r_u32 s = Inr (n, s1)" "unat n \<le> bound" "read_list rd (unat n) s1 = Inr (xs, s')"
    by (auto simp: read_vector_def read_count_def sum_bind_Inr not_less split: if_splits)
  obtain a where a: "s = a @ s1" "appends (w_u32 n) a" using takesD [OF takes_u32 n(1)] by blast
  obtain b where b: "length xs = unat n" "\<forall>x \<in> set xs. P x" "s1 = b @ s'" "appends (write_list g xs) b"
    using takes_list [OF assms n(3)] by blast
  have "appends (write_count (length xs) bound) a" using appends_count [of "unat n" bound a] n(2) a(2) b(1) by simp
  then have "appends (write_vector bound g xs) (a @ b)"
    unfolding write_vector_def seq.simps using b(4) by (rule appends_fcomp)
  then show "(\<forall>x \<in> set xs. P x) \<and> (\<exists>bs. s = bs @ s' \<and> appends (write_vector bound g xs) bs)"
    using a(1) b(2,3) by auto
qed

end
