(* ===== verification/Explanations.thy ===== *)
theory Explanations
  imports Snapshot Mutation
begin

text \<open>
  Structured explanations (src/include/cluster_fabric/explanation.hpp, src/src/explanation.cpp) and the
  explanation the coordinator gives of a snapshot validation (\<^verbatim>\<open>SnapshotValidation::describe\<close> in
  src/src/snapshot.cpp and the end of \<^verbatim>\<open>validate_view\<close> in src/src/coordinator_network.cpp). Factors are
  compared member by member, so \<^verbatim>\<open>std::sort\<close> on them is determined: it is \<open>sort_key\<close>.
\<close>

record explanation_factor =
  ef_code :: string
  ef_subject :: string
  ef_detail :: string

record explanation =
  ex_code :: string
  ex_subject :: string
  ex_summary :: string
  ex_factors :: "explanation_factor list"

definition kMaxExplanationFactors :: nat where "kMaxExplanationFactors = 64"
definition kFactorCapacity :: nat where "kFactorCapacity = kMaxExplanationFactors + 1"

definition append_bounded :: "string \<Rightarrow> string \<Rightarrow> string" where
  "append_bounded out v = out @ (if length v > kMaxEncodedStringBytes then take kMaxEncodedStringBytes v else v)"

definition append_named :: "string \<Rightarrow> string \<Rightarrow> string \<Rightarrow> string" where
  "append_named out name v =
     (if v = [] then out
      else append_bounded ((if out \<noteq> [] then out @ '' '' else out) @ name @ ''='') v)"

definition render_factor :: "explanation_factor \<Rightarrow> string" where
  "render_factor f =
     (let line = ''  '';
          line = (if ef_code f \<noteq> [] then append_bounded line (ef_code f) else line);
          wrote_identity = (ef_code f \<noteq> []);
          line = (if ef_subject f \<noteq> []
                  then append_bounded (if wrote_identity then line @ '' '' else line) (ef_subject f) else line);
          wrote_identity = (wrote_identity \<or> ef_subject f \<noteq> [])
      in if ef_detail f \<noteq> []
         then append_bounded (if wrote_identity then line @ '': '' else line) (ef_detail f) else line)"

definition explanation_make :: "string \<Rightarrow> string \<Rightarrow> string \<Rightarrow> explanation" where
  "explanation_make code subject summary =
     \<lparr>ex_code = code, ex_subject = subject, ex_summary = summary, ex_factors = []\<rparr>"

definition explanation_add :: "string \<Rightarrow> string \<Rightarrow> string \<Rightarrow> explanation \<Rightarrow> explanation" where
  "explanation_add code subject detail e =
     (if length (ex_factors e) \<ge> kFactorCapacity then e
      else e\<lparr>ex_factors := ex_factors e @ [\<lparr>ef_code = code, ef_subject = subject, ef_detail = detail\<rparr>]\<rparr>)"

definition factor_key :: "explanation_factor \<Rightarrow> string \<times> string \<times> string" where
  "factor_key f = (ef_code f, ef_subject f, ef_detail f)"

definition sort_factors :: "explanation \<Rightarrow> explanation" where
  "sort_factors e = e\<lparr>ex_factors := sort_key factor_key (ex_factors e)\<rparr>"

definition bound_factors :: "explanation \<Rightarrow> explanation" where
  "bound_factors e =
     (if length (ex_factors e) \<le> kMaxExplanationFactors then e
      else e\<lparr>ex_factors := take (kMaxExplanationFactors - 1) (ex_factors e) @
             [\<lparr>ef_code = ''truncated'', ef_subject = [], ef_detail = ''additional factors omitted''\<rparr>]\<rparr>)"

definition explanation_describe :: "explanation \<Rightarrow> string" where
  "explanation_describe e =
     (let out = append_named (append_named [] ''code'' (ex_code e)) ''subject'' (ex_subject e);
          out = (if ex_summary e \<noteq> []
                 then append_bounded (if out \<noteq> [] then out @ '': '' else out) (ex_summary e) else out)
      in out @ concat (map (\<lambda>f. CHR 0x0A # render_factor f) (take kMaxExplanationFactors (ex_factors e))))"

subsection \<open>Explaining a validation\<close>

fun snapshot_stale_reason_to_string :: "snapshot_stale_reason \<Rightarrow> string" where
  "snapshot_stale_reason_to_string SR_None = ''NONE''"
| "snapshot_stale_reason_to_string SR_ClusterEpochAdvanced = ''CLUSTER_EPOCH_ADVANCED''"
| "snapshot_stale_reason_to_string SR_CoordinatorEpochAdvanced = ''COORDINATOR_EPOCH_ADVANCED''"
| "snapshot_stale_reason_to_string SR_ClusterGenerationAdvanced = ''CLUSTER_GENERATION_ADVANCED''"
| "snapshot_stale_reason_to_string SR_MembershipChanged = ''MEMBERSHIP_CHANGED''"
| "snapshot_stale_reason_to_string SR_TopologyEpochSuperseded = ''TOPOLOGY_EPOCH_SUPERSEDED''"
| "snapshot_stale_reason_to_string SR_TopologyGenerationAdvanced = ''TOPOLOGY_GENERATION_ADVANCED''"
| "snapshot_stale_reason_to_string SR_RackGenerationSuperseded = ''RACK_GENERATION_SUPERSEDED''"
| "snapshot_stale_reason_to_string SR_RackWithdrawn = ''RACK_WITHDRAWN''"
| "snapshot_stale_reason_to_string SR_RackRetired = ''RACK_RETIRED''"
| "snapshot_stale_reason_to_string SR_RackBootFenced = ''RACK_BOOT_FENCED''"
| "snapshot_stale_reason_to_string SR_RackRevalidationRequired = ''RACK_REVALIDATION_REQUIRED''"
| "snapshot_stale_reason_to_string SR_PlacementDomainSuperseded = ''PLACEMENT_DOMAIN_SUPERSEDED''"
| "snapshot_stale_reason_to_string SR_CapacityDomainSuperseded = ''CAPACITY_DOMAIN_SUPERSEDED''"
| "snapshot_stale_reason_to_string SR_FailureDomainSuperseded = ''FAILURE_DOMAIN_SUPERSEDED''"
| "snapshot_stale_reason_to_string SR_NetworkDomainSuperseded = ''NETWORK_DOMAIN_SUPERSEDED''"
| "snapshot_stale_reason_to_string SR_StorageDomainSuperseded = ''STORAGE_DOMAIN_SUPERSEDED''"
| "snapshot_stale_reason_to_string SR_PowerDomainSuperseded = ''POWER_DOMAIN_SUPERSEDED''"
| "snapshot_stale_reason_to_string SR_CoolingDomainSuperseded = ''COOLING_DOMAIN_SUPERSEDED''"
| "snapshot_stale_reason_to_string SR_LinkDomainSuperseded = ''LINK_DOMAIN_SUPERSEDED''"
| "snapshot_stale_reason_to_string SR_ConnectivitySuperseded = ''CONNECTIVITY_SUPERSEDED''"
| "snapshot_stale_reason_to_string SR_HealthSuperseded = ''HEALTH_SUPERSEDED''"
| "snapshot_stale_reason_to_string SR_LifecycleNotConsumable = ''LIFECYCLE_NOT_CONSUMABLE''"
| "snapshot_stale_reason_to_string SR_WrongCluster = ''WRONG_CLUSTER''"

definition validation_describe :: "snapshot_validation \<Rightarrow> string" where
  "validation_describe v =
     (if sv_current v then ''snapshot=current'' else ''snapshot=stale'') @
     (if sv_consumable v then '' consumable=true'' else '' consumable=false'') @
     '' reasons='' @ rev (decimal_loop (of_nat (length (sv_reasons v)))) @
     concat (map (\<lambda>(reason, subject).
       '' '' @ snapshot_stale_reason_to_string reason @ (if subject \<noteq> [] then ''('' @ subject @ '')'' else []))
       (sv_reasons v))"

definition explain_validation :: "snapshot_validation \<Rightarrow> explanation" where
  "explain_validation v =
     bound_factors (sort_factors
       (foldl (\<lambda>e (reason, subject).
            explanation_add (snapshot_stale_reason_to_string reason) subject
              ''supplied snapshot view no longer matches current authority'' e)
          (explanation_make (if sv_current v then ''snapshot_current'' else ''snapshot_stale'') ''snapshot''
             (validation_describe v))
          (sv_reasons v)))"

subsection \<open>Explanations are bounded and ordered\<close>

lemma bound_factors_length: "length (ex_factors (bound_factors e)) \<le> kMaxExplanationFactors"
  by (simp add: bound_factors_def kMaxExplanationFactors_def)

lemma explain_validation_bounded: "length (ex_factors (explain_validation v)) \<le> kMaxExplanationFactors"
  unfolding explain_validation_def by (rule bound_factors_length)

text \<open>Equal facts in any order give the same explanation: the order of the factors is total.\<close>

lemma sort_factors_unique:
  assumes "mset (ex_factors e) = mset (ex_factors e')" and "e\<lparr>ex_factors := []\<rparr> = e'\<lparr>ex_factors := []\<rparr>"
  shows "sort_factors e = sort_factors e'"
proof -
  have inj: "inj factor_key" by (rule injI) (simp add: factor_key_def)
  have sorted: "sort (map factor_key fs) = map factor_key (sort_key factor_key fs)" for fs
    by (rule properties_for_sort) simp_all
  have "sort (map factor_key (ex_factors e)) = sort (map factor_key (ex_factors e'))"
    by (rule properties_for_sort) (simp_all add: assms(1))
  then have "sort_key factor_key (ex_factors e) = sort_key factor_key (ex_factors e')"
    unfolding sorted using inj by (simp add: inj_map_eq_map)
  then show ?thesis using assms(2) by (cases e; cases e') (simp add: sort_factors_def)
qed

end
