(* ===== verification/Wire_Records.thy ===== *)
theory Wire_Records
  imports Wire_Codec Explanations Domain_Mutations
begin

text \<open>
  The records of the wire protocol, from the evidence stamp to the rack reference: one writer and one
  reader per pair of functions of src/src/protocol.cpp, in their order. Texts that the rest of the
  development leaves out travel here, so errors and blockers are the records of the model with those
  texts added. A \<open>sendable\<close> predicate says what a reader demands of a record: texts that parse as
  identities, instants in the 64-bit range, counts that fit the machine. Writers whose names the durable
  container uses for its own format carry the suffix \<open>_wire\<close>.

  Each record is read back (\<open>emits\<close>) and each read takes what the write appends (\<open>takes\<close>).
\<close>

subsection \<open>Bounds and remaining enumerations\<close>

definition kMaxDecodedRecords :: nat where "kMaxDecodedRecords = 262144"
definition kMaxSnapshotRackRefs :: nat where "kMaxSnapshotRackRefs = kMaxRacksPerCluster"
definition kMaxAcceleratorClasses :: nat where "kMaxAcceleratorClasses = kMaxCapacityQuantities"
definition kMaxRequiredPlacementClasses :: nat where "kMaxRequiredPlacementClasses = 8"
definition kMaxRequiredFailureClasses :: nat where "kMaxRequiredFailureClasses = 10"

definition error_category_values :: "error_category list" where
  "error_category_values =
     [EC_None, EC_Identity, EC_Protocol, EC_Persistence, EC_Authority, EC_Generation, EC_Validation,
      EC_Resource, EC_Transport, EC_Shutdown, EC_Internal]"

definition error_stage_values :: "error_stage list" where
  "error_stage_values =
     [ES_None, ES_Decode, ES_ValidateAuthority, ES_ValidateGeneration, ES_ValidateReference,
      ES_ConstructCandidate, ES_VerifyInvariants, ES_Commit, ES_Persist, ES_Publish, ES_Encode,
      ES_Transport, ES_Recover, ES_Shutdown]"

definition mutation_outcome_values :: "mutation_outcome list" where
  "mutation_outcome_values = [MO_Accepted, MO_NoChange, MO_Rejected, MO_RevalidationRequired]"

lemma error_category_listed: "v \<in> set error_category_values"
  by (cases v) (simp_all add: error_category_values_def)

lemma error_stage_listed: "v \<in> set error_stage_values"
  by (cases v) (simp_all add: error_stage_values_def)

lemma mutation_outcome_listed: "v \<in> set mutation_outcome_values"
  by (cases v) (simp_all add: mutation_outcome_values_def)

lemma rejection_reason_listed: "v \<in> set rejection_reason_values"
  by (cases v) (simp_all add: rejection_reason_values_def)

interpretation error_category_raw: raw_enum error_category_values EC_Internal
  by (rule raw_enum.intro, rule error_category_listed) (simp_all add: error_category_values_def)

interpretation error_stage_raw: raw_enum error_stage_values ES_Shutdown
  by (rule raw_enum.intro, rule error_stage_listed) (simp_all add: error_stage_values_def)

interpretation mutation_outcome_raw: raw_enum mutation_outcome_values MO_RevalidationRequired
  by (rule raw_enum.intro, rule mutation_outcome_listed) (simp_all add: mutation_outcome_values_def)

interpretation rejection_reason_raw: raw_enum rejection_reason_values RR_Internal
  by (rule raw_enum.intro, rule rejection_reason_listed) (simp_all add: rejection_reason_values_def)

named_theorems emits_wire \<open>what the writers of the wire protocol emit\<close>
named_theorems takes_wire \<open>what the readers of the wire protocol take\<close>

lemma wire_bounds [emits_wire]:
  "kMaxExplanationFactors < 2 ^ 32" "kMaxDecodedRecords < 2 ^ 32" "kMaxSnapshotRackRefs < 2 ^ 32"
  "kMaxAcceleratorClasses < 2 ^ 32" "kMaxRequiredPlacementClasses < 2 ^ 32"
  "kMaxRequiredFailureClasses < 2 ^ 32" "kMaxRacksPerCluster < 2 ^ 32" "kMaxDomainMembers < 2 ^ 32"
  "kMaxFailureDomainRefs < 2 ^ 32" "kMaxRackEndpoints < 2 ^ 32" "kMaxCapacityQuantities < 2 ^ 32"
  by (simp_all add: kMaxExplanationFactors_def kMaxDecodedRecords_def kMaxSnapshotRackRefs_def
      kMaxAcceleratorClasses_def kMaxRequiredPlacementClasses_def kMaxRequiredFailureClasses_def
      kMaxRacksPerCluster_def kMaxDomainMembers_def kMaxFailureDomainRefs_def kMaxRackEndpoints_def
      kMaxCapacityQuantities_def)

lemma fcomp_start [simp]: "fcomp (\<lambda>w. w) g = g"
  by (simp add: fun_eq_iff)

declare emits_prims [emits_wire] emits_identity [emits_wire] emits_counter [emits_wire] emits_size [emits_wire]
  emits_optional [emits_wire] emits_vector [emits_wire] hungry_prims [emits_wire]

declare emits_enums [emits_wire] error_category_raw.emits_enum [emits_wire] error_stage_raw.emits_enum [emits_wire]
  mutation_outcome_raw.emits_enum [emits_wire] rejection_reason_raw.emits_enum [emits_wire]

declare takes_u8 [takes_wire] takes_u16 [takes_wire] takes_u32 [takes_wire] takes_u64 [takes_wire]
  takes_i64 [takes_wire] takes_f64 [takes_wire] takes_boolean(1) [takes_wire] takes_text [takes_wire]
  takes_identity [takes_wire] takes_counter [takes_wire] takes_size [takes_wire]
  takes_optional [takes_wire] takes_vector [takes_wire]

declare
  evidence_provenance_raw.takes_enum [takes_wire]
  freshness_raw.takes_enum [takes_wire]
  failure_domain_class_raw.takes_enum [takes_wire]
  placement_domain_class_raw.takes_enum [takes_wire]
  capacity_domain_class_raw.takes_enum [takes_wire]
  connectivity_class_raw.takes_enum [takes_wire]
  link_direction_raw.takes_enum [takes_wire]
  reachability_raw.takes_enum [takes_wire]
  bandwidth_class_raw.takes_enum [takes_wire]
  latency_class_raw.takes_enum [takes_wire]
  accelerator_vendor_raw.takes_enum [takes_wire]
  health_state_raw.takes_enum [takes_wire]
  constraint_kind_raw.takes_enum [takes_wire]
  cluster_lifecycle_raw.takes_enum [takes_wire]
  rack_membership_state_raw.takes_enum [takes_wire]
  rack_lifecycle_state_raw.takes_enum [takes_wire]
  rack_currentness_raw.takes_enum [takes_wire]
  mutation_kind_raw.takes_enum [takes_wire]
  error_category_raw.takes_enum [takes_wire]
  error_stage_raw.takes_enum [takes_wire]
  mutation_outcome_raw.takes_enum [takes_wire]
  rejection_reason_raw.takes_enum [takes_wire]

subsection \<open>Evidence, errors and explanations\<close>

definition write_evidence_stamp :: "evidence_stamp \<Rightarrow> writer \<Rightarrow> writer" where
  "write_evidence_stamp e =
     seq
      [w_enum evidence_provenance_values (es_provenance e),
       w_i64 (es_observed_at e),
       w_enum freshness_values (es_freshness e),
       w_i64 (es_ttl_millis e)]"

definition read_evidence_stamp :: "string \<Rightarrow> protocol_status + evidence_stamp \<times> string" where
  "read_evidence_stamp s =
     sum_bind (r_enum evidence_provenance_values EP_Reconstructed s) (\<lambda>(provenance, s).
     sum_bind (r_i64 s) (\<lambda>(observed_at, s).
     sum_bind (r_enum freshness_values FR_RevalidationRequired s) (\<lambda>(freshness, s).
     sum_bind (r_i64 s) (\<lambda>(ttl_millis, s).
       Inr (\<lparr>es_provenance = provenance, es_observed_at = observed_at, es_freshness = freshness,
             es_ttl_millis = ttl_millis\<rparr>, s)))))"

definition evidence_stamp_sendable :: "evidence_stamp \<Rightarrow> bool" where
  "evidence_stamp_sendable e \<longleftrightarrow>
     i64_range (es_observed_at e) \<and> i64_range (es_ttl_millis e)"

lemma emits_evidence_stamp: "evidence_stamp_sendable e \<Longrightarrow> emits (write_evidence_stamp e) read_evidence_stamp e"
  unfolding write_evidence_stamp_def read_evidence_stamp_def [abs_def] evidence_stamp_sendable_def seq_steps
  by ((rule emits_bind emits_wire)+ | elim conjE | assumption | rule emits_last | simp)+

lemma takes_evidence_stamp: "takes read_evidence_stamp write_evidence_stamp evidence_stamp_sendable"
  unfolding read_evidence_stamp_def [abs_def]
  by (rule takes_start, (rule takes_step, (rule takes_wire)+)+, rule takes_end)
    (simp_all add: write_evidence_stamp_def seq_steps evidence_stamp_sendable_def)

declare emits_evidence_stamp [emits_wire] takes_evidence_stamp [takes_wire]

record full_error = structured_error +
  se_expected :: string
  se_current :: string
  se_message :: string

definition write_structured_error :: "full_error \<Rightarrow> writer \<Rightarrow> writer" where
  "write_structured_error e =
     seq
      [w_enum error_category_values (se_category e),
       w_enum error_stage_values (se_stage e),
       w_text (se_subject e),
       w_text (se_reason e),
       w_text (se_expected e),
       w_text (se_current e),
       w_text (se_message e)]"

definition read_structured_error :: "string \<Rightarrow> protocol_status + full_error \<times> string" where
  "read_structured_error s =
     sum_bind (r_enum error_category_values EC_Internal s) (\<lambda>(category, s).
     sum_bind (r_enum error_stage_values ES_Shutdown s) (\<lambda>(stage, s).
     sum_bind (r_text s) (\<lambda>(subject, s).
     sum_bind (r_text s) (\<lambda>(reason, s).
     sum_bind (r_text s) (\<lambda>(expected, s).
     sum_bind (r_text s) (\<lambda>(current_value, s).
     sum_bind (r_text s) (\<lambda>(message, s).
       Inr (\<lparr>se_category = category, se_stage = stage, se_subject = subject, se_reason = reason,
             se_expected = expected, se_current = current_value, se_message = message\<rparr>, s))))))))"

lemma emits_structured_error: "emits (write_structured_error e) read_structured_error e"
  unfolding write_structured_error_def read_structured_error_def [abs_def] seq_steps
  by ((rule emits_bind emits_wire)+ | rule emits_last | simp)+

lemma takes_structured_error: "takes read_structured_error write_structured_error (\<lambda>e. True)"
  unfolding read_structured_error_def [abs_def]
  by (rule takes_start, (rule takes_step, (rule takes_wire)+)+, rule takes_end)
    (simp_all add: write_structured_error_def seq_steps)

declare emits_structured_error [emits_wire] takes_structured_error [takes_wire]

definition write_explanation_factor :: "explanation_factor \<Rightarrow> writer \<Rightarrow> writer" where
  "write_explanation_factor f =
     seq
      [w_text (ef_code f),
       w_text (ef_subject f),
       w_text (ef_detail f)]"

definition read_explanation_factor :: "string \<Rightarrow> protocol_status + explanation_factor \<times> string" where
  "read_explanation_factor s =
     sum_bind (r_text s) (\<lambda>(code, s).
     sum_bind (r_text s) (\<lambda>(subject, s).
     sum_bind (r_text s) (\<lambda>(detail, s).
       Inr (\<lparr>ef_code = code, ef_subject = subject, ef_detail = detail\<rparr>, s))))"

lemma emits_explanation_factor: "emits (write_explanation_factor f) read_explanation_factor f"
  unfolding write_explanation_factor_def read_explanation_factor_def [abs_def] seq_steps
  by ((rule emits_bind emits_wire)+ | rule emits_last | simp)+

lemma takes_explanation_factor: "takes read_explanation_factor write_explanation_factor (\<lambda>f. True)"
  unfolding read_explanation_factor_def [abs_def]
  by (rule takes_start, (rule takes_step, (rule takes_wire)+)+, rule takes_end)
    (simp_all add: write_explanation_factor_def seq_steps)

declare emits_explanation_factor [emits_wire] takes_explanation_factor [takes_wire]

lemma hungry_explanation_factor [emits_wire]: "hungry read_explanation_factor"
  unfolding read_explanation_factor_def [abs_def] by (rule hungry_bind) (rule hungry_prims)

definition write_explanation :: "explanation \<Rightarrow> writer \<Rightarrow> writer" where
  "write_explanation e =
     seq
      [w_text (ex_code e),
       w_text (ex_subject e),
       w_text (ex_summary e),
       write_vector kMaxExplanationFactors write_explanation_factor (ex_factors e)]"

definition read_explanation :: "string \<Rightarrow> protocol_status + explanation \<times> string" where
  "read_explanation s =
     sum_bind (r_text s) (\<lambda>(code, s).
     sum_bind (r_text s) (\<lambda>(subject, s).
     sum_bind (r_text s) (\<lambda>(summary, s).
     sum_bind (read_vector kMaxExplanationFactors read_explanation_factor s) (\<lambda>(factors, s).
       Inr (\<lparr>ex_code = code, ex_subject = subject, ex_summary = summary, ex_factors = factors\<rparr>, s)))))"

lemma emits_explanation: "emits (write_explanation e) read_explanation e"
  unfolding write_explanation_def read_explanation_def [abs_def] seq_steps
  by ((rule emits_bind emits_wire)+ | rule emits_last | simp)+

lemma takes_explanation: "takes read_explanation write_explanation (\<lambda>e. True)"
  unfolding read_explanation_def [abs_def]
  by (rule takes_start, (rule takes_step, (rule takes_wire)+)+, rule takes_end)
    (simp_all add: write_explanation_def seq_steps)

declare emits_explanation [emits_wire] takes_explanation [takes_wire]

subsection \<open>Readiness\<close>

definition write_readiness_contract :: "readiness_contract \<Rightarrow> writer \<Rightarrow> writer" where
  "write_readiness_contract c =
     seq
      [write_size (rc_minimum_current_racks c),
       write_vector kMaxRacksPerCluster w_id (rc_mandatory_racks c),
       w_boolean (rc_require_all_active_racks_current c),
       w_boolean (rc_require_connectivity_evidence c),
       write_size (rc_minimum_current_links c),
       write_vector kMaxRequiredPlacementClasses (w_enum placement_domain_class_values) (rc_required_placement_domain_classes c),
       write_vector kMaxRequiredFailureClasses (w_enum failure_domain_class_values) (rc_required_failure_domain_classes c),
       w_boolean (rc_allow_partial c),
       w_boolean (rc_allow_degraded c),
       w_boolean (rc_require_no_conflicts c)]"

definition read_readiness_contract :: "string \<Rightarrow> protocol_status + readiness_contract \<times> string" where
  "read_readiness_contract s =
     sum_bind (read_size s) (\<lambda>(minimum_current_racks, s).
     sum_bind (read_vector kMaxRacksPerCluster read_identity_value s) (\<lambda>(mandatory_racks, s).
     sum_bind (r_boolean s) (\<lambda>(all_current, s).
     sum_bind (r_boolean s) (\<lambda>(connectivity, s).
     sum_bind (read_size s) (\<lambda>(minimum_current_links, s).
     sum_bind (read_vector kMaxRequiredPlacementClasses (r_enum placement_domain_class_values PDC_PolicyClass) s) (\<lambda>(placement, s).
     sum_bind (read_vector kMaxRequiredFailureClasses (r_enum failure_domain_class_values FDC_ControlPlane) s) (\<lambda>(failure, s).
     sum_bind (r_boolean s) (\<lambda>(allow_partial, s).
     sum_bind (r_boolean s) (\<lambda>(allow_degraded, s).
     sum_bind (r_boolean s) (\<lambda>(require_no_conflicts, s).
       Inr (\<lparr>rc_minimum_current_racks = minimum_current_racks, rc_mandatory_racks = mandatory_racks,
             rc_require_all_active_racks_current = all_current,
             rc_require_connectivity_evidence = connectivity,
             rc_minimum_current_links = minimum_current_links,
             rc_required_placement_domain_classes = placement,
             rc_required_failure_domain_classes = failure, rc_allow_partial = allow_partial,
             rc_allow_degraded = allow_degraded, rc_require_no_conflicts = require_no_conflicts\<rparr>, s)))))))))))"

definition readiness_contract_sendable :: "readiness_contract \<Rightarrow> bool" where
  "readiness_contract_sendable c \<longleftrightarrow>
     rc_minimum_current_racks c < 2 ^ 64
     \<and> (\<forall>k \<in> set (rc_mandatory_racks c). valid_id k)
     \<and> rc_minimum_current_links c < 2 ^ 64"

lemma emits_readiness_contract: "readiness_contract_sendable c \<Longrightarrow> emits (write_readiness_contract c) read_readiness_contract c"
  unfolding write_readiness_contract_def read_readiness_contract_def [abs_def] readiness_contract_sendable_def seq_steps
  by ((rule emits_bind emits_wire)+ | elim conjE | assumption | rule emits_last | simp)+

lemma takes_readiness_contract: "takes read_readiness_contract write_readiness_contract readiness_contract_sendable"
  unfolding read_readiness_contract_def [abs_def]
  by (rule takes_start, (rule takes_step, (rule takes_wire)+)+, rule takes_end)
    (simp_all add: write_readiness_contract_def seq_steps readiness_contract_sendable_def)

declare emits_readiness_contract [emits_wire] takes_readiness_contract [takes_wire]

record full_blocker = readiness_blocker +
  rb_detail :: string

definition write_readiness_blocker :: "full_blocker \<Rightarrow> writer \<Rightarrow> writer" where
  "write_readiness_blocker b =
     seq
      [w_text (rb_code b),
       w_text (rb_subject b),
       w_text (rb_detail b)]"

definition read_readiness_blocker :: "string \<Rightarrow> protocol_status + full_blocker \<times> string" where
  "read_readiness_blocker s =
     sum_bind (r_text s) (\<lambda>(code, s).
     sum_bind (r_text s) (\<lambda>(subject, s).
     sum_bind (r_text s) (\<lambda>(detail, s).
       Inr (\<lparr>rb_code = code, rb_subject = subject, rb_detail = detail\<rparr>, s))))"

lemma emits_readiness_blocker: "emits (write_readiness_blocker b) read_readiness_blocker b"
  unfolding write_readiness_blocker_def read_readiness_blocker_def [abs_def] seq_steps
  by ((rule emits_bind emits_wire)+ | rule emits_last | simp)+

lemma takes_readiness_blocker: "takes read_readiness_blocker write_readiness_blocker (\<lambda>b. True)"
  unfolding read_readiness_blocker_def [abs_def]
  by (rule takes_start, (rule takes_step, (rule takes_wire)+)+, rule takes_end)
    (simp_all add: write_readiness_blocker_def seq_steps)

declare emits_readiness_blocker [emits_wire] takes_readiness_blocker [takes_wire]

lemma hungry_readiness_blocker [emits_wire]: "hungry read_readiness_blocker"
  unfolding read_readiness_blocker_def [abs_def] by (rule hungry_bind) (rule hungry_prims)

record full_evaluation =
  fe_satisfied :: bool
  fe_lifecycle :: cluster_lifecycle
  fe_blockers :: "full_blocker list"

definition write_readiness_evaluation :: "full_evaluation \<Rightarrow> writer \<Rightarrow> writer" where
  "write_readiness_evaluation e =
     seq
      [w_boolean (fe_satisfied e),
       w_enum cluster_lifecycle_values (fe_lifecycle e),
       write_vector kMaxDecodedRecords write_readiness_blocker (fe_blockers e)]"

definition read_readiness_evaluation :: "string \<Rightarrow> protocol_status + full_evaluation \<times> string" where
  "read_readiness_evaluation s =
     sum_bind (r_boolean s) (\<lambda>(satisfied, s).
     sum_bind (r_enum cluster_lifecycle_values CL_Retired s) (\<lambda>(lifecycle, s).
     sum_bind (read_vector kMaxDecodedRecords read_readiness_blocker s) (\<lambda>(blockers, s).
       Inr (\<lparr>fe_satisfied = satisfied, fe_lifecycle = lifecycle, fe_blockers = blockers\<rparr>, s))))"

lemma emits_readiness_evaluation: "emits (write_readiness_evaluation e) read_readiness_evaluation e"
  unfolding write_readiness_evaluation_def read_readiness_evaluation_def [abs_def] seq_steps
  by ((rule emits_bind emits_wire)+ | rule emits_last | simp)+

lemma takes_readiness_evaluation: "takes read_readiness_evaluation write_readiness_evaluation (\<lambda>e. True)"
  unfolding read_readiness_evaluation_def [abs_def]
  by (rule takes_start, (rule takes_step, (rule takes_wire)+)+, rule takes_end)
    (simp_all add: write_readiness_evaluation_def seq_steps)

declare emits_readiness_evaluation [emits_wire] takes_readiness_evaluation [takes_wire]

subsection \<open>Domains\<close>

definition write_domain_header :: "domain_header \<Rightarrow> writer \<Rightarrow> writer" where
  "write_domain_header h =
     seq
      [write_evidence_stamp (dh_evidence h),
       write_counter (dh_generation h),
       w_optional w_id (dh_publisher h),
       write_counter (dh_cluster_epoch h),
       write_counter (dh_coordinator_epoch h),
       w_text (dh_label h)]"

definition read_domain_header :: "string \<Rightarrow> protocol_status + domain_header \<times> string" where
  "read_domain_header s =
     sum_bind (read_evidence_stamp s) (\<lambda>(evidence, s).
     sum_bind (read_counter s) (\<lambda>(generation, s).
     sum_bind (r_optional read_identity_value s) (\<lambda>(publisher, s).
     sum_bind (read_counter s) (\<lambda>(cluster_epoch, s).
     sum_bind (read_counter s) (\<lambda>(coordinator_epoch, s).
     sum_bind (r_text s) (\<lambda>(label, s).
       Inr (\<lparr>dh_evidence = evidence, dh_generation = generation, dh_publisher = publisher,
             dh_cluster_epoch = cluster_epoch, dh_coordinator_epoch = coordinator_epoch,
             dh_label = label\<rparr>, s)))))))"

definition domain_header_sendable :: "domain_header \<Rightarrow> bool" where
  "domain_header_sendable h \<longleftrightarrow>
     evidence_stamp_sendable (dh_evidence h)
     \<and> (\<forall>k. dh_publisher h = Some k \<longrightarrow> valid_id k)"

lemma emits_domain_header: "domain_header_sendable h \<Longrightarrow> emits (write_domain_header h) read_domain_header h"
  unfolding write_domain_header_def read_domain_header_def [abs_def] domain_header_sendable_def seq_steps
  by ((rule emits_bind emits_wire)+ | elim conjE | assumption | rule emits_last | simp)+

lemma takes_domain_header: "takes read_domain_header write_domain_header domain_header_sendable"
  unfolding read_domain_header_def [abs_def]
  by (rule takes_start, (rule takes_step, (rule takes_wire)+)+, rule takes_end)
    (simp_all add: write_domain_header_def seq_steps domain_header_sendable_def)

declare emits_domain_header [emits_wire] takes_domain_header [takes_wire]

definition write_placement_domain_wire :: "placement_domain \<Rightarrow> writer \<Rightarrow> writer" where
  "write_placement_domain_wire d =
     seq
      [w_id (dm_id d),
       w_enum placement_domain_class_values (dm_body d),
       write_vector kMaxDomainMembers w_id (dm_racks d),
       write_domain_header (dm_header d)]"

definition read_placement_domain_wire :: "string \<Rightarrow> protocol_status + placement_domain \<times> string" where
  "read_placement_domain_wire s =
     sum_bind (read_identity_value s) (\<lambda>(i, s).
     sum_bind (r_enum placement_domain_class_values PDC_PolicyClass s) (\<lambda>(klass, s).
     sum_bind (read_vector kMaxDomainMembers read_identity_value s) (\<lambda>(racks, s).
     sum_bind (read_domain_header s) (\<lambda>(header, s).
       Inr (\<lparr>dm_id = i, dm_body = klass, dm_racks = racks, dm_header = header\<rparr>, s)))))"

definition placement_domain_sendable :: "placement_domain \<Rightarrow> bool" where
  "placement_domain_sendable d \<longleftrightarrow>
     valid_id (dm_id d) \<and> (\<forall>k \<in> set (dm_racks d). valid_id k)
     \<and> domain_header_sendable (dm_header d)"

lemma emits_placement_domain_wire: "placement_domain_sendable d \<Longrightarrow> emits (write_placement_domain_wire d) read_placement_domain_wire d"
  unfolding write_placement_domain_wire_def read_placement_domain_wire_def [abs_def] placement_domain_sendable_def seq_steps
  by ((rule emits_bind emits_wire)+ | elim conjE | assumption | rule emits_last | simp)+

lemma takes_placement_domain_wire: "takes read_placement_domain_wire write_placement_domain_wire placement_domain_sendable"
  unfolding read_placement_domain_wire_def [abs_def]
  by (rule takes_start, (rule takes_step, (rule takes_wire)+)+, rule takes_end)
    (simp_all add: write_placement_domain_wire_def seq_steps placement_domain_sendable_def)

declare emits_placement_domain_wire [emits_wire] takes_placement_domain_wire [takes_wire]

definition write_capacity_quantity :: "capacity_quantity \<Rightarrow> writer \<Rightarrow> writer" where
  "write_capacity_quantity q =
     seq
      [w_text (cq_unit q),
       w_optional w_f64 (cq_value q),
       w_enum evidence_provenance_values (cq_provenance q),
       w_boolean (cq_aggregated q)]"

definition read_capacity_quantity :: "string \<Rightarrow> protocol_status + capacity_quantity \<times> string" where
  "read_capacity_quantity s =
     sum_bind (r_text s) (\<lambda>(unit, s).
     sum_bind (r_optional r_f64 s) (\<lambda>(v, s).
     sum_bind (r_enum evidence_provenance_values EP_Reconstructed s) (\<lambda>(provenance, s).
     sum_bind (r_boolean s) (\<lambda>(aggregated, s).
       Inr (\<lparr>cq_unit = unit, cq_value = v, cq_provenance = provenance, cq_aggregated = aggregated\<rparr>, s)))))"

lemma emits_capacity_quantity: "emits (write_capacity_quantity q) read_capacity_quantity q"
  unfolding write_capacity_quantity_def read_capacity_quantity_def [abs_def] seq_steps
  by ((rule emits_bind emits_wire)+ | rule emits_last | simp)+

lemma takes_capacity_quantity: "takes read_capacity_quantity write_capacity_quantity (\<lambda>q. True)"
  unfolding read_capacity_quantity_def [abs_def]
  by (rule takes_start, (rule takes_step, (rule takes_wire)+)+, rule takes_end)
    (simp_all add: write_capacity_quantity_def seq_steps)

declare emits_capacity_quantity [emits_wire] takes_capacity_quantity [takes_wire]

lemma hungry_capacity_quantity [emits_wire]: "hungry read_capacity_quantity"
  unfolding read_capacity_quantity_def [abs_def] by (rule hungry_bind) (rule hungry_prims)

definition write_capacity_domain_wire :: "capacity_domain \<Rightarrow> writer \<Rightarrow> writer" where
  "write_capacity_domain_wire d =
     seq
      [w_id (dm_id d),
       w_enum capacity_domain_class_values (cb_klass (dm_body d)),
       write_vector kMaxDomainMembers w_id (dm_racks d),
       write_vector kMaxCapacityQuantities write_capacity_quantity (cb_quantities (dm_body d)),
       write_domain_header (dm_header d)]"

definition read_capacity_domain_wire :: "string \<Rightarrow> protocol_status + capacity_domain \<times> string" where
  "read_capacity_domain_wire s =
     sum_bind (read_identity_value s) (\<lambda>(i, s).
     sum_bind (r_enum capacity_domain_class_values CDC_StorageDomain s) (\<lambda>(klass, s).
     sum_bind (read_vector kMaxDomainMembers read_identity_value s) (\<lambda>(racks, s).
     sum_bind (read_vector kMaxCapacityQuantities read_capacity_quantity s) (\<lambda>(quantities, s).
     sum_bind (read_domain_header s) (\<lambda>(header, s).
       Inr (\<lparr>dm_id = i, dm_body = \<lparr>cb_klass = klass, cb_quantities = quantities\<rparr>, dm_racks = racks,
             dm_header = header\<rparr>, s))))))"

definition capacity_domain_sendable :: "capacity_domain \<Rightarrow> bool" where
  "capacity_domain_sendable d \<longleftrightarrow>
     valid_id (dm_id d) \<and> (\<forall>k \<in> set (dm_racks d). valid_id k)
     \<and> domain_header_sendable (dm_header d)"

lemma emits_capacity_domain_wire: "capacity_domain_sendable d \<Longrightarrow> emits (write_capacity_domain_wire d) read_capacity_domain_wire d"
  unfolding write_capacity_domain_wire_def read_capacity_domain_wire_def [abs_def] capacity_domain_sendable_def seq_steps
  by ((rule emits_bind emits_wire)+ | elim conjE | assumption | rule emits_last | simp)+

lemma takes_capacity_domain_wire: "takes read_capacity_domain_wire write_capacity_domain_wire capacity_domain_sendable"
  unfolding read_capacity_domain_wire_def [abs_def]
  by (rule takes_start, (rule takes_step, (rule takes_wire)+)+, rule takes_end)
    (simp_all add: write_capacity_domain_wire_def seq_steps capacity_domain_sendable_def)

declare emits_capacity_domain_wire [emits_wire] takes_capacity_domain_wire [takes_wire]

definition write_failure_domain_wire :: "failure_domain \<Rightarrow> writer \<Rightarrow> writer" where
  "write_failure_domain_wire d =
     seq
      [w_id (dm_id d),
       w_enum failure_domain_class_values (dm_body d),
       write_vector kMaxDomainMembers w_id (dm_racks d),
       write_domain_header (dm_header d)]"

definition read_failure_domain_wire :: "string \<Rightarrow> protocol_status + failure_domain \<times> string" where
  "read_failure_domain_wire s =
     sum_bind (read_identity_value s) (\<lambda>(i, s).
     sum_bind (r_enum failure_domain_class_values FDC_ControlPlane s) (\<lambda>(klass, s).
     sum_bind (read_vector kMaxDomainMembers read_identity_value s) (\<lambda>(racks, s).
     sum_bind (read_domain_header s) (\<lambda>(header, s).
       Inr (\<lparr>dm_id = i, dm_body = klass, dm_racks = racks, dm_header = header\<rparr>, s)))))"

definition failure_domain_sendable :: "failure_domain \<Rightarrow> bool" where
  "failure_domain_sendable d \<longleftrightarrow>
     valid_id (dm_id d) \<and> (\<forall>k \<in> set (dm_racks d). valid_id k)
     \<and> domain_header_sendable (dm_header d)"

lemma emits_failure_domain_wire: "failure_domain_sendable d \<Longrightarrow> emits (write_failure_domain_wire d) read_failure_domain_wire d"
  unfolding write_failure_domain_wire_def read_failure_domain_wire_def [abs_def] failure_domain_sendable_def seq_steps
  by ((rule emits_bind emits_wire)+ | elim conjE | assumption | rule emits_last | simp)+

lemma takes_failure_domain_wire: "takes read_failure_domain_wire write_failure_domain_wire failure_domain_sendable"
  unfolding read_failure_domain_wire_def [abs_def]
  by (rule takes_start, (rule takes_step, (rule takes_wire)+)+, rule takes_end)
    (simp_all add: write_failure_domain_wire_def seq_steps failure_domain_sendable_def)

declare emits_failure_domain_wire [emits_wire] takes_failure_domain_wire [takes_wire]

definition write_network_domain_wire :: "network_domain \<Rightarrow> writer \<Rightarrow> writer" where
  "write_network_domain_wire d =
     seq
      [w_id (dm_id d),
       w_enum connectivity_class_values (dm_body d),
       write_vector kMaxDomainMembers w_id (dm_racks d),
       write_domain_header (dm_header d)]"

definition read_network_domain_wire :: "string \<Rightarrow> protocol_status + network_domain \<times> string" where
  "read_network_domain_wire s =
     sum_bind (read_identity_value s) (\<lambda>(i, s).
     sum_bind (r_enum connectivity_class_values CC_ManagementOnly s) (\<lambda>(klass, s).
     sum_bind (read_vector kMaxDomainMembers read_identity_value s) (\<lambda>(racks, s).
     sum_bind (read_domain_header s) (\<lambda>(header, s).
       Inr (\<lparr>dm_id = i, dm_body = klass, dm_racks = racks, dm_header = header\<rparr>, s)))))"

definition network_domain_sendable :: "network_domain \<Rightarrow> bool" where
  "network_domain_sendable d \<longleftrightarrow>
     valid_id (dm_id d) \<and> (\<forall>k \<in> set (dm_racks d). valid_id k)
     \<and> domain_header_sendable (dm_header d)"

lemma emits_network_domain_wire: "network_domain_sendable d \<Longrightarrow> emits (write_network_domain_wire d) read_network_domain_wire d"
  unfolding write_network_domain_wire_def read_network_domain_wire_def [abs_def] network_domain_sendable_def seq_steps
  by ((rule emits_bind emits_wire)+ | elim conjE | assumption | rule emits_last | simp)+

lemma takes_network_domain_wire: "takes read_network_domain_wire write_network_domain_wire network_domain_sendable"
  unfolding read_network_domain_wire_def [abs_def]
  by (rule takes_start, (rule takes_step, (rule takes_wire)+)+, rule takes_end)
    (simp_all add: write_network_domain_wire_def seq_steps network_domain_sendable_def)

declare emits_network_domain_wire [emits_wire] takes_network_domain_wire [takes_wire]

definition write_storage_domain_wire :: "storage_domain \<Rightarrow> writer \<Rightarrow> writer" where
  "write_storage_domain_wire d =
     seq
      [w_id (dm_id d),
       write_vector kMaxDomainMembers w_id (dm_racks d),
       write_domain_header (dm_header d)]"

definition read_storage_domain_wire :: "string \<Rightarrow> protocol_status + storage_domain \<times> string" where
  "read_storage_domain_wire s =
     sum_bind (read_identity_value s) (\<lambda>(i, s).
     sum_bind (read_vector kMaxDomainMembers read_identity_value s) (\<lambda>(racks, s).
     sum_bind (read_domain_header s) (\<lambda>(header, s).
       Inr (\<lparr>dm_id = i, dm_body = (), dm_racks = racks, dm_header = header\<rparr>, s))))"

definition storage_domain_sendable :: "storage_domain \<Rightarrow> bool" where
  "storage_domain_sendable d \<longleftrightarrow>
     valid_id (dm_id d) \<and> (\<forall>k \<in> set (dm_racks d). valid_id k)
     \<and> domain_header_sendable (dm_header d)"

lemma emits_storage_domain_wire: "storage_domain_sendable d \<Longrightarrow> emits (write_storage_domain_wire d) read_storage_domain_wire d"
  unfolding write_storage_domain_wire_def read_storage_domain_wire_def [abs_def] storage_domain_sendable_def seq_steps
  by ((rule emits_bind emits_wire)+ | elim conjE | assumption | rule emits_last | simp)+

lemma takes_storage_domain_wire: "takes read_storage_domain_wire write_storage_domain_wire storage_domain_sendable"
  unfolding read_storage_domain_wire_def [abs_def]
  by (rule takes_start, (rule takes_step, (rule takes_wire)+)+, rule takes_end)
    (simp_all add: write_storage_domain_wire_def seq_steps storage_domain_sendable_def)

declare emits_storage_domain_wire [emits_wire] takes_storage_domain_wire [takes_wire]

definition write_power_domain_wire :: "power_domain \<Rightarrow> writer \<Rightarrow> writer" where
  "write_power_domain_wire d =
     seq
      [w_id (dm_id d),
       write_vector kMaxDomainMembers w_id (dm_racks d),
       w_optional w_id (dm_body d),
       write_domain_header (dm_header d)]"

definition read_power_domain_wire :: "string \<Rightarrow> protocol_status + power_domain \<times> string" where
  "read_power_domain_wire s =
     sum_bind (read_identity_value s) (\<lambda>(i, s).
     sum_bind (read_vector kMaxDomainMembers read_identity_value s) (\<lambda>(racks, s).
     sum_bind (r_optional read_identity_value s) (\<lambda>(parent, s).
     sum_bind (read_domain_header s) (\<lambda>(header, s).
       Inr (\<lparr>dm_id = i, dm_body = parent, dm_racks = racks, dm_header = header\<rparr>, s)))))"

definition power_domain_sendable :: "power_domain \<Rightarrow> bool" where
  "power_domain_sendable d \<longleftrightarrow>
     valid_id (dm_id d) \<and> (\<forall>k \<in> set (dm_racks d). valid_id k)
     \<and> (\<forall>k. dm_body d = Some k \<longrightarrow> valid_id k)
     \<and> domain_header_sendable (dm_header d)"

lemma emits_power_domain_wire: "power_domain_sendable d \<Longrightarrow> emits (write_power_domain_wire d) read_power_domain_wire d"
  unfolding write_power_domain_wire_def read_power_domain_wire_def [abs_def] power_domain_sendable_def seq_steps
  by ((rule emits_bind emits_wire)+ | elim conjE | assumption | rule emits_last | simp)+

lemma takes_power_domain_wire: "takes read_power_domain_wire write_power_domain_wire power_domain_sendable"
  unfolding read_power_domain_wire_def [abs_def]
  by (rule takes_start, (rule takes_step, (rule takes_wire)+)+, rule takes_end)
    (simp_all add: write_power_domain_wire_def seq_steps power_domain_sendable_def)

declare emits_power_domain_wire [emits_wire] takes_power_domain_wire [takes_wire]

definition write_cooling_domain_wire :: "cooling_domain \<Rightarrow> writer \<Rightarrow> writer" where
  "write_cooling_domain_wire d =
     seq
      [w_id (dm_id d),
       write_vector kMaxDomainMembers w_id (dm_racks d),
       w_optional w_id (dm_body d),
       write_domain_header (dm_header d)]"

definition read_cooling_domain_wire :: "string \<Rightarrow> protocol_status + cooling_domain \<times> string" where
  "read_cooling_domain_wire s =
     sum_bind (read_identity_value s) (\<lambda>(i, s).
     sum_bind (read_vector kMaxDomainMembers read_identity_value s) (\<lambda>(racks, s).
     sum_bind (r_optional read_identity_value s) (\<lambda>(parent, s).
     sum_bind (read_domain_header s) (\<lambda>(header, s).
       Inr (\<lparr>dm_id = i, dm_body = parent, dm_racks = racks, dm_header = header\<rparr>, s)))))"

definition cooling_domain_sendable :: "cooling_domain \<Rightarrow> bool" where
  "cooling_domain_sendable d \<longleftrightarrow>
     valid_id (dm_id d) \<and> (\<forall>k \<in> set (dm_racks d). valid_id k)
     \<and> (\<forall>k. dm_body d = Some k \<longrightarrow> valid_id k)
     \<and> domain_header_sendable (dm_header d)"

lemma emits_cooling_domain_wire: "cooling_domain_sendable d \<Longrightarrow> emits (write_cooling_domain_wire d) read_cooling_domain_wire d"
  unfolding write_cooling_domain_wire_def read_cooling_domain_wire_def [abs_def] cooling_domain_sendable_def seq_steps
  by ((rule emits_bind emits_wire)+ | elim conjE | assumption | rule emits_last | simp)+

lemma takes_cooling_domain_wire: "takes read_cooling_domain_wire write_cooling_domain_wire cooling_domain_sendable"
  unfolding read_cooling_domain_wire_def [abs_def]
  by (rule takes_start, (rule takes_step, (rule takes_wire)+)+, rule takes_end)
    (simp_all add: write_cooling_domain_wire_def seq_steps cooling_domain_sendable_def)

declare emits_cooling_domain_wire [emits_wire] takes_cooling_domain_wire [takes_wire]

definition write_link_domain_wire :: "link_domain \<Rightarrow> writer \<Rightarrow> writer" where
  "write_link_domain_wire d =
     seq
      [w_id (dm_id d),
       write_vector kMaxDomainMembers w_id (dm_racks d),
       write_domain_header (dm_header d)]"

definition read_link_domain_wire :: "string \<Rightarrow> protocol_status + link_domain \<times> string" where
  "read_link_domain_wire s =
     sum_bind (read_identity_value s) (\<lambda>(i, s).
     sum_bind (read_vector kMaxDomainMembers read_identity_value s) (\<lambda>(racks, s).
     sum_bind (read_domain_header s) (\<lambda>(header, s).
       Inr (\<lparr>dm_id = i, dm_body = (), dm_racks = racks, dm_header = header\<rparr>, s))))"

definition link_domain_sendable :: "link_domain \<Rightarrow> bool" where
  "link_domain_sendable d \<longleftrightarrow>
     valid_id (dm_id d) \<and> (\<forall>k \<in> set (dm_racks d). valid_id k)
     \<and> domain_header_sendable (dm_header d)"

lemma emits_link_domain_wire: "link_domain_sendable d \<Longrightarrow> emits (write_link_domain_wire d) read_link_domain_wire d"
  unfolding write_link_domain_wire_def read_link_domain_wire_def [abs_def] link_domain_sendable_def seq_steps
  by ((rule emits_bind emits_wire)+ | elim conjE | assumption | rule emits_last | simp)+

lemma takes_link_domain_wire: "takes read_link_domain_wire write_link_domain_wire link_domain_sendable"
  unfolding read_link_domain_wire_def [abs_def]
  by (rule takes_start, (rule takes_step, (rule takes_wire)+)+, rule takes_end)
    (simp_all add: write_link_domain_wire_def seq_steps link_domain_sendable_def)

declare emits_link_domain_wire [emits_wire] takes_link_domain_wire [takes_wire]

definition write_constraint_wire :: "cluster_constraint \<Rightarrow> writer \<Rightarrow> writer" where
  "write_constraint_wire c =
     seq
      [w_id (cn_id c),
       w_enum constraint_kind_values (cn_kind c),
       write_vector kMaxDomainMembers w_id (cn_racks c),
       w_text (cn_domain_ref c),
       w_text (cn_statement c),
       write_domain_header (cn_header c)]"

definition read_constraint_wire :: "string \<Rightarrow> protocol_status + cluster_constraint \<times> string" where
  "read_constraint_wire s =
     sum_bind (read_identity_value s) (\<lambda>(i, s).
     sum_bind (r_enum constraint_kind_values CK_MaintenanceWindow s) (\<lambda>(kind, s).
     sum_bind (read_vector kMaxDomainMembers read_identity_value s) (\<lambda>(racks, s).
     sum_bind (r_text s) (\<lambda>(domain_ref, s).
     sum_bind (r_text s) (\<lambda>(stmt, s).
     sum_bind (read_domain_header s) (\<lambda>(header, s).
       Inr (\<lparr>cn_id = i, cn_kind = kind, cn_racks = racks, cn_domain_ref = domain_ref,
             cn_statement = stmt, cn_header = header\<rparr>, s)))))))"

definition constraint_sendable :: "cluster_constraint \<Rightarrow> bool" where
  "constraint_sendable c \<longleftrightarrow>
     valid_id (cn_id c) \<and> (\<forall>k \<in> set (cn_racks c). valid_id k)
     \<and> domain_header_sendable (cn_header c)"

lemma emits_constraint_wire: "constraint_sendable c \<Longrightarrow> emits (write_constraint_wire c) read_constraint_wire c"
  unfolding write_constraint_wire_def read_constraint_wire_def [abs_def] constraint_sendable_def seq_steps
  by ((rule emits_bind emits_wire)+ | elim conjE | assumption | rule emits_last | simp)+

lemma takes_constraint_wire: "takes read_constraint_wire write_constraint_wire constraint_sendable"
  unfolding read_constraint_wire_def [abs_def]
  by (rule takes_start, (rule takes_step, (rule takes_wire)+)+, rule takes_end)
    (simp_all add: write_constraint_wire_def seq_steps constraint_sendable_def)

declare emits_constraint_wire [emits_wire] takes_constraint_wire [takes_wire]

subsection \<open>Topology\<close>

definition write_topology_record :: "topology_epoch_record \<Rightarrow> writer \<Rightarrow> writer" where
  "write_topology_record t =
     seq
      [write_counter (te_epoch t),
       write_counter (te_generation t),
       w_i64 (te_established_at t),
       write_evidence_stamp (te_evidence t),
       w_text (te_reason t)]"

definition read_topology_record :: "string \<Rightarrow> protocol_status + topology_epoch_record \<times> string" where
  "read_topology_record s =
     sum_bind (read_counter s) (\<lambda>(epoch, s).
     sum_bind (read_counter s) (\<lambda>(generation, s).
     sum_bind (r_i64 s) (\<lambda>(established_at, s).
     sum_bind (read_evidence_stamp s) (\<lambda>(evidence, s).
     sum_bind (r_text s) (\<lambda>(reason, s).
       Inr (\<lparr>te_epoch = epoch, te_generation = generation, te_established_at = established_at,
             te_evidence = evidence, te_reason = reason\<rparr>, s))))))"

definition topology_record_sendable :: "topology_epoch_record \<Rightarrow> bool" where
  "topology_record_sendable t \<longleftrightarrow>
     i64_range (te_established_at t) \<and> evidence_stamp_sendable (te_evidence t)"

lemma emits_topology_record: "topology_record_sendable t \<Longrightarrow> emits (write_topology_record t) read_topology_record t"
  unfolding write_topology_record_def read_topology_record_def [abs_def] topology_record_sendable_def seq_steps
  by ((rule emits_bind emits_wire)+ | elim conjE | assumption | rule emits_last | simp)+

lemma takes_topology_record: "takes read_topology_record write_topology_record topology_record_sendable"
  unfolding read_topology_record_def [abs_def]
  by (rule takes_start, (rule takes_step, (rule takes_wire)+)+, rule takes_end)
    (simp_all add: write_topology_record_def seq_steps topology_record_sendable_def)

declare emits_topology_record [emits_wire] takes_topology_record [takes_wire]

definition write_inter_rack_link :: "inter_rack_link \<Rightarrow> writer \<Rightarrow> writer" where
  "write_inter_rack_link l =
     seq
      [w_id (lk_id l),
       w_id (lk_source l),
       w_id (lk_destination l),
       w_enum link_direction_values (lk_direction l),
       w_enum connectivity_class_values (lk_connectivity l),
       w_optional w_id (lk_network_domain l),
       w_optional w_id (lk_link_domain l),
       w_optional w_id (lk_source_endpoint l),
       w_optional w_id (lk_destination_endpoint l),
       w_enum bandwidth_class_values (lk_bandwidth_class l),
       w_optional w_u64 (lk_nominal_bandwidth_bps l),
       w_enum latency_class_values (lk_latency_class l),
       w_optional w_u64 (lk_nominal_latency_nanos l),
       w_optional w_u32 (lk_hop_count l),
       w_enum reachability_values (lk_reachability l),
       w_enum health_state_values (lk_health l),
       write_vector kMaxFailureDomainRefs w_id (lk_failure_domains l),
       write_domain_header (lk_header l),
       write_counter (lk_topology_epoch l),
       write_counter (lk_topology_generation l),
       write_counter (lk_publication l),
       w_optional w_id (lk_boot l)]"

definition read_inter_rack_link :: "string \<Rightarrow> protocol_status + inter_rack_link \<times> string" where
  "read_inter_rack_link s =
     sum_bind (read_identity_value s) (\<lambda>(i, s).
     sum_bind (read_identity_value s) (\<lambda>(source, s).
     sum_bind (read_identity_value s) (\<lambda>(destination, s).
     sum_bind (r_enum link_direction_values LD_Bidirectional s) (\<lambda>(direction, s).
     sum_bind (r_enum connectivity_class_values CC_ManagementOnly s) (\<lambda>(connectivity, s).
     sum_bind (r_optional read_identity_value s) (\<lambda>(network_domain, s).
     sum_bind (r_optional read_identity_value s) (\<lambda>(link_domain, s).
     sum_bind (r_optional read_identity_value s) (\<lambda>(source_endpoint, s).
     sum_bind (r_optional read_identity_value s) (\<lambda>(destination_endpoint, s).
     sum_bind (r_enum bandwidth_class_values BW_VeryHigh s) (\<lambda>(bandwidth_class, s).
     sum_bind (r_optional r_u64 s) (\<lambda>(bandwidth, s).
     sum_bind (r_enum latency_class_values LT_High s) (\<lambda>(latency_class, s).
     sum_bind (r_optional r_u64 s) (\<lambda>(latency, s).
     sum_bind (r_optional r_u32 s) (\<lambda>(hop_count, s).
     sum_bind (r_enum reachability_values RB_RevalidationRequired s) (\<lambda>(reachability, s).
     sum_bind (r_enum health_state_values HS_Unhealthy s) (\<lambda>(health, s).
     sum_bind (read_vector kMaxFailureDomainRefs read_identity_value s) (\<lambda>(failure_domains, s).
     sum_bind (read_domain_header s) (\<lambda>(header, s).
     sum_bind (read_counter s) (\<lambda>(topology_epoch, s).
     sum_bind (read_counter s) (\<lambda>(topology_generation, s).
     sum_bind (read_counter s) (\<lambda>(publication, s).
     sum_bind (r_optional read_identity_value s) (\<lambda>(boot, s).
       Inr (\<lparr>lk_id = i, lk_source = source, lk_destination = destination, lk_direction = direction,
             lk_connectivity = connectivity, lk_network_domain = network_domain,
             lk_link_domain = link_domain, lk_source_endpoint = source_endpoint,
             lk_destination_endpoint = destination_endpoint, lk_bandwidth_class = bandwidth_class,
             lk_nominal_bandwidth_bps = bandwidth, lk_latency_class = latency_class,
             lk_nominal_latency_nanos = latency, lk_hop_count = hop_count,
             lk_reachability = reachability, lk_health = health, lk_failure_domains = failure_domains,
             lk_header = header, lk_topology_epoch = topology_epoch,
             lk_topology_generation = topology_generation, lk_publication = publication,
             lk_boot = boot\<rparr>, s)))))))))))))))))))))))"

definition inter_rack_link_sendable :: "inter_rack_link \<Rightarrow> bool" where
  "inter_rack_link_sendable l \<longleftrightarrow>
     valid_id (lk_id l) \<and> valid_id (lk_source l) \<and> valid_id (lk_destination l)
     \<and> (\<forall>k. lk_network_domain l = Some k \<longrightarrow> valid_id k)
     \<and> (\<forall>k. lk_link_domain l = Some k \<longrightarrow> valid_id k)
     \<and> (\<forall>k. lk_source_endpoint l = Some k \<longrightarrow> valid_id k)
     \<and> (\<forall>k. lk_destination_endpoint l = Some k \<longrightarrow> valid_id k)
     \<and> (\<forall>k \<in> set (lk_failure_domains l). valid_id k)
     \<and> domain_header_sendable (lk_header l)
     \<and> (\<forall>k. lk_boot l = Some k \<longrightarrow> valid_id k)"

lemma emits_inter_rack_link: "inter_rack_link_sendable l \<Longrightarrow> emits (write_inter_rack_link l) read_inter_rack_link l"
  unfolding write_inter_rack_link_def read_inter_rack_link_def [abs_def] inter_rack_link_sendable_def seq_steps
  by ((rule emits_bind emits_wire)+ | elim conjE | assumption | rule emits_last | simp)+

lemma takes_inter_rack_link: "takes read_inter_rack_link write_inter_rack_link inter_rack_link_sendable"
  unfolding read_inter_rack_link_def [abs_def]
  by (rule takes_start, (rule takes_step, (rule takes_wire)+)+, rule takes_end)
    (simp_all add: write_inter_rack_link_def seq_steps inter_rack_link_sendable_def)

declare emits_inter_rack_link [emits_wire] takes_inter_rack_link [takes_wire]

subsection \<open>Rack references\<close>

definition write_accelerator_summary :: "accelerator_class_summary \<Rightarrow> writer \<Rightarrow> writer" where
  "write_accelerator_summary a =
     seq
      [w_enum accelerator_vendor_values (ac_vendor a),
       w_text (ac_family a),
       w_optional w_u32 (ac_device_count a),
       w_optional w_u64 (ac_device_memory_bytes a)]"

definition read_accelerator_summary :: "string \<Rightarrow> protocol_status + accelerator_class_summary \<times> string" where
  "read_accelerator_summary s =
     sum_bind (r_enum accelerator_vendor_values AV_Other s) (\<lambda>(vendor, s).
     sum_bind (r_text s) (\<lambda>(family, s).
     sum_bind (r_optional r_u32 s) (\<lambda>(device_count, s).
     sum_bind (r_optional r_u64 s) (\<lambda>(device_memory_bytes, s).
       Inr (\<lparr>ac_vendor = vendor, ac_family = family, ac_device_count = device_count,
             ac_device_memory_bytes = device_memory_bytes\<rparr>, s)))))"

lemma emits_accelerator_summary: "emits (write_accelerator_summary a) read_accelerator_summary a"
  unfolding write_accelerator_summary_def read_accelerator_summary_def [abs_def] seq_steps
  by ((rule emits_bind emits_wire)+ | rule emits_last | simp)+

lemma takes_accelerator_summary: "takes read_accelerator_summary write_accelerator_summary (\<lambda>a. True)"
  unfolding read_accelerator_summary_def [abs_def]
  by (rule takes_start, (rule takes_step, (rule takes_wire)+)+, rule takes_end)
    (simp_all add: write_accelerator_summary_def seq_steps)

declare emits_accelerator_summary [emits_wire] takes_accelerator_summary [takes_wire]

lemma hungry_accelerator_summary [emits_wire]: "hungry read_accelerator_summary"
  unfolding read_accelerator_summary_def [abs_def] by (rule hungry_bind) (rule hungry_prims)

definition write_composition_wire :: "rack_composition_summary \<Rightarrow> writer \<Rightarrow> writer" where
  "write_composition_wire c =
     seq
      [write_vector kMaxAcceleratorClasses write_accelerator_summary (cm_accelerators c),
       w_optional w_u32 (cm_cpu_sockets c),
       w_optional w_u32 (cm_cpu_cores c),
       w_optional w_u64 (cm_host_memory_bytes c),
       w_optional w_u32 (cm_nic_count c),
       w_optional w_u32 (cm_switch_count c),
       w_text (cm_composition_label c),
       w_enum evidence_provenance_values (cm_provenance c)]"

definition read_composition_wire :: "string \<Rightarrow> protocol_status + rack_composition_summary \<times> string" where
  "read_composition_wire s =
     sum_bind (read_vector kMaxAcceleratorClasses read_accelerator_summary s) (\<lambda>(accelerators, s).
     sum_bind (r_optional r_u32 s) (\<lambda>(cpu_sockets, s).
     sum_bind (r_optional r_u32 s) (\<lambda>(cpu_cores, s).
     sum_bind (r_optional r_u64 s) (\<lambda>(host_memory_bytes, s).
     sum_bind (r_optional r_u32 s) (\<lambda>(nic_count, s).
     sum_bind (r_optional r_u32 s) (\<lambda>(switch_count, s).
     sum_bind (r_text s) (\<lambda>(composition_label, s).
     sum_bind (r_enum evidence_provenance_values EP_Reconstructed s) (\<lambda>(provenance, s).
       Inr (\<lparr>cm_accelerators = accelerators, cm_cpu_sockets = cpu_sockets, cm_cpu_cores = cpu_cores,
             cm_host_memory_bytes = host_memory_bytes, cm_nic_count = nic_count,
             cm_switch_count = switch_count, cm_composition_label = composition_label,
             cm_provenance = provenance\<rparr>, s)))))))))"

lemma emits_composition_wire: "emits (write_composition_wire c) read_composition_wire c"
  unfolding write_composition_wire_def read_composition_wire_def [abs_def] seq_steps
  by ((rule emits_bind emits_wire)+ | rule emits_last | simp)+

lemma takes_composition_wire: "takes read_composition_wire write_composition_wire (\<lambda>c. True)"
  unfolding read_composition_wire_def [abs_def]
  by (rule takes_start, (rule takes_step, (rule takes_wire)+)+, rule takes_end)
    (simp_all add: write_composition_wire_def seq_steps)

declare emits_composition_wire [emits_wire] takes_composition_wire [takes_wire]

definition write_rack_endpoint :: "rack_endpoint \<Rightarrow> writer \<Rightarrow> writer" where
  "write_rack_endpoint e =
     seq
      [w_id (ep_id e),
       w_optional w_id (ep_network_domain e),
       w_optional w_id (ep_link_domain e),
       w_enum connectivity_class_values (ep_connectivity e),
       write_evidence_stamp (ep_evidence e)]"

definition read_rack_endpoint :: "string \<Rightarrow> protocol_status + rack_endpoint \<times> string" where
  "read_rack_endpoint s =
     sum_bind (read_identity_value s) (\<lambda>(i, s).
     sum_bind (r_optional read_identity_value s) (\<lambda>(network_domain, s).
     sum_bind (r_optional read_identity_value s) (\<lambda>(link_domain, s).
     sum_bind (r_enum connectivity_class_values CC_ManagementOnly s) (\<lambda>(connectivity, s).
     sum_bind (read_evidence_stamp s) (\<lambda>(evidence, s).
       Inr (\<lparr>ep_id = i, ep_network_domain = network_domain, ep_link_domain = link_domain,
             ep_connectivity = connectivity, ep_evidence = evidence\<rparr>, s))))))"

definition rack_endpoint_sendable :: "rack_endpoint \<Rightarrow> bool" where
  "rack_endpoint_sendable e \<longleftrightarrow>
     valid_id (ep_id e)
     \<and> (\<forall>k. ep_network_domain e = Some k \<longrightarrow> valid_id k)
     \<and> (\<forall>k. ep_link_domain e = Some k \<longrightarrow> valid_id k)
     \<and> evidence_stamp_sendable (ep_evidence e)"

lemma emits_rack_endpoint: "rack_endpoint_sendable e \<Longrightarrow> emits (write_rack_endpoint e) read_rack_endpoint e"
  unfolding write_rack_endpoint_def read_rack_endpoint_def [abs_def] rack_endpoint_sendable_def seq_steps
  by ((rule emits_bind emits_wire)+ | elim conjE | assumption | rule emits_last | simp)+

lemma takes_rack_endpoint: "takes read_rack_endpoint write_rack_endpoint rack_endpoint_sendable"
  unfolding read_rack_endpoint_def [abs_def]
  by (rule takes_start, (rule takes_step, (rule takes_wire)+)+, rule takes_end)
    (simp_all add: write_rack_endpoint_def seq_steps rack_endpoint_sendable_def)

declare emits_rack_endpoint [emits_wire] takes_rack_endpoint [takes_wire]

lemma hungry_rack_endpoint [emits_wire]: "hungry read_rack_endpoint"
  unfolding read_rack_endpoint_def [abs_def] by (rule hungry_bind) (rule hungry_prims)

definition write_failure_hint :: "rack_failure_domain_hint \<Rightarrow> writer \<Rightarrow> writer" where
  "write_failure_hint h =
     seq
      [w_enum failure_domain_class_values (fh_klass h),
       w_id (fh_id h),
       write_evidence_stamp (fh_evidence h)]"

definition read_failure_hint :: "string \<Rightarrow> protocol_status + rack_failure_domain_hint \<times> string" where
  "read_failure_hint s =
     sum_bind (r_enum failure_domain_class_values FDC_ControlPlane s) (\<lambda>(klass, s).
     sum_bind (read_identity_value s) (\<lambda>(i, s).
     sum_bind (read_evidence_stamp s) (\<lambda>(evidence, s).
       Inr (\<lparr>fh_klass = klass, fh_id = i, fh_evidence = evidence\<rparr>, s))))"

definition failure_hint_sendable :: "rack_failure_domain_hint \<Rightarrow> bool" where
  "failure_hint_sendable h \<longleftrightarrow>
     valid_id (fh_id h) \<and> evidence_stamp_sendable (fh_evidence h)"

lemma emits_failure_hint: "failure_hint_sendable h \<Longrightarrow> emits (write_failure_hint h) read_failure_hint h"
  unfolding write_failure_hint_def read_failure_hint_def [abs_def] failure_hint_sendable_def seq_steps
  by ((rule emits_bind emits_wire)+ | elim conjE | assumption | rule emits_last | simp)+

lemma takes_failure_hint: "takes read_failure_hint write_failure_hint failure_hint_sendable"
  unfolding read_failure_hint_def [abs_def]
  by (rule takes_start, (rule takes_step, (rule takes_wire)+)+, rule takes_end)
    (simp_all add: write_failure_hint_def seq_steps failure_hint_sendable_def)

declare emits_failure_hint [emits_wire] takes_failure_hint [takes_wire]

lemma hungry_failure_hint [emits_wire]: "hungry read_failure_hint"
  unfolding read_failure_hint_def [abs_def] by (rule hungry_bind) (rule hungry_prims)

definition write_rack_reference :: "rack_reference \<Rightarrow> writer \<Rightarrow> writer" where
  "write_rack_reference r =
     seq
      [w_id (rf_rack r),
       write_counter (rf_generation r),
       w_enum rack_lifecycle_state_values (rf_rack_lifecycle r),
       w_enum rack_currentness_values (rf_currentness r),
       write_composition_wire (rf_composition r),
       write_vector kMaxRackEndpoints write_rack_endpoint (rf_endpoints r),
       write_vector kMaxFailureDomainRefs write_failure_hint (rf_failure_domain_hints r),
       write_evidence_stamp (rf_evidence r),
       w_optional w_id (rf_publisher r),
       write_counter (rf_publication r),
       w_id (rf_boot r),
       write_counter (rf_cluster_epoch r),
       write_counter (rf_coordinator_epoch r),
       w_enum health_state_values (rf_health r),
       w_text (rf_origin_label r)]"

definition read_rack_reference :: "string \<Rightarrow> protocol_status + rack_reference \<times> string" where
  "read_rack_reference s =
     sum_bind (read_identity_value s) (\<lambda>(rack, s).
     sum_bind (read_counter s) (\<lambda>(generation, s).
     sum_bind (r_enum rack_lifecycle_state_values RL_Retired s) (\<lambda>(rack_lifecycle, s).
     sum_bind (r_enum rack_currentness_values RC_RevalidationRequired s) (\<lambda>(currentness, s).
     sum_bind (read_composition_wire s) (\<lambda>(composition, s).
     sum_bind (read_vector kMaxRackEndpoints read_rack_endpoint s) (\<lambda>(endpoints, s).
     sum_bind (read_vector kMaxFailureDomainRefs read_failure_hint s) (\<lambda>(hints, s).
     sum_bind (read_evidence_stamp s) (\<lambda>(evidence, s).
     sum_bind (r_optional read_identity_value s) (\<lambda>(publisher, s).
     sum_bind (read_counter s) (\<lambda>(publication, s).
     sum_bind (read_identity_value s) (\<lambda>(boot, s).
     sum_bind (read_counter s) (\<lambda>(cluster_epoch, s).
     sum_bind (read_counter s) (\<lambda>(coordinator_epoch, s).
     sum_bind (r_enum health_state_values HS_Unhealthy s) (\<lambda>(health, s).
     sum_bind (r_text s) (\<lambda>(origin_label, s).
       Inr (\<lparr>rf_rack = rack, rf_generation = generation, rf_rack_lifecycle = rack_lifecycle,
             rf_currentness = currentness, rf_composition = composition, rf_endpoints = endpoints,
             rf_failure_domain_hints = hints, rf_evidence = evidence, rf_publisher = publisher,
             rf_publication = publication, rf_boot = boot, rf_cluster_epoch = cluster_epoch,
             rf_coordinator_epoch = coordinator_epoch, rf_health = health,
             rf_origin_label = origin_label\<rparr>, s))))))))))))))))"

definition rack_reference_sendable :: "rack_reference \<Rightarrow> bool" where
  "rack_reference_sendable r \<longleftrightarrow>
     valid_id (rf_rack r) \<and> (\<forall>k \<in> set (rf_endpoints r). rack_endpoint_sendable k)
     \<and> (\<forall>k \<in> set (rf_failure_domain_hints r). failure_hint_sendable k)
     \<and> evidence_stamp_sendable (rf_evidence r)
     \<and> (\<forall>k. rf_publisher r = Some k \<longrightarrow> valid_id k) \<and> valid_id (rf_boot r)"

lemma emits_rack_reference: "rack_reference_sendable r \<Longrightarrow> emits (write_rack_reference r) read_rack_reference r"
  unfolding write_rack_reference_def read_rack_reference_def [abs_def] rack_reference_sendable_def seq_steps
  by ((rule emits_bind emits_wire)+ | elim conjE | assumption | rule emits_last | simp)+

lemma takes_rack_reference: "takes read_rack_reference write_rack_reference rack_reference_sendable"
  unfolding read_rack_reference_def [abs_def]
  by (rule takes_start, (rule takes_step, (rule takes_wire)+)+, rule takes_end)
    (simp_all add: write_rack_reference_def seq_steps rack_reference_sendable_def)

declare emits_rack_reference [emits_wire] takes_rack_reference [takes_wire]

end
