(* ===== verification/Wire_Mutations.thy ===== *)
theory Wire_Mutations
  imports Wire_Records
begin

text \<open>
  Mutation requests and results, snapshot views and snapshot validations on the wire
  (src/src/protocol.cpp), as in the theory of the records. A result carries the full error and the
  explanation; a view carries the semantic digest. The stale reasons of a validation are their underlying
  bytes, because the decoder accepts one byte that no enumerator has.
\<close>

subsection \<open>Mutation requests and results\<close>

definition write_authority :: "mutation_authority \<Rightarrow> writer \<Rightarrow> writer" where
  "write_authority a =
     seq
      [write_counter (ma_cluster_epoch a),
       write_counter (ma_coordinator_epoch a),
       write_counter (ma_topology_epoch a),
       write_counter (ma_topology_generation a),
       w_optional w_id (ma_boot a),
       w_optional w_id (ma_publisher a),
       w_optional w_id (ma_rack a),
       w_optional write_counter (ma_rack_generation a),
       write_counter (ma_publication a)]"

definition read_authority :: "string \<Rightarrow> protocol_status + mutation_authority \<times> string" where
  "read_authority s =
     sum_bind (read_counter s) (\<lambda>(cluster_epoch, s).
     sum_bind (read_counter s) (\<lambda>(coordinator_epoch, s).
     sum_bind (read_counter s) (\<lambda>(topology_epoch, s).
     sum_bind (read_counter s) (\<lambda>(topology_generation, s).
     sum_bind (r_optional read_identity_value s) (\<lambda>(boot, s).
     sum_bind (r_optional read_identity_value s) (\<lambda>(publisher, s).
     sum_bind (r_optional read_identity_value s) (\<lambda>(rack, s).
     sum_bind (r_optional read_counter s) (\<lambda>(rack_generation, s).
     sum_bind (read_counter s) (\<lambda>(publication, s).
       Inr (\<lparr>ma_cluster_epoch = cluster_epoch, ma_coordinator_epoch = coordinator_epoch,
             ma_topology_epoch = topology_epoch, ma_topology_generation = topology_generation,
             ma_boot = boot, ma_publisher = publisher, ma_rack = rack,
             ma_rack_generation = rack_generation, ma_publication = publication\<rparr>, s))))))))))"

definition authority_sendable :: "mutation_authority \<Rightarrow> bool" where
  "authority_sendable a \<longleftrightarrow>
     (\<forall>k. ma_boot a = Some k \<longrightarrow> valid_id k)
     \<and> (\<forall>k. ma_publisher a = Some k \<longrightarrow> valid_id k)
     \<and> (\<forall>k. ma_rack a = Some k \<longrightarrow> valid_id k)"

lemma emits_authority: "authority_sendable a \<Longrightarrow> emits (write_authority a) read_authority a"
  unfolding write_authority_def read_authority_def [abs_def] authority_sendable_def seq_steps
  by ((rule emits_bind emits_wire)+ | elim conjE | assumption | rule emits_last | simp)+

lemma takes_authority: "takes read_authority write_authority authority_sendable"
  unfolding read_authority_def [abs_def]
  by (rule takes_start, (rule takes_step, (rule takes_wire)+)+, rule takes_end)
    (simp_all add: write_authority_def seq_steps authority_sendable_def)

declare emits_authority [emits_wire] takes_authority [takes_wire]

definition write_mutation_request :: "mutation_request \<Rightarrow> writer \<Rightarrow> writer" where
  "write_mutation_request q =
     seq
      [w_enum mutation_kind_values (mq_kind q),
       w_id (mq_cluster q),
       write_authority (mq_authority q),
       write_evidence_stamp (mq_evidence q),
       w_text (mq_reason q),
       w_i64 (mq_requested_at q),
       w_enum cluster_lifecycle_values (mq_declared_lifecycle q),
       write_readiness_contract (mq_readiness_contract q),
       write_rack_reference (mq_rack_reference q),
       w_enum rack_membership_state_values (mq_membership q),
       w_optional write_counter (mq_expected_rack_generation q),
       w_optional write_counter (mq_new_rack_generation q),
       w_optional write_placement_domain_wire (mq_placement_domain q),
       w_optional write_capacity_domain_wire (mq_capacity_domain q),
       w_optional write_failure_domain_wire (mq_failure_domain q),
       w_optional write_network_domain_wire (mq_network_domain q),
       w_optional write_storage_domain_wire (mq_storage_domain q),
       w_optional write_power_domain_wire (mq_power_domain q),
       w_optional write_cooling_domain_wire (mq_cooling_domain q),
       w_optional write_link_domain_wire (mq_link_domain q),
       w_optional write_constraint_wire (mq_constraint q),
       w_optional write_inter_rack_link (mq_link q),
       w_optional w_id (mq_link_id q),
       w_optional write_counter (mq_target_topology_epoch q),
       w_text (mq_topology_reason q),
       w_enum health_state_values (mq_health q),
       w_enum reachability_values (mq_reachability q),
       w_text (mq_evidence_selector q),
       write_vector kMaxRacksPerCluster w_id (mq_racks q)]"

definition read_mutation_request :: "string \<Rightarrow> protocol_status + mutation_request \<times> string" where
  "read_mutation_request s =
     sum_bind (r_enum mutation_kind_values MK_RetireCluster s) (\<lambda>(kind, s).
     sum_bind (read_identity_value s) (\<lambda>(cluster, s).
     sum_bind (read_authority s) (\<lambda>(authority, s).
     sum_bind (read_evidence_stamp s) (\<lambda>(evidence, s).
     sum_bind (r_text s) (\<lambda>(reason, s).
     sum_bind (r_i64 s) (\<lambda>(requested_at, s).
     sum_bind (r_enum cluster_lifecycle_values CL_Retired s) (\<lambda>(declared_lifecycle, s).
     sum_bind (read_readiness_contract s) (\<lambda>(readiness_contract, s).
     sum_bind (read_rack_reference s) (\<lambda>(rack_reference, s).
     sum_bind (r_enum rack_membership_state_values RM_Retired s) (\<lambda>(membership, s).
     sum_bind (r_optional read_counter s) (\<lambda>(expected_rack_generation, s).
     sum_bind (r_optional read_counter s) (\<lambda>(new_rack_generation, s).
     sum_bind (r_optional read_placement_domain_wire s) (\<lambda>(placement_domain, s).
     sum_bind (r_optional read_capacity_domain_wire s) (\<lambda>(capacity_domain, s).
     sum_bind (r_optional read_failure_domain_wire s) (\<lambda>(failure_domain, s).
     sum_bind (r_optional read_network_domain_wire s) (\<lambda>(network_domain, s).
     sum_bind (r_optional read_storage_domain_wire s) (\<lambda>(storage_domain, s).
     sum_bind (r_optional read_power_domain_wire s) (\<lambda>(power_domain, s).
     sum_bind (r_optional read_cooling_domain_wire s) (\<lambda>(cooling_domain, s).
     sum_bind (r_optional read_link_domain_wire s) (\<lambda>(link_domain, s).
     sum_bind (r_optional read_constraint_wire s) (\<lambda>(constraint, s).
     sum_bind (r_optional read_inter_rack_link s) (\<lambda>(link, s).
     sum_bind (r_optional read_identity_value s) (\<lambda>(link_id, s).
     sum_bind (r_optional read_counter s) (\<lambda>(target_topology_epoch, s).
     sum_bind (r_text s) (\<lambda>(topology_reason, s).
     sum_bind (r_enum health_state_values HS_Unhealthy s) (\<lambda>(health, s).
     sum_bind (r_enum reachability_values RB_RevalidationRequired s) (\<lambda>(reachability, s).
     sum_bind (r_text s) (\<lambda>(evidence_selector, s).
     sum_bind (read_vector kMaxRacksPerCluster read_identity_value s) (\<lambda>(racks, s).
       Inr (\<lparr>mq_kind = kind, mq_cluster = cluster, mq_authority = authority, mq_evidence = evidence,
             mq_reason = reason, mq_requested_at = requested_at,
             mq_declared_lifecycle = declared_lifecycle, mq_readiness_contract = readiness_contract,
             mq_rack_reference = rack_reference, mq_membership = membership,
             mq_expected_rack_generation = expected_rack_generation,
             mq_new_rack_generation = new_rack_generation, mq_placement_domain = placement_domain,
             mq_capacity_domain = capacity_domain, mq_failure_domain = failure_domain,
             mq_network_domain = network_domain, mq_storage_domain = storage_domain,
             mq_power_domain = power_domain, mq_cooling_domain = cooling_domain,
             mq_link_domain = link_domain, mq_constraint = constraint, mq_link = link,
             mq_link_id = link_id, mq_target_topology_epoch = target_topology_epoch,
             mq_topology_reason = topology_reason, mq_health = health, mq_reachability = reachability,
             mq_evidence_selector = evidence_selector, mq_racks = racks\<rparr>, s))))))))))))))))))))))))))))))"

definition mutation_request_sendable :: "mutation_request \<Rightarrow> bool" where
  "mutation_request_sendable q \<longleftrightarrow>
     valid_id (mq_cluster q) \<and> authority_sendable (mq_authority q)
     \<and> evidence_stamp_sendable (mq_evidence q) \<and> i64_range (mq_requested_at q)
     \<and> readiness_contract_sendable (mq_readiness_contract q)
     \<and> rack_reference_sendable (mq_rack_reference q)
     \<and> (\<forall>k. mq_placement_domain q = Some k \<longrightarrow> placement_domain_sendable k)
     \<and> (\<forall>k. mq_capacity_domain q = Some k \<longrightarrow> capacity_domain_sendable k)
     \<and> (\<forall>k. mq_failure_domain q = Some k \<longrightarrow> failure_domain_sendable k)
     \<and> (\<forall>k. mq_network_domain q = Some k \<longrightarrow> network_domain_sendable k)
     \<and> (\<forall>k. mq_storage_domain q = Some k \<longrightarrow> storage_domain_sendable k)
     \<and> (\<forall>k. mq_power_domain q = Some k \<longrightarrow> power_domain_sendable k)
     \<and> (\<forall>k. mq_cooling_domain q = Some k \<longrightarrow> cooling_domain_sendable k)
     \<and> (\<forall>k. mq_link_domain q = Some k \<longrightarrow> link_domain_sendable k)
     \<and> (\<forall>k. mq_constraint q = Some k \<longrightarrow> constraint_sendable k)
     \<and> (\<forall>k. mq_link q = Some k \<longrightarrow> inter_rack_link_sendable k)
     \<and> (\<forall>k. mq_link_id q = Some k \<longrightarrow> valid_id k)
     \<and> (\<forall>k \<in> set (mq_racks q). valid_id k)"

lemma emits_mutation_request: "mutation_request_sendable q \<Longrightarrow> emits (write_mutation_request q) read_mutation_request q"
  unfolding write_mutation_request_def read_mutation_request_def [abs_def] mutation_request_sendable_def seq_steps
  by ((rule emits_bind emits_wire)+ | elim conjE | assumption | rule emits_last | simp)+

lemma takes_mutation_request: "takes read_mutation_request write_mutation_request mutation_request_sendable"
  unfolding read_mutation_request_def [abs_def]
  by (rule takes_start, (rule takes_step, (rule takes_wire)+)+, rule takes_end)
    (simp_all add: write_mutation_request_def seq_steps mutation_request_sendable_def)

declare emits_mutation_request [emits_wire] takes_mutation_request [takes_wire]

record full_result =
  fm_outcome :: mutation_outcome
  fm_reason :: rejection_reason
  fm_error :: full_error
  fm_explanation :: explanation
  fm_cluster_epoch :: cluster_epoch
  fm_coordinator_epoch :: coordinator_epoch
  fm_cluster_generation :: cluster_generation
  fm_membership_generation :: membership_generation
  fm_topology_epoch :: topology_epoch
  fm_topology_generation :: topology_generation
  fm_connectivity_generation :: connectivity_generation
  fm_health_generation :: health_generation
  fm_constraint_generation :: constraint_generation
  fm_snapshot_generation :: snapshot_generation
  fm_publication_generation :: publication_generation
  fm_lifecycle :: cluster_lifecycle

definition write_mutation_result :: "full_result \<Rightarrow> writer \<Rightarrow> writer" where
  "write_mutation_result r =
     seq
      [w_enum mutation_outcome_values (fm_outcome r),
       w_enum rejection_reason_values (fm_reason r),
       write_structured_error (fm_error r),
       write_explanation (fm_explanation r),
       write_counter (fm_cluster_epoch r),
       write_counter (fm_coordinator_epoch r),
       write_counter (fm_cluster_generation r),
       write_counter (fm_membership_generation r),
       write_counter (fm_topology_epoch r),
       write_counter (fm_topology_generation r),
       write_counter (fm_connectivity_generation r),
       write_counter (fm_health_generation r),
       write_counter (fm_constraint_generation r),
       write_counter (fm_snapshot_generation r),
       write_counter (fm_publication_generation r),
       w_enum cluster_lifecycle_values (fm_lifecycle r)]"

definition read_mutation_result :: "string \<Rightarrow> protocol_status + full_result \<times> string" where
  "read_mutation_result s =
     sum_bind (r_enum mutation_outcome_values MO_RevalidationRequired s) (\<lambda>(outcome, s).
     sum_bind (r_enum rejection_reason_values RR_Internal s) (\<lambda>(reason, s).
     sum_bind (read_structured_error s) (\<lambda>(error, s).
     sum_bind (read_explanation s) (\<lambda>(explanation, s).
     sum_bind (read_counter s) (\<lambda>(cluster_epoch, s).
     sum_bind (read_counter s) (\<lambda>(coordinator_epoch, s).
     sum_bind (read_counter s) (\<lambda>(cluster_generation, s).
     sum_bind (read_counter s) (\<lambda>(membership_generation, s).
     sum_bind (read_counter s) (\<lambda>(topology_epoch, s).
     sum_bind (read_counter s) (\<lambda>(topology_generation, s).
     sum_bind (read_counter s) (\<lambda>(connectivity_generation, s).
     sum_bind (read_counter s) (\<lambda>(health_generation, s).
     sum_bind (read_counter s) (\<lambda>(constraint_generation, s).
     sum_bind (read_counter s) (\<lambda>(snapshot_generation, s).
     sum_bind (read_counter s) (\<lambda>(publication_generation, s).
     sum_bind (r_enum cluster_lifecycle_values CL_Retired s) (\<lambda>(lifecycle, s).
       Inr (\<lparr>fm_outcome = outcome, fm_reason = reason, fm_error = error, fm_explanation = explanation,
             fm_cluster_epoch = cluster_epoch, fm_coordinator_epoch = coordinator_epoch,
             fm_cluster_generation = cluster_generation,
             fm_membership_generation = membership_generation, fm_topology_epoch = topology_epoch,
             fm_topology_generation = topology_generation,
             fm_connectivity_generation = connectivity_generation,
             fm_health_generation = health_generation,
             fm_constraint_generation = constraint_generation,
             fm_snapshot_generation = snapshot_generation,
             fm_publication_generation = publication_generation, fm_lifecycle = lifecycle\<rparr>, s)))))))))))))))))"

lemma emits_mutation_result: "emits (write_mutation_result r) read_mutation_result r"
  unfolding write_mutation_result_def read_mutation_result_def [abs_def] seq_steps
  by ((rule emits_bind emits_wire)+ | rule emits_last | simp)+

lemma takes_mutation_result: "takes read_mutation_result write_mutation_result (\<lambda>r. True)"
  unfolding read_mutation_result_def [abs_def]
  by (rule takes_start, (rule takes_step, (rule takes_wire)+)+, rule takes_end)
    (simp_all add: write_mutation_result_def seq_steps)

declare emits_mutation_result [emits_wire] takes_mutation_result [takes_wire]

subsection \<open>Snapshot views and validations\<close>

definition write_domain_generations_wire :: "domain_generations \<Rightarrow> writer \<Rightarrow> writer" where
  "write_domain_generations_wire g =
     seq
      [write_counter (dg_placement g),
       write_counter (dg_capacity g),
       write_counter (dg_failure g),
       write_counter (dg_network g),
       write_counter (dg_storage g),
       write_counter (dg_power g),
       write_counter (dg_cooling g),
       write_counter (dg_link g)]"

definition read_domain_generations_wire :: "string \<Rightarrow> protocol_status + domain_generations \<times> string" where
  "read_domain_generations_wire s =
     sum_bind (read_counter s) (\<lambda>(placement, s).
     sum_bind (read_counter s) (\<lambda>(capacity, s).
     sum_bind (read_counter s) (\<lambda>(failure, s).
     sum_bind (read_counter s) (\<lambda>(network, s).
     sum_bind (read_counter s) (\<lambda>(storage, s).
     sum_bind (read_counter s) (\<lambda>(power, s).
     sum_bind (read_counter s) (\<lambda>(cooling, s).
     sum_bind (read_counter s) (\<lambda>(link, s).
       Inr (\<lparr>dg_placement = placement, dg_capacity = capacity, dg_failure = failure,
             dg_network = network, dg_storage = storage, dg_power = power, dg_cooling = cooling,
             dg_link = link\<rparr>, s)))))))))"

lemma emits_domain_generations_wire: "emits (write_domain_generations_wire g) read_domain_generations_wire g"
  unfolding write_domain_generations_wire_def read_domain_generations_wire_def [abs_def] seq_steps
  by ((rule emits_bind emits_wire)+ | rule emits_last | simp)+

lemma takes_domain_generations_wire: "takes read_domain_generations_wire write_domain_generations_wire (\<lambda>g. True)"
  unfolding read_domain_generations_wire_def [abs_def]
  by (rule takes_start, (rule takes_step, (rule takes_wire)+)+, rule takes_end)
    (simp_all add: write_domain_generations_wire_def seq_steps)

declare emits_domain_generations_wire [emits_wire] takes_domain_generations_wire [takes_wire]

definition write_rack_binding :: "rack_generation_binding \<Rightarrow> writer \<Rightarrow> writer" where
  "write_rack_binding b =
     seq
      [w_id (rg_rack b),
       write_counter (rg_generation b),
       w_enum rack_membership_state_values (rg_membership b),
       w_enum rack_currentness_values (rg_currentness b),
       w_boolean (rg_authoritative_current b),
       w_id (rg_boot b)]"

definition read_rack_binding :: "string \<Rightarrow> protocol_status + rack_generation_binding \<times> string" where
  "read_rack_binding s =
     sum_bind (read_identity_value s) (\<lambda>(rack, s).
     sum_bind (read_counter s) (\<lambda>(generation, s).
     sum_bind (r_enum rack_membership_state_values RM_Retired s) (\<lambda>(membership, s).
     sum_bind (r_enum rack_currentness_values RC_RevalidationRequired s) (\<lambda>(currentness, s).
     sum_bind (r_boolean s) (\<lambda>(authoritative_current, s).
     sum_bind (read_identity_value s) (\<lambda>(boot, s).
       Inr (\<lparr>rg_rack = rack, rg_generation = generation, rg_membership = membership,
             rg_currentness = currentness, rg_authoritative_current = authoritative_current,
             rg_boot = boot\<rparr>, s)))))))"

definition rack_binding_sendable :: "rack_generation_binding \<Rightarrow> bool" where
  "rack_binding_sendable b \<longleftrightarrow>
     valid_id (rg_rack b) \<and> valid_id (rg_boot b)"

lemma emits_rack_binding: "rack_binding_sendable b \<Longrightarrow> emits (write_rack_binding b) read_rack_binding b"
  unfolding write_rack_binding_def read_rack_binding_def [abs_def] rack_binding_sendable_def seq_steps
  by ((rule emits_bind emits_wire)+ | elim conjE | assumption | rule emits_last | simp)+

lemma takes_rack_binding: "takes read_rack_binding write_rack_binding rack_binding_sendable"
  unfolding read_rack_binding_def [abs_def]
  by (rule takes_start, (rule takes_step, (rule takes_wire)+)+, rule takes_end)
    (simp_all add: write_rack_binding_def seq_steps rack_binding_sendable_def)

declare emits_rack_binding [emits_wire] takes_rack_binding [takes_wire]

lemma hungry_rack_binding [emits_wire]: "hungry read_rack_binding"
  unfolding read_rack_binding_def [abs_def] by (rule hungry_bind) (rule hungry_prims)

record full_view = snapshot_view +
  vw_semantic_digest :: string

definition write_snapshot_view :: "full_view \<Rightarrow> writer \<Rightarrow> writer" where
  "write_snapshot_view v =
     seq
      [w_id (vw_cluster v),
       write_counter (vw_cluster_epoch v),
       write_counter (vw_coordinator_epoch v),
       write_counter (vw_cluster_generation v),
       write_counter (vw_membership_generation v),
       write_counter (vw_topology_epoch v),
       write_counter (vw_topology_generation v),
       write_counter (vw_connectivity_generation v),
       write_counter (vw_health_generation v),
       write_counter (vw_constraint_generation v),
       write_domain_generations_wire (vw_domain_generations v),
       write_counter (vw_snapshot_generation v),
       write_counter (vw_publication_generation v),
       w_enum cluster_lifecycle_values (vw_lifecycle v),
       write_vector kMaxSnapshotRackRefs write_rack_binding (vw_rack_bindings v),
       w_text (vw_semantic_digest v),
       write_size (vw_rack_count v),
       write_size (vw_link_count v),
       write_size (vw_domain_count v)]"

definition read_snapshot_view :: "string \<Rightarrow> protocol_status + full_view \<times> string" where
  "read_snapshot_view s =
     sum_bind (read_identity_value s) (\<lambda>(cluster, s).
     sum_bind (read_counter s) (\<lambda>(cluster_epoch, s).
     sum_bind (read_counter s) (\<lambda>(coordinator_epoch, s).
     sum_bind (read_counter s) (\<lambda>(cluster_generation, s).
     sum_bind (read_counter s) (\<lambda>(membership_generation, s).
     sum_bind (read_counter s) (\<lambda>(topology_epoch, s).
     sum_bind (read_counter s) (\<lambda>(topology_generation, s).
     sum_bind (read_counter s) (\<lambda>(connectivity_generation, s).
     sum_bind (read_counter s) (\<lambda>(health_generation, s).
     sum_bind (read_counter s) (\<lambda>(constraint_generation, s).
     sum_bind (read_domain_generations_wire s) (\<lambda>(domain_generations, s).
     sum_bind (read_counter s) (\<lambda>(snapshot_generation, s).
     sum_bind (read_counter s) (\<lambda>(publication_generation, s).
     sum_bind (r_enum cluster_lifecycle_values CL_Retired s) (\<lambda>(lifecycle, s).
     sum_bind (read_vector kMaxSnapshotRackRefs read_rack_binding s) (\<lambda>(rack_bindings, s).
     sum_bind (r_text s) (\<lambda>(semantic_digest, s).
     sum_bind (read_size s) (\<lambda>(rack_count, s).
     sum_bind (read_size s) (\<lambda>(link_count, s).
     sum_bind (read_size s) (\<lambda>(domain_count, s).
       Inr (\<lparr>vw_cluster = cluster, vw_cluster_epoch = cluster_epoch, vw_coordinator_epoch = coordinator_epoch,
             vw_cluster_generation = cluster_generation, vw_membership_generation = membership_generation,
             vw_topology_epoch = topology_epoch, vw_topology_generation = topology_generation,
             vw_connectivity_generation = connectivity_generation,
             vw_health_generation = health_generation, vw_constraint_generation = constraint_generation,
             vw_domain_generations = domain_generations, vw_snapshot_generation = snapshot_generation,
             vw_publication_generation = publication_generation, vw_lifecycle = lifecycle,
             vw_rack_bindings = rack_bindings, vw_rack_count = rack_count, vw_link_count = link_count,
             vw_domain_count = domain_count, vw_semantic_digest = semantic_digest\<rparr>, s))))))))))))))))))))"

definition snapshot_view_sendable :: "full_view \<Rightarrow> bool" where
  "snapshot_view_sendable v \<longleftrightarrow>
     valid_id (vw_cluster v)
     \<and> (\<forall>k \<in> set (vw_rack_bindings v). rack_binding_sendable k)
     \<and> vw_rack_count v < 2 ^ 64 \<and> vw_link_count v < 2 ^ 64 \<and> vw_domain_count v < 2 ^ 64"

lemma emits_snapshot_view: "snapshot_view_sendable v \<Longrightarrow> emits (write_snapshot_view v) read_snapshot_view v"
  unfolding write_snapshot_view_def read_snapshot_view_def [abs_def] snapshot_view_sendable_def seq_steps
  by ((rule emits_bind emits_wire)+ | elim conjE | assumption | rule emits_last | simp)+

lemma takes_snapshot_view: "takes read_snapshot_view write_snapshot_view snapshot_view_sendable"
  unfolding read_snapshot_view_def [abs_def]
  by (rule takes_start, (rule takes_step, (rule takes_wire)+)+, rule takes_end)
    (simp_all add: write_snapshot_view_def seq_steps snapshot_view_sendable_def)

declare emits_snapshot_view [emits_wire] takes_snapshot_view [takes_wire]

definition kMaxSnapshotStaleReasonRaw :: u8 where "kMaxSnapshotStaleReasonRaw = 24"
definition kMaxStaleReasons :: nat where "kMaxStaleReasons = 25"

definition read_stale_reason :: "string \<Rightarrow> protocol_status + u8 \<times> string" where
  "read_stale_reason s =
     sum_bind (r_u8 s) (\<lambda>(b, s).
       if b > kMaxSnapshotStaleReasonRaw then Inl PR_InvalidEnum else Inr (b, s))"

definition reason_sendable :: "u8 \<Rightarrow> bool" where
  "reason_sendable b \<longleftrightarrow> b \<le> kMaxSnapshotStaleReasonRaw"

lemma emits_stale_reason [emits_wire]: "reason_sendable b \<Longrightarrow> emits (w_u8 b) read_stale_reason b"
  unfolding read_stale_reason_def [abs_def] by (rule emits_last [OF emits_u8]) (simp add: reason_sendable_def leD)

lemma takes_stale_reason [takes_wire]: "takes read_stale_reason w_u8 reason_sendable"
  unfolding read_stale_reason_def [abs_def]
  by (rule takes_convert [OF takes_u8]) (auto simp: reason_sendable_def not_less split: if_splits)

lemma hungry_stale_reason [emits_wire]: "hungry read_stale_reason"
  unfolding read_stale_reason_def [abs_def] by (rule hungry_bind) (rule hungry_u8)

lemma kMaxStaleReasons_small [emits_wire]: "kMaxStaleReasons < 2 ^ 32"
  by (simp add: kMaxStaleReasons_def)

record full_validation =
  fv_current :: bool
  fv_consumable :: bool
  fv_reasons :: "u8 list"
  fv_subjects :: "string list"
  fv_explanation :: explanation

definition write_snapshot_validation :: "full_validation \<Rightarrow> writer \<Rightarrow> writer" where
  "write_snapshot_validation v =
     seq
      [w_boolean (fv_current v),
       w_boolean (fv_consumable v),
       write_vector kMaxStaleReasons w_u8 (fv_reasons v),
       write_vector kMaxDecodedRecords w_text (fv_subjects v),
       write_explanation (fv_explanation v)]"

definition read_snapshot_validation :: "string \<Rightarrow> protocol_status + full_validation \<times> string" where
  "read_snapshot_validation s =
     sum_bind (r_boolean s) (\<lambda>(is_now, s).
     sum_bind (r_boolean s) (\<lambda>(consumable, s).
     sum_bind (read_vector kMaxStaleReasons read_stale_reason s) (\<lambda>(reasons, s).
     sum_bind (read_vector kMaxDecodedRecords r_text s) (\<lambda>(subjects, s).
     sum_bind (read_explanation s) (\<lambda>(explanation, s).
       Inr (\<lparr>fv_current = is_now, fv_consumable = consumable, fv_reasons = reasons,
             fv_subjects = subjects, fv_explanation = explanation\<rparr>, s))))))"

definition snapshot_validation_sendable :: "full_validation \<Rightarrow> bool" where
  "snapshot_validation_sendable v \<longleftrightarrow>
     (\<forall>k \<in> set (fv_reasons v). reason_sendable k)"

lemma emits_snapshot_validation: "snapshot_validation_sendable v \<Longrightarrow> emits (write_snapshot_validation v) read_snapshot_validation v"
  unfolding write_snapshot_validation_def read_snapshot_validation_def [abs_def] snapshot_validation_sendable_def seq_steps
  by ((rule emits_bind emits_wire)+ | elim conjE | assumption | rule emits_last | simp)+

lemma takes_snapshot_validation: "takes read_snapshot_validation write_snapshot_validation snapshot_validation_sendable"
  unfolding read_snapshot_validation_def [abs_def]
  by (rule takes_start, (rule takes_step, (rule takes_wire)+)+, rule takes_end)
    (simp_all add: write_snapshot_validation_def seq_steps snapshot_validation_sendable_def)

declare emits_snapshot_validation [emits_wire] takes_snapshot_validation [takes_wire]

text \<open>The largest stale reason is one above the last enumerator: a byte that names no reason is decoded.\<close>

definition snapshot_stale_reason_values :: "snapshot_stale_reason list" where
  "snapshot_stale_reason_values =
     [SR_None, SR_ClusterEpochAdvanced, SR_CoordinatorEpochAdvanced, SR_ClusterGenerationAdvanced,
      SR_MembershipChanged, SR_TopologyEpochSuperseded, SR_TopologyGenerationAdvanced,
      SR_RackGenerationSuperseded, SR_RackWithdrawn, SR_RackRetired, SR_RackBootFenced,
      SR_RackRevalidationRequired, SR_PlacementDomainSuperseded, SR_CapacityDomainSuperseded,
      SR_FailureDomainSuperseded, SR_NetworkDomainSuperseded, SR_StorageDomainSuperseded,
      SR_PowerDomainSuperseded, SR_CoolingDomainSuperseded, SR_LinkDomainSuperseded,
      SR_ConnectivitySuperseded, SR_HealthSuperseded, SR_LifecycleNotConsumable, SR_WrongCluster]"

lemma snapshot_stale_reason_listed: "v \<in> set snapshot_stale_reason_values"
  by (cases v) (simp_all add: snapshot_stale_reason_values_def)

interpretation snapshot_stale_reason_raw: raw_enum snapshot_stale_reason_values SR_WrongCluster
  by (rule raw_enum.intro, rule snapshot_stale_reason_listed) (simp_all add: snapshot_stale_reason_values_def)

lemma undeclared_reason_decoded:
  "read_stale_reason [byte_char 24] = Inr (24, []) \<and> (\<forall>v. raw_of snapshot_stale_reason_values v \<noteq> 24)"
proof -
  have small: "unat (raw_of snapshot_stale_reason_values v) < 24" for v
    using snapshot_stale_reason_raw.unat_raw [of v] snapshot_stale_reason_raw.raw_index [of v]
    by (simp add: snapshot_stale_reason_values_def)
  have "raw_of snapshot_stale_reason_values v \<noteq> 24" for v
  proof
    assume "raw_of snapshot_stale_reason_values v = 24"
    then have "unat (24 :: u8) < 24" using small [of v] by simp
    then show False by simp
  qed
  then show ?thesis by (simp add: read_stale_reason_def kMaxSnapshotStaleReasonRaw_def)
qed

end
