(* ===== verification/Wire_Messages.thy ===== *)
theory Wire_Messages
  imports Wire_Mutations
begin

text \<open>
  The sixteen messages of the protocol and their payloads: the \<^verbatim>\<open>*Message\<close> structs of
  src/include/cluster_fabric/protocol.hpp, their \<^verbatim>\<open>write_*\<close> and \<^verbatim>\<open>read_*\<close> functions, the templates
  \<^verbatim>\<open>encode_message\<close> and \<^verbatim>\<open>decode_message\<close> and the encoders and decoders built from them in
  src/src/protocol.cpp. An encoder answers the empty string when the message has no bounded encoding; a
  decoder answers the message or the status of its outcome.

  \<open>payload_codec\<close> is the contract of one message: what its writer writes its reader reads, and its reader
  takes nothing but what its writer writes. It makes decoding the exact inverse of encoding, and has one
  interpretation per message.
\<close>

subsection \<open>Message types\<close>

datatype message_type =
  MT_Invalid | MT_Hello | MT_HelloAck | MT_RegisterPublisher | MT_RegisterAck
  | MT_PublishRequest | MT_PublishResult | MT_Heartbeat | MT_HeartbeatAck | MT_SnapshotRequest
  | MT_SnapshotResponse | MT_ValidateSnapshotRequest | MT_ValidateSnapshotResponse | MT_RevalidateRequest | MT_RevalidateResponse
  | MT_Shutdown | MT_Error

definition kMessageTypeNames :: "(message_type \<times> string) list" where
  "kMessageTypeNames =
     [(MT_Invalid, ''INVALID''),
      (MT_Hello, ''HELLO''),
      (MT_HelloAck, ''HELLO_ACK''),
      (MT_RegisterPublisher, ''REGISTER_PUBLISHER''),
      (MT_RegisterAck, ''REGISTER_ACK''),
      (MT_PublishRequest, ''PUBLISH_REQUEST''),
      (MT_PublishResult, ''PUBLISH_RESULT''),
      (MT_Heartbeat, ''HEARTBEAT''),
      (MT_HeartbeatAck, ''HEARTBEAT_ACK''),
      (MT_SnapshotRequest, ''SNAPSHOT_REQUEST''),
      (MT_SnapshotResponse, ''SNAPSHOT_RESPONSE''),
      (MT_ValidateSnapshotRequest, ''VALIDATE_SNAPSHOT_REQUEST''),
      (MT_ValidateSnapshotResponse, ''VALIDATE_SNAPSHOT_RESPONSE''),
      (MT_RevalidateRequest, ''REVALIDATE_REQUEST''),
      (MT_RevalidateResponse, ''REVALIDATE_RESPONSE''),
      (MT_Shutdown, ''SHUTDOWN''),
      (MT_Error, ''ERROR'')]"

definition message_type_to_string :: "message_type \<Rightarrow> string" where
  "message_type_to_string v =
     (case find (\<lambda>(t, n). t = v) kMessageTypeNames of None \<Rightarrow> ''UNKNOWN'' | Some (t, n) \<Rightarrow> n)"

definition message_type_from_string :: "string \<Rightarrow> message_type option" where
  "message_type_from_string s = map_option fst (find (\<lambda>(t, n). n = s) kMessageTypeNames)"

lemma message_type_text: "message_type_from_string (message_type_to_string v) = Some v"
  by (cases v) (simp_all add: message_type_from_string_def message_type_to_string_def kMessageTypeNames_def)

subsection \<open>Messages\<close>

record hello_message =
  hm_protocol_version :: u16
  hm_cluster :: cluster_id
  hm_boot :: boot_id
  hm_role :: string
  hm_build :: string

definition write_hello :: "hello_message \<Rightarrow> writer \<Rightarrow> writer" where
  "write_hello m =
     seq
      [w_u16 (hm_protocol_version m),
       w_id (hm_cluster m),
       w_id (hm_boot m),
       w_text (hm_role m),
       w_text (hm_build m)]"

definition read_hello :: "string \<Rightarrow> protocol_status + hello_message \<times> string" where
  "read_hello s =
     sum_bind (r_u16 s) (\<lambda>(protocol_version, s).
     sum_bind (read_identity_value s) (\<lambda>(cluster, s).
     sum_bind (read_identity_value s) (\<lambda>(boot, s).
     sum_bind (r_text s) (\<lambda>(role, s).
     sum_bind (r_text s) (\<lambda>(build, s).
       Inr (\<lparr>hm_protocol_version = protocol_version, hm_cluster = cluster, hm_boot = boot,
             hm_role = role, hm_build = build\<rparr>, s))))))"

definition hello_sendable :: "hello_message \<Rightarrow> bool" where
  "hello_sendable m \<longleftrightarrow>
     valid_id (hm_cluster m) \<and> valid_id (hm_boot m)"

lemma emits_hello: "hello_sendable m \<Longrightarrow> emits (write_hello m) read_hello m"
  unfolding write_hello_def read_hello_def [abs_def] hello_sendable_def seq_steps
  by ((rule emits_bind emits_wire)+ | elim conjE | assumption | rule emits_last | simp)+

lemma takes_hello: "takes read_hello write_hello hello_sendable"
  unfolding read_hello_def [abs_def]
  by (rule takes_start, (rule takes_step, (rule takes_wire)+)+, rule takes_end)
    (simp_all add: write_hello_def seq_steps hello_sendable_def)

declare emits_hello [emits_wire] takes_hello [takes_wire]

record hello_ack_message =
  hk_protocol_version :: u16
  hk_cluster :: cluster_id
  hk_coordinator_epoch :: coordinator_epoch
  hk_cluster_epoch :: cluster_epoch
  hk_topology_epoch :: topology_epoch
  hk_topology_generation :: topology_generation
  hk_lifecycle :: cluster_lifecycle
  hk_accepted :: bool
  hk_reason :: rejection_reason
  hk_detail :: string

definition write_hello_ack :: "hello_ack_message \<Rightarrow> writer \<Rightarrow> writer" where
  "write_hello_ack m =
     seq
      [w_u16 (hk_protocol_version m),
       w_id (hk_cluster m),
       write_counter (hk_coordinator_epoch m),
       write_counter (hk_cluster_epoch m),
       write_counter (hk_topology_epoch m),
       write_counter (hk_topology_generation m),
       w_enum cluster_lifecycle_values (hk_lifecycle m),
       w_boolean (hk_accepted m),
       w_enum rejection_reason_values (hk_reason m),
       w_text (hk_detail m)]"

definition read_hello_ack :: "string \<Rightarrow> protocol_status + hello_ack_message \<times> string" where
  "read_hello_ack s =
     sum_bind (r_u16 s) (\<lambda>(protocol_version, s).
     sum_bind (read_identity_value s) (\<lambda>(cluster, s).
     sum_bind (read_counter s) (\<lambda>(coordinator_epoch, s).
     sum_bind (read_counter s) (\<lambda>(cluster_epoch, s).
     sum_bind (read_counter s) (\<lambda>(topology_epoch, s).
     sum_bind (read_counter s) (\<lambda>(topology_generation, s).
     sum_bind (r_enum cluster_lifecycle_values CL_Retired s) (\<lambda>(lifecycle, s).
     sum_bind (r_boolean s) (\<lambda>(accepted, s).
     sum_bind (r_enum rejection_reason_values RR_Internal s) (\<lambda>(reason, s).
     sum_bind (r_text s) (\<lambda>(detail, s).
       Inr (\<lparr>hk_protocol_version = protocol_version, hk_cluster = cluster,
             hk_coordinator_epoch = coordinator_epoch, hk_cluster_epoch = cluster_epoch,
             hk_topology_epoch = topology_epoch, hk_topology_generation = topology_generation,
             hk_lifecycle = lifecycle, hk_accepted = accepted, hk_reason = reason, hk_detail = detail\<rparr>, s)))))))))))"

definition hello_ack_sendable :: "hello_ack_message \<Rightarrow> bool" where
  "hello_ack_sendable m \<longleftrightarrow>
     valid_id (hk_cluster m)"

lemma emits_hello_ack: "hello_ack_sendable m \<Longrightarrow> emits (write_hello_ack m) read_hello_ack m"
  unfolding write_hello_ack_def read_hello_ack_def [abs_def] hello_ack_sendable_def seq_steps
  by ((rule emits_bind emits_wire)+ | elim conjE | assumption | rule emits_last | simp)+

lemma takes_hello_ack: "takes read_hello_ack write_hello_ack hello_ack_sendable"
  unfolding read_hello_ack_def [abs_def]
  by (rule takes_start, (rule takes_step, (rule takes_wire)+)+, rule takes_end)
    (simp_all add: write_hello_ack_def seq_steps hello_ack_sendable_def)

declare emits_hello_ack [emits_wire] takes_hello_ack [takes_wire]

record register_publisher_message =
  pb_cluster :: cluster_id
  pb_authority :: mutation_authority
  pb_publisher :: publisher_id
  pb_rack :: rack_id
  pb_generation :: rack_generation
  pb_rack_lifecycle :: rack_lifecycle_state
  pb_composition :: rack_composition_summary
  pb_origin_label :: string
  pb_sent_at :: timestamp

definition write_register_publisher :: "register_publisher_message \<Rightarrow> writer \<Rightarrow> writer" where
  "write_register_publisher m =
     seq
      [w_id (pb_cluster m),
       write_authority (pb_authority m),
       w_id (pb_publisher m),
       w_id (pb_rack m),
       write_counter (pb_generation m),
       w_enum rack_lifecycle_state_values (pb_rack_lifecycle m),
       write_composition_wire (pb_composition m),
       w_text (pb_origin_label m),
       w_i64 (pb_sent_at m)]"

definition read_register_publisher :: "string \<Rightarrow> protocol_status + register_publisher_message \<times> string" where
  "read_register_publisher s =
     sum_bind (read_identity_value s) (\<lambda>(cluster, s).
     sum_bind (read_authority s) (\<lambda>(authority, s).
     sum_bind (read_identity_value s) (\<lambda>(publisher, s).
     sum_bind (read_identity_value s) (\<lambda>(rack, s).
     sum_bind (read_counter s) (\<lambda>(generation, s).
     sum_bind (r_enum rack_lifecycle_state_values RL_Retired s) (\<lambda>(rack_lifecycle, s).
     sum_bind (read_composition_wire s) (\<lambda>(composition, s).
     sum_bind (r_text s) (\<lambda>(origin_label, s).
     sum_bind (r_i64 s) (\<lambda>(sent_at, s).
       Inr (\<lparr>pb_cluster = cluster, pb_authority = authority, pb_publisher = publisher, pb_rack = rack,
             pb_generation = generation, pb_rack_lifecycle = rack_lifecycle,
             pb_composition = composition, pb_origin_label = origin_label, pb_sent_at = sent_at\<rparr>, s))))))))))"

definition register_publisher_sendable :: "register_publisher_message \<Rightarrow> bool" where
  "register_publisher_sendable m \<longleftrightarrow>
     valid_id (pb_cluster m) \<and> authority_sendable (pb_authority m)
     \<and> valid_id (pb_publisher m) \<and> valid_id (pb_rack m) \<and> i64_range (pb_sent_at m)"

lemma emits_register_publisher: "register_publisher_sendable m \<Longrightarrow> emits (write_register_publisher m) read_register_publisher m"
  unfolding write_register_publisher_def read_register_publisher_def [abs_def] register_publisher_sendable_def seq_steps
  by ((rule emits_bind emits_wire)+ | elim conjE | assumption | rule emits_last | simp)+

lemma takes_register_publisher: "takes read_register_publisher write_register_publisher register_publisher_sendable"
  unfolding read_register_publisher_def [abs_def]
  by (rule takes_start, (rule takes_step, (rule takes_wire)+)+, rule takes_end)
    (simp_all add: write_register_publisher_def seq_steps register_publisher_sendable_def)

declare emits_register_publisher [emits_wire] takes_register_publisher [takes_wire]

record register_ack_message =
  pk_accepted :: bool
  pk_reason :: rejection_reason
  pk_coordinator_epoch :: coordinator_epoch
  pk_cluster_epoch :: cluster_epoch
  pk_topology_epoch :: topology_epoch
  pk_topology_generation :: topology_generation
  pk_membership_generation :: membership_generation
  pk_detail :: string

definition write_register_ack :: "register_ack_message \<Rightarrow> writer \<Rightarrow> writer" where
  "write_register_ack m =
     seq
      [w_boolean (pk_accepted m),
       w_enum rejection_reason_values (pk_reason m),
       write_counter (pk_coordinator_epoch m),
       write_counter (pk_cluster_epoch m),
       write_counter (pk_topology_epoch m),
       write_counter (pk_topology_generation m),
       write_counter (pk_membership_generation m),
       w_text (pk_detail m)]"

definition read_register_ack :: "string \<Rightarrow> protocol_status + register_ack_message \<times> string" where
  "read_register_ack s =
     sum_bind (r_boolean s) (\<lambda>(accepted, s).
     sum_bind (r_enum rejection_reason_values RR_Internal s) (\<lambda>(reason, s).
     sum_bind (read_counter s) (\<lambda>(coordinator_epoch, s).
     sum_bind (read_counter s) (\<lambda>(cluster_epoch, s).
     sum_bind (read_counter s) (\<lambda>(topology_epoch, s).
     sum_bind (read_counter s) (\<lambda>(topology_generation, s).
     sum_bind (read_counter s) (\<lambda>(membership_generation, s).
     sum_bind (r_text s) (\<lambda>(detail, s).
       Inr (\<lparr>pk_accepted = accepted, pk_reason = reason, pk_coordinator_epoch = coordinator_epoch,
             pk_cluster_epoch = cluster_epoch, pk_topology_epoch = topology_epoch,
             pk_topology_generation = topology_generation,
             pk_membership_generation = membership_generation, pk_detail = detail\<rparr>, s)))))))))"

lemma emits_register_ack: "emits (write_register_ack m) read_register_ack m"
  unfolding write_register_ack_def read_register_ack_def [abs_def] seq_steps
  by ((rule emits_bind emits_wire)+ | rule emits_last | simp)+

lemma takes_register_ack: "takes read_register_ack write_register_ack (\<lambda>m. True)"
  unfolding read_register_ack_def [abs_def]
  by (rule takes_start, (rule takes_step, (rule takes_wire)+)+, rule takes_end)
    (simp_all add: write_register_ack_def seq_steps)

declare emits_register_ack [emits_wire] takes_register_ack [takes_wire]

record heartbeat_message =
  hb_cluster :: cluster_id
  hb_authority :: mutation_authority
  hb_sent_at :: timestamp

definition write_heartbeat :: "heartbeat_message \<Rightarrow> writer \<Rightarrow> writer" where
  "write_heartbeat m =
     seq
      [w_id (hb_cluster m),
       write_authority (hb_authority m),
       w_i64 (hb_sent_at m)]"

definition read_heartbeat :: "string \<Rightarrow> protocol_status + heartbeat_message \<times> string" where
  "read_heartbeat s =
     sum_bind (read_identity_value s) (\<lambda>(cluster, s).
     sum_bind (read_authority s) (\<lambda>(authority, s).
     sum_bind (r_i64 s) (\<lambda>(sent_at, s).
       Inr (\<lparr>hb_cluster = cluster, hb_authority = authority, hb_sent_at = sent_at\<rparr>, s))))"

definition heartbeat_sendable :: "heartbeat_message \<Rightarrow> bool" where
  "heartbeat_sendable m \<longleftrightarrow>
     valid_id (hb_cluster m) \<and> authority_sendable (hb_authority m)
     \<and> i64_range (hb_sent_at m)"

lemma emits_heartbeat: "heartbeat_sendable m \<Longrightarrow> emits (write_heartbeat m) read_heartbeat m"
  unfolding write_heartbeat_def read_heartbeat_def [abs_def] heartbeat_sendable_def seq_steps
  by ((rule emits_bind emits_wire)+ | elim conjE | assumption | rule emits_last | simp)+

lemma takes_heartbeat: "takes read_heartbeat write_heartbeat heartbeat_sendable"
  unfolding read_heartbeat_def [abs_def]
  by (rule takes_start, (rule takes_step, (rule takes_wire)+)+, rule takes_end)
    (simp_all add: write_heartbeat_def seq_steps heartbeat_sendable_def)

declare emits_heartbeat [emits_wire] takes_heartbeat [takes_wire]

record heartbeat_ack_message =
  bk_coordinator_epoch :: coordinator_epoch
  bk_cluster_epoch :: cluster_epoch
  bk_topology_epoch :: topology_epoch
  bk_lifecycle :: cluster_lifecycle
  bk_accepted :: bool
  bk_reason :: rejection_reason
  bk_detail :: string

definition write_heartbeat_ack :: "heartbeat_ack_message \<Rightarrow> writer \<Rightarrow> writer" where
  "write_heartbeat_ack m =
     seq
      [write_counter (bk_coordinator_epoch m),
       write_counter (bk_cluster_epoch m),
       write_counter (bk_topology_epoch m),
       w_enum cluster_lifecycle_values (bk_lifecycle m),
       w_boolean (bk_accepted m),
       w_enum rejection_reason_values (bk_reason m),
       w_text (bk_detail m)]"

definition read_heartbeat_ack :: "string \<Rightarrow> protocol_status + heartbeat_ack_message \<times> string" where
  "read_heartbeat_ack s =
     sum_bind (read_counter s) (\<lambda>(coordinator_epoch, s).
     sum_bind (read_counter s) (\<lambda>(cluster_epoch, s).
     sum_bind (read_counter s) (\<lambda>(topology_epoch, s).
     sum_bind (r_enum cluster_lifecycle_values CL_Retired s) (\<lambda>(lifecycle, s).
     sum_bind (r_boolean s) (\<lambda>(accepted, s).
     sum_bind (r_enum rejection_reason_values RR_Internal s) (\<lambda>(reason, s).
     sum_bind (r_text s) (\<lambda>(detail, s).
       Inr (\<lparr>bk_coordinator_epoch = coordinator_epoch, bk_cluster_epoch = cluster_epoch,
             bk_topology_epoch = topology_epoch, bk_lifecycle = lifecycle, bk_accepted = accepted,
             bk_reason = reason, bk_detail = detail\<rparr>, s))))))))"

lemma emits_heartbeat_ack: "emits (write_heartbeat_ack m) read_heartbeat_ack m"
  unfolding write_heartbeat_ack_def read_heartbeat_ack_def [abs_def] seq_steps
  by ((rule emits_bind emits_wire)+ | rule emits_last | simp)+

lemma takes_heartbeat_ack: "takes read_heartbeat_ack write_heartbeat_ack (\<lambda>m. True)"
  unfolding read_heartbeat_ack_def [abs_def]
  by (rule takes_start, (rule takes_step, (rule takes_wire)+)+, rule takes_end)
    (simp_all add: write_heartbeat_ack_def seq_steps)

declare emits_heartbeat_ack [emits_wire] takes_heartbeat_ack [takes_wire]

record publish_request_message =
  pq_request :: mutation_request

definition write_publish_request :: "publish_request_message \<Rightarrow> writer \<Rightarrow> writer" where
  "write_publish_request m = write_mutation_request (pq_request m)"

definition read_publish_request :: "string \<Rightarrow> protocol_status + publish_request_message \<times> string" where
  "read_publish_request s =
     sum_bind (read_mutation_request s) (\<lambda>(request, s).
       Inr (\<lparr>pq_request = request\<rparr>, s))"

definition publish_request_sendable :: "publish_request_message \<Rightarrow> bool" where
  "publish_request_sendable m \<longleftrightarrow>
     mutation_request_sendable (pq_request m)"

lemma emits_publish_request: "publish_request_sendable m \<Longrightarrow> emits (write_publish_request m) read_publish_request m"
  unfolding write_publish_request_def read_publish_request_def [abs_def] publish_request_sendable_def seq_steps
  by ((rule emits_bind emits_wire)+ | elim conjE | assumption | rule emits_last | simp)+

lemma takes_publish_request: "takes read_publish_request write_publish_request publish_request_sendable"
  unfolding read_publish_request_def [abs_def]
  by (rule takes_start, (rule takes_step, (rule takes_wire)+)+, rule takes_end)
    (simp_all add: write_publish_request_def seq_steps publish_request_sendable_def)

declare emits_publish_request [emits_wire] takes_publish_request [takes_wire]

record publish_result_message =
  pr_result :: full_result

definition write_publish_result :: "publish_result_message \<Rightarrow> writer \<Rightarrow> writer" where
  "write_publish_result m = write_mutation_result (pr_result m)"

definition read_publish_result :: "string \<Rightarrow> protocol_status + publish_result_message \<times> string" where
  "read_publish_result s =
     sum_bind (read_mutation_result s) (\<lambda>(result, s).
       Inr (\<lparr>pr_result = result\<rparr>, s))"

lemma emits_publish_result: "emits (write_publish_result m) read_publish_result m"
  unfolding write_publish_result_def read_publish_result_def [abs_def] seq_steps
  by ((rule emits_bind emits_wire)+ | rule emits_last | simp)+

lemma takes_publish_result: "takes read_publish_result write_publish_result (\<lambda>m. True)"
  unfolding read_publish_result_def [abs_def]
  by (rule takes_start, (rule takes_step, (rule takes_wire)+)+, rule takes_end)
    (simp_all add: write_publish_result_def seq_steps)

declare emits_publish_result [emits_wire] takes_publish_result [takes_wire]

record snapshot_request_message =
  sq_cluster :: cluster_id

definition write_snapshot_request :: "snapshot_request_message \<Rightarrow> writer \<Rightarrow> writer" where
  "write_snapshot_request m = w_id (sq_cluster m)"

definition read_snapshot_request :: "string \<Rightarrow> protocol_status + snapshot_request_message \<times> string" where
  "read_snapshot_request s =
     sum_bind (read_identity_value s) (\<lambda>(cluster, s).
       Inr (\<lparr>sq_cluster = cluster\<rparr>, s))"

definition snapshot_request_sendable :: "snapshot_request_message \<Rightarrow> bool" where
  "snapshot_request_sendable m \<longleftrightarrow>
     valid_id (sq_cluster m)"

lemma emits_snapshot_request: "snapshot_request_sendable m \<Longrightarrow> emits (write_snapshot_request m) read_snapshot_request m"
  unfolding write_snapshot_request_def read_snapshot_request_def [abs_def] snapshot_request_sendable_def seq_steps
  by ((rule emits_bind emits_wire)+ | elim conjE | assumption | rule emits_last | simp)+

lemma takes_snapshot_request: "takes read_snapshot_request write_snapshot_request snapshot_request_sendable"
  unfolding read_snapshot_request_def [abs_def]
  by (rule takes_start, (rule takes_step, (rule takes_wire)+)+, rule takes_end)
    (simp_all add: write_snapshot_request_def seq_steps snapshot_request_sendable_def)

declare emits_snapshot_request [emits_wire] takes_snapshot_request [takes_wire]

record snapshot_response_message =
  sp_accepted :: bool
  sp_reason :: rejection_reason
  sp_detail :: string
  sp_view :: full_view

definition write_snapshot_response :: "snapshot_response_message \<Rightarrow> writer \<Rightarrow> writer" where
  "write_snapshot_response m =
     seq
      [w_boolean (sp_accepted m),
       w_enum rejection_reason_values (sp_reason m),
       w_text (sp_detail m),
       write_snapshot_view (sp_view m)]"

definition read_snapshot_response :: "string \<Rightarrow> protocol_status + snapshot_response_message \<times> string" where
  "read_snapshot_response s =
     sum_bind (r_boolean s) (\<lambda>(accepted, s).
     sum_bind (r_enum rejection_reason_values RR_Internal s) (\<lambda>(reason, s).
     sum_bind (r_text s) (\<lambda>(detail, s).
     sum_bind (read_snapshot_view s) (\<lambda>(view, s).
       Inr (\<lparr>sp_accepted = accepted, sp_reason = reason, sp_detail = detail, sp_view = view\<rparr>, s)))))"

definition snapshot_response_sendable :: "snapshot_response_message \<Rightarrow> bool" where
  "snapshot_response_sendable m \<longleftrightarrow>
     snapshot_view_sendable (sp_view m)"

lemma emits_snapshot_response: "snapshot_response_sendable m \<Longrightarrow> emits (write_snapshot_response m) read_snapshot_response m"
  unfolding write_snapshot_response_def read_snapshot_response_def [abs_def] snapshot_response_sendable_def seq_steps
  by ((rule emits_bind emits_wire)+ | elim conjE | assumption | rule emits_last | simp)+

lemma takes_snapshot_response: "takes read_snapshot_response write_snapshot_response snapshot_response_sendable"
  unfolding read_snapshot_response_def [abs_def]
  by (rule takes_start, (rule takes_step, (rule takes_wire)+)+, rule takes_end)
    (simp_all add: write_snapshot_response_def seq_steps snapshot_response_sendable_def)

declare emits_snapshot_response [emits_wire] takes_snapshot_response [takes_wire]

record validate_request_message =
  vq_view :: full_view

definition write_validate_request :: "validate_request_message \<Rightarrow> writer \<Rightarrow> writer" where
  "write_validate_request m = write_snapshot_view (vq_view m)"

definition read_validate_request :: "string \<Rightarrow> protocol_status + validate_request_message \<times> string" where
  "read_validate_request s =
     sum_bind (read_snapshot_view s) (\<lambda>(view, s).
       Inr (\<lparr>vq_view = view\<rparr>, s))"

definition validate_request_sendable :: "validate_request_message \<Rightarrow> bool" where
  "validate_request_sendable m \<longleftrightarrow>
     snapshot_view_sendable (vq_view m)"

lemma emits_validate_request: "validate_request_sendable m \<Longrightarrow> emits (write_validate_request m) read_validate_request m"
  unfolding write_validate_request_def read_validate_request_def [abs_def] validate_request_sendable_def seq_steps
  by ((rule emits_bind emits_wire)+ | elim conjE | assumption | rule emits_last | simp)+

lemma takes_validate_request: "takes read_validate_request write_validate_request validate_request_sendable"
  unfolding read_validate_request_def [abs_def]
  by (rule takes_start, (rule takes_step, (rule takes_wire)+)+, rule takes_end)
    (simp_all add: write_validate_request_def seq_steps validate_request_sendable_def)

declare emits_validate_request [emits_wire] takes_validate_request [takes_wire]

record validate_response_message =
  vp_validation :: full_validation

definition write_validate_response :: "validate_response_message \<Rightarrow> writer \<Rightarrow> writer" where
  "write_validate_response m = write_snapshot_validation (vp_validation m)"

definition read_validate_response :: "string \<Rightarrow> protocol_status + validate_response_message \<times> string" where
  "read_validate_response s =
     sum_bind (read_snapshot_validation s) (\<lambda>(validation, s).
       Inr (\<lparr>vp_validation = validation\<rparr>, s))"

definition validate_response_sendable :: "validate_response_message \<Rightarrow> bool" where
  "validate_response_sendable m \<longleftrightarrow>
     snapshot_validation_sendable (vp_validation m)"

lemma emits_validate_response: "validate_response_sendable m \<Longrightarrow> emits (write_validate_response m) read_validate_response m"
  unfolding write_validate_response_def read_validate_response_def [abs_def] validate_response_sendable_def seq_steps
  by ((rule emits_bind emits_wire)+ | elim conjE | assumption | rule emits_last | simp)+

lemma takes_validate_response: "takes read_validate_response write_validate_response validate_response_sendable"
  unfolding read_validate_response_def [abs_def]
  by (rule takes_start, (rule takes_step, (rule takes_wire)+)+, rule takes_end)
    (simp_all add: write_validate_response_def seq_steps validate_response_sendable_def)

declare emits_validate_response [emits_wire] takes_validate_response [takes_wire]

record revalidate_request_message =
  zq_cluster :: cluster_id
  zq_authority :: mutation_authority
  zq_racks :: "rack_id list"

definition write_revalidate_request :: "revalidate_request_message \<Rightarrow> writer \<Rightarrow> writer" where
  "write_revalidate_request m =
     seq
      [w_id (zq_cluster m),
       write_authority (zq_authority m),
       write_vector kMaxRacksPerCluster w_id (zq_racks m)]"

definition read_revalidate_request :: "string \<Rightarrow> protocol_status + revalidate_request_message \<times> string" where
  "read_revalidate_request s =
     sum_bind (read_identity_value s) (\<lambda>(cluster, s).
     sum_bind (read_authority s) (\<lambda>(authority, s).
     sum_bind (read_vector kMaxRacksPerCluster read_identity_value s) (\<lambda>(racks, s).
       Inr (\<lparr>zq_cluster = cluster, zq_authority = authority, zq_racks = racks\<rparr>, s))))"

definition revalidate_request_sendable :: "revalidate_request_message \<Rightarrow> bool" where
  "revalidate_request_sendable m \<longleftrightarrow>
     valid_id (zq_cluster m) \<and> authority_sendable (zq_authority m)
     \<and> (\<forall>k \<in> set (zq_racks m). valid_id k)"

lemma emits_revalidate_request: "revalidate_request_sendable m \<Longrightarrow> emits (write_revalidate_request m) read_revalidate_request m"
  unfolding write_revalidate_request_def read_revalidate_request_def [abs_def] revalidate_request_sendable_def seq_steps
  by ((rule emits_bind emits_wire)+ | elim conjE | assumption | rule emits_last | simp)+

lemma takes_revalidate_request: "takes read_revalidate_request write_revalidate_request revalidate_request_sendable"
  unfolding read_revalidate_request_def [abs_def]
  by (rule takes_start, (rule takes_step, (rule takes_wire)+)+, rule takes_end)
    (simp_all add: write_revalidate_request_def seq_steps revalidate_request_sendable_def)

declare emits_revalidate_request [emits_wire] takes_revalidate_request [takes_wire]

record revalidate_response_message =
  zp_accepted :: bool
  zp_reason :: rejection_reason
  zp_detail :: string
  zp_lifecycle :: cluster_lifecycle
  zp_readiness :: full_evaluation

definition write_revalidate_response :: "revalidate_response_message \<Rightarrow> writer \<Rightarrow> writer" where
  "write_revalidate_response m =
     seq
      [w_boolean (zp_accepted m),
       w_enum rejection_reason_values (zp_reason m),
       w_text (zp_detail m),
       w_enum cluster_lifecycle_values (zp_lifecycle m),
       write_readiness_evaluation (zp_readiness m)]"

definition read_revalidate_response :: "string \<Rightarrow> protocol_status + revalidate_response_message \<times> string" where
  "read_revalidate_response s =
     sum_bind (r_boolean s) (\<lambda>(accepted, s).
     sum_bind (r_enum rejection_reason_values RR_Internal s) (\<lambda>(reason, s).
     sum_bind (r_text s) (\<lambda>(detail, s).
     sum_bind (r_enum cluster_lifecycle_values CL_Retired s) (\<lambda>(lifecycle, s).
     sum_bind (read_readiness_evaluation s) (\<lambda>(readiness, s).
       Inr (\<lparr>zp_accepted = accepted, zp_reason = reason, zp_detail = detail, zp_lifecycle = lifecycle,
             zp_readiness = readiness\<rparr>, s))))))"

lemma emits_revalidate_response: "emits (write_revalidate_response m) read_revalidate_response m"
  unfolding write_revalidate_response_def read_revalidate_response_def [abs_def] seq_steps
  by ((rule emits_bind emits_wire)+ | rule emits_last | simp)+

lemma takes_revalidate_response: "takes read_revalidate_response write_revalidate_response (\<lambda>m. True)"
  unfolding read_revalidate_response_def [abs_def]
  by (rule takes_start, (rule takes_step, (rule takes_wire)+)+, rule takes_end)
    (simp_all add: write_revalidate_response_def seq_steps)

declare emits_revalidate_response [emits_wire] takes_revalidate_response [takes_wire]

record shutdown_message =
  sd_reason :: string

definition write_shutdown :: "shutdown_message \<Rightarrow> writer \<Rightarrow> writer" where
  "write_shutdown m = w_text (sd_reason m)"

definition read_shutdown :: "string \<Rightarrow> protocol_status + shutdown_message \<times> string" where
  "read_shutdown s =
     sum_bind (r_text s) (\<lambda>(reason, s).
       Inr (\<lparr>sd_reason = reason\<rparr>, s))"

lemma emits_shutdown: "emits (write_shutdown m) read_shutdown m"
  unfolding write_shutdown_def read_shutdown_def [abs_def] seq_steps
  by ((rule emits_bind emits_wire)+ | rule emits_last | simp)+

lemma takes_shutdown: "takes read_shutdown write_shutdown (\<lambda>m. True)"
  unfolding read_shutdown_def [abs_def]
  by (rule takes_start, (rule takes_step, (rule takes_wire)+)+, rule takes_end)
    (simp_all add: write_shutdown_def seq_steps)

declare emits_shutdown [emits_wire] takes_shutdown [takes_wire]

record error_message =
  em_error :: full_error

definition write_error_message :: "error_message \<Rightarrow> writer \<Rightarrow> writer" where
  "write_error_message m = write_structured_error (em_error m)"

definition read_error_message :: "string \<Rightarrow> protocol_status + error_message \<times> string" where
  "read_error_message s =
     sum_bind (read_structured_error s) (\<lambda>(error, s).
       Inr (\<lparr>em_error = error\<rparr>, s))"

lemma emits_error_message: "emits (write_error_message m) read_error_message m"
  unfolding write_error_message_def read_error_message_def [abs_def] seq_steps
  by ((rule emits_bind emits_wire)+ | rule emits_last | simp)+

lemma takes_error_message: "takes read_error_message write_error_message (\<lambda>m. True)"
  unfolding read_error_message_def [abs_def]
  by (rule takes_start, (rule takes_step, (rule takes_wire)+)+, rule takes_end)
    (simp_all add: write_error_message_def seq_steps)

declare emits_error_message [emits_wire] takes_error_message [takes_wire]

subsection \<open>Payloads\<close>

definition encode_message :: "('m \<Rightarrow> writer \<Rightarrow> writer) \<Rightarrow> 'm \<Rightarrow> string" where
  "encode_message write_body m =
     (let w = seq [write_version_tag, write_body m] new_writer in if wr_ok w then wr_data w else [])"

definition decode_message :: "(string \<Rightarrow> protocol_status + 'm \<times> string) \<Rightarrow> string \<Rightarrow> protocol_status + 'm" where
  "decode_message read_body payload =
     sum_bind (read_version_tag payload) (\<lambda>(version, s).
     sum_bind (read_body s) (\<lambda>(m, s).
       if s \<noteq> [] then Inl PR_TrailingGarbage else Inr m))"

locale payload_codec =
  fixes write_body :: "'m \<Rightarrow> writer \<Rightarrow> writer" and read_body :: "string \<Rightarrow> protocol_status + 'm \<times> string"
    and sendable :: "'m \<Rightarrow> bool"
  assumes written: "sendable m \<Longrightarrow> emits (write_body m) read_body m"
    and taken: "takes read_body write_body sendable"
begin

lemma encoded_decodes:
  assumes "sendable m" and "encode_message write_body m \<noteq> []"
  shows "decode_message read_body (encode_message write_body m) = Inr m"
proof -
  have ok: "wr_ok (fcomp write_version_tag (write_body m) new_writer)"
    and data: "encode_message write_body m = wr_data (fcomp write_version_tag (write_body m) new_writer)"
    using assms(2) by (auto simp: encode_message_def Let_def split: if_splits)
  have "emits (fcomp write_version_tag (write_body m))
      (\<lambda>s. sum_bind (read_version_tag s) (\<lambda>(version, s). read_body s)) m"
    by (rule emits_bind [OF emits_version written [OF assms(1)]])
  from emits_result [OF this ok] show ?thesis
    unfolding data decode_message_def by (auto simp: sum_bind_Inr)
qed

lemma encoded_within:
  assumes "sendable m" and "costs (write_body m) k" and "2 + k \<le> kMaxWriterBytes"
  shows "encode_message write_body m \<noteq> [] \<and> length (encode_message write_body m) \<le> 2 + k"
proof -
  let ?g = "fcomp write_version_tag (write_body m)"
  have "costs ?g (2 + k)"
    unfolding write_version_tag_def by (rule costs_bind [OF costs_prims(4) assms(2)])
  then have fits: "wr_ok (?g new_writer)" "length (wr_data (?g new_writer)) \<le> 2 + k"
    using assms(3) by (auto simp: costs_def new_writer_def wr_ok_def dest!: spec [of _ new_writer])
  have "emits ?g (\<lambda>s. sum_bind (read_version_tag s) (\<lambda>(version, s). read_body s)) m"
    by (rule emits_bind [OF emits_version written [OF assms(1)]])
  from emits_result [OF this fits(1)] have "wr_data (?g new_writer) \<noteq> []"
    by (auto simp: read_version_tag_def r_u16_def numeral_2_eq_2)
  then show ?thesis using fits by (simp add: encode_message_def Let_def)
qed

lemma decoded_encoding:
  assumes "decode_message read_body payload = Inr m" and "length payload \<le> kMaxWriterBytes"
  shows "sendable m \<and> payload = encode_message write_body m \<and> payload \<noteq> []"
proof -
  obtain v s where 1: "read_version_tag payload = Inr (v, s)" and 2: "read_body s = Inr (m, [])"
    using assms(1) by (auto simp: decode_message_def sum_bind_Inr split: if_splits)
  obtain a where a: "payload = a @ s" "appends (w_u16 v) a" "v = kProtocolVersion"
    using takesD [OF takes_version 1] by blast
  obtain b where b: "sendable m" "s = b" "appends (write_body m) b" using takesD [OF taken 2] by auto
  have "appends (fcomp write_version_tag (write_body m)) (a @ b)"
    using a(2,3) b(3) by (intro appends_fcomp) (simp_all add: write_version_tag_def)
  then have "fcomp write_version_tag (write_body m) new_writer = new_writer\<lparr>wr_data := payload\<rparr>"
    using assms(2) a(1) b(2) by (simp add: appends_def new_writer_def wr_ok_def)
  then have "encode_message write_body m = payload"
    by (simp add: encode_message_def Let_def new_writer_def wr_ok_def)
  moreover have "payload \<noteq> []" using 1 by (auto simp: read_version_tag_def r_u16_def numeral_2_eq_2)
  ultimately show ?thesis using b(1) by simp
qed

lemma decode_exact:
  "length payload \<le> kMaxWriterBytes \<Longrightarrow>
     decode_message read_body payload = Inr m \<longleftrightarrow>
       sendable m \<and> payload = encode_message write_body m \<and> payload \<noteq> []"
  using encoded_decodes [of m] decoded_encoding [of payload m] by auto

end

definition encode_hello :: "hello_message \<Rightarrow> string" where
  "encode_hello m = encode_message write_hello m"

definition decode_hello :: "string \<Rightarrow> protocol_status + hello_message" where
  "decode_hello payload = decode_message read_hello payload"

definition encode_hello_ack :: "hello_ack_message \<Rightarrow> string" where
  "encode_hello_ack m = encode_message write_hello_ack m"

definition decode_hello_ack :: "string \<Rightarrow> protocol_status + hello_ack_message" where
  "decode_hello_ack payload = decode_message read_hello_ack payload"

definition encode_register_publisher :: "register_publisher_message \<Rightarrow> string" where
  "encode_register_publisher m = encode_message write_register_publisher m"

definition decode_register_publisher :: "string \<Rightarrow> protocol_status + register_publisher_message" where
  "decode_register_publisher payload = decode_message read_register_publisher payload"

definition encode_register_ack :: "register_ack_message \<Rightarrow> string" where
  "encode_register_ack m = encode_message write_register_ack m"

definition decode_register_ack :: "string \<Rightarrow> protocol_status + register_ack_message" where
  "decode_register_ack payload = decode_message read_register_ack payload"

definition encode_heartbeat :: "heartbeat_message \<Rightarrow> string" where
  "encode_heartbeat m = encode_message write_heartbeat m"

definition decode_heartbeat :: "string \<Rightarrow> protocol_status + heartbeat_message" where
  "decode_heartbeat payload = decode_message read_heartbeat payload"

definition encode_heartbeat_ack :: "heartbeat_ack_message \<Rightarrow> string" where
  "encode_heartbeat_ack m = encode_message write_heartbeat_ack m"

definition decode_heartbeat_ack :: "string \<Rightarrow> protocol_status + heartbeat_ack_message" where
  "decode_heartbeat_ack payload = decode_message read_heartbeat_ack payload"

definition encode_publish_request :: "publish_request_message \<Rightarrow> string" where
  "encode_publish_request m = encode_message write_publish_request m"

definition decode_publish_request :: "string \<Rightarrow> protocol_status + publish_request_message" where
  "decode_publish_request payload = decode_message read_publish_request payload"

definition encode_publish_result :: "publish_result_message \<Rightarrow> string" where
  "encode_publish_result m = encode_message write_publish_result m"

definition decode_publish_result :: "string \<Rightarrow> protocol_status + publish_result_message" where
  "decode_publish_result payload = decode_message read_publish_result payload"

definition encode_snapshot_request :: "snapshot_request_message \<Rightarrow> string" where
  "encode_snapshot_request m = encode_message write_snapshot_request m"

definition decode_snapshot_request :: "string \<Rightarrow> protocol_status + snapshot_request_message" where
  "decode_snapshot_request payload = decode_message read_snapshot_request payload"

definition encode_snapshot_response :: "snapshot_response_message \<Rightarrow> string" where
  "encode_snapshot_response m = encode_message write_snapshot_response m"

definition decode_snapshot_response :: "string \<Rightarrow> protocol_status + snapshot_response_message" where
  "decode_snapshot_response payload = decode_message read_snapshot_response payload"

definition encode_validate_request :: "validate_request_message \<Rightarrow> string" where
  "encode_validate_request m = encode_message write_validate_request m"

definition decode_validate_request :: "string \<Rightarrow> protocol_status + validate_request_message" where
  "decode_validate_request payload = decode_message read_validate_request payload"

definition encode_validate_response :: "validate_response_message \<Rightarrow> string" where
  "encode_validate_response m = encode_message write_validate_response m"

definition decode_validate_response :: "string \<Rightarrow> protocol_status + validate_response_message" where
  "decode_validate_response payload = decode_message read_validate_response payload"

definition encode_revalidate_request :: "revalidate_request_message \<Rightarrow> string" where
  "encode_revalidate_request m = encode_message write_revalidate_request m"

definition decode_revalidate_request :: "string \<Rightarrow> protocol_status + revalidate_request_message" where
  "decode_revalidate_request payload = decode_message read_revalidate_request payload"

definition encode_revalidate_response :: "revalidate_response_message \<Rightarrow> string" where
  "encode_revalidate_response m = encode_message write_revalidate_response m"

definition decode_revalidate_response :: "string \<Rightarrow> protocol_status + revalidate_response_message" where
  "decode_revalidate_response payload = decode_message read_revalidate_response payload"

definition encode_shutdown :: "shutdown_message \<Rightarrow> string" where
  "encode_shutdown m = encode_message write_shutdown m"

definition decode_shutdown :: "string \<Rightarrow> protocol_status + shutdown_message" where
  "decode_shutdown payload = decode_message read_shutdown payload"

definition encode_error :: "error_message \<Rightarrow> string" where
  "encode_error m = encode_message write_error_message m"

definition decode_error :: "string \<Rightarrow> protocol_status + error_message" where
  "decode_error payload = decode_message read_error_message payload"

interpretation hello_payload: payload_codec write_hello read_hello "hello_sendable"
  by (rule payload_codec.intro) (simp_all add: emits_hello takes_hello)

interpretation hello_ack_payload: payload_codec write_hello_ack read_hello_ack "hello_ack_sendable"
  by (rule payload_codec.intro) (simp_all add: emits_hello_ack takes_hello_ack)

interpretation register_publisher_payload: payload_codec write_register_publisher read_register_publisher "register_publisher_sendable"
  by (rule payload_codec.intro) (simp_all add: emits_register_publisher takes_register_publisher)

interpretation register_ack_payload: payload_codec write_register_ack read_register_ack "(\<lambda>m. True)"
  by (rule payload_codec.intro) (simp_all add: emits_register_ack takes_register_ack)

interpretation heartbeat_payload: payload_codec write_heartbeat read_heartbeat "heartbeat_sendable"
  by (rule payload_codec.intro) (simp_all add: emits_heartbeat takes_heartbeat)

interpretation heartbeat_ack_payload: payload_codec write_heartbeat_ack read_heartbeat_ack "(\<lambda>m. True)"
  by (rule payload_codec.intro) (simp_all add: emits_heartbeat_ack takes_heartbeat_ack)

interpretation publish_request_payload: payload_codec write_publish_request read_publish_request "publish_request_sendable"
  by (rule payload_codec.intro) (simp_all add: emits_publish_request takes_publish_request)

interpretation publish_result_payload: payload_codec write_publish_result read_publish_result "(\<lambda>m. True)"
  by (rule payload_codec.intro) (simp_all add: emits_publish_result takes_publish_result)

interpretation snapshot_request_payload: payload_codec write_snapshot_request read_snapshot_request "snapshot_request_sendable"
  by (rule payload_codec.intro) (simp_all add: emits_snapshot_request takes_snapshot_request)

interpretation snapshot_response_payload: payload_codec write_snapshot_response read_snapshot_response "snapshot_response_sendable"
  by (rule payload_codec.intro) (simp_all add: emits_snapshot_response takes_snapshot_response)

interpretation validate_request_payload: payload_codec write_validate_request read_validate_request "validate_request_sendable"
  by (rule payload_codec.intro) (simp_all add: emits_validate_request takes_validate_request)

interpretation validate_response_payload: payload_codec write_validate_response read_validate_response "validate_response_sendable"
  by (rule payload_codec.intro) (simp_all add: emits_validate_response takes_validate_response)

interpretation revalidate_request_payload: payload_codec write_revalidate_request read_revalidate_request "revalidate_request_sendable"
  by (rule payload_codec.intro) (simp_all add: emits_revalidate_request takes_revalidate_request)

interpretation revalidate_response_payload: payload_codec write_revalidate_response read_revalidate_response "(\<lambda>m. True)"
  by (rule payload_codec.intro) (simp_all add: emits_revalidate_response takes_revalidate_response)

interpretation shutdown_payload: payload_codec write_shutdown read_shutdown "(\<lambda>m. True)"
  by (rule payload_codec.intro) (simp_all add: emits_shutdown takes_shutdown)

interpretation error_message_payload: payload_codec write_error_message read_error_message "(\<lambda>m. True)"
  by (rule payload_codec.intro) (simp_all add: emits_error_message takes_error_message)

text \<open>Any message, with the type its frame carries.\<close>

datatype message =
  M_Hello hello_message
  | M_HelloAck hello_ack_message
  | M_RegisterPublisher register_publisher_message
  | M_RegisterAck register_ack_message
  | M_Heartbeat heartbeat_message
  | M_HeartbeatAck heartbeat_ack_message
  | M_PublishRequest publish_request_message
  | M_PublishResult publish_result_message
  | M_SnapshotRequest snapshot_request_message
  | M_SnapshotResponse snapshot_response_message
  | M_ValidateSnapshotRequest validate_request_message
  | M_ValidateSnapshotResponse validate_response_message
  | M_RevalidateRequest revalidate_request_message
  | M_RevalidateResponse revalidate_response_message
  | M_Shutdown shutdown_message
  | M_Error error_message

fun type_of_message :: "message \<Rightarrow> message_type" where
  "type_of_message (M_Hello m) = MT_Hello"
| "type_of_message (M_HelloAck m) = MT_HelloAck"
| "type_of_message (M_RegisterPublisher m) = MT_RegisterPublisher"
| "type_of_message (M_RegisterAck m) = MT_RegisterAck"
| "type_of_message (M_Heartbeat m) = MT_Heartbeat"
| "type_of_message (M_HeartbeatAck m) = MT_HeartbeatAck"
| "type_of_message (M_PublishRequest m) = MT_PublishRequest"
| "type_of_message (M_PublishResult m) = MT_PublishResult"
| "type_of_message (M_SnapshotRequest m) = MT_SnapshotRequest"
| "type_of_message (M_SnapshotResponse m) = MT_SnapshotResponse"
| "type_of_message (M_ValidateSnapshotRequest m) = MT_ValidateSnapshotRequest"
| "type_of_message (M_ValidateSnapshotResponse m) = MT_ValidateSnapshotResponse"
| "type_of_message (M_RevalidateRequest m) = MT_RevalidateRequest"
| "type_of_message (M_RevalidateResponse m) = MT_RevalidateResponse"
| "type_of_message (M_Shutdown m) = MT_Shutdown"
| "type_of_message (M_Error m) = MT_Error"

fun encode_payload :: "message \<Rightarrow> string" where
  "encode_payload (M_Hello m) = encode_hello m"
| "encode_payload (M_HelloAck m) = encode_hello_ack m"
| "encode_payload (M_RegisterPublisher m) = encode_register_publisher m"
| "encode_payload (M_RegisterAck m) = encode_register_ack m"
| "encode_payload (M_Heartbeat m) = encode_heartbeat m"
| "encode_payload (M_HeartbeatAck m) = encode_heartbeat_ack m"
| "encode_payload (M_PublishRequest m) = encode_publish_request m"
| "encode_payload (M_PublishResult m) = encode_publish_result m"
| "encode_payload (M_SnapshotRequest m) = encode_snapshot_request m"
| "encode_payload (M_SnapshotResponse m) = encode_snapshot_response m"
| "encode_payload (M_ValidateSnapshotRequest m) = encode_validate_request m"
| "encode_payload (M_ValidateSnapshotResponse m) = encode_validate_response m"
| "encode_payload (M_RevalidateRequest m) = encode_revalidate_request m"
| "encode_payload (M_RevalidateResponse m) = encode_revalidate_response m"
| "encode_payload (M_Shutdown m) = encode_shutdown m"
| "encode_payload (M_Error m) = encode_error m"

fun decode_payload :: "message_type \<Rightarrow> string \<Rightarrow> protocol_status + message" where
  "decode_payload MT_Invalid payload = Inl PR_UnknownMessage"
| "decode_payload MT_Hello payload = map_sum id M_Hello (decode_hello payload)"
| "decode_payload MT_HelloAck payload = map_sum id M_HelloAck (decode_hello_ack payload)"
| "decode_payload MT_RegisterPublisher payload = map_sum id M_RegisterPublisher (decode_register_publisher payload)"
| "decode_payload MT_RegisterAck payload = map_sum id M_RegisterAck (decode_register_ack payload)"
| "decode_payload MT_Heartbeat payload = map_sum id M_Heartbeat (decode_heartbeat payload)"
| "decode_payload MT_HeartbeatAck payload = map_sum id M_HeartbeatAck (decode_heartbeat_ack payload)"
| "decode_payload MT_PublishRequest payload = map_sum id M_PublishRequest (decode_publish_request payload)"
| "decode_payload MT_PublishResult payload = map_sum id M_PublishResult (decode_publish_result payload)"
| "decode_payload MT_SnapshotRequest payload = map_sum id M_SnapshotRequest (decode_snapshot_request payload)"
| "decode_payload MT_SnapshotResponse payload = map_sum id M_SnapshotResponse (decode_snapshot_response payload)"
| "decode_payload MT_ValidateSnapshotRequest payload = map_sum id M_ValidateSnapshotRequest (decode_validate_request payload)"
| "decode_payload MT_ValidateSnapshotResponse payload = map_sum id M_ValidateSnapshotResponse (decode_validate_response payload)"
| "decode_payload MT_RevalidateRequest payload = map_sum id M_RevalidateRequest (decode_revalidate_request payload)"
| "decode_payload MT_RevalidateResponse payload = map_sum id M_RevalidateResponse (decode_revalidate_response payload)"
| "decode_payload MT_Shutdown payload = map_sum id M_Shutdown (decode_shutdown payload)"
| "decode_payload MT_Error payload = map_sum id M_Error (decode_error payload)"

fun message_sendable :: "message \<Rightarrow> bool" where
  "message_sendable (M_Hello m) \<longleftrightarrow> hello_sendable m"
| "message_sendable (M_HelloAck m) \<longleftrightarrow> hello_ack_sendable m"
| "message_sendable (M_RegisterPublisher m) \<longleftrightarrow> register_publisher_sendable m"
| "message_sendable (M_RegisterAck m) \<longleftrightarrow> True"
| "message_sendable (M_Heartbeat m) \<longleftrightarrow> heartbeat_sendable m"
| "message_sendable (M_HeartbeatAck m) \<longleftrightarrow> True"
| "message_sendable (M_PublishRequest m) \<longleftrightarrow> publish_request_sendable m"
| "message_sendable (M_PublishResult m) \<longleftrightarrow> True"
| "message_sendable (M_SnapshotRequest m) \<longleftrightarrow> snapshot_request_sendable m"
| "message_sendable (M_SnapshotResponse m) \<longleftrightarrow> snapshot_response_sendable m"
| "message_sendable (M_ValidateSnapshotRequest m) \<longleftrightarrow> validate_request_sendable m"
| "message_sendable (M_ValidateSnapshotResponse m) \<longleftrightarrow> validate_response_sendable m"
| "message_sendable (M_RevalidateRequest m) \<longleftrightarrow> revalidate_request_sendable m"
| "message_sendable (M_RevalidateResponse m) \<longleftrightarrow> True"
| "message_sendable (M_Shutdown m) \<longleftrightarrow> True"
| "message_sendable (M_Error m) \<longleftrightarrow> True"

lemmas payload_defs =
  encode_hello_def decode_hello_def
  encode_hello_ack_def decode_hello_ack_def
  encode_register_publisher_def decode_register_publisher_def
  encode_register_ack_def decode_register_ack_def
  encode_heartbeat_def decode_heartbeat_def
  encode_heartbeat_ack_def decode_heartbeat_ack_def
  encode_publish_request_def decode_publish_request_def
  encode_publish_result_def decode_publish_result_def
  encode_snapshot_request_def decode_snapshot_request_def
  encode_snapshot_response_def decode_snapshot_response_def
  encode_validate_request_def decode_validate_request_def
  encode_validate_response_def decode_validate_response_def
  encode_revalidate_request_def decode_revalidate_request_def
  encode_revalidate_response_def decode_revalidate_response_def
  encode_shutdown_def decode_shutdown_def
  encode_error_def decode_error_def

lemmas payloads_exact =
  hello_payload.decode_exact
  hello_ack_payload.decode_exact
  register_publisher_payload.decode_exact
  register_ack_payload.decode_exact
  heartbeat_payload.decode_exact
  heartbeat_ack_payload.decode_exact
  publish_request_payload.decode_exact
  publish_result_payload.decode_exact
  snapshot_request_payload.decode_exact
  snapshot_response_payload.decode_exact
  validate_request_payload.decode_exact
  validate_response_payload.decode_exact
  revalidate_request_payload.decode_exact
  revalidate_response_payload.decode_exact
  shutdown_payload.decode_exact
  error_message_payload.decode_exact

lemmas encoded_payloads =
  hello_payload.encoded_decodes
  hello_ack_payload.encoded_decodes
  register_publisher_payload.encoded_decodes
  register_ack_payload.encoded_decodes
  heartbeat_payload.encoded_decodes
  heartbeat_ack_payload.encoded_decodes
  publish_request_payload.encoded_decodes
  publish_result_payload.encoded_decodes
  snapshot_request_payload.encoded_decodes
  snapshot_response_payload.encoded_decodes
  validate_request_payload.encoded_decodes
  validate_response_payload.encoded_decodes
  revalidate_request_payload.encoded_decodes
  revalidate_response_payload.encoded_decodes
  shutdown_payload.encoded_decodes
  error_message_payload.encoded_decodes

lemma map_sum_Inr: "map_sum id f x = Inr y \<longleftrightarrow> (\<exists>m. x = Inr m \<and> y = f m)"
  by (cases x) auto

lemma decode_payload_exact:
  assumes "length payload \<le> kMaxWriterBytes"
  shows "decode_payload ty payload = Inr m \<longleftrightarrow>
     type_of_message m = ty \<and> message_sendable m \<and> payload = encode_payload m \<and> payload \<noteq> []"
  using assms by (cases ty; cases m) (simp_all add: map_sum_Inr payload_defs payloads_exact)

subsection \<open>Properties\<close>

definition sample_heartbeat :: heartbeat_message where
  "sample_heartbeat =
     \<lparr>hb_cluster = StrongId ''alpha'',
      hb_authority = default_authority
        \<lparr>ma_cluster_epoch := StrongCounter 3, ma_boot := Some (StrongId ''boot-1''),
         ma_rack := Some (StrongId ''rack-1''), ma_rack_generation := Some (StrongCounter 7)\<rparr>,
      hb_sent_at = 1700000000000\<rparr>"

lemma sample_heartbeat_sendable: "heartbeat_sendable sample_heartbeat"
proof -
  have "valid_id (StrongId ''alpha'' :: cluster_id)" "valid_id (StrongId ''boot-1'' :: boot_id)"
    "valid_id (StrongId ''rack-1'' :: rack_id)"
    by code_simp+
  then show ?thesis
    by (simp add: sample_heartbeat_def heartbeat_sendable_def authority_sendable_def default_authority_def
        i64_range_def i64_min_def i64_max_def)
qed

lemma costs_counter: "costs (write_counter c) 8"
  by (simp add: write_counter_def costs_prims)

lemma sample_heartbeat_costs: "costs (write_heartbeat sample_heartbeat) 100"
  unfolding sample_heartbeat_def write_heartbeat_def write_authority_def default_authority_def seq_steps
  by (rule costs_mono, (rule costs_rules costs_counter | simp add: kMaxEncodedStringBytes_def)+)

text \<open>
  C15. Decoding a payload is the exact inverse of encoding a message, for all sixteen messages: a payload
  within the bounds of the writer is decoded to a message if and only if the message has the type asked for,
  meets the demands of the decoder, and the payload is its non-empty encoding. So every encoded message is
  read back, everything decoded is well formed, and no two payloads are decoded to the same message.
\<close>

theorem payload_exact:
  assumes "length payload \<le> kMaxWriterBytes"
  shows "decode_payload ty payload = Inr m \<longleftrightarrow>
     type_of_message m = ty \<and> message_sendable m \<and> payload = encode_payload m \<and> payload \<noteq> []"
  using assms by (rule decode_payload_exact)

theorem payload_exact_witness:
  "decode_payload MT_Heartbeat (encode_payload (M_Heartbeat sample_heartbeat)) = Inr (M_Heartbeat sample_heartbeat)"
proof -
  have "encode_heartbeat sample_heartbeat \<noteq> [] \<and> length (encode_heartbeat sample_heartbeat) \<le> 2 + 100"
    unfolding encode_heartbeat_def
    by (rule heartbeat_payload.encoded_within [OF sample_heartbeat_sendable sample_heartbeat_costs])
      (simp add: kMaxWriterBytes_def kMaxPersistenceBytes_def)
  then show ?thesis
    by (subst payload_exact) (simp_all add: sample_heartbeat_sendable kMaxWriterBytes_def kMaxPersistenceBytes_def)
qed

end
