(* ===== verification/Frame_Codec.thy ===== *)
theory Frame_Codec
  imports Wire_Messages Crc32
begin

text \<open>
  Frames (\<^verbatim>\<open>FrameHeader\<close>, \<^verbatim>\<open>FrameOutcome\<close>, \<^verbatim>\<open>encode_frame\<close> and \<^verbatim>\<open>decode_frame\<close> in
  src/include/cluster_fabric/protocol.hpp and src/src/protocol.cpp). A frame is twenty-four bytes of magic,
  version, type, flags, sequence number and payload length, a checksum over those bytes and the payload,
  and the payload. The type is the underlying 16-bit value of \<^verbatim>\<open>MessageType\<close>, which need not be an
  enumerator. The structured error of a failed outcome, whose reason is the status, is left out.

  The decoder accepts exactly the byte strings that begin with a frame (\<open>frame_accepted\<close>), and a frame with
  one byte changed outside its length is not accepted (\<open>frame_byte\<close>).
\<close>

subsection \<open>Definitions\<close>

definition kFrameHeaderSize :: nat where "kFrameHeaderSize = 28"
definition kProtocolMagic :: u32 where "kProtocolMagic = 0x31465043"
definition kMaxFramePayloadBytes :: u32 where "kMaxFramePayloadBytes = 1048576"
definition kAbsoluteMaxFramePayloadBytes :: u32 where "kAbsoluteMaxFramePayloadBytes = 16777216"
definition kMaxMessageTypeRaw :: u8 where "kMaxMessageTypeRaw = 16"

definition message_type_values :: "message_type list" where
  "message_type_values = map fst kMessageTypeNames"

definition message_type_raw :: "message_type \<Rightarrow> u16" where
  "message_type_raw ty = ucast (raw_of message_type_values ty)"

record frame_header =
  fd_magic :: u32
  fd_version :: u16
  fd_type :: u16
  fd_flags :: u32
  fd_sequence :: u64
  fd_payload_length :: u32
  fd_checksum :: u32

record frame_outcome =
  fo_status :: protocol_status
  fo_header :: frame_header
  fo_payload :: string
  fo_consumed :: nat

definition bounded_max :: "u32 \<Rightarrow> u32" where
  "bounded_max max_payload =
     (if max_payload > kAbsoluteMaxFramePayloadBytes then kAbsoluteMaxFramePayloadBytes else max_payload)"

definition checksum_bytes :: "u32 \<Rightarrow> string" where
  "checksum_bytes checksum = map (\<lambda>index. byte_char (ucast (drop_bit (index * 8) checksum AND 0xFF))) [0..<4]"

definition encode_frame :: "u16 \<Rightarrow> u64 \<Rightarrow> string \<Rightarrow> u32 \<Rightarrow> u32 \<Rightarrow> string" where
  "encode_frame ty sequence payload flags max_payload =
     (if length payload > unat (bounded_max max_payload) then []
      else
        let header =
          seq
           [w_u32 kProtocolMagic,
            w_u16 kProtocolVersion,
            w_u16 ty,
            w_u32 flags,
            w_u64 sequence,
            w_u32 (of_nat (length payload))] new_writer
        in
        if \<not> wr_ok header \<or> length (wr_data header) \<noteq> kFrameHeaderSize - 4 then []
        else
          let frame = wr_data header @ payload in
          take (kFrameHeaderSize - 4) frame @ checksum_bytes (crc32 frame) @ drop (kFrameHeaderSize - 4) frame)"

definition empty_header :: frame_header where
  "empty_header =
     \<lparr>fd_magic = 0, fd_version = 0, fd_type = 0, fd_flags = 0, fd_sequence = 0, fd_payload_length = 0,
      fd_checksum = 0\<rparr>"

definition frame_failure :: "frame_header \<Rightarrow> protocol_status \<Rightarrow> frame_outcome" where
  "frame_failure header status = \<lparr>fo_status = status, fo_header = header, fo_payload = [], fo_consumed = 0\<rparr>"

definition frame_error :: "protocol_status \<Rightarrow> frame_outcome" where
  "frame_error status = frame_failure empty_header status"

definition read_frame_header :: "string \<Rightarrow> protocol_status + frame_header \<times> string" where
  "read_frame_header s =
     sum_bind (r_u32 s) (\<lambda>(magic, s).
     sum_bind (r_u16 s) (\<lambda>(version, s).
     sum_bind (r_u16 s) (\<lambda>(raw_type, s).
     sum_bind (r_u32 s) (\<lambda>(flags, s).
     sum_bind (r_u64 s) (\<lambda>(sequence, s).
     sum_bind (r_u32 s) (\<lambda>(payload_length, s).
     sum_bind (r_u32 s) (\<lambda>(checksum, s).
       Inr (\<lparr>fd_magic = magic, fd_version = version, fd_type = raw_type, fd_flags = flags,
             fd_sequence = sequence, fd_payload_length = payload_length, fd_checksum = checksum\<rparr>, s))))))))"

definition decode_frame :: "string \<Rightarrow> u32 \<Rightarrow> frame_outcome" where
  "decode_frame bytes max_payload =
     (if length bytes < kFrameHeaderSize then frame_error PR_TruncatedHeader
      else
        case read_frame_header bytes of
          Inl status \<Rightarrow> frame_error PR_TruncatedHeader
        | Inr (header, rest) \<Rightarrow>
            if fd_magic header \<noteq> kProtocolMagic then frame_failure header PR_BadMagic
            else if fd_version header \<noteq> kProtocolVersion then frame_failure header PR_UnsupportedVersion
            else if (ucast (fd_type header) :: u8) > kMaxMessageTypeRaw then frame_failure header PR_UnknownMessage
            else if fd_payload_length header > bounded_max max_payload then frame_failure header PR_OversizedFrame
            else if unat (fd_payload_length header) > length rest then frame_failure header PR_TruncatedPayload
            else
              let payload = take (unat (fd_payload_length header)) (drop kFrameHeaderSize bytes);
                  computed = crc32_extend (crc32_extend 0xFFFFFFFF (take (kFrameHeaderSize - 4) bytes)) payload
              in
              if computed XOR 0xFFFFFFFF \<noteq> fd_checksum header then frame_failure header PR_ChecksumMismatch
              else
                \<lparr>fo_status = PR_Ok, fo_header = header, fo_payload = payload,
                 fo_consumed = kFrameHeaderSize + unat (fd_payload_length header)\<rparr>)"

subsection \<open>The bytes of a frame\<close>

text \<open>The twenty-four bytes under the checksum.\<close>

definition frame_prefix :: "u16 \<Rightarrow> u64 \<Rightarrow> u32 \<Rightarrow> u32 \<Rightarrow> string" where
  "frame_prefix ty sequence flags len =
     store_le 4 (ucast kProtocolMagic) @ store_le 2 (ucast kProtocolVersion) @ store_le 2 (ucast ty) @
     store_le 4 (ucast flags) @ store_le 8 sequence @ store_le 4 (ucast len)"

definition frame_bytes :: "u16 \<Rightarrow> u64 \<Rightarrow> string \<Rightarrow> u32 \<Rightarrow> string" where
  "frame_bytes ty sequence payload flags =
     (let prefix = frame_prefix ty sequence flags (of_nat (length payload)) in
      prefix @ store_le 4 (ucast (crc32 (prefix @ payload))) @ payload)"

lemma length_frame_prefix [simp]: "length (frame_prefix ty sequence flags len) = 24"
  by (simp add: frame_prefix_def)

lemma length_frame_bytes [simp]: "length (frame_bytes ty sequence payload flags) = 28 + length payload"
  by (simp add: frame_bytes_def Let_def)

lemma checksum_bytes_eq: "checksum_bytes c = store_le 4 (ucast c)"
proof -
  have "(ucast (drop_bit n c AND 0xFF) :: u8) = ucast (drop_bit n (ucast c :: u64))" for n
  proof -
    have ones: "(0xFF :: u32) = mask 8" by (simp add: mask_eq_exp_minus_1)
    show ?thesis unfolding ones by (rule bit_eqI) (auto simp: bit_simps dest: bit_imp_le_length)
  qed
  then show ?thesis by (simp add: checksum_bytes_def numeral_eq_Suc upt_rec)
qed

lemma appends_ints:
  "appends (w_u16 a) (store_le 2 (ucast a))" "appends (w_u32 b) (store_le 4 (ucast b))" "appends (w_u64 c) (store_le 8 c)"
  using appends_le [of 2 0 "ucast a"] appends_le [of 4 0 "ucast b"] appends_le [of 8 0 c]
  by (simp_all add: w_u16_def w_u32_def w_u64_def)

lemma appends_new:
  assumes "appends g bs" and "length bs \<le> kMaxWriterBytes"
  shows "g new_writer = \<lparr>wr_data = bs, wr_status = PR_Ok\<rparr>"
  using assms by (simp add: appends_def new_writer_def wr_ok_def)

lemma header_bytes:
  "seq [w_u32 kProtocolMagic, w_u16 kProtocolVersion, w_u16 ty, w_u32 flags, w_u64 sequence, w_u32 len] new_writer
     = \<lparr>wr_data = frame_prefix ty sequence flags len, wr_status = PR_Ok\<rparr>"
proof -
  have "appends (seq [w_u32 kProtocolMagic, w_u16 kProtocolVersion, w_u16 ty, w_u32 flags, w_u64 sequence, w_u32 len])
      (frame_prefix ty sequence flags len)"
    unfolding frame_prefix_def seq.simps by (intro appends_fcomp appends_ints)
  then show ?thesis by (rule appends_new) (simp add: kMaxWriterBytes_def kMaxPersistenceBytes_def)
qed

lemma encode_frame_eq:
  "encode_frame ty sequence payload flags mx =
     (if length payload > unat (bounded_max mx) then [] else frame_bytes ty sequence payload flags)"
  unfolding encode_frame_def header_bytes Let_def
  by (simp add: wr_ok_def kFrameHeaderSize_def frame_bytes_def Let_def checksum_bytes_eq)

subsection \<open>Frames are read back\<close>

lemma unat_bounded_max: "unat (bounded_max mx) \<le> 16777216"
  by (simp add: bounded_max_def kAbsoluteMaxFramePayloadBytes_def word_less_nat_alt not_less)

lemma emits_from_appends:
  assumes "appends g bs" and "emits g rd x" and "length bs \<le> kMaxWriterBytes"
  shows "rd (bs @ rest) = Inr (x, rest)"
proof -
  have "g new_writer = \<lparr>wr_data = bs, wr_status = PR_Ok\<rparr>" by (rule appends_new [OF assms(1,3)])
  then show ?thesis using assms(2) unfolding emits_def by (auto simp: new_writer_def wr_ok_def dest!: spec [of _ new_writer])
qed

lemma reads_ints:
  "r_u16 (store_le 2 (ucast a) @ rest) = Inr (a, rest)" "r_u32 (store_le 4 (ucast b) @ rest) = Inr (b, rest)"
  "r_u64 (store_le 8 c @ rest) = Inr (c, rest)"
  by (rule emits_from_appends [OF appends_ints(1) emits_u16] emits_from_appends [OF appends_ints(2) emits_u32]
      emits_from_appends [OF appends_ints(3) emits_u64], simp add: kMaxWriterBytes_def kMaxPersistenceBytes_def)+

definition header_of :: "u16 \<Rightarrow> u64 \<Rightarrow> u32 \<Rightarrow> u32 \<Rightarrow> u32 \<Rightarrow> frame_header" where
  "header_of ty sequence flags len checksum =
     \<lparr>fd_magic = kProtocolMagic, fd_version = kProtocolVersion, fd_type = ty, fd_flags = flags,
      fd_sequence = sequence, fd_payload_length = len, fd_checksum = checksum\<rparr>"

lemma read_header_bytes:
  "read_frame_header (frame_prefix ty sequence flags len @ store_le 4 (ucast c) @ rest)
     = Inr (header_of ty sequence flags len c, rest)"
  by (simp add: read_frame_header_def frame_prefix_def reads_ints header_of_def)

definition accepted_frame :: "u16 \<Rightarrow> u64 \<Rightarrow> string \<Rightarrow> u32 \<Rightarrow> frame_outcome" where
  "accepted_frame ty sequence payload flags =
     \<lparr>fo_status = PR_Ok,
      fo_header =
        header_of ty sequence flags (of_nat (length payload))
          (crc32 (frame_prefix ty sequence flags (of_nat (length payload)) @ payload)),
      fo_payload = payload, fo_consumed = kFrameHeaderSize + length payload\<rparr>"

lemma frame_decodes:
  assumes "(ucast ty :: u8) \<le> kMaxMessageTypeRaw" and "length payload \<le> unat (bounded_max mx)"
  shows "decode_frame (frame_bytes ty sequence payload flags @ rest) mx = accepted_frame ty sequence payload flags"
proof -
  let ?len = "of_nat (length payload) :: u32"
  let ?p = "frame_prefix ty sequence flags ?len"
  have len: "unat ?len = length payload" using assms(2) unat_bounded_max [of mx] by (simp add: unat_of_nat)
  have bytes: "frame_bytes ty sequence payload flags @ rest = ?p @ store_le 4 (ucast (crc32 (?p @ payload))) @ payload @ rest"
    by (simp add: frame_bytes_def Let_def)
  have "take 24 (frame_bytes ty sequence payload flags @ rest) = ?p"
    "drop 28 (frame_bytes ty sequence payload flags @ rest) = payload @ rest"
    unfolding bytes by simp_all
  moreover have "\<not> ?len > bounded_max mx" using assms(2) len by (simp add: word_less_nat_alt)
  moreover have "read_frame_header (frame_bytes ty sequence payload flags @ rest)
      = Inr (header_of ty sequence flags ?len (crc32 (?p @ payload)), payload @ rest)"
    unfolding bytes by (rule read_header_bytes)
  moreover have "crc32_extend (crc32_extend 0xFFFFFFFF ?p) payload XOR 0xFFFFFFFF = crc32 (?p @ payload)"
    by (simp add: crc32_def crc32_extend_append)
  ultimately show ?thesis
    using assms(1) len by (simp add: decode_frame_def kFrameHeaderSize_def header_of_def accepted_frame_def Let_def not_less)
qed

subsection \<open>Only frames are accepted\<close>

definition write_frame_header :: "frame_header \<Rightarrow> writer \<Rightarrow> writer" where
  "write_frame_header h =
     seq
      [w_u32 (fd_magic h),
       w_u16 (fd_version h),
       w_u16 (fd_type h),
       w_u32 (fd_flags h),
       w_u64 (fd_sequence h),
       w_u32 (fd_payload_length h),
       w_u32 (fd_checksum h)]"

lemma takes_frame_header: "takes read_frame_header write_frame_header (\<lambda>h. True)"
  unfolding read_frame_header_def [abs_def]
  by (rule takes_start, (rule takes_step, (rule takes_wire)+)+, rule takes_end)
    (simp_all add: write_frame_header_def seq_steps)

lemma header_rest:
  assumes "read_frame_header bytes = Inr (h, rest)"
  shows "rest = drop 28 bytes \<and> 28 \<le> length bytes"
  using assms by (auto simp: read_frame_header_def sum_bind_Inr r_u16_def r_u32_def r_u64_def read_le_load)

lemma header_taken:
  assumes "read_frame_header bytes = Inr (h, rest)" and "fd_magic h = kProtocolMagic" and "fd_version h = kProtocolVersion"
  shows "bytes = frame_prefix (fd_type h) (fd_sequence h) (fd_flags h) (fd_payload_length h)
    @ store_le 4 (ucast (fd_checksum h)) @ rest"
proof -
  let ?p = "frame_prefix (fd_type h) (fd_sequence h) (fd_flags h) (fd_payload_length h) @ store_le 4 (ucast (fd_checksum h))"
  obtain bs where bs: "bytes = bs @ rest" "appends (write_frame_header h) bs"
    using takesD [OF takes_frame_header assms(1)] by blast
  have "appends (write_frame_header h) ?p"
    unfolding write_frame_header_def frame_prefix_def append_assoc seq.simps assms(2,3)
    by (intro appends_fcomp appends_ints)
  moreover have "length bs = 28"
  proof -
    have "length bytes = length bs + length rest" using bs(1) by simp
    moreover have "length rest = length bytes - 28" "28 \<le> length bytes" using header_rest [OF assms(1)] by simp_all
    ultimately show ?thesis by simp
  qed
  ultimately have "bs = ?p"
    using appends_new [of "write_frame_header h" bs] appends_new [of "write_frame_header h" ?p] bs(2)
    by (simp add: kMaxWriterBytes_def kMaxPersistenceBytes_def)
  then show ?thesis using bs(1) by simp
qed

lemma frame_accepted:
  assumes "fo_status (decode_frame bytes mx) = PR_Ok"
  obtains ty sequence payload flags rest where "(ucast ty :: u8) \<le> kMaxMessageTypeRaw"
    "length payload \<le> unat (bounded_max mx)" "bytes = frame_bytes ty sequence payload flags @ rest"
proof -
  obtain h rest where h: "read_frame_header bytes = Inr (h, rest)"
    using assms by (auto simp: decode_frame_def frame_error_def frame_failure_def split: if_splits sum.splits)
  let ?len = "unat (fd_payload_length h)"
  let ?payload = "take ?len rest"
  let ?p = "frame_prefix (fd_type h) (fd_sequence h) (fd_flags h) (fd_payload_length h)"
  have rest: "rest = drop 28 bytes" "28 \<le> length bytes" using header_rest [OF h] by simp_all
  have ok: "fd_magic h = kProtocolMagic" "fd_version h = kProtocolVersion" "(ucast (fd_type h) :: u8) \<le> kMaxMessageTypeRaw"
    "fd_payload_length h \<le> bounded_max mx" "?len \<le> length rest"
    "crc32_extend (crc32_extend 0xFFFFFFFF (take 24 bytes)) ?payload XOR 0xFFFFFFFF = fd_checksum h"
    using assms h rest
    by (auto simp: decode_frame_def frame_error_def frame_failure_def kFrameHeaderSize_def Let_def not_less split: if_splits)
  have bytes: "bytes = ?p @ store_le 4 (ucast (fd_checksum h)) @ rest" by (rule header_taken [OF h ok(1,2)])
  then have "take 24 bytes = ?p" by (metis append_eq_conv_conj length_frame_prefix)
  then have sum: "fd_checksum h = crc32 (?p @ ?payload)" using ok(6) by (simp add: crc32_def crc32_extend_append)
  have len: "of_nat (length ?payload) = fd_payload_length h" using ok(5) by simp
  have "bytes = frame_bytes (fd_type h) (fd_sequence h) ?payload (fd_flags h) @ drop ?len rest"
    unfolding frame_bytes_def Let_def len by (subst bytes) (simp add: sum)
  moreover have "length ?payload \<le> unat (bounded_max mx)" using ok(4,5) by (simp add: word_le_nat_alt)
  ultimately show thesis using that ok(3) by blast
qed

subsection \<open>Damage is detected\<close>

lemma frame_parts:
  "take 24 (frame_bytes ty sequence payload flags) = frame_prefix ty sequence flags (of_nat (length payload))"
  "drop 28 (frame_bytes ty sequence payload flags) = payload"
  "take 4 (drop 24 (frame_bytes ty sequence payload flags))
     = store_le 4 (ucast (crc32 (frame_prefix ty sequence flags (of_nat (length payload)) @ payload)))"
  "take 4 (drop 20 (frame_bytes ty sequence payload flags)) = store_le 4 (ucast (of_nat (length payload) :: u32))"
  by (simp_all add: frame_bytes_def Let_def) (simp add: frame_prefix_def)

lemma checksum_inject: "store_le 4 (ucast (x :: u32)) = store_le 4 (ucast y) \<longleftrightarrow> x = y"
proof
  assume "store_le 4 (ucast x) = store_le 4 (ucast y)"
  then have "Inr (x, []) = (Inr (y, []) :: protocol_status + u32 \<times> string)"
    using reads_ints(2) [of x "[]"] reads_ints(2) [of y "[]"] by argo
  then show "x = y" by simp
qed simp

lemma frame_byte:
  assumes p: "frame_bytes ty sequence payload flags = xs @ c # ys"
    and q: "frame_bytes ty' sequence' payload' flags' = xs @ d # ys"
  shows "c = d"
proof -
  let ?f = "frame_bytes ty sequence payload flags" and ?g = "frame_bytes ty' sequence' payload' flags'"
  let ?n = "length xs"
  have "length ?f = length ?g" unfolding p q by simp
  then have len: "length payload = length payload'" by simp
  have sums: "crc32 (take 24 ?f @ payload) = crc32 (take 24 ?g @ payload')" if "take 4 (drop 24 ?f) = take 4 (drop 24 ?g)"
    using that unfolding frame_parts checksum_inject by simp
  consider "?n < 24" | "24 \<le> ?n" "?n < 28" | "28 \<le> ?n" by linarith
  then show ?thesis
  proof cases
    case 1
    have rest: "drop 24 (xs @ e # ys) = drop (23 - ?n) ys" "drop 28 (xs @ e # ys) = drop (27 - ?n) ys" for e
      using 1 by (simp_all add: drop_Cons' numeral_eq_Suc Suc_diff_le)
    have "payload = payload'" using arg_cong [OF p, of "drop 28"] arg_cong [OF q, of "drop 28"] unfolding frame_parts rest by simp
    moreover have "take 24 (xs @ e # ys) = xs @ e # take (23 - ?n) ys" for e
      using 1 by (simp add: take_Cons' numeral_eq_Suc Suc_diff_le)
    then have "take 24 ?f = xs @ c # take (23 - ?n) ys" "take 24 ?g = xs @ d # take (23 - ?n) ys"
      unfolding p q by blast+
    moreover have "drop 24 ?f = drop 24 ?g" unfolding p q rest ..
    ultimately have "crc32 (xs @ c # take (23 - ?n) ys @ payload') = crc32 (xs @ d # take (23 - ?n) ys @ payload')"
      using sums by simp
    then show ?thesis by (simp only: crc32_byte)
  next
    case 2
    have "take 24 ?f = take 24 ?g" using 2 unfolding p q by simp
    moreover have "drop 28 (xs @ e # ys) = drop (27 - ?n) ys" for e using 2 by (simp add: drop_Cons' numeral_eq_Suc Suc_diff_le)
    then have "payload = payload'" using arg_cong [OF p, of "drop 28"] arg_cong [OF q, of "drop 28"] unfolding frame_parts by simp
    ultimately have "?f = ?g" unfolding frame_bytes_def Let_def using frame_parts(1) [of ty sequence payload flags]
        frame_parts(1) [of ty' sequence' payload' flags'] by simp
    then show ?thesis unfolding p q by simp
  next
    case 3
    have "payload = drop 28 xs @ c # ys" "payload' = drop 28 xs @ d # ys"
      using 3 arg_cong [OF p, of "drop 28"] arg_cong [OF q, of "drop 28"] unfolding frame_parts by simp_all
    moreover have "take 24 ?f = take 24 ?g" "take 4 (drop 24 ?f) = take 4 (drop 24 ?g)" using 3 unfolding p q by simp_all
    ultimately show ?thesis using sums crc32_byte [of "take 24 ?f @ drop 28 xs" c ys d] by simp
  qed
qed

lemma frame_damage:
  assumes "length payload \<le> unat (bounded_max mx)"
    and bytes: "frame_bytes ty sequence payload flags @ rest = xs @ c # ys"
    and within_frame: "length xs < 28 + length payload" and outside_length: "length xs < 20 \<or> 24 \<le> length xs"
    and accepted: "fo_status (decode_frame (xs @ d # ys) mx) = PR_Ok"
  shows "d = c"
proof -
  let ?f = "frame_bytes ty sequence payload flags"
  obtain ty' sequence' payload' flags' rest' where small: "length payload' \<le> unat (bounded_max mx)"
    and bytes': "xs @ d # ys = frame_bytes ty' sequence' payload' flags' @ rest'"
    using accepted by (rule frame_accepted)
  let ?g = "frame_bytes ty' sequence' payload' flags'"
  have field: "take 4 (drop 20 (xs @ c # ys)) = take 4 (drop 20 (xs @ d # ys))"
  proof (cases "length xs < 20")
    case True
    then have "drop 20 (xs @ e # ys) = drop (19 - length xs) ys" for e by (simp add: drop_Cons' numeral_eq_Suc Suc_diff_le)
    then show ?thesis by simp
  next
    case False
    then show ?thesis using outside_length by simp
  qed
  have "take 4 (drop 20 (?f @ rest)) = take 4 (drop 20 ?f)" "take 4 (drop 20 (?g @ rest')) = take 4 (drop 20 ?g)"
    by simp_all
  then have "(of_nat (length payload) :: u32) = of_nat (length payload')"
    using field unfolding bytes [symmetric] bytes' frame_parts by (simp add: checksum_inject)
  moreover have "unat (of_nat n :: u32) = n" if "n \<le> unat (bounded_max mx)" for n
    using that unat_bounded_max [of mx] by (simp add: unat_of_nat)
  ultimately have len: "length payload = length payload'" using assms(1) small by metis
  have "?f = xs @ c # take (27 + length payload - length xs) ys"
    using arg_cong [OF bytes, of "take (28 + length payload)"] within_frame by (simp add: take_Cons' Suc_diff_le)
  moreover have "?g = xs @ d # take (27 + length payload - length xs) ys"
    using arg_cong [OF bytes', of "take (28 + length payload)"] within_frame len by (simp add: take_Cons' Suc_diff_le)
  ultimately show ?thesis using frame_byte by blast
qed

subsection \<open>Message types\<close>

lemma message_type_listed: "v \<in> set message_type_values"
  by (cases v) (simp_all add: message_type_values_def kMessageTypeNames_def)

interpretation message_type_enum: raw_enum message_type_values MT_Error
  by (rule raw_enum.intro, rule message_type_listed) (simp_all add: message_type_values_def kMessageTypeNames_def)

lemma message_type_low: "(ucast (message_type_raw ty) :: u8) = raw_of message_type_values ty"
  unfolding message_type_raw_def by (rule bit_eqI) (auto simp: bit_simps dest: bit_imp_le_length)

lemma message_type_raw_inject: "message_type_raw a = message_type_raw b \<longleftrightarrow> a = b"
  by (metis message_type_low message_type_enum.of_raw_of)

lemma message_type_accepted: "(ucast (message_type_raw ty) :: u8) \<le> kMaxMessageTypeRaw"
proof -
  have "raw_of message_type_values MT_Error = kMaxMessageTypeRaw"
    by (simp add: raw_of_def message_type_values_def kMessageTypeNames_def kMaxMessageTypeRaw_def)
  then show ?thesis unfolding message_type_low using message_type_enum.raw_le [of ty] by simp
qed

text \<open>Only the low byte of the type is compared, so a type that no enumerator has is accepted.\<close>

lemma undeclared_type_accepted:
  "fo_status (decode_frame (encode_frame 257 1 [] 0 kMaxFramePayloadBytes) kMaxFramePayloadBytes) = PR_Ok
   \<and> (\<forall>ty. message_type_raw ty \<noteq> 257)"
proof -
  have "(ucast (257 :: u16) :: u8) \<le> kMaxMessageTypeRaw" by (simp add: kMaxMessageTypeRaw_def)
  then have "decode_frame (frame_bytes 257 1 [] 0 @ []) kMaxFramePayloadBytes = accepted_frame 257 1 [] 0"
    by (rule frame_decodes) simp
  moreover have "message_type_raw ty \<noteq> 257" for ty
  proof
    assume eq: "message_type_raw ty = 257"
    have "\<not> bit (message_type_raw ty) 8" by (auto simp: message_type_raw_def bit_simps dest: bit_imp_le_length)
    then show False by (simp add: eq)
  qed
  ultimately show ?thesis by (simp add: encode_frame_eq accepted_frame_def)
qed

subsection \<open>Encodings are decoded\<close>

lemma encode_frame_nonempty:
  "encode_frame ty sequence payload flags mx \<noteq> [] \<longleftrightarrow> length payload \<le> unat (bounded_max mx)"
proof -
  have "frame_bytes ty sequence payload flags \<noteq> []"
    using length_frame_bytes [of ty sequence payload flags] by (metis add_is_0 list.size(3) zero_neq_numeral)
  then show ?thesis by (simp add: encode_frame_eq)
qed

text \<open>What the decoder reports of a frame with these bytes.\<close>

definition frame_report :: "u16 \<Rightarrow> u64 \<Rightarrow> string \<Rightarrow> u32 \<Rightarrow> string \<Rightarrow> frame_outcome" where
  "frame_report ty sequence payload flags encoding =
     \<lparr>fo_status = PR_Ok,
      fo_header =
        \<lparr>fd_magic = kProtocolMagic, fd_version = kProtocolVersion, fd_type = ty, fd_flags = flags,
         fd_sequence = sequence, fd_payload_length = of_nat (length payload),
         fd_checksum = crc32 (take 24 encoding @ payload)\<rparr>,
      fo_payload = payload, fo_consumed = length encoding\<rparr>"

lemma frame_report_accepted:
  "frame_report ty sequence payload flags (frame_bytes ty sequence payload flags) = accepted_frame ty sequence payload flags"
  by (simp add: frame_report_def accepted_frame_def header_of_def frame_parts kFrameHeaderSize_def)

lemma encoding_decodes:
  assumes "(ucast ty :: u8) \<le> kMaxMessageTypeRaw" and "encode_frame ty sequence payload flags mx \<noteq> []"
  shows "decode_frame (encode_frame ty sequence payload flags mx @ rest) mx
    = frame_report ty sequence payload flags (encode_frame ty sequence payload flags mx)"
proof -
  have len: "length payload \<le> unat (bounded_max mx)" using assms(2) unfolding encode_frame_nonempty .
  then have "encode_frame ty sequence payload flags mx = frame_bytes ty sequence payload flags" by (simp add: encode_frame_eq)
  then show ?thesis using frame_decodes [OF assms(1) len] by (simp add: frame_report_accepted)
qed

lemma decoded_encoding_frame:
  assumes "fo_status (decode_frame bytes mx) = PR_Ok"
  obtains ty sequence payload flags rest where "(ucast ty :: u8) \<le> kMaxMessageTypeRaw"
    "encode_frame ty sequence payload flags mx \<noteq> []" "bytes = encode_frame ty sequence payload flags mx @ rest"
proof -
  obtain ty sequence payload flags rest where 1: "(ucast ty :: u8) \<le> kMaxMessageTypeRaw"
    "length payload \<le> unat (bounded_max mx)" "bytes = frame_bytes ty sequence payload flags @ rest"
    using assms by (rule frame_accepted)
  have "encode_frame ty sequence payload flags mx = frame_bytes ty sequence payload flags"
    using 1(2) by (simp add: encode_frame_eq)
  moreover have "encode_frame ty sequence payload flags mx \<noteq> []" using 1(2) unfolding encode_frame_nonempty .
  ultimately show thesis using that 1(1,3) by metis
qed

subsection \<open>Properties\<close>

text \<open>
  C14. Decoding accepts exactly what encoding produces, whatever follows it. The decoder reports success with
  some outcome if and only if the bytes begin with the non-empty encoding of a frame whose type passes the
  range check, and the outcome is the header, the payload and the length of that frame. The range check looks
  at the low byte of the type only (\<open>undeclared_type_accepted\<close>).
\<close>

theorem frame_exact:
  "decode_frame bytes mx = outcome \<and> fo_status outcome = PR_Ok \<longleftrightarrow>
     (\<exists>ty sequence payload flags rest.
        (ucast ty :: u8) \<le> kMaxMessageTypeRaw
        \<and> encode_frame ty sequence payload flags mx \<noteq> []
        \<and> bytes = encode_frame ty sequence payload flags mx @ rest
        \<and> outcome =
            \<lparr>fo_status = PR_Ok,
             fo_header =
               \<lparr>fd_magic = kProtocolMagic, fd_version = kProtocolVersion, fd_type = ty, fd_flags = flags,
                fd_sequence = sequence, fd_payload_length = of_nat (length payload),
                fd_checksum = crc32 (take 24 (encode_frame ty sequence payload flags mx) @ payload)\<rparr>,
             fo_payload = payload, fo_consumed = length (encode_frame ty sequence payload flags mx)\<rparr>)"
  unfolding frame_report_def [symmetric]
proof
  assume "decode_frame bytes mx = outcome \<and> fo_status outcome = PR_Ok"
  then show "\<exists>ty sequence payload flags rest. (ucast ty :: u8) \<le> kMaxMessageTypeRaw
      \<and> encode_frame ty sequence payload flags mx \<noteq> [] \<and> bytes = encode_frame ty sequence payload flags mx @ rest
      \<and> outcome = frame_report ty sequence payload flags (encode_frame ty sequence payload flags mx)"
    using decoded_encoding_frame [of bytes mx] encoding_decodes [of _ _ _ _ mx] by metis
next
  assume "\<exists>ty sequence payload flags rest. (ucast ty :: u8) \<le> kMaxMessageTypeRaw
      \<and> encode_frame ty sequence payload flags mx \<noteq> [] \<and> bytes = encode_frame ty sequence payload flags mx @ rest
      \<and> outcome = frame_report ty sequence payload flags (encode_frame ty sequence payload flags mx)"
  then show "decode_frame bytes mx = outcome \<and> fo_status outcome = PR_Ok"
    using encoding_decodes by (elim exE conjE) (simp add: frame_report_def)
qed

end
