(* ===== verification/Session.thy ===== *)
theory Session
  imports Frame_Codec Coordinator
begin

text \<open>
  One client session of the coordinator (\<^verbatim>\<open>run_session\<close>, \<^verbatim>\<open>receive_exact\<close> and \<^verbatim>\<open>send_frame\<close> in
  src/src/coordinator_network.cpp). The peer is the string of bytes it sends before it closes; a transfer
  that does not complete, for whatever reason, ends the session. What the session does to its surroundings
  is a list of events: requests handed to \<^verbatim>\<open>submit\<close> and messages handed to \<^verbatim>\<open>send_frame\<close>. Other threads act between its
  steps, so what the session sees of the coordinator at each frame is an argument: the state under the
  lock, the clock, the answer of \<^verbatim>\<open>submit\<close>, the state after it and the stop flag. The semantic digest and
  the details of readiness blockers, texts that the rest of the development leaves out, are arguments too.

  \<open>session_loop\<close> works on bytes; \<open>message_loop\<close> is the same conversation at the level of messages.
\<close>

subsection \<open>Errors and results with their texts\<close>

definition make_full_error :: "error_category \<Rightarrow> error_stage \<Rightarrow> string \<Rightarrow> string \<Rightarrow> full_error" where
  "make_full_error category stage reason message =
     \<lparr>se_category = category, se_stage = stage, se_subject = [],
      se_reason = (if length reason > kMaxEncodedStringBytes then take kMaxEncodedStringBytes reason else reason),
      se_expected = [], se_current = [],
      se_message = (if length message > kMaxEncodedStringBytes then take kMaxEncodedStringBytes message else message)\<rparr>"

definition rejected_result :: "rejection_reason \<Rightarrow> error_stage \<Rightarrow> string \<Rightarrow> string \<Rightarrow> string \<Rightarrow> full_result" where
  "rejected_result reason stage subject detail reason_code =
     (let reason_code = (if reason_code = [] then rejection_reason_to_string reason else reason_code);
          error = (make_full_error (reason_category reason) stage reason_code detail)\<lparr>se_subject := subject\<rparr>
      in
      \<lparr>fm_outcome = MO_Rejected, fm_reason = reason, fm_error = error,
       fm_explanation = explanation_make (rejection_reason_to_string reason) subject (se_message error),
       fm_cluster_epoch = counter_zero, fm_coordinator_epoch = counter_zero,
       fm_cluster_generation = counter_zero, fm_membership_generation = counter_zero,
       fm_topology_epoch = counter_zero, fm_topology_generation = counter_zero,
       fm_connectivity_generation = counter_zero, fm_health_generation = counter_zero,
       fm_constraint_generation = counter_zero, fm_snapshot_generation = counter_zero,
       fm_publication_generation = counter_zero, fm_lifecycle = CL_Declared\<rparr>)"

definition result_accepted :: "full_result \<Rightarrow> bool" where
  "result_accepted r \<longleftrightarrow> fm_outcome r = MO_Accepted \<or> fm_outcome r = MO_NoChange"

subsection \<open>Sessions\<close>

record session =
  ss_sequence :: u64
  ss_handshake_done :: bool
  ss_boot :: "boot_id option"
  ss_racks :: "rack_id list"
  ss_stop :: bool

definition new_session :: session where
  "new_session = \<lparr>ss_sequence = 0, ss_handshake_done = False, ss_boot = None, ss_racks = [], ss_stop = False\<rparr>"

record surroundings =
  su_stop :: bool
  su_state :: cluster_state
  su_now :: timestamp
  su_submit :: "mutation_request \<Rightarrow> full_result"
  su_state_after :: cluster_state

record renderings =
  rn_digest :: "cluster_snapshot \<Rightarrow> string"
  rn_detail :: "readiness_blocker \<Rightarrow> string"

datatype session_event = Submitted mutation_request | Sent u64 message

text \<open>How the handling of a frame ends: with the next frame, with the session, or with the process.\<close>

datatype flow = Next | Closed | Terminated

type_synonym handled = "session_event list \<times> session \<times> flow"

definition send_reply :: "message \<Rightarrow> flow \<Rightarrow> session \<Rightarrow> handled" where
  "send_reply m f ses =
     (let n = ss_sequence ses + 1 in ([Sent n m], ses\<lparr>ss_sequence := n\<rparr>, f))"

definition with_submit :: "mutation_request \<Rightarrow> handled \<Rightarrow> handled" where
  "with_submit q h = (case h of (events, ses, f) \<Rightarrow> (Submitted q # events, ses, f))"

text \<open>The bytes of a message. An encoding that failed is an empty payload, which is framed all the same.\<close>

definition sent_bytes :: "u32 \<Rightarrow> u64 \<Rightarrow> message \<Rightarrow> string" where
  "sent_bytes max_payload n m =
     encode_frame (message_type_raw (type_of_message m)) n (encode_payload m) 0 max_payload"

text \<open>What \<^verbatim>\<open>send_frame\<close> writes for an event: the bound is the configured one, not the one of the session, and a
  frame that does not fit is not sent.\<close>

fun reply_bytes :: "u32 \<Rightarrow> session_event \<Rightarrow> string" where
  "reply_bytes configured (Sent n m) = sent_bytes configured n m"
| "reply_bytes configured (Submitted q) = []"

definition error_reply :: "error_stage \<Rightarrow> string \<Rightarrow> string \<Rightarrow> message" where
  "error_reply stage reason text = M_Error \<lparr>em_error = make_full_error EC_Protocol stage reason text\<rparr>"

fun protocol_status_to_string :: "protocol_status \<Rightarrow> string" where
  "protocol_status_to_string PR_Ok = ''OK''"
| "protocol_status_to_string PR_BadMagic = ''BAD_MAGIC''"
| "protocol_status_to_string PR_UnsupportedVersion = ''UNSUPPORTED_VERSION''"
| "protocol_status_to_string PR_TruncatedHeader = ''TRUNCATED_HEADER''"
| "protocol_status_to_string PR_TruncatedPayload = ''TRUNCATED_PAYLOAD''"
| "protocol_status_to_string PR_OversizedFrame = ''OVERSIZED_FRAME''"
| "protocol_status_to_string PR_ChecksumMismatch = ''CHECKSUM_MISMATCH''"
| "protocol_status_to_string PR_UnknownMessage = ''UNKNOWN_MESSAGE''"
| "protocol_status_to_string PR_MalformedPayload = ''MALFORMED_PAYLOAD''"
| "protocol_status_to_string PR_AbsurdLength = ''ABSURD_LENGTH''"
| "protocol_status_to_string PR_TrailingGarbage = ''TRAILING_GARBAGE''"
| "protocol_status_to_string PR_InvalidEnum = ''INVALID_ENUM''"
| "protocol_status_to_string PR_InvalidIdentity = ''INVALID_IDENTITY''"
| "protocol_status_to_string PR_ConnectionClosed = ''CONNECTION_CLOSED''"
| "protocol_status_to_string PR_IoError = ''IO_ERROR''"
| "protocol_status_to_string PR_NotConnected = ''NOT_CONNECTED''"
| "protocol_status_to_string PR_AlreadyRunning = ''ALREADY_RUNNING''"
| "protocol_status_to_string PR_NotRunning = ''NOT_RUNNING''"
| "protocol_status_to_string PR_ShutdownInProgress = ''SHUTDOWN_IN_PROGRESS''"
| "protocol_status_to_string PR_Rejected = ''REJECTED''"

subsection \<open>Receiving\<close>

definition receive_exact :: "nat \<Rightarrow> string \<Rightarrow> (string \<times> string) option" where
  "receive_exact n stream = (if n \<le> length stream then Some (take n stream, drop n stream) else None)"

datatype received = RF_Gone | RF_Oversized | RF_Refused protocol_status | RF_Frame frame_outcome string

definition checked :: "frame_outcome \<Rightarrow> string \<Rightarrow> received" where
  "checked frame stream = (if fo_status frame \<noteq> PR_Ok then RF_Refused (fo_status frame) else RF_Frame frame stream)"

definition receive_frame :: "u32 \<Rightarrow> string \<Rightarrow> received" where
  "receive_frame max_payload stream =
     (case receive_exact kFrameHeaderSize stream of
        None \<Rightarrow> RF_Gone
      | Some (header_bytes, stream) \<Rightarrow>
          let frame = decode_frame header_bytes max_payload in
          if fo_status frame = PR_TruncatedPayload
          then
            let payload_length = fd_payload_length (fo_header frame) in
            if payload_length > max_payload then RF_Oversized
            else
              (case receive_exact (unat payload_length) stream of
                 None \<Rightarrow> RF_Gone
               | Some (rest, stream) \<Rightarrow> checked (decode_frame (header_bytes @ rest) max_payload) stream)
          else checked frame stream)"

definition session_max_payload :: "u32 \<Rightarrow> u32" where
  "session_max_payload configured =
     (if configured = 0 \<or> configured > kAbsoluteMaxFramePayloadBytes then kMaxFramePayloadBytes else configured)"

subsection \<open>Handling one message\<close>

text \<open>Each handler takes what its decoder answered.\<close>

definition on_hello ::
  "cluster_id \<Rightarrow> surroundings \<Rightarrow> protocol_status + hello_message \<Rightarrow> session \<Rightarrow> handled" where
  "on_hello cluster su decoded ses =
     (let ack =
        \<lparr>hk_protocol_version = kProtocolVersion, hk_cluster = cluster, hk_coordinator_epoch = counter_zero,
         hk_cluster_epoch = counter_zero, hk_topology_epoch = counter_zero,
         hk_topology_generation = counter_zero, hk_lifecycle = CL_Declared, hk_accepted = False,
         hk_reason = RR_None, hk_detail = []\<rparr>
      in
      case decoded of
        Inl status \<Rightarrow>
          send_reply (M_HelloAck (ack\<lparr>hk_reason := RR_Malformed, hk_detail := ''HELLO payload is malformed''\<rparr>)) Closed ses
      | Inr hello \<Rightarrow>
          if hm_protocol_version hello \<noteq> kProtocolVersion
          then send_reply (M_HelloAck (ack\<lparr>hk_reason := RR_Malformed, hk_detail := ''unsupported protocol version''\<rparr>))
                 Closed ses
          else if hm_cluster hello \<noteq> cluster
          then send_reply (M_HelloAck (ack\<lparr>hk_reason := RR_WrongCluster,
                 hk_detail := ''peer targets a different cluster''\<rparr>)) Closed ses
          else
            let s = su_state su in
            send_reply
              (M_HelloAck (ack\<lparr>hk_accepted := True, hk_coordinator_epoch := cs_coordinator_epoch s,
                 hk_cluster_epoch := cs_epoch s, hk_topology_epoch := cs_topology_epoch s,
                 hk_topology_generation := cs_topology_generation s, hk_lifecycle := cs_lifecycle s\<rparr>))
              Next (ses\<lparr>ss_boot := Some (hm_boot hello), ss_handshake_done := True\<rparr>))"

definition registration_request ::
  "timestamp \<Rightarrow> boot_id option \<Rightarrow> boot_id \<Rightarrow> register_publisher_message \<Rightarrow> mutation_request" where
  "registration_request now boot reference_boot m = default_request
     \<lparr>mq_kind := MK_RegisterRackPublisher,
      mq_cluster := pb_cluster m,
      mq_authority := (pb_authority m)
        \<lparr>ma_boot := boot, ma_publisher := Some (pb_publisher m), ma_rack := Some (pb_rack m),
         ma_rack_generation := Some (pb_generation m)\<rparr>,
      mq_rack_reference := default_reference
        \<lparr>rf_rack := pb_rack m, rf_generation := pb_generation m, rf_rack_lifecycle := pb_rack_lifecycle m,
         rf_composition := pb_composition m, rf_origin_label := pb_origin_label m,
         rf_publisher := Some (pb_publisher m), rf_boot := reference_boot,
         rf_publication := ma_publication (pb_authority m)\<rparr>,
      mq_evidence := stamp_make EP_Reported now 0,
      mq_reason := ''rack_publisher_registration''\<rparr>"

text \<open>\<^verbatim>\<open>session->boot.value_or(message.authority.boot.value())\<close>: the argument is evaluated first, and \<^verbatim>\<open>value\<close> throws
  when the message names no incarnation. Nothing catches the exception in the thread of the session.\<close>

definition on_register_publisher ::
  "surroundings \<Rightarrow> protocol_status + register_publisher_message \<Rightarrow> session \<Rightarrow> handled" where
  "on_register_publisher su decoded ses =
     (let ack =
        \<lparr>pk_accepted = False, pk_reason = RR_None, pk_coordinator_epoch = counter_zero,
         pk_cluster_epoch = counter_zero, pk_topology_epoch = counter_zero,
         pk_topology_generation = counter_zero, pk_membership_generation = counter_zero, pk_detail = []\<rparr>
      in
      case decoded of
        Inl status \<Rightarrow>
          send_reply (M_RegisterAck (ack\<lparr>pk_reason := RR_Malformed, pk_detail := ''REGISTER payload is malformed''\<rparr>)) Next ses
      | Inr m \<Rightarrow>
          (case ma_boot (pb_authority m) of
             None \<Rightarrow> ([], ses, Terminated)
           | Some own_boot \<Rightarrow>
               let q = registration_request (su_now su) (ss_boot ses)
                         (case ss_boot ses of Some b \<Rightarrow> b | None \<Rightarrow> own_boot) m;
                   result = su_submit su q;
                   ack = \<lparr>pk_accepted = result_accepted result, pk_reason = fm_reason result,
                          pk_coordinator_epoch = fm_coordinator_epoch result,
                          pk_cluster_epoch = fm_cluster_epoch result,
                          pk_topology_epoch = fm_topology_epoch result,
                          pk_topology_generation = fm_topology_generation result,
                          pk_membership_generation = fm_membership_generation result,
                          pk_detail = ex_summary (fm_explanation result)\<rparr>;
                   ses = (if pk_accepted ack then ses\<lparr>ss_racks := ss_racks ses @ [pb_rack m]\<rparr> else ses)
               in with_submit q (send_reply (M_RegisterAck ack) Next ses)))"

definition bound_authority :: "session \<Rightarrow> mutation_authority \<Rightarrow> mutation_authority" where
  "bound_authority ses a = (case ss_boot ses of None \<Rightarrow> a | Some b \<Rightarrow> a\<lparr>ma_boot := Some b\<rparr>)"

definition on_publish_request ::
  "surroundings \<Rightarrow> protocol_status + publish_request_message \<Rightarrow> session \<Rightarrow> handled" where
  "on_publish_request su decoded ses =
     (case decoded of
        Inl status \<Rightarrow>
          send_reply (M_PublishResult
            \<lparr>pr_result = rejected_result RR_Malformed ES_Decode ''request'' ''PUBLISH payload is malformed''
                           ''malformed_payload''\<rparr>) Next ses
      | Inr m \<Rightarrow>
          let q = (pq_request m)\<lparr>mq_authority := bound_authority ses (mq_authority (pq_request m))\<rparr> in
          with_submit q (send_reply (M_PublishResult \<lparr>pr_result = su_submit su q\<rparr>) Next ses))"

definition on_heartbeat ::
  "cluster_id \<Rightarrow> surroundings \<Rightarrow> protocol_status + heartbeat_message \<Rightarrow> session \<Rightarrow> handled" where
  "on_heartbeat cluster su decoded ses =
     (let ack =
        \<lparr>bk_coordinator_epoch = counter_zero, bk_cluster_epoch = counter_zero, bk_topology_epoch = counter_zero,
         bk_lifecycle = CL_Declared, bk_accepted = False, bk_reason = RR_None, bk_detail = []\<rparr>
      in
      case decoded of
        Inl status \<Rightarrow>
          send_reply (M_HeartbeatAck (ack\<lparr>bk_reason := RR_Malformed, bk_detail := ''HEARTBEAT payload is malformed''\<rparr>)) Next ses
      | Inr m \<Rightarrow>
          let s = su_state su;
              ack = ack\<lparr>bk_coordinator_epoch := cs_coordinator_epoch s, bk_cluster_epoch := cs_epoch s,
                        bk_topology_epoch := cs_topology_epoch s, bk_lifecycle := cs_lifecycle s\<rparr>
          in
          send_reply
            (M_HeartbeatAck
              (if hb_cluster m \<noteq> cluster
               then ack\<lparr>bk_reason := RR_WrongCluster, bk_detail := ''heartbeat targets a different cluster''\<rparr>
               else if ma_coordinator_epoch (hb_authority m) \<noteq> cs_coordinator_epoch s
               then ack\<lparr>bk_reason := RR_StaleCoordinatorEpoch,
                        bk_detail := ''heartbeat was authored under a superseded coordinator epoch''\<rparr>
               else if ma_cluster_epoch (hb_authority m) \<noteq> cs_epoch s
               then ack\<lparr>bk_reason := RR_StaleClusterEpoch,
                        bk_detail := ''heartbeat was authored under a superseded cluster epoch''\<rparr>
               else ack\<lparr>bk_accepted := True\<rparr>))
            Next ses)"

definition view_message :: "snapshot_view \<Rightarrow> string \<Rightarrow> full_view" where
  "view_message v digest = snapshot_view.extend v \<lparr>vw_semantic_digest = digest, \<dots> = ()\<rparr>"


definition on_snapshot_request ::
  "renderings \<Rightarrow> cluster_id \<Rightarrow> surroundings \<Rightarrow> protocol_status + snapshot_request_message \<Rightarrow> session \<Rightarrow> handled" where
  "on_snapshot_request rn cluster su decoded ses =
     (let response =
        \<lparr>sp_accepted = False, sp_reason = RR_None, sp_detail = [], sp_view = view_message empty_view []\<rparr>
      in
      case decoded of
        Inl status \<Rightarrow>
          send_reply (M_SnapshotResponse (response\<lparr>sp_reason := RR_Malformed,
            sp_detail := ''SNAPSHOT_REQUEST payload is malformed''\<rparr>)) Next ses
      | Inr m \<Rightarrow>
          if sq_cluster m \<noteq> cluster
          then send_reply (M_SnapshotResponse (response\<lparr>sp_reason := RR_WrongCluster,
                 sp_detail := ''snapshot request targets a different cluster''\<rparr>)) Next ses
          else
            let snapshot = capture (su_state su) in
            send_reply (M_SnapshotResponse (response\<lparr>sp_accepted := True,
              sp_view := view_message (from_snapshot snapshot) (rn_digest rn snapshot)\<rparr>)) Next ses)"

definition validation_message :: "snapshot_validation \<Rightarrow> full_validation" where
  "validation_message v =
     \<lparr>fv_current = sv_current v, fv_consumable = sv_consumable v,
      fv_reasons = map (\<lambda>(reason, subject). raw_of snapshot_stale_reason_values reason) (sv_reasons v),
      fv_subjects = map snd (sv_reasons v), fv_explanation = explain_validation v\<rparr>"

definition on_validate_request ::
  "surroundings \<Rightarrow> protocol_status + validate_request_message \<Rightarrow> session \<Rightarrow> handled" where
  "on_validate_request su decoded ses =
     (case decoded of
        Inl status \<Rightarrow>
          send_reply (M_ValidateSnapshotResponse
            \<lparr>vp_validation =
               \<lparr>fv_current = False, fv_consumable = False, fv_reasons = [], fv_subjects = [],
                fv_explanation = explanation_make ''malformed_payload'' ''snapshot'' ''VALIDATE payload is malformed''\<rparr>\<rparr>)
            Next ses
      | Inr m \<Rightarrow>
          send_reply (M_ValidateSnapshotResponse
            \<lparr>vp_validation = validation_message (validate_view (snapshot_view.truncate (vq_view m)) (su_state su))\<rparr>)
            Next ses)"

definition readiness_message :: "renderings \<Rightarrow> readiness_evaluation \<Rightarrow> full_evaluation" where
  "readiness_message rn e =
     \<lparr>fe_satisfied = re_satisfied e, fe_lifecycle = re_lifecycle e,
      fe_blockers = map (\<lambda>b. \<lparr>rb_code = rb_code b, rb_subject = rb_subject b, rb_detail = rn_detail rn b\<rparr>)
        (re_blockers e)\<rparr>"

definition revalidation_request :: "timestamp \<Rightarrow> session \<Rightarrow> revalidate_request_message \<Rightarrow> mutation_request" where
  "revalidation_request now ses m = default_request
     \<lparr>mq_kind := MK_RevalidateRecoveredState,
      mq_cluster := zq_cluster m,
      mq_authority := bound_authority ses (zq_authority m),
      mq_racks := zq_racks m,
      mq_evidence := stamp_make EP_Reported now 0\<rparr>"

definition on_revalidate_request ::
  "renderings \<Rightarrow> surroundings \<Rightarrow> protocol_status + revalidate_request_message \<Rightarrow> session \<Rightarrow> handled" where
  "on_revalidate_request rn su decoded ses =
     (case decoded of
        Inl status \<Rightarrow>
          send_reply (M_RevalidateResponse
            \<lparr>zp_accepted = False, zp_reason = RR_Malformed, zp_detail = ''REVALIDATE payload is malformed'',
             zp_lifecycle = CL_Declared,
             zp_readiness = \<lparr>fe_satisfied = False, fe_lifecycle = CL_Declared, fe_blockers = []\<rparr>\<rparr>) Next ses
      | Inr m \<Rightarrow>
          let q = revalidation_request (su_now su) ses m;
              result = su_submit su q
          in
          with_submit q (send_reply (M_RevalidateResponse
            \<lparr>zp_accepted = result_accepted result, zp_reason = fm_reason result,
             zp_detail = ex_summary (fm_explanation result), zp_lifecycle = fm_lifecycle result,
             zp_readiness = readiness_message rn (evaluate_readiness (su_state_after su))\<rparr>) Next ses))"

definition on_shutdown :: "protocol_status + shutdown_message \<Rightarrow> session \<Rightarrow> handled" where
  "on_shutdown decoded ses =
     ([], (case decoded of Inl status \<Rightarrow> ses | Inr m \<Rightarrow> ses\<lparr>ss_stop := True\<rparr>), Next)"

definition handshake_required :: message where
  "handshake_required =
     error_reply ES_ValidateAuthority ''handshake_required'' ''HELLO must be the first message on a session''"

definition unknown_message :: message where
  "unknown_message =
     error_reply ES_Decode ''unknown_message'' ''message type is not accepted by the coordinator''"

definition process_frame ::
  "renderings \<Rightarrow> cluster_id \<Rightarrow> surroundings \<Rightarrow> u16 \<Rightarrow> string \<Rightarrow> session \<Rightarrow> handled" where
  "process_frame rn cluster su ty payload ses =
     (if ty = message_type_raw MT_Hello then on_hello cluster su (decode_hello payload) ses
      else if \<not> ss_handshake_done ses then send_reply handshake_required Closed ses
      else if ty = message_type_raw MT_RegisterPublisher
      then on_register_publisher su (decode_register_publisher payload) ses
      else if ty = message_type_raw MT_PublishRequest then on_publish_request su (decode_publish_request payload) ses
      else if ty = message_type_raw MT_Heartbeat then on_heartbeat cluster su (decode_heartbeat payload) ses
      else if ty = message_type_raw MT_SnapshotRequest
      then on_snapshot_request rn cluster su (decode_snapshot_request payload) ses
      else if ty = message_type_raw MT_ValidateSnapshotRequest
      then on_validate_request su (decode_validate_request payload) ses
      else if ty = message_type_raw MT_RevalidateRequest
      then on_revalidate_request rn su (decode_revalidate_request payload) ses
      else if ty = message_type_raw MT_Shutdown then on_shutdown (decode_shutdown payload) ses
      else send_reply unknown_message Next ses)"

subsection \<open>The loop\<close>

text \<open>The result is the events, the session at the end and whether the process survived. Every received frame
  takes at least a header from the stream.\<close>

lemma receive_frame_shorter: "receive_frame mx stream = RF_Frame frame rest \<Longrightarrow> length rest < length stream"
  by (auto simp: receive_frame_def receive_exact_def checked_def Let_def kFrameHeaderSize_def
      split: if_splits option.splits)

function session_loop ::
  "u32 \<Rightarrow> renderings \<Rightarrow> cluster_id \<Rightarrow> (nat \<Rightarrow> surroundings) \<Rightarrow> nat \<Rightarrow> session \<Rightarrow> string \<Rightarrow> handled" where
  "session_loop mx rn cluster around k ses stream =
     (if ss_stop ses \<or> su_stop (around k) then ([], ses, Closed)
      else case receive_frame mx stream of
        RF_Gone \<Rightarrow> ([], ses, Closed)
      | RF_Oversized \<Rightarrow>
          send_reply (error_reply ES_Decode ''oversized_frame'' ''declared payload exceeds the configured maximum'') Closed ses
      | RF_Refused status \<Rightarrow>
          send_reply (error_reply ES_Decode (protocol_status_to_string status)
            ''frame rejected before any state was touched'') Closed ses
      | RF_Frame frame rest \<Rightarrow>
          (case process_frame rn cluster (around k) (fd_type (fo_header frame)) (fo_payload frame) ses of
             (events, ses, Next) \<Rightarrow>
               (case session_loop mx rn cluster around (Suc k) ses rest of
                  (later, ses, f) \<Rightarrow> (events @ later, ses, f))
           | handled \<Rightarrow> handled))"
  by pat_completeness auto
termination
  by (relation "measure (\<lambda>(mx, rn, cluster, around, k, ses, stream). length stream)")
    (auto dest: receive_frame_shorter)

declare session_loop.simps [simp del]

definition run_session ::
  "u32 \<Rightarrow> renderings \<Rightarrow> cluster_id \<Rightarrow> (nat \<Rightarrow> surroundings) \<Rightarrow> string \<Rightarrow> handled" where
  "run_session configured rn cluster around stream =
     session_loop (session_max_payload configured) rn cluster around 0 new_session stream"

end
