(* ===== verification/Session_Laws.thy ===== *)
theory Session_Laws
  imports Session
begin

text \<open>
  What holds of a session. Received frames are exactly the frames the peer framed (\<open>receive_frame_bytes\<close>, \<open>receive_frame_taken\<close>);
  a session over encoded messages is the conversation over the messages (\<open>loop_refines\<close>); a request
  reaches the coordinator only under the incarnation a HELLO of this session announced (\<open>loop_bound\<close>). The
  last section has the ways in which an answer does not reach the peer, or the process does not survive.
\<close>

subsection \<open>Received frames\<close>

lemma bounded_max_session: "bounded_max (session_max_payload configured) = session_max_payload configured"
  by (auto simp: bounded_max_def session_max_payload_def kAbsoluteMaxFramePayloadBytes_def kMaxFramePayloadBytes_def)

lemma header_only:
  assumes "(ucast ty :: u8) \<le> kMaxMessageTypeRaw" and "length payload \<le> unat (bounded_max mx)" and "payload \<noteq> []"
  shows "decode_frame (take 28 (frame_bytes ty sequence payload flags @ rest)) mx
    = frame_failure (fo_header (accepted_frame ty sequence payload flags)) PR_TruncatedPayload"
proof -
  let ?len = "of_nat (length payload) :: u32"
  let ?p = "frame_prefix ty sequence flags ?len"
  have len: "unat ?len = length payload" using assms(2) unat_bounded_max [of mx] by (simp add: unat_of_nat)
  have bytes: "take 28 (frame_bytes ty sequence payload flags @ rest)
      = ?p @ store_le 4 (ucast (crc32 (?p @ payload))) @ []"
    by (simp add: frame_bytes_def Let_def)
  have "read_frame_header (take 28 (frame_bytes ty sequence payload flags @ rest))
      = Inr (header_of ty sequence flags ?len (crc32 (?p @ payload)), [])"
    unfolding bytes by (rule read_header_bytes)
  moreover have "\<not> ?len > bounded_max mx" using assms(2) len by (simp add: word_less_nat_alt)
  ultimately show ?thesis
    using assms(1,3) len
    by (simp add: decode_frame_def kFrameHeaderSize_def header_of_def accepted_frame_def frame_failure_def not_less)
qed

lemma receive_frame_bytes:
  assumes "(ucast ty :: u8) \<le> kMaxMessageTypeRaw" and "length payload \<le> unat mx" and "bounded_max mx = mx"
  shows "receive_frame mx (frame_bytes ty sequence payload flags @ rest)
    = RF_Frame (accepted_frame ty sequence payload flags) rest"
proof -
  let ?f = "frame_bytes ty sequence payload flags"
  have small: "length payload \<le> unat (bounded_max mx)" using assms by simp
  have len: "unat (of_nat (length payload) :: u32) = length payload"
    using small unat_bounded_max [of mx] by (simp add: unat_of_nat)
  have whole: "decode_frame ?f mx = accepted_frame ty sequence payload flags"
    using frame_decodes [OF assms(1) small, of sequence flags "[]"] by simp
  have ok: "fo_status (accepted_frame ty sequence payload flags) = PR_Ok" by (simp add: accepted_frame_def)
  have header: "receive_exact kFrameHeaderSize (?f @ rest) = Some (take 28 (?f @ rest), drop 28 ?f @ rest)"
    by (simp add: receive_exact_def kFrameHeaderSize_def)
  show ?thesis
  proof (cases "payload = []")
    case True
    then have "take 28 (?f @ rest) = ?f" "drop 28 ?f = []" by simp_all
    then show ?thesis using whole ok header by (simp add: receive_frame_def True checked_def Let_def del: take_append)
  next
    case False
    have split: "take 28 (?f @ rest) @ payload = ?f" "drop 28 ?f = payload"
      using append_take_drop_id [of 28 ?f] by (simp_all add: frame_parts(2))
    have "fd_payload_length (fo_header (accepted_frame ty sequence payload flags)) = of_nat (length payload)"
      by (simp add: accepted_frame_def header_of_def)
    moreover have "\<not> (of_nat (length payload) :: u32) > mx" using assms(2) len by (simp add: word_less_nat_alt)
    moreover have "receive_exact (length payload) (payload @ rest) = Some (payload, rest)" by (simp add: receive_exact_def)
    ultimately show ?thesis
      using header_only [OF assms(1) small False, of sequence flags rest]
      unfolding receive_frame_def header
      by (simp add: split len frame_failure_def whole checked_def ok del: take_append)
  qed
qed

lemma receive_frame_taken:
  assumes "receive_frame mx stream = RF_Frame frame rest"
  obtains ty sequence payload flags where "(ucast ty :: u8) \<le> kMaxMessageTypeRaw"
    "length payload \<le> unat (bounded_max mx)" "stream = frame_bytes ty sequence payload flags @ rest"
    "frame = accepted_frame ty sequence payload flags"
proof -
  let ?hb = "take 28 stream" and ?s = "drop 28 stream"
  let ?n = "unat (fd_payload_length (fo_header (decode_frame ?hb mx)))"
  have long: "28 \<le> length stream"
    using assms by (auto simp: receive_frame_def receive_exact_def kFrameHeaderSize_def split: if_splits)
  consider "decode_frame ?hb mx = frame" "fo_status frame = PR_Ok" "rest = ?s"
    | "fo_status (decode_frame ?hb mx) = PR_TruncatedPayload" "?n \<le> length ?s" "rest = drop ?n ?s"
      "decode_frame (?hb @ take ?n ?s) mx = frame" "fo_status frame = PR_Ok"
    using assms long
    by (auto simp: receive_frame_def receive_exact_def kFrameHeaderSize_def checked_def Let_def split: if_splits)
  then show thesis
  proof cases
    case 1
    then have "fo_status (decode_frame ?hb mx) = PR_Ok" by simp
    then obtain ty sequence payload flags r where f: "(ucast ty :: u8) \<le> kMaxMessageTypeRaw"
      "length payload \<le> unat (bounded_max mx)" "?hb = frame_bytes ty sequence payload flags @ r"
      by (rule frame_accepted)
    have "r = []" using arg_cong [OF f(3), of length] long by simp
    then have "stream = frame_bytes ty sequence payload flags @ rest"
      using f(3) 1(3) append_take_drop_id [of 28 stream] by simp
    moreover have "frame = accepted_frame ty sequence payload flags"
      using 1(1) frame_decodes [OF f(1,2), of sequence flags "[]"] f(3) \<open>r = []\<close> by simp
    ultimately show ?thesis using that f(1,2) by blast
  next
    case 2
    then have "fo_status (decode_frame (?hb @ take ?n ?s) mx) = PR_Ok" by simp
    then obtain ty sequence payload flags r where f: "(ucast ty :: u8) \<le> kMaxMessageTypeRaw"
      "length payload \<le> unat (bounded_max mx)" "?hb @ take ?n ?s = frame_bytes ty sequence payload flags @ r"
      by (rule frame_accepted)
    have hb: "?hb = take 28 (frame_bytes ty sequence payload flags @ r)"
      using arg_cong [OF f(3), of "take 28"] long by simp
    have "payload \<noteq> []"
    proof
      assume "payload = []"
      then have "?hb = frame_bytes ty sequence payload flags @ []" using hb by simp
      then have "fo_status (decode_frame ?hb mx) = PR_Ok" using frame_decodes [OF f(1,2)] by (metis accepted_frame_def frame_outcome.select_convs(1))
      then show False using 2(1) by simp
    qed
    then have "?n = length payload"
      using header_only [OF f(1,2), of sequence flags r] unat_bounded_max [of mx] f(2)
      unfolding hb [symmetric] by (simp add: frame_failure_def accepted_frame_def header_of_def unat_of_nat)
    then have "r = []" using arg_cong [OF f(3), of length] long 2(2) by simp
    then have "stream = frame_bytes ty sequence payload flags @ rest"
      using f(3) 2(3) by (metis append.assoc append_Nil2 append_take_drop_id)
    moreover have "frame = accepted_frame ty sequence payload flags"
      using 2(4) frame_decodes [OF f(1,2), of sequence flags "[]"] f(3) \<open>r = []\<close> by simp
    ultimately show ?thesis using that f(1,2) by blast
  qed
qed

subsection \<open>The conversation over messages\<close>

fun handle_message :: "renderings \<Rightarrow> cluster_id \<Rightarrow> surroundings \<Rightarrow> message \<Rightarrow> session \<Rightarrow> handled" where
  "handle_message rn cluster su (M_Hello m) ses = on_hello cluster su (Inr m) ses"
| "handle_message rn cluster su (M_RegisterPublisher m) ses =
     (if \<not> ss_handshake_done ses then send_reply handshake_required Closed ses
      else on_register_publisher su (Inr m) ses)"
| "handle_message rn cluster su (M_PublishRequest m) ses =
     (if \<not> ss_handshake_done ses then send_reply handshake_required Closed ses
      else on_publish_request su (Inr m) ses)"
| "handle_message rn cluster su (M_Heartbeat m) ses =
     (if \<not> ss_handshake_done ses then send_reply handshake_required Closed ses
      else on_heartbeat cluster su (Inr m) ses)"
| "handle_message rn cluster su (M_SnapshotRequest m) ses =
     (if \<not> ss_handshake_done ses then send_reply handshake_required Closed ses
      else on_snapshot_request rn cluster su (Inr m) ses)"
| "handle_message rn cluster su (M_ValidateSnapshotRequest m) ses =
     (if \<not> ss_handshake_done ses then send_reply handshake_required Closed ses
      else on_validate_request su (Inr m) ses)"
| "handle_message rn cluster su (M_RevalidateRequest m) ses =
     (if \<not> ss_handshake_done ses then send_reply handshake_required Closed ses
      else on_revalidate_request rn su (Inr m) ses)"
| "handle_message rn cluster su (M_Shutdown m) ses =
     (if \<not> ss_handshake_done ses then send_reply handshake_required Closed ses
      else on_shutdown (Inr m) ses)"
| "handle_message rn cluster su m ses =
     (if \<not> ss_handshake_done ses then send_reply handshake_required Closed ses
      else send_reply unknown_message Next ses)"

fun message_loop ::
  "renderings \<Rightarrow> cluster_id \<Rightarrow> (nat \<Rightarrow> surroundings) \<Rightarrow> nat \<Rightarrow> session \<Rightarrow> message list \<Rightarrow> handled" where
  "message_loop rn cluster around k ses [] = ([], ses, Closed)"
| "message_loop rn cluster around k ses (m # ms) =
     (if ss_stop ses \<or> su_stop (around k) then ([], ses, Closed)
      else case handle_message rn cluster (around k) m ses of
        (events, ses, Next) \<Rightarrow>
          (case message_loop rn cluster around (Suc k) ses ms of (later, ses, f) \<Rightarrow> (events @ later, ses, f))
      | handled \<Rightarrow> handled)"

text \<open>A message that the peer can send to a session with this bound.\<close>

definition transmissible :: "u32 \<Rightarrow> message \<Rightarrow> bool" where
  "transmissible mx m \<longleftrightarrow>
     message_sendable m \<and> encode_payload m \<noteq> [] \<and> length (encode_payload m) \<le> unat mx"

lemma process_encoded:
  assumes "message_sendable m" and "encode_payload m \<noteq> []"
  shows "process_frame rn cluster su (message_type_raw (type_of_message m)) (encode_payload m) ses
    = handle_message rn cluster su m ses"
  using assms
  by (cases m)
    (simp_all add: process_frame_def message_type_raw_inject payload_defs encoded_payloads)

lemma loop_refines:
  assumes "bounded_max mx = mx" and "\<forall>(n, m) \<in> set sent. transmissible mx m"
  shows "session_loop mx rn cluster around k ses (concat (map (\<lambda>(n, m). sent_bytes mx n m) sent))
    = message_loop rn cluster around k ses (map snd sent)"
  using assms(2)
proof (induction sent arbitrary: k ses)
  case Nil
  show ?case by (subst session_loop.simps) (simp add: receive_frame_def receive_exact_def kFrameHeaderSize_def)
next
  case (Cons x sent)
  obtain n m where x: "x = (n, m)" by (cases x)
  have m: "message_sendable m" "encode_payload m \<noteq> []" "length (encode_payload m) \<le> unat mx"
    using Cons.prems by (simp_all add: x transmissible_def)
  let ?ty = "message_type_raw (type_of_message m)"
  let ?rest = "concat (map (\<lambda>(n, m). sent_bytes mx n m) sent)"
  have bytes: "concat (map (\<lambda>(n, m). sent_bytes mx n m) (x # sent)) = frame_bytes ?ty n (encode_payload m) 0 @ ?rest"
    using m(3) assms(1) by (simp add: x sent_bytes_def encode_frame_eq)
  have frame: "receive_frame mx (frame_bytes ?ty n (encode_payload m) 0 @ ?rest)
      = RF_Frame (accepted_frame ?ty n (encode_payload m) 0) ?rest"
    using message_type_accepted m(3) assms(1) by (rule receive_frame_bytes)
  have fields: "fd_type (fo_header (accepted_frame ?ty n (encode_payload m) 0)) = ?ty"
    "fo_payload (accepted_frame ?ty n (encode_payload m) 0) = encode_payload m"
    by (simp_all add: accepted_frame_def header_of_def)
  have IH: "session_loop mx rn cluster around (Suc k) ses' ?rest
      = message_loop rn cluster around (Suc k) ses' (map snd sent)" for ses'
    using Cons by simp
  show ?case
    unfolding bytes
    by (subst session_loop.simps) (simp add: frame fields process_encoded [OF m(1,2)] IH x split: prod.splits flow.splits)
qed

subsection \<open>Requests are bound to an announced incarnation\<close>

text \<open>The stream holds the frame of a HELLO for this cluster that announces the incarnation.\<close>

definition announced :: "u32 \<Rightarrow> cluster_id \<Rightarrow> string \<Rightarrow> boot_id \<Rightarrow> bool" where
  "announced mx cluster stream boot \<longleftrightarrow>
     (\<exists>before hello n flags after.
        stream = before @ encode_frame (message_type_raw MT_Hello) n (encode_hello hello) flags mx @ after
        \<and> encode_hello hello \<noteq> [] \<and> hm_cluster hello = cluster \<and> hm_boot hello = boot)"

lemma announced_more: "announced mx cluster stream boot \<Longrightarrow> announced mx cluster (stream @ extra) boot"
  unfolding announced_def by (elim exE conjE) (metis append.assoc)

definition bound_session :: "u32 \<Rightarrow> cluster_id \<Rightarrow> string \<Rightarrow> session \<Rightarrow> bool" where
  "bound_session mx cluster stream ses \<longleftrightarrow>
     (ss_handshake_done ses \<longrightarrow> (\<exists>b. ss_boot ses = Some b \<and> announced mx cluster stream b))"

lemmas handler_defs =
  on_hello_def on_register_publisher_def on_publish_request_def on_heartbeat_def on_snapshot_request_def
  on_validate_request_def on_revalidate_request_def on_shutdown_def send_reply_def with_submit_def Let_def
  registration_request_def revalidation_request_def bound_authority_def

lemma process_submits:
  assumes "process_frame rn cluster su ty payload ses = (events, ses', f)" and "Submitted q \<in> set events"
  shows "ss_handshake_done ses \<and> (\<forall>b. ss_boot ses = Some b \<longrightarrow> ma_boot (mq_authority q) = Some b)"
  using assms
  by (auto simp: process_frame_def handler_defs split: if_splits sum.splits option.splits)

lemma process_binds:
  assumes "process_frame rn cluster su ty payload ses = (events, ses', f)" and "ss_handshake_done ses'"
  shows "(ss_handshake_done ses \<and> ss_boot ses' = ss_boot ses)
    \<or> (\<exists>hello. ty = message_type_raw MT_Hello \<and> decode_hello payload = Inr hello \<and> hm_cluster hello = cluster
         \<and> ss_boot ses' = Some (hm_boot hello))"
  using assms
  by (auto simp: process_frame_def handler_defs split: if_splits sum.splits option.splits)

lemma hello_announced:
  assumes "(ucast (message_type_raw MT_Hello) :: u8) \<le> kMaxMessageTypeRaw" and "length payload \<le> unat (bounded_max mx)"
    and "decode_hello payload = Inr hello" and "hm_cluster hello = cluster"
  shows "announced mx cluster (before @ frame_bytes (message_type_raw MT_Hello) n payload flags) (hm_boot hello)"
proof -
  have "length payload \<le> kMaxWriterBytes"
    using assms(2) unat_bounded_max [of mx] by (simp add: kMaxWriterBytes_def kMaxPersistenceBytes_def)
  then have payload: "payload = encode_hello hello" "encode_hello hello \<noteq> []"
    using assms(3) hello_payload.decoded_encoding [of payload hello] unfolding payload_defs by blast+
  have "before @ frame_bytes (message_type_raw MT_Hello) n payload flags
      = before @ encode_frame (message_type_raw MT_Hello) n (encode_hello hello) flags mx @ []"
    using assms(2) payload(1) by (simp add: encode_frame_eq)
  then show ?thesis unfolding announced_def using payload(2) assms(4) by blast
qed

lemma loop_bound:
  "bound_session mx cluster before ses \<Longrightarrow>
     Submitted q \<in> set (fst (session_loop mx rn cluster around k ses stream)) \<Longrightarrow>
     \<exists>b. ma_boot (mq_authority q) = Some b \<and> announced mx cluster (before @ stream) b"
proof (induction mx rn cluster around k ses stream arbitrary: before rule: session_loop.induct)
  case (1 mx rn cluster around k ses stream)
  let ?q = "\<exists>b. ma_boot (mq_authority q) = Some b \<and> announced mx cluster (before @ stream) b"
  obtain frame rest where going: "\<not> (ss_stop ses \<or> su_stop (around k))" and frame: "receive_frame mx stream = RF_Frame frame rest"
    using 1(3) by (subst (asm) session_loop.simps) (auto simp: send_reply_def Let_def split: if_splits received.splits)
  obtain events ses' f where step:
    "process_frame rn cluster (around k) (fd_type (fo_header frame)) (fo_payload frame) ses = (events, ses', f)"
    by (cases "process_frame rn cluster (around k) (fd_type (fo_header frame)) (fo_payload frame) ses")
  obtain ty n payload flags where f: "(ucast ty :: u8) \<le> kMaxMessageTypeRaw" "length payload \<le> unat (bounded_max mx)"
    "stream = frame_bytes ty n payload flags @ rest" "frame = accepted_frame ty n payload flags"
    using frame by (rule receive_frame_taken)
  have fields: "fd_type (fo_header frame) = ty" "fo_payload frame = payload"
    by (simp_all add: f(4) accepted_frame_def header_of_def)
  consider "Submitted q \<in> set events"
    | "f = Next" "Submitted q \<in> set (fst (session_loop mx rn cluster around (Suc k) ses' rest))"
    using 1(3) going frame step
    by (subst (asm) session_loop.simps) (auto split: prod.splits flow.splits)
  then show ?q
  proof cases
    case 1
    then have "ss_handshake_done ses" "\<forall>b. ss_boot ses = Some b \<longrightarrow> ma_boot (mq_authority q) = Some b"
      using process_submits [OF step] by blast+
    then show ?thesis using \<open>bound_session mx cluster before ses\<close> announced_more unfolding bound_session_def by blast
  next
    case 2
    have "bound_session mx cluster (before @ frame_bytes ty n payload flags) ses'"
      unfolding bound_session_def
    proof
      assume "ss_handshake_done ses'"
      from process_binds [OF step this] show "\<exists>b. ss_boot ses' = Some b
          \<and> announced mx cluster (before @ frame_bytes ty n payload flags) b"
        using \<open>bound_session mx cluster before ses\<close> announced_more hello_announced f(1,2)
        unfolding bound_session_def fields by (metis (no_types, lifting))
    qed
    from 1(1) [OF going frame step [symmetric] refl _ this] 2 show ?thesis by (simp add: f(3))
  qed
qed

subsection \<open>Answers that do not arrive\<close>

definition extends :: "(writer \<Rightarrow> writer) \<Rightarrow> bool" where
  "extends g \<longleftrightarrow> (\<forall>w. wr_ok (g w) \<longrightarrow> wr_ok w \<and> (\<exists>bs. wr_data (g w) = wr_data w @ bs))"

lemma extends_emits: "emits g rd x \<Longrightarrow> extends g"
  unfolding emits_def extends_def by blast

lemma extends_fcomp: "extends g \<Longrightarrow> extends h \<Longrightarrow> extends (fcomp g h)"
  unfolding extends_def by (metis append.assoc fcomp_apply)

lemma extendsD: "extends g \<Longrightarrow> wr_ok (g w) \<Longrightarrow> wr_ok w"
  by (simp add: extends_def)

text \<open>A validation with more reasons than the bound has no encoding. It is sent as a frame with an empty
  payload, which the peer cannot decode.\<close>

lemma many_reasons_unsendable:
  assumes "length (fv_reasons v) > kMaxStaleReasons"
  shows "encode_validate_response \<lparr>vp_validation = v\<rparr> = []"
proof (rule ccontr)
  assume "encode_validate_response \<lparr>vp_validation = v\<rparr> \<noteq> []"
  then obtain w where ok: "wr_ok (write_explanation (fv_explanation v)
      (write_vector kMaxDecodedRecords w_text (fv_subjects v) (write_vector kMaxStaleReasons w_u8 (fv_reasons v) w)))"
    by (auto simp: encode_validate_response_def encode_message_def write_validate_response_def
        write_snapshot_validation_def Let_def split: if_splits)
  have "extends (write_explanation (fv_explanation v))" by (rule extends_emits [OF emits_explanation])
  moreover have "extends (write_vector kMaxDecodedRecords w_text (fv_subjects v))"
    by (rule extends_emits, rule emits_vector [OF hungry_prims(1)]) (simp_all add: emits_text kMaxDecodedRecords_def)
  ultimately have "wr_ok (write_vector kMaxStaleReasons w_u8 (fv_reasons v) w)" using ok extendsD by blast
  moreover have "extends (write_list w_u8 (fv_reasons v))" by (rule extends_emits, rule emits_list, rule emits_u8)
  ultimately have "wr_ok (write_count (length (fv_reasons v)) kMaxStaleReasons w)"
    using extendsD by (simp add: write_vector_def)
  then show False using assms by (auto simp: write_count_def wr_fail_def wr_ok_def split: if_splits)
qed

lemma many_reasons_unreadable:
  assumes "length (sv_reasons v) > kMaxStaleReasons"
  shows "sent_bytes mx n (M_ValidateSnapshotResponse \<lparr>vp_validation = validation_message v\<rparr>)
      = frame_bytes (message_type_raw MT_ValidateSnapshotResponse) n [] 0
    \<and> decode_validate_response [] = Inl PR_TruncatedPayload"
  using many_reasons_unsendable [of "validation_message v"] assms
  by (simp add: sent_bytes_def validation_message_def encode_frame_eq decode_validate_response_def decode_message_def
      read_version_tag_def r_u16_def numeral_2_eq_2)

text \<open>A configured bound of zero stands for the default where frames are received, and drops every reply with
  a payload where they are sent.\<close>

lemma zero_bound_silent:
  assumes "encode_payload m \<noteq> []"
  shows "reply_bytes 0 (Sent n m) = [] \<and> session_max_payload 0 = kMaxFramePayloadBytes"
  using assms by (simp add: sent_bytes_def encode_frame_def bounded_max_def session_max_payload_def)

text \<open>A refused snapshot request is answered with a view of the unknown cluster, whose empty identity no decoder
  accepts: the peer does not learn the reason.\<close>

definition refuses ::
  "(writer \<Rightarrow> writer) \<Rightarrow> (string \<Rightarrow> protocol_status + 'a) \<Rightarrow> protocol_status \<Rightarrow> bool" where
  "refuses g rd status \<longleftrightarrow>
     (\<forall>w. wr_ok (g w) \<longrightarrow> wr_ok w \<and> (\<exists>bs. wr_data (g w) = wr_data w @ bs \<and> (\<forall>rest. rd (bs @ rest) = Inl status)))"

lemma refuses_later:
  assumes "emits g rd x" and "refuses h (k x) status"
  shows "refuses (fcomp g h) (\<lambda>s. sum_bind (rd s) (\<lambda>(x, s). k x s)) status"
  unfolding refuses_def
proof (intro allI impI)
  fix w assume ok: "wr_ok (fcomp g h w)"
  obtain b where b: "wr_ok (g w)" "wr_data (h (g w)) = wr_data (g w) @ b" "\<forall>rest. k x (b @ rest) = Inl status"
    using assms(2) ok unfolding refuses_def fcomp_apply by blast
  obtain a where a: "wr_ok w" "wr_data (g w) = wr_data w @ a" "\<forall>rest. rd (a @ rest) = Inr (x, rest)"
    using assms(1) b(1) unfolding emits_def by blast
  have "wr_data (fcomp g h w) = wr_data w @ (a @ b)" using a(2) b(2) by simp
  moreover have "\<forall>rest. sum_bind (rd ((a @ b) @ rest)) (\<lambda>(x, s). k x s) = Inl status" using a(3) b(3) by simp
  ultimately show "wr_ok w \<and> (\<exists>bs. wr_data (fcomp g h w) = wr_data w @ bs
      \<and> (\<forall>rest. sum_bind (rd (bs @ rest)) (\<lambda>(x, s). k x s) = Inl status))"
    using a(1) by blast
qed

lemma refuses_now:
  assumes "refuses g rd status" and "extends h"
  shows "refuses (fcomp g h) (\<lambda>s. sum_bind (rd s) k) status"
  unfolding refuses_def
proof (intro allI impI)
  fix w assume ok: "wr_ok (fcomp g h w)"
  obtain b where b: "wr_ok (g w)" "wr_data (h (g w)) = wr_data (g w) @ b"
    using assms(2) ok unfolding extends_def fcomp_apply by blast
  obtain a where a: "wr_ok w" "wr_data (g w) = wr_data w @ a" "\<forall>rest. rd (a @ rest) = Inl status"
    using assms(1) b(1) unfolding refuses_def by blast
  have "wr_data (fcomp g h w) = wr_data w @ (a @ b)" using a(2) b(2) by simp
  moreover have "\<forall>rest. sum_bind (rd ((a @ b) @ rest)) k = Inl status" using a(3) by simp
  ultimately show "wr_ok w \<and> (\<exists>bs. wr_data (fcomp g h w) = wr_data w @ bs
      \<and> (\<forall>rest. sum_bind (rd (bs @ rest)) k = Inl status))"
    using a(1) by blast
qed

lemma refuses_here: "refuses g rd status \<Longrightarrow> refuses g (\<lambda>s. sum_bind (rd s) k) status"
  unfolding refuses_def by fastforce

lemma refuses_unknown: "refuses (w_id id_unknown) read_identity_value PR_InvalidIdentity"
proof -
  have none: "id_parse [] = None" by code_simp
  have "emits (w_text []) r_text []" by (rule emits_text)
  then show ?thesis
    unfolding refuses_def emits_def read_identity_value_def w_id_def by (fastforce simp: none id_unknown_def)
qed

lemma refuses_empty_view:
  "refuses (write_snapshot_view (view_message empty_view digest)) read_snapshot_view PR_InvalidIdentity"
  unfolding write_snapshot_view_def read_snapshot_view_def [abs_def] seq_steps view_message_def empty_view_def
    snapshot_view.defs full_view.simps snapshot_view.simps
  by (rule refuses_now [OF refuses_unknown], ((rule extends_fcomp)+ | rule extends_emits, (rule emits_wire)+ | simp)+)

lemma refusal_unreadable:
  assumes "sp_view m = view_message empty_view digest" and "encode_snapshot_response m \<noteq> []"
  shows "decode_snapshot_response (encode_snapshot_response m) = Inl PR_InvalidIdentity"
proof -
  have "refuses (write_snapshot_response m) read_snapshot_response PR_InvalidIdentity"
    unfolding write_snapshot_response_def read_snapshot_response_def [abs_def] seq_steps assms(1)
    by ((rule refuses_later, (rule emits_wire)+)+, rule refuses_here, rule refuses_empty_view)
  then have body: "refuses (write_snapshot_response m)
      (\<lambda>s. sum_bind (read_snapshot_response s) (\<lambda>(m, s). if s \<noteq> [] then Inl PR_TrailingGarbage else Inr m))
      PR_InvalidIdentity"
    by (rule refuses_here)
  have "refuses (fcomp write_version_tag (write_snapshot_response m)) (decode_message read_snapshot_response)
      PR_InvalidIdentity"
    unfolding decode_message_def [abs_def] by (rule refuses_later [OF emits_version body])
  moreover have "wr_ok (fcomp write_version_tag (write_snapshot_response m) new_writer)"
    and data: "encode_snapshot_response m = wr_data (fcomp write_version_tag (write_snapshot_response m) new_writer)"
    using assms(2) by (auto simp: encode_snapshot_response_def encode_message_def Let_def split: if_splits)
  ultimately obtain bs where "encode_snapshot_response m = bs"
    "\<forall>rest. decode_message read_snapshot_response (bs @ rest) = Inl PR_InvalidIdentity"
    unfolding refuses_def data by (fastforce simp: new_writer_def)
  then show ?thesis unfolding decode_snapshot_response_def by (metis append_Nil2)
qed

subsection \<open>Where sessions differ from their documentation\<close>

text \<open>docs/protocol.md says that the session ends after an answer \<^verbatim>\<open>unknown_message\<close> (lines 125 and 129 to 133). It goes on:
  a message of a response type is answered, and the next message is handled.\<close>

lemma unknown_message_continues:
  assumes "type_of_message m \<in> {MT_HelloAck, MT_RegisterAck, MT_PublishResult, MT_HeartbeatAck, MT_SnapshotResponse,
      MT_ValidateSnapshotResponse, MT_RevalidateResponse, MT_Error}"
    and "ss_handshake_done ses" and "\<not> ss_stop ses" and "\<not> su_stop (around k)"
  shows "message_loop rn cluster around k ses (m # ms)
    = (case message_loop rn cluster around (Suc k) (ses\<lparr>ss_sequence := ss_sequence ses + 1\<rparr>) ms of
         (later, ses', f) \<Rightarrow> (Sent (ss_sequence ses + 1) unknown_message # later, ses', f))"
  using assms by (cases m) (simp_all add: send_reply_def Let_def split: prod.splits)

text \<open>It documents the reason \<^verbatim>\<open>oversized_frame\<close> for a payload above the maximum (lines 71 to 73). The branch is dead, because
  the header is refused first, and the reason that is sent is the spelling of the status in upper case,
  where line 247 says that reasons made from a status are in lower case.\<close>

lemma oversized_unreachable: "receive_frame (session_max_payload configured) stream \<noteq> RF_Oversized"
proof -
  have "\<not> fd_payload_length (fo_header (decode_frame hb mx)) > mx"
    if "fo_status (decode_frame hb mx) = PR_TruncatedPayload" "bounded_max mx = mx" for hb mx
    using that by (auto simp: decode_frame_def frame_error_def frame_failure_def Let_def split: if_splits sum.splits)
  from this [OF _ bounded_max_session] show ?thesis
    by (auto simp: receive_frame_def checked_def Let_def split: if_splits option.splits)
qed

lemma oversized_frame_reason:
  assumes "receive_frame (session_max_payload configured) stream = RF_Refused PR_OversizedFrame"
    and "\<not> su_stop (around 0)"
  shows "fst (run_session configured rn cluster around stream)
    = [Sent 1 (error_reply ES_Decode ''OVERSIZED_FRAME'' ''frame rejected before any state was touched'')]"
  using assms unfolding run_session_def by (subst session_loop.simps) (simp add: new_session_def send_reply_def Let_def)

text \<open>It says that a configured maximum above the absolute ceiling is clamped to the ceiling (lines 68 and 69). The default is
  taken instead.\<close>

lemma large_bound_not_clamped:
  "configured > kAbsoluteMaxFramePayloadBytes \<Longrightarrow> session_max_payload configured = kMaxFramePayloadBytes"
  by (simp add: session_max_payload_def)

text \<open>It says that SHUTDOWN asks the coordinator to stop (line 124). It only ends the session that received it: nothing is
  submitted or sent, and only the stop flag of the session is set.\<close>

lemma shutdown_ends_session:
  assumes "ss_handshake_done ses" and "\<not> ss_stop ses" and "\<not> su_stop (around k)"
  shows "message_loop rn cluster around k ses (M_Shutdown m # ms) = ([], ses\<lparr>ss_stop := True\<rparr>, Closed)"
  using assms by (cases ms) (simp_all add: on_shutdown_def)

subsection \<open>Conversations\<close>

definition sample_hello :: hello_message where
  "sample_hello =
     \<lparr>hm_protocol_version = kProtocolVersion, hm_cluster = StrongId ''alpha'', hm_boot = StrongId ''boot-1'',
      hm_role = ''rack-agent'', hm_build = ''1.0''\<rparr>"

definition sample_registration :: register_publisher_message where
  "sample_registration =
     \<lparr>pb_cluster = StrongId ''alpha'', pb_authority = default_authority, pb_publisher = StrongId ''agent-1'',
      pb_rack = StrongId ''rack-1'', pb_generation = StrongCounter 1, pb_rack_lifecycle = RL_Ready,
      pb_composition = composition_unknown, pb_origin_label = ''east'', pb_sent_at = 1700000000000\<rparr>"

definition sample_revalidation :: revalidate_request_message where
  "sample_revalidation =
     \<lparr>zq_cluster = StrongId ''alpha'', zq_authority = default_authority, zq_racks = [StrongId ''rack-1'']\<rparr>"

definition sample_renderings :: renderings where
  "sample_renderings = \<lparr>rn_digest = (\<lambda>sn. ''digest''), rn_detail = (\<lambda>b. [])\<rparr>"

definition sample_surroundings :: surroundings where
  "sample_surroundings =
     \<lparr>su_stop = False, su_state = empty_state, su_now = 1700000000000,
      su_submit = (\<lambda>q. rejected_result RR_NotReady ES_ValidateAuthority [] [] []), su_state_after = empty_state\<rparr>"

lemma sample_ids:
  "valid_id (StrongId ''alpha'' :: cluster_id)" "valid_id (StrongId ''boot-1'' :: boot_id)"
  "valid_id (StrongId ''rack-1'' :: rack_id)" "valid_id (StrongId ''agent-1'' :: publisher_id)"
  by code_simp+

lemma default_authority_sendable: "authority_sendable default_authority"
  by (simp add: authority_sendable_def default_authority_def)

lemma costs_vector:
  assumes "costs (write_list write xs) k" and "length xs \<le> bound"
  shows "costs (write_vector bound write xs) (4 + k)"
  using costs_bind [OF costs_prims(5) assms(1), of "of_nat (length xs)"] assms(2)
  unfolding costs_def write_vector_def write_count_def by simp

lemmas sample_costs_rules = costs_rules costs_counter costs_vector costs_list_Nil costs_list_Cons costs_id

lemma sample_messages_cost:
  "costs (write_hello sample_hello) 60"
  "costs (write_register_publisher sample_registration) 200"
  "costs (write_revalidate_request sample_revalidation) 100"
  subgoal
    unfolding sample_hello_def write_hello_def seq_steps hello_message.simps
    by (rule costs_mono, (rule sample_costs_rules | simp add: kMaxEncodedStringBytes_def)+)
  subgoal
    unfolding sample_registration_def write_register_publisher_def write_authority_def default_authority_def
      write_composition_wire_def composition_unknown_def seq_steps register_publisher_message.simps
      mutation_authority.simps rack_composition_summary.simps
    by (rule costs_mono, (rule sample_costs_rules | simp add: kMaxEncodedStringBytes_def)+)
  subgoal
    unfolding sample_revalidation_def write_revalidate_request_def write_authority_def default_authority_def seq_steps
      revalidate_request_message.simps mutation_authority.simps
    by (rule costs_mono, (rule sample_costs_rules | simp add: kMaxEncodedStringBytes_def kMaxRacksPerCluster_def)+)
  done

lemma sample_messages_sendable:
  "hello_sendable sample_hello" "register_publisher_sendable sample_registration"
  "revalidate_request_sendable sample_revalidation"
  by (simp_all add: hello_sendable_def sample_hello_def register_publisher_sendable_def sample_registration_def
      revalidate_request_sendable_def sample_revalidation_def sample_ids default_authority_sendable
      i64_range_def i64_min_def i64_max_def)

lemma sample_transmissible:
  "transmissible (session_max_payload 0) (M_Hello sample_hello)"
  "transmissible (session_max_payload 0) (M_RegisterPublisher sample_registration)"
  "transmissible (session_max_payload 0) (M_RevalidateRequest sample_revalidation)"
  using hello_payload.encoded_within [OF sample_messages_sendable(1) sample_messages_cost(1)]
    register_publisher_payload.encoded_within [OF sample_messages_sendable(2) sample_messages_cost(2)]
    revalidate_request_payload.encoded_within [OF sample_messages_sendable(3) sample_messages_cost(3)]
  by (simp_all add: transmissible_def payload_defs sample_messages_sendable session_max_payload_def
      kMaxFramePayloadBytes_def kMaxWriterBytes_def kMaxPersistenceBytes_def)

text \<open>A REGISTER that names no incarnation ends the coordinator, whoever sends it after a HELLO.\<close>

lemma registration_terminates:
  assumes "ss_handshake_done ses" and "decode_register_publisher payload = Inr m" and "ma_boot (pb_authority m) = None"
  shows "process_frame rn cluster su (message_type_raw MT_RegisterPublisher) payload ses = ([], ses, Terminated)"
  using assms by (simp add: process_frame_def message_type_raw_inject on_register_publisher_def Let_def)

definition sample_stream :: "message list \<Rightarrow> string" where
  "sample_stream ms = concat (map (\<lambda>m. sent_bytes (session_max_payload 0) 1 m) ms)"

lemma sample_stream_sent:
  "sample_stream ms = concat (map (\<lambda>(n, m). sent_bytes (session_max_payload 0) n m) (map (\<lambda>m. (1, m)) ms))"
  by (simp add: sample_stream_def comp_def)

lemma coordinator_terminated:
  assumes "\<And>k. \<not> su_stop (around k)"
  shows "snd (snd (run_session 0 rn (StrongId ''alpha'') around
    (sample_stream [M_Hello sample_hello, M_RegisterPublisher sample_registration]))) = Terminated"
  unfolding run_session_def sample_stream_sent
  by (subst loop_refines, simp add: bounded_max_session, simp add: sample_transmissible)
    (simp add: assms new_session_def on_hello_def send_reply_def Let_def on_register_publisher_def sample_hello_def
      sample_registration_def default_authority_def)

subsection \<open>Properties\<close>

text \<open>
  C13. The coordinator's side of a session over bytes is the conversation over messages. When the peer sends
  any sequence of messages that can be sent, each framed with any sequence number, then what the session
  does (the requests it submits and the replies it sends, in order), the state it is left in and how it
  ends are those of handling the messages one after the other until a handler closes the session. Framing,
  checksums, the two-part receive and the payload codecs add nothing and lose nothing. The conversation is
  the one of the code: a message of a response type is answered and the session goes on, where the
  documentation has it end (\<open>unknown_message_continues\<close>), and SHUTDOWN ends only the session
  (\<open>shutdown_ends_session\<close>).
\<close>

theorem session_refines:
  assumes "\<forall>(n, m) \<in> set sent. transmissible (session_max_payload configured) m"
  shows "run_session configured rn cluster around
      (concat (map (\<lambda>(n, m). sent_bytes (session_max_payload configured) n m) sent))
    = message_loop rn cluster around 0 new_session (map snd sent)"
  unfolding run_session_def by (rule loop_refines [OF bounded_max_session assms])

theorem session_refines_witness:
  "run_session 0 sample_renderings (StrongId ''alpha'') (\<lambda>k. sample_surroundings)
     (sample_stream [M_Hello sample_hello, M_RevalidateRequest sample_revalidation])
   = message_loop sample_renderings (StrongId ''alpha'') (\<lambda>k. sample_surroundings) 0 new_session
       [M_Hello sample_hello, M_RevalidateRequest sample_revalidation]"
  unfolding sample_stream_sent by (subst session_refines) (simp_all add: sample_transmissible)

text \<open>
  C12. Whatever bytes a peer sends, a request that its session submits to the coordinator acts for an
  incarnation that the peer announced: the authority of the request names a boot identity, and the stream
  holds the frame of a HELLO for this very cluster with that boot identity. So a peer cannot act for an
  incarnation it never announced, whatever its requests carry on the wire.
\<close>

theorem requests_bound:
  assumes "Submitted q \<in> set (fst (run_session configured rn cluster around stream))"
  shows "\<exists>boot. ma_boot (mq_authority q) = Some boot
    \<and> announced (session_max_payload configured) cluster stream boot"
  using loop_bound [of "session_max_payload configured" cluster "[]" new_session q] assms
  by (simp add: run_session_def bound_session_def new_session_def)

theorem requests_bound_witness:
  "\<exists>boot. ma_boot (mq_authority (revalidation_request 1700000000000
        (new_session\<lparr>ss_boot := Some (StrongId ''boot-1'')\<rparr>) sample_revalidation)) = Some boot
    \<and> announced (session_max_payload 0) (StrongId ''alpha'')
        (sample_stream [M_Hello sample_hello, M_RevalidateRequest sample_revalidation]) boot"
proof (rule requests_bound)
  have "run_session 0 sample_renderings (StrongId ''alpha'') (\<lambda>k. sample_surroundings)
      (sample_stream [M_Hello sample_hello, M_RevalidateRequest sample_revalidation])
    = message_loop sample_renderings (StrongId ''alpha'') (\<lambda>k. sample_surroundings) 0 new_session
        [M_Hello sample_hello, M_RevalidateRequest sample_revalidation]"
    unfolding run_session_def sample_stream_sent
    by (subst loop_refines) (simp_all add: bounded_max_session sample_transmissible)
  then show "Submitted (revalidation_request 1700000000000
        (new_session\<lparr>ss_boot := Some (StrongId ''boot-1'')\<rparr>) sample_revalidation)
    \<in> set (fst (run_session 0 sample_renderings (StrongId ''alpha'') (\<lambda>k. sample_surroundings)
        (sample_stream [M_Hello sample_hello, M_RevalidateRequest sample_revalidation])))"
    by (simp add: sample_surroundings_def new_session_def on_hello_def sample_hello_def on_revalidate_request_def
        send_reply_def with_submit_def revalidation_request_def bound_authority_def Let_def)
qed

end
