(* ===== verification/Spec2Isabelle.thy ===== *)
theory Spec2Isabelle
  imports Scenario Durable_Store Session_Laws
begin

text \<open>
  Cluster Fabric keeps the authoritative composition of a cluster of racks: which racks are members, at
  which generation, under which process incarnation their evidence was published, how they are linked
  and which placement, capacity, failure, network, storage, power, cooling and link domains they belong
  to. A coordinator process owns the canonical state; rack agents and operators send it mutation requests,
  one thread commits them, every commit may be saved to a durable store, and readers take snapshots that
  they later validate. This development models that coordinator, from the identity texts up to the
  interleaving of its critical sections with process death and restart.

  \<^bold>\<open>Theories and sources.\<close> Paths are relative to \<^verbatim>\<open>src/\<close>; headers are under
  \<^verbatim>\<open>include/cluster_fabric/\<close>.

  \<^item> \<open>Prelude\<close>, \<open>Ordered_Map\<close>: generic lemmas on lists, words and decimal text, and \<^verbatim>\<open>std::map\<close> as a sorted
    association list (\<open>omap\<close>) with its laws in a locale that the implementation interprets.
  \<^item> \<open>Identity\<close> (\<^verbatim>\<open>identity.hpp\<close>, \<^verbatim>\<open>src/identity.cpp\<close>), \<open>Generation\<close> (\<^verbatim>\<open>generation.hpp\<close>, \<^verbatim>\<open>src/generation.cpp\<close>),
    \<open>Evidence\<close> (\<^verbatim>\<open>evidence.hpp\<close>, \<^verbatim>\<open>src/evidence.cpp\<close>), \<open>Enum_Names\<close>, \<open>Taxonomy\<close>, \<open>Lifecycle\<close> (the enumerations
    with their texts), \<open>Rack_Reference\<close>, \<open>Ieee_Double\<close>, \<open>Domains\<close>, \<open>Mutation\<close> (requests, results, errors).
  \<^item> \<open>Cluster_State\<close>, \<open>Readiness\<close>, \<open>Queries\<close> (\<^verbatim>\<open>src/cluster_state.cpp\<close>): the state record, the evaluation of
    the readiness contract, the derived indexes and the queries over them. \<open>Invariants\<close>
    (\<^verbatim>\<open>src/invariant.cpp\<close>): the checks.
  \<^item> \<open>Journal\<close>, \<open>Engine\<close>, \<open>Rack_Mutations\<close>, \<open>Domain_Mutations\<close>, \<open>Topology_Mutations\<close>, \<open>Cluster_Mutations\<close>
    (\<^verbatim>\<open>src/coordinator_engine.cpp\<close>): the undo journal, the gates and one definition per handler of
    \<^verbatim>\<open>apply_request\<close>. A handler takes and returns an \<open>apply_context\<close>, the state with its journal.
  \<^item> \<open>Snapshot\<close> (\<^verbatim>\<open>src/snapshot.cpp\<close>, \<^verbatim>\<open>validate_view\<close> of \<^verbatim>\<open>src/coordinator_network.cpp\<close>); \<open>Durable_State\<close>,
    \<open>Recovery\<close> (\<^verbatim>\<open>to_persisted_state\<close>, \<^verbatim>\<open>from_persisted_state\<close>).
  \<^item> \<open>Byte_Codec\<close>, \<open>Crc32\<close>, \<open>Enum_Codes\<close> (\<^verbatim>\<open>ByteWriter\<close>, \<^verbatim>\<open>ByteReader\<close> and the checksum of
    \<^verbatim>\<open>src/protocol.cpp\<close>): bytes, and enumerations as bytes. \<open>Durable_Validation\<close>, \<open>Durable_Fields\<close>,
    \<open>Durable_Codec\<close>, \<open>Durable_Container\<close>, \<open>Durable_Store\<close> (\<^verbatim>\<open>src/persistence.cpp\<close>): validation, the fields and
    records of the container, the container itself, the file store and the memory store.
  \<^item> \<open>Explanations\<close> (\<^verbatim>\<open>src/explanation.cpp\<close> and the texts of a snapshot validation). \<open>Wire_Codec\<close>, \<open>Wire_Records\<close>,
    \<open>Wire_Mutations\<close>, \<open>Wire_Messages\<close>, \<open>Frame_Codec\<close> (\<^verbatim>\<open>src/protocol.cpp\<close>): the bounded helpers of the wire
    format, a writer and a reader per record, the sixteen messages with their payload codecs, and frames.
    \<open>Session\<close>, \<open>Session_Laws\<close> (\<^verbatim>\<open>run_session\<close> of \<^verbatim>\<open>src/coordinator_network.cpp\<close>): the coordinator's side of a
    session over the bytes of a peer, one definition per message, and what holds of it.
  \<^item> \<open>Commit_Path\<close>: \<^verbatim>\<open>apply_and_commit\<close>, \<^verbatim>\<open>persist_now\<close>, \<^verbatim>\<open>apply_fence\<close>. \<open>Coordinator\<close>: construction, loading at
    start, the request queue, the commit thread, detaching a session and stopping, one definition per
    critical section.
  \<^item> \<open>Handler_Steps\<close>, \<open>Commit_Laws\<close>, \<open>Commit_Safety\<close>, \<open>Fence_Laws\<close>, \<open>Reachability\<close>, \<open>Service_Laws\<close>,
    \<open>Authority\<close>: what holds of them. \<open>Scenario\<close>: concrete requests on which the definitions are evaluated.

  \<^bold>\<open>How the model reads.\<close> Structs are records, enumerations datatypes, strong identities and counters
  polymorphic wrappers with a phantom tag, counters 64-bit words, \<^verbatim>\<open>size_t\<close> natural numbers, instants
  integers in the 64-bit range, doubles their IEEE bit pattern. The eight domain structs are one
  polymorphic record, and \<^verbatim>\<open>DomainTraits\<close> is a record of their differences. The clock is an argument
  wherever the code reads it. In the commit path the durable store is a parameter: a save function, or none
  for the null pointer, and the answer of a load; the stores themselves keep that contract
  (\<open>persistence_store\<close>). The disk is a map from paths to contents, and what the operating system answers to
  a call is an argument of the call. Prose (messages, details, notes) is left out, codes and subjects are
  kept. \<^verbatim>\<open>std::sort\<close> is modelled by a stable sort; where the order of equal keys would matter the lists have
  distinct keys in every state that passes the invariant check.

  \<^bold>\<open>What the lemmas show.\<close> Every handler is undone by rolling back its journal (\<open>undoes\<close>), so refusals are
  atomic. Every handler is a sequence of \<open>elementary\<close> changes, and a contract proved of each elementary
  change holds of every request (locale \<open>change_contract\<close>, interpreted for monotonicity, authority, keys
  and retirement). \<open>commit_cases\<close> and \<open>fence_cases\<close> split the commit path into its outcomes.
  \<open>system_step\<close> interleaves submissions, commits, fences, queries, stops, starts and process death;
  \<open>well_formed\<close> holds of every reachable state. \<open>history\<close> is the canonical state's view of the same steps,
  for the laws that relate an earlier state to a later one; its restarts are from the durable form of the
  current state, so a restart from an older save is a step of the system but not of a history. Encoders and decoders are related by \<open>emits\<close>,
  which composes along their fields, and \<open>yields\<close> says what a decoder guarantees of any input; from these
  follow the round trip of the container and the safety of saving under faults. On the wire \<open>takes\<close> says that a
  decoder takes exactly the bytes that the encoder writes for the value it returns; with \<open>emits\<close> it gives the
  locale \<open>payload_codec\<close>, interpreted for each message, and from it that decoding is the exact inverse of
  encoding. Sessions over bytes refine conversations over messages (\<open>loop_refines\<close>). The sections below state the properties that
  span components; those of one component stand at the end of its theory.

  \<^bold>\<open>Documentation.\<close> Definitions follow the code. Where a comment or a document under \<^verbatim>\<open>docs/\<close> says something else, the
  theory has a section with lemmas that show the difference (\<open>Readiness\<close>, \<open>Invariants\<close>, \<open>Queries\<close>, \<open>Snapshot\<close>,
  \<open>Durable_Validation\<close>, \<open>Durable_Store\<close>, \<open>Session_Laws\<close>, \<open>Scenario\<close>), and the text of a property that depends on
  the difference names them.

  \<^bold>\<open>Bounds and fuel.\<close> The only loop without an end of its own is the commit thread; \<open>run_commit\<close> runs it for a
  number of rounds and \<open>every_request_answered\<close> shows that some number of rounds is enough. All other
  recursion is on lists or has a termination proof.

  \<^bold>\<open>Not modelled.\<close> Sockets, threads and locks (their critical sections are, and a session sees the others
  through an argument); the wrappers of record codecs at the end of \<^verbatim>\<open>src/protocol.cpp\<close>; the semantic digest of
  a snapshot and the details of readiness blockers, which sessions take as arguments; the client side
  \<^verbatim>\<open>src/rack_agent.cpp\<close>; the synthetic fleet generator; other prose; the CUDA probe, which calls a vendor
  library; the command line programs.
\<close>

section \<open>Properties\<close>

subsection \<open>The commit path\<close>

text \<open>
  C1. Every state the coordinator can reach, by any interleaving of submissions, commits, fences,
  queries, stops and restarts from what was saved, passes the whole invariant check, the check of the
  cached indexes included. Fencing and recovery, which do not run the check, are covered too.
\<close>

theorem reachable_invariants:
  assumes "reachable config sy"
  shows "report_ok (fst (with_state (\<lambda>s ix. check_invariants s (Some ix)) (sv_coordinator (sy_service sy))))"
proof -
  let ?co = "sv_coordinator (sy_service sy)"
  have ok: "well_formed (co_canonical ?co)" "cache_ok ?co"
    using reachable_ok [OF assms] by (simp_all add: system_ok_def)
  have w: "fst (with_state (\<lambda>s ix. check_invariants s (Some ix)) ?co)
      = check_invariants (co_canonical ?co) (Some (rebuild (co_canonical ?co)))"
    by (rule with_state_exact(1) [OF ok(2)])
  have "report_ok (check_invariants (co_canonical ?co) None)" using ok(1) by (simp add: well_formed_def)
  then show ?thesis
    unfolding w by (rule check_invariants_indexes)
qed

theorem reachable_invariants_witness:
  "reachable demo_config demo_system
   \<and> report_ok (fst (with_state (\<lambda>s ix. check_invariants s (Some ix)) (sv_coordinator (sy_service demo_system))))"
  using reachable_invariants [OF demo_reachable] demo_reachable by blast

text \<open>
  C2. A commit that is not accepted, whether refused by a gate, by a handler after it had already
  changed entries, by the invariant check, by an exhausted counter or by a failed save, leaves the
  canonical state exactly as it was. (The first declaration of a cluster is the exception, see below.)
\<close>

theorem refused_commit_atomic:
  assumes "\<not> declares q (co_canonical co)"
    and "mr_outcome (fst (apply_and_commit store now q co)) \<noteq> MO_Accepted"
  shows "co_canonical (snd (apply_and_commit store now q co)) = co_canonical co"
  using refused_commit(1) [OF prod.collapse [symmetric] assms(2,1)] .

theorem refused_commit_atomic_witness:
  "\<not> declares (demo_add demo_rack demo_boot) (co_canonical demo_declared)
   \<and> mr_outcome (fst (apply_and_commit failing_store 1000 (demo_add demo_rack demo_boot) demo_declared)) \<noteq> MO_Accepted
   \<and> co_canonical (snd (apply_and_commit failing_store 1000 (demo_add demo_rack demo_boot) demo_declared))
       = co_canonical demo_declared"
proof -
  have "\<not> declares (demo_add demo_rack demo_boot) (co_canonical demo_declared)"
    by (simp add: declares_def demo_add_def)
  moreover have "mr_outcome (fst (apply_and_commit failing_store 1000 (demo_add demo_rack demo_boot) demo_declared))
      \<noteq> MO_Accepted" by code_simp
  ultimately show ?thesis using refused_commit_atomic by blast
qed

text \<open>
  C3. What the cluster has counted, retired or fenced stays so. Along any history of commits, fences
  and restarts from the last save, a declared cluster keeps its identity and epoch; its counters, the
  generations of its racks, domains and constraints and its coordinator epoch never go back; and no
  rack, domain, constraint, retired identity or fence disappears.
\<close>

theorem history_monotone:
  assumes "well_formed s" and "counter_known (cs_epoch s)" and "counter_known (cs_coordinator_epoch s)"
    and "history s t"
  shows "advances s t \<and> cs_id t = cs_id s \<and> cs_epoch t = cs_epoch s
     \<and> cs_coordinator_epoch s \<le> cs_coordinator_epoch t"
  using history_laws [OF assms(4,1,2)] assms(3) by blast

theorem history_monotone_witness:
  "advances (co_canonical demo_declared) (co_canonical demo_one)
   \<and> cs_id (co_canonical demo_one) = cs_id (co_canonical demo_declared)
   \<and> cs_epoch (co_canonical demo_one) = cs_epoch (co_canonical demo_declared)
   \<and> cs_coordinator_epoch (co_canonical demo_declared) \<le> cs_coordinator_epoch (co_canonical demo_one)"
proof (rule history_monotone)
  show "well_formed (co_canonical demo_declared)" by (rule demo_well_formed)
  show "counter_known (cs_epoch (co_canonical demo_declared))"
    "counter_known (cs_coordinator_epoch (co_canonical demo_declared))" by code_simp+
  show "history (co_canonical demo_declared) (co_canonical demo_one)"
    unfolding demo_one_def by (rule H_commit [OF H_now]) (rule prod.collapse [symmetric])
qed

text \<open>
  C4. A fenced incarnation never regains authority: once a boot is fenced, no rack is authoritative
  under it at any later point of the history, restarts included.
\<close>

theorem fenced_never_authoritative:
  assumes "well_formed s" and "counter_known (cs_epoch s)" and "history s t" and "is_boot_fenced s b"
    and "om_find (cs_racks t) k = Some r" and "rf_boot (rr_reference r) = b"
  shows "\<not> rr_authoritative_current r"
proof -
  have "well_formed t" "advances s t" using history_laws [OF assms(3,1,2)] by simp_all
  then show ?thesis
    using well_formed_authoritative(1) [OF _ assms(5)] advances_fenced assms(4,6) by blast
qed

theorem fenced_never_authoritative_witness:
  "is_boot_fenced (co_canonical demo_fenced) demo_boot
   \<and> rf_boot (rr_reference (the (om_find (cs_racks (co_canonical demo_fenced)) demo_rack))) = demo_boot
   \<and> \<not> rr_authoritative_current (the (om_find (cs_racks (co_canonical demo_fenced)) demo_rack))"
proof -
  have f: "is_boot_fenced (co_canonical demo_fenced) demo_boot"
    "counter_known (cs_epoch (co_canonical demo_fenced))"
    "om_find (cs_racks (co_canonical demo_fenced)) demo_rack \<noteq> None"
    "rf_boot (rr_reference (the (om_find (cs_racks (co_canonical demo_fenced)) demo_rack))) = demo_boot"
    by code_simp+
  then show ?thesis
    using fenced_never_authoritative [OF demo_well_formed(3) f(2) H_now f(1), of demo_rack
        "the (om_find (cs_racks (co_canonical demo_fenced)) demo_rack)"] by simp
qed

text \<open>
  C5. A retired rack stays retired: at every later point of the history its record is there, retired
  and without authority, and its identity is on the list.
\<close>

theorem retired_stays_retired:
  assumes "well_formed s" and "counter_known (cs_epoch s)" and "history s t"
    and "om_find (cs_racks s) k = Some r" and "rr_membership r = RM_Retired"
  shows "is_rack_retired t k
     \<and> (\<exists>r'. om_find (cs_racks t) k = Some r' \<and> rr_membership r' = RM_Retired \<and> \<not> rr_authoritative_current r')"
proof -
  have t: "well_formed t" "advances s t" using history_laws [OF assms(3,1,2)] by simp_all
  have "retired_rack s k"
    using assms(1,4,5) by (auto simp: retired_rack_def well_formed_def retired_listed_def)
  then have "retired_rack t k" using t(2) by (simp add: advances_defs)
  then show ?thesis
    using well_formed_authoritative(2) [OF t(1)] unfolding retired_rack_def by blast
qed

theorem retired_stays_retired_witness:
  "rr_membership (the (om_find (cs_racks (co_canonical demo_retired)) demo_rack)) = RM_Retired
   \<and> is_rack_retired (co_canonical demo_retired) demo_rack"
proof -
  have f: "counter_known (cs_epoch (co_canonical demo_retired))"
    "om_find (cs_racks (co_canonical demo_retired)) demo_rack \<noteq> None"
    "rr_membership (the (om_find (cs_racks (co_canonical demo_retired)) demo_rack)) = RM_Retired"
    by code_simp+
  then show ?thesis
    using retired_stays_retired [OF demo_well_formed(4) f(1) H_now, of demo_rack
        "the (om_find (cs_racks (co_canonical demo_retired)) demo_rack)"] by simp
qed

text \<open>
  C6. The generations, epochs and lifecycle a result reports are those of the canonical state the call
  leaves behind, on every branch; and an accepted commit advances the cluster generation by exactly one,
  without wrapping around.
\<close>

theorem commit_reports_state:
  assumes "apply_and_commit store now q co = (r, co')"
  shows "fill_generations (co_canonical co') r = r
     \<and> (mr_outcome r = MO_Accepted \<and> \<not> declares q (co_canonical co) \<longrightarrow>
          unat (cvalue (cs_generation (co_canonical co'))) = unat (cvalue (cs_generation (co_canonical co))) + 1)"
  using commit_fills_generations [OF assms] accepted_commit_advances(2) [OF assms]
  by (auto simp: counter_next_unat)

theorem commit_reports_state_witness:
  "mr_cluster_generation (fst (apply_and_commit None 1000 (demo_add demo_rack demo_boot) demo_declared))
     = cs_generation (co_canonical demo_one)"
proof -
  have "apply_and_commit None 1000 (demo_add demo_rack demo_boot) demo_declared
      = (fst (apply_and_commit None 1000 (demo_add demo_rack demo_boot) demo_declared), demo_one)"
    by (simp add: demo_one_def)
  from commit_reports_state [OF this]
  have "mr_cluster_generation (fill_generations (co_canonical demo_one)
      (fst (apply_and_commit None 1000 (demo_add demo_rack demo_boot) demo_declared)))
      = mr_cluster_generation (fst (apply_and_commit None 1000 (demo_add demo_rack demo_boot) demo_declared))"
    by simp
  then show ?thesis by (simp add: fill_generations_def)
qed

text \<open>
  C9. A request that names this declared cluster but carries a cluster epoch or a coordinator epoch
  other than the current one is refused with the reason that says which, and changes nothing.
\<close>

theorem stale_epoch_refused:
  assumes "mq_kind q \<noteq> MK_Unknown" and "mq_kind q \<noteq> MK_DeclareCluster"
    and "iv_ok (validate_identity (id_value (mq_cluster q)))" and "mq_cluster q = cs_id (co_canonical co)"
    and "counter_known (cs_epoch (co_canonical co))"
    and "ma_cluster_epoch (mq_authority q) \<noteq> cs_epoch (co_canonical co)
       \<or> ma_coordinator_epoch (mq_authority q) \<noteq> cs_coordinator_epoch (co_canonical co)"
  shows "mr_outcome (fst (apply_and_commit store now q co)) = MO_Rejected
     \<and> mr_reason (fst (apply_and_commit store now q co)) =
         (if ma_cluster_epoch (mq_authority q) \<noteq> cs_epoch (co_canonical co)
          then RR_StaleClusterEpoch else RR_StaleCoordinatorEpoch)
     \<and> co_canonical (snd (apply_and_commit store now q co)) = co_canonical co"
proof -
  have "mr_reason (validate_common (co_canonical co) q) =
      (if ma_cluster_epoch (mq_authority q) \<noteq> cs_epoch (co_canonical co)
       then RR_StaleClusterEpoch else RR_StaleCoordinatorEpoch)"
    using assms by (auto simp: validate_common_def Let_def)
  then show ?thesis using commit_common_refused [of co q store now] by simp
qed

theorem stale_epoch_refused_witness:
  "mr_reason (fst (apply_and_commit None 1000
     ((demo_add demo_rack demo_boot)\<lparr>mq_authority := (demo_authority demo_boot)\<lparr>ma_coordinator_epoch := StrongCounter 9\<rparr>\<rparr>)
     demo_declared)) = RR_StaleCoordinatorEpoch"
proof -
  let ?q = "(demo_add demo_rack demo_boot)\<lparr>mq_authority := (demo_authority demo_boot)\<lparr>ma_coordinator_epoch := StrongCounter 9\<rparr>\<rparr>"
  have s: "cs_id (co_canonical demo_declared) = demo_cluster" "cs_epoch (co_canonical demo_declared) = StrongCounter 1"
    "cs_coordinator_epoch (co_canonical demo_declared) = StrongCounter 1" by code_simp+
  have "iv_ok (validate_identity (id_value demo_cluster))" by code_simp
  then show ?thesis
    using stale_epoch_refused [of ?q demo_declared None 1000]
    by (simp add: demo_add_def s demo_authority_def counter_known_def)
qed

text \<open>
  C10. A request that speaks for a fenced incarnation is refused, and changes nothing, for every kind
  that admits, updates, recovers or changes the membership of a rack or publishes its health.
\<close>

theorem fenced_incarnation_refused:
  assumes "ma_boot (mq_authority q) = Some b" and "is_boot_fenced (co_canonical co) b"
    and "mq_kind q \<in> {MK_AddRack, MK_UpdateRackGeneration, MK_MarkRackUnavailable, MK_WithdrawRack,
          MK_RetireRack, MK_RecoverRack, MK_PublishHealthCurrentness}"
  shows "mr_outcome (fst (apply_and_commit store now q co)) = MO_Rejected
     \<and> co_canonical (snd (apply_and_commit store now q co)) = co_canonical co"
  using fenced_boot_refused [OF assms(1,2)] assms(3) by (simp add: boot_checked_def)

theorem fenced_incarnation_refused_witness:
  "mr_outcome (fst (apply_and_commit None 3000 (demo_add demo_rack demo_boot) demo_fenced)) = MO_Rejected"
proof -
  have "is_boot_fenced (co_canonical demo_fenced) demo_boot" by code_simp
  then show ?thesis
    using fenced_incarnation_refused [of "demo_add demo_rack demo_boot" demo_boot demo_fenced None 3000]
    by (simp add: demo_add_def demo_authority_def)
qed

subsection \<open>Durability and restart\<close>

text \<open>
  C8. With a store and persistence on commit, an accepted commit has been saved before it is
  reported: the store answered success for the durable form of exactly the state that was committed.
\<close>

theorem accepted_commit_saved:
  assumes "apply_and_commit (Some save) now q co = (r, co')" and "cc_persist_on_commit (co_config co)"
    and "mr_outcome r = MO_Accepted"
  shows "so_ok (save (to_persisted_state (co_canonical co')))
     \<and> co_persistence_saves co' = co_persistence_saves co + 1"
  using commit_saved [OF assms] .

theorem accepted_commit_saved_witness:
  "co_persistence_saves (snd (apply_and_commit (Some (\<lambda>_. \<lparr>so_ok = True, so_status = PS_Ok\<rparr>)) 1000 demo_declare
     (new_coordinator demo_config))) = 1"
proof -
  let ?save = "\<lambda>_ :: persisted_state. \<lparr>so_ok = True, so_status = PS_Ok\<rparr>"
  have "mr_outcome (fst (apply_and_commit (Some ?save) 1000 demo_declare (new_coordinator demo_config))) = MO_Accepted"
    by code_simp
  moreover have "cc_persist_on_commit (co_config (new_coordinator demo_config))"
    "co_persistence_saves (new_coordinator demo_config) = 0"
    by (simp_all add: new_coordinator_def demo_config_def default_config_def)
  ultimately show ?thesis
    using accepted_commit_saved [of ?save 1000 demo_declare "new_coordinator demo_config", OF prod.collapse [symmetric]]
    by simp
qed

text \<open>
  C7. A restart recovers what was declared and trusts nothing that was observed: every rack comes
  back with its generation and membership, none is authoritative, the incarnation each was last
  published by is fenced, and the cluster is not consumable until evidence is republished.
\<close>

theorem restart_revokes_authority:
  assumes "well_formed s" and t: "t = fst (from_persisted_state (to_persisted_state s) e now report)"
  shows "(\<forall>k r. om_find (cs_racks t) k = Some r \<longrightarrow>
            \<not> rr_authoritative_current r \<and> is_boot_fenced t (rf_boot (rr_reference r)))
     \<and> (\<forall>k. map_option (\<lambda>r. (rf_generation (rr_reference r), rr_membership r)) (om_find (cs_racks t) k)
          = map_option (\<lambda>r. (rf_generation (rr_reference r), rr_membership r)) (om_find (cs_racks s) k))
     \<and> \<not> is_consumable_lifecycle (cs_lifecycle t)"
proof -
  have k: "keyed s" using assms(1) by (simp add: well_formed_def)
  show ?thesis
    unfolding t using recovered_racks_revoked [OF k] recovered_racks_kept [OF k] recovered_not_consumable [OF k]
    by blast
qed

theorem restart_revokes_authority_witness:
  "\<not> is_consumable_lifecycle (cs_lifecycle (fst (from_persisted_state
      (to_persisted_state (co_canonical demo_one)) (StrongCounter 2) 5000 default_report)))"
  using restart_revokes_authority [OF demo_well_formed(2) refl] by blast

text \<open>
  C23. A restart enters a new coordinator epoch: with durable state the epoch is the successor of the last
  one saved, unless that one is the largest, so a request prepared for the previous incarnation of the
  coordinator is stale.
\<close>

theorem restart_advances_epoch:
  assumes "load_ok lo" and "lo_state lo = Some p" and "counter_known (ps_last_coordinator_epoch p)"
    and "ps_last_coordinator_epoch p \<noteq> StrongCounter counter_max"
  shows "counter_next (ps_last_coordinator_epoch p)
     = Some (cs_coordinator_epoch (co_canonical (fst (load_durable_state (Some lo) started co))))"
proof -
  have "counter_next (ps_last_coordinator_epoch p) \<noteq> None"
    using assms(4) by (cases "ps_last_coordinator_epoch p") (simp add: counter_next_def)
  then obtain e where e: "counter_next (ps_last_coordinator_epoch p) = Some e" by blast
  then have "next_coordinator_epoch (ps_last_coordinator_epoch p) = e"
    using assms(3) counter_next_known [OF e] by (simp add: next_coordinator_epoch_def)
  then show ?thesis
    using assms(1,2) e unfolding loaded_canonical by (simp add: recovered_copied)
qed

theorem restart_advances_epoch_witness:
  "Some (cs_coordinator_epoch (co_canonical (fst (load_durable_state
      (Some \<lparr>lo_status = PS_Ok, lo_state = Some (to_persisted_state (co_canonical demo_one))\<rparr>) 5000
      (new_coordinator demo_config))))) = counter_next (StrongCounter 1)"
proof -
  let ?p = "to_persisted_state (co_canonical demo_one)"
  have p: "cs_coordinator_epoch (co_canonical demo_one) = StrongCounter 1" by code_simp
  show ?thesis
    using restart_advances_epoch [of "\<lparr>lo_status = PS_Ok, lo_state = Some ?p\<rparr>" ?p 5000 "new_coordinator demo_config"]
    by (simp add: p load_ok_def counter_known_def counter_max_def)
qed

subsection \<open>Fencing\<close>

text \<open>
  C22. A fence that takes effect is complete: the incarnation is recorded as fenced, no rack is
  authoritative under it, and every link it published is unknown in reachability and health and requires
  revalidation.
\<close>

theorem fence_complete:
  assumes "co_canonical (apply_fence store fenced_at now boot reason co) \<noteq> co_canonical co"
    and "s = co_canonical (apply_fence store fenced_at now boot reason co)"
  shows "is_boot_fenced s boot
     \<and> (\<forall>k r. om_find (cs_racks s) k = Some r \<and> rf_boot (rr_reference r) = boot \<longrightarrow> \<not> rr_authoritative_current r)
     \<and> (\<forall>k l. om_find (cs_links s) k = Some l \<and> lk_boot l = Some boot \<longrightarrow>
          lk_reachability l = RB_Unknown \<and> lk_health l = HS_Unknown \<and> requires_revalidation (lk_evidence l))"
  unfolding assms(2) using fence_effect [OF assms(1)] by blast

theorem fence_complete_witness:
  "is_boot_fenced (co_canonical demo_fenced) demo_boot"
proof -
  have "cs_generation (co_canonical demo_fenced) \<noteq> cs_generation (co_canonical demo_one)" by code_simp
  then have "co_canonical (apply_fence None 2000 2000 demo_boot ''lost'' demo_one) \<noteq> co_canonical demo_one"
    unfolding demo_fenced_def by metis
  from fence_complete [OF this refl] show ?thesis unfolding demo_fenced_def by blast
qed

subsection \<open>Readiness and queries in reachable states\<close>

text \<open>
  C24. The lifecycle of a declared cluster is always the one its readiness evaluation gives, in every
  reachable state; while it is consumable some rack is an active member.
\<close>

theorem lifecycle_is_readiness:
  assumes "reachable config sy" and "counter_known (cs_epoch (canonical_of sy))"
  shows "cs_lifecycle (canonical_of sy) = re_lifecycle (evaluate_readiness (canonical_of sy))
     \<and> (is_consumable_lifecycle (cs_lifecycle (canonical_of sy)) \<longrightarrow>
          (\<exists>k r. om_find (cs_racks (canonical_of sy)) k = Some r \<and> is_active r))"
proof -
  have "cs_lifecycle (canonical_of sy) = re_lifecycle (evaluate_readiness (canonical_of sy))"
    using reachable_ok [OF assms(1)] assms(2) by (simp add: system_ok_def well_formed_def)
  then show ?thesis using consumable_active_rack by metis
qed

theorem lifecycle_is_readiness_witness:
  "counter_known (cs_epoch (canonical_of demo_system))
   \<and> cs_lifecycle (canonical_of demo_system) = re_lifecycle (evaluate_readiness (canonical_of demo_system))"
proof -
  have "counter_known (cs_epoch (canonical_of demo_system))" by code_simp
  then show ?thesis using lifecycle_is_readiness [OF demo_reachable] by blast
qed

text \<open>
  C25. The cached indexes answer every query as a scan of the state would, in every reachable state: the
  racks under a boot, the racks in a membership state, the links from and to a rack, and the domains of a
  rack or of a class, each in key order.
\<close>

theorem query_indexes_exact:
  assumes "reachable config sy" and "s = canonical_of sy"
    and "ix = fst (with_state (\<lambda>s ix. ix) (sv_coordinator (sy_service sy)))"
  shows "racks_for_boot ix b = map fst (filter (\<lambda>(k, r). rf_boot (rr_reference r) = b) (om_entries (cs_racks s)))
     \<and> racks_in_membership_state ix m = map fst (filter (\<lambda>(k, r). rr_membership r = m) (om_entries (cs_racks s)))
     \<and> links_from ix rack = map fst (filter (\<lambda>(k, l). lk_source l = rack) (om_entries (cs_links s)))
     \<and> links_to ix rack = map fst (filter (\<lambda>(k, l). lk_destination l = rack) (om_entries (cs_links s)))
     \<and> placement_domains_of ix rack
         = map fst (filter (\<lambda>(k, d). rack \<in> set (dm_racks d)) (om_entries (cs_placement_domains s)))
     \<and> capacity_domains_of ix rack
         = map fst (filter (\<lambda>(k, d). rack \<in> set (dm_racks d)) (om_entries (cs_capacity_domains s)))
     \<and> failure_domains_of ix rack
         = map fst (filter (\<lambda>(k, d). rack \<in> set (dm_racks d)) (om_entries (cs_failure_domains s)))
     \<and> network_domains_of ix rack
         = map fst (filter (\<lambda>(k, d). rack \<in> set (dm_racks d)) (om_entries (cs_network_domains s)))
     \<and> placement_domains_of_class ix pc
         = map fst (filter (\<lambda>(k, d). dm_body d = pc) (om_entries (cs_placement_domains s)))
     \<and> failure_domains_of_class ix fc
         = map fst (filter (\<lambda>(k, d). dm_body d = fc) (om_entries (cs_failure_domains s)))"
proof -
  have "cache_ok (sv_coordinator (sy_service sy))"
    using reachable_ok [OF assms(1)] by (simp add: system_ok_def)
  then have ix: "ix = rebuild s" unfolding assms(2,3) by (rule with_state_exact(1))
  show ?thesis
    unfolding ix rebuild_def racks_for_boot_def racks_in_membership_state_def links_from_def links_to_def
      placement_domains_of_def capacity_domains_of_def failure_domains_of_def network_domains_of_def
      placement_domains_of_class_def failure_domains_of_class_def
    by (simp only: cluster_indexes.simps index_lookup simp_thms)
qed

theorem query_indexes_exact_witness:
  "racks_for_boot (fst (with_state (\<lambda>s ix. ix) (sv_coordinator (sy_service demo_system)))) demo_boot
     = map fst (filter (\<lambda>(k, r). rf_boot (rr_reference r) = demo_boot) (om_entries (cs_racks (canonical_of demo_system))))"
  using query_indexes_exact [OF demo_reachable refl refl] by blast

subsection \<open>The request queue\<close>

text \<open>
  C19. Every submitted request is answered: if its slot is in the queue while the commit thread runs, the
  thread reaches it after finitely many rounds, or it stops first, and then the drain of the queue answers
  it with a refusal.
\<close>

theorem every_request_answered:
  assumes "sv_commit_thread sv" and "slot \<in> set (item_slots (sv_queue sv))"
  shows "\<exists>n. answered (run_commit store clock n sv) slot
     \<or> \<not> sv_commit_thread (run_commit store clock n sv) \<and> answered (stop_drain (run_commit store clock n sv)) slot"
  by (rule request_answered [OF assms])

theorem every_request_answered_witness:
  "\<exists>n. answered (run_commit None (\<lambda>_. (1000, 1000)) n demo_submitted) 0
     \<or> \<not> sv_commit_thread (run_commit None (\<lambda>_. (1000, 1000)) n demo_submitted)
       \<and> answered (stop_drain (run_commit None (\<lambda>_. (1000, 1000)) n demo_submitted)) 0"
proof -
  have "sv_commit_thread demo_submitted" "0 \<in> set (item_slots (sv_queue demo_submitted))"
    by (simp_all add: demo_submitted_def demo_started_def submit_def start_begin_def
        new_service_def kMaxPendingRequests_def Let_def split: prod.splits)
  then show ?thesis by (rule every_request_answered)
qed

text \<open>
  C20. Requests and fences take effect one at a time in the order they were queued: running the commit
  thread over the front of the queue is the sequential application of those items, each answered in its
  own slot, and the rest of the queue is untouched.
\<close>

theorem commits_in_queue_order:
  assumes "sv_commit_thread sv" and "sv_queue sv = items @ rest" and "QStop \<notin> set items"
  shows "run_commit store clock (length items) sv =
     (let (co, m) = process_items store clock (length items) items (sv_coordinator sv, sv_answers sv) in
      sv\<lparr>sv_queue := rest, sv_coordinator := co, sv_answers := m\<rparr>)"
  by (rule run_commit_fifo [OF assms])

theorem commits_in_queue_order_witness:
  "sv_queue (run_commit None (\<lambda>_. (1000, 1000)) 1 demo_submitted) = []"
proof -
  have "sv_commit_thread demo_submitted" "sv_queue demo_submitted = [QMutation demo_declare 0] @ []"
    by (simp_all add: demo_submitted_def demo_started_def submit_def start_begin_def
        new_service_def kMaxPendingRequests_def Let_def split: prod.splits)
  from commits_in_queue_order [OF this, of None "\<lambda>_. (1000, 1000)"] show ?thesis
    by (simp split: prod.splits)
qed

text \<open>
  C21. No request is lost or answered twice, under any interleaving of submissions, commits, stops and
  restarts: each slot handed out is in the queue exactly once or has its answer, never both; and at most
  4096 requests are pending.
\<close>

theorem requests_accounted:
  assumes "reachable config sy" and "sv = sy_service sy"
  shows "distinct (item_slots (sv_queue sv)) \<and> length (item_slots (sv_queue sv)) \<le> 4096
     \<and> (\<forall>slot. slot < sv_next_slot sv \<longleftrightarrow> (slot \<in> set (item_slots (sv_queue sv))) \<noteq> answered sv slot)"
proof -
  have "slots_ok sv" "length (item_slots (sv_queue sv)) \<le> kMaxPendingRequests"
    using reachable_slots [OF assms(1)] reachable_pending [OF assms(1)] assms(2) by simp_all
  then show ?thesis unfolding slots_ok_def kMaxPendingRequests_def by blast
qed

theorem requests_accounted_witness:
  "answered demo_served 0 \<and> 0 \<notin> set (item_slots (sv_queue demo_served))"
proof -
  have "sv_next_slot demo_served = 1" "sv_queue demo_served = []"
    by code_simp+
  then show ?thesis
    using requests_accounted [OF demo_reachable refl] by (auto simp: demo_system_def)
qed

section \<open>Deviations\<close>

text \<open>
  The first declaration of a cluster is not undone when it is refused: the identity is not among the
  journalled scalars, so a declaration whose save fails leaves the requested identity in place.
\<close>

lemma refused_declaration_keeps_id:
  "let q = demo_declare\<lparr>mq_cluster := StrongId ''c2''\<rparr>;
       (r, co) = apply_and_commit failing_store 1000 q (new_coordinator demo_config)
   in mr_outcome r \<noteq> MO_Accepted \<and> cs_id (co_canonical co) = StrongId ''c2''"
  by code_simp

text \<open>A restart does not bring the lifecycle back: a retired cluster is not retired any more.\<close>

lemma restart_forgets_retirement:
  assumes "keyed s"
  shows "\<not> terminal_lifecycle (cs_lifecycle (fst (from_persisted_state (to_persisted_state s) e now report)))"
proof -
  have "\<not> terminal_lifecycle (cs_lifecycle (recovered_base s e now))"
    by (simp add: recovered_base_def terminal_lifecycle_def)
  then show ?thesis unfolding from_persisted_projection [OF assms] by (simp add: evaluate_terminal_iff)
qed

text \<open>
  The epoch a restart enters is not saved before the next commit, so a second restart enters the same
  epoch again.
\<close>

lemma restarts_share_epoch:
  "cs_coordinator_epoch (co_canonical (fst (load_durable_state load started' (fst (load_durable_state load started co)))))
     = cs_coordinator_epoch (co_canonical (fst (load_durable_state load started co)))"
  by (simp add: loaded_canonical recovered_copied split: option.splits)

text \<open>A snapshot captured while a retired rack is recorded is never current, not even at once.\<close>

lemma retired_rack_never_current:
  "is_rack_retired s k \<Longrightarrow> om_find (cs_racks s) k = Some r \<Longrightarrow> \<not> sv_current (validate (capture s) s)"
  unfolding validate_current_iff bindings_hold_iff binding_holds_def by blast

text \<open>
  Saving does not validate but loading does. A fence recorded without a reason is saved, and from then on
  the container is refused: the next start finds no durable state.
\<close>

lemma unexplained_fence_unrecoverable:
  "durable_valid (to_persisted_state (co_canonical demo_one))
   \<and> \<not> durable_valid (to_persisted_state (co_canonical (apply_fence None 2000 2000 demo_boot [] demo_one)))"
proof -
  have "validate_persisted_state (to_persisted_state (co_canonical demo_one)) = PS_Ok
      \<and> validate_persisted_state (to_persisted_state (co_canonical (apply_fence None 2000 2000 demo_boot [] demo_one)))
        = PS_InvalidState"
    by code_simp
  then show ?thesis by (simp flip: validation_decides)
qed

end
